(* ===== verification/Prelude.thy ===== *)
theory Prelude
  imports Main "HOL-Library.Word"
begin

text \<open>
  Vocabulary shared by every component: the ways a C++ call can end, decimal printing and
  reading, and the generic facts on lists, strings and words that the component theories use.

  Conventions of the whole development.
  \<^item> A C++ \<open>std::string\<close> or \<open>std::string_view\<close> is a HOL \<open>string\<close>.
  \<^item> \<open>fmt::format\<close> with \<open>{}\<close> holes is list concatenation; an unsigned number in a hole is
    printed by \<open>dec\<close>.
  \<^item> An out-parameter (a non-const reference) is passed in and returned.
  \<^item> The loggers are the theory \<open>Log\<close>. \<open>main\<close> of the plugin and of the daemon make their log calls
    (\<open>OHNO_GLOBAL_LOG\<close>), which may throw. Those of the components (\<open>OHNO_LOG\<close>) change no component's
    state and are left out, on the assumption that the log file of the module can be opened, except for
    the two that read an erased entry (\<open>hostgw_del\<close>, \<open>vxlan_del\<close>). \<open>OHNO_ASSERT\<close> is
    left out too (what it does is in \<open>Except\<close>): the modelled build is the Release build that \<open>scripts/pack.sh\<close> packs, where
    the macro only prints to stderr and execution goes on. What goes wrong after a failed
    assertion (an index out of range) is in the model, as \<open>Undefined_behaviour\<close>.
\<close>

text \<open>
  The equations that unfold the run of an action that did not throw (\<open>Cni_Facts\<close>), and those that
  compute its weakest precondition (\<open>Cni_Load\<close>).
\<close>

named_theorems action_run
named_theorems action_wp

subsection \<open>How a call ends\<close>

text \<open>
  \<open>Ohno_exception\<close> is \<open>ohno::except::Exception\<close> with the message it is thrown with, \<open>Cni_error\<close> is
  \<open>ohno::cni::CniError\<close> with its code and details, \<open>Std_exception\<close> any other
  \<open>std::exception\<close>, and \<open>Undefined_behaviour\<close> a step the C++ standard gives no meaning to.
\<close>

datatype exn = Ohno_exception string | Cni_error int string | Std_exception | Undefined_behaviour

type_synonym 'a result = "exn + 'a"

text \<open>An operation on the world \<open>'w\<close>, and an operation that may also throw.\<close>

type_synonym ('w, 'a) op = "'w \<Rightarrow> 'a \<times> 'w"

type_synonym ('w, 'a) throwing = "'w \<Rightarrow> 'a result \<times> 'w"

definition returns :: "'a result \<Rightarrow> bool" where
  "returns r = (case r of Inl _ \<Rightarrow> False | Inr _ \<Rightarrow> True)"

lemma returns_simps [simp]: "returns (Inr x)" "\<not> returns (Inl e)"
  by (simp_all add: returns_def)

text \<open>\<open>catch (const std::exception &)\<close> ends any exception, but not undefined behaviour.\<close>

definition swallow :: "exn \<Rightarrow> unit result" where
  "swallow e = (if e = Undefined_behaviour then Inl Undefined_behaviour else Inr ())"

subsection \<open>Lists\<close>

lemma dropWhile_Nil_iff_all: "dropWhile P xs = [] \<longleftrightarrow> (\<forall>x \<in> set xs. P x)"
  by (induction xs) auto

lemma takeWhile_append_stop: "(\<And>x. x \<in> set xs \<Longrightarrow> P x) \<Longrightarrow> \<not> P y \<Longrightarrow> takeWhile P (xs @ y # ys) = xs"
  by (induction xs) auto

lemma dropWhile_append_stop: "(\<And>x. x \<in> set xs \<Longrightarrow> P x) \<Longrightarrow> \<not> P y \<Longrightarrow> dropWhile P (xs @ y # ys) = y # ys"
  by (induction xs) auto

lemma takeWhile_neq_sep [simp]: "d \<notin> set a \<Longrightarrow> takeWhile (\<lambda>c. c \<noteq> d) (a @ d # s) = a"
  by (induction a) auto

lemma dropWhile_neq_sep [simp]: "d \<notin> set a \<Longrightarrow> dropWhile (\<lambda>c. c \<noteq> d) (a @ d # s) = d # s"
  by (induction a) auto

lemma takeWhile_neq_all [simp]: "d \<notin> set a \<Longrightarrow> takeWhile (\<lambda>c. c \<noteq> d) a = a"
  by (induction a) auto

lemma dropWhile_neq_all [simp]: "d \<notin> set a \<Longrightarrow> dropWhile (\<lambda>c. c \<noteq> d) a = []"
  by (induction a) auto

lemma append_sep_inject:
  assumes "c \<notin> set a" and "c \<notin> set a'"
  shows "a @ c # b = a' @ c # b' \<longleftrightarrow> a = a' \<and> b = b'"
proof
  assume eq: "a @ c # b = a' @ c # b'"
  have "takeWhile (\<lambda>x. x \<noteq> c) (a @ c # b) = a" "takeWhile (\<lambda>x. x \<noteq> c) (a' @ c # b') = a'"
    using assms by simp_all
  with eq show "a = a' \<and> b = b'" by simp
qed simp

lemma last_in_append_Cons: "last (xs @ y # ys) = last (y # ys)"
  by simp

subsection \<open>Decimal numbers\<close>

definition digit_char :: "nat \<Rightarrow> char" where
  "digit_char d = char_of (48 + d)"

definition is_digit :: "char \<Rightarrow> bool" where
  "is_digit c \<longleftrightarrow> 48 \<le> (of_char c :: nat) \<and> (of_char c :: nat) \<le> 57"

definition digit_val :: "char \<Rightarrow> nat" where
  "digit_val c = of_char c - 48"

fun dec :: "nat \<Rightarrow> string" where
  "dec n = (if n < 10 then [digit_char n] else dec (n div 10) @ [digit_char (n mod 10)])"

declare dec.simps [simp del]

definition undec :: "string \<Rightarrow> nat" where
  "undec s = foldl (\<lambda>acc c. 10 * acc + digit_val c) 0 s"

lemma of_char_digit_char: "d < 10 \<Longrightarrow> (of_char (digit_char d) :: nat) = 48 + d"
  by (simp add: digit_char_def)

lemma is_digit_digit_char: "d < 10 \<Longrightarrow> is_digit (digit_char d)"
  by (simp add: is_digit_def of_char_digit_char)

lemma digit_val_digit_char: "d < 10 \<Longrightarrow> digit_val (digit_char d) = d"
  by (simp add: digit_val_def of_char_digit_char)

lemma dec_digits: "c \<in> set (dec n) \<Longrightarrow> is_digit c"
proof (induction n rule: dec.induct)
  case (1 n)
  show ?case
  proof (cases "n < 10")
    case True
    with "1.prems" show ?thesis by (simp add: dec.simps [of n] is_digit_digit_char)
  next
    case False
    with "1.prems" "1.IH" show ?thesis
      by (auto simp: dec.simps [of n] is_digit_digit_char)
  qed
qed

lemma dec_not_Nil [simp]: "dec n \<noteq> []"
  by (subst dec.simps) simp

lemma undec_snoc: "undec (s @ [c]) = 10 * undec s + digit_val c"
  by (simp add: undec_def)

lemma undec_dec [simp]: "undec (dec n) = n"
proof (induction n rule: dec.induct)
  case (1 n)
  show ?case
  proof (cases "n < 10")
    case True
    then show ?thesis by (simp add: dec.simps [of n] undec_def digit_val_digit_char)
  next
    case False
    with "1.IH" show ?thesis
      by (simp add: dec.simps [of n] undec_snoc digit_val_digit_char)
  qed
qed

lemma dec_inject [simp]: "dec m = dec n \<longleftrightarrow> m = n"
  by (metis undec_dec)

lemma dec_all_digits: "\<forall>c \<in> set (dec n). is_digit c"
  by (auto dest: dec_digits)

text \<open>The characters that separate fields in this program are not digits.\<close>

lemma not_digit_simps [simp]:
  "\<not> is_digit (CHR ''.'')" "\<not> is_digit (CHR ''/'')" "\<not> is_digit (CHR '','')"
  "\<not> is_digit (CHR ''-'')" "\<not> is_digit (CHR '':'')" "\<not> is_digit (CHR '' '')"
  by (simp_all add: is_digit_def)

lemma sep_notin_dec [simp]:
  "CHR ''.'' \<notin> set (dec n)" "CHR ''/'' \<notin> set (dec n)" "CHR '','' \<notin> set (dec n)"
  "CHR ''-'' \<notin> set (dec n)" "CHR '':'' \<notin> set (dec n)" "CHR '' '' \<notin> set (dec n)"
  using dec_digits not_digit_simps by blast+

subsection \<open>Substrings\<close>

text \<open>\<open>std::string::find\<close>: the first position of a substring, \<open>npos\<close> being \<open>None\<close>.\<close>

fun find_sub :: "string \<Rightarrow> string \<Rightarrow> nat option" where
  "find_sub pat [] = (if pat = [] then Some 0 else None)"
| "find_sub pat (c # cs) =
     (if take (length pat) (c # cs) = pat then Some 0 else map_option Suc (find_sub pat cs))"

definition contains_sub :: "string \<Rightarrow> string \<Rightarrow> bool" where
  "contains_sub s pat = (find_sub pat s \<noteq> None)"

lemma find_sub_Some: "find_sub pat s = Some n \<Longrightarrow> \<exists>a b. s = a @ pat @ b \<and> length a = n"
proof (induction pat s arbitrary: n rule: find_sub.induct)
  case (1 pat)
  then show ?case by (simp split: if_splits)
next
  case (2 pat c cs)
  show ?case
  proof (cases "take (length pat) (c # cs) = pat")
    case True
    with "2.prems" show ?thesis
      by (metis append_Nil append_take_drop_id find_sub.simps(2) list.size(3) option.inject)
  next
    case False
    with "2.prems" obtain m where m: "find_sub pat cs = Some m" "n = Suc m" by auto
    with "2.IH" [OF False] obtain a b where "cs = a @ pat @ b" "length a = m" by blast
    with m show ?thesis by (intro exI [of _ "c # a"] exI [of _ b]) simp
  qed
qed

lemma find_sub_prefix: "find_sub pat (pat @ s) = Some 0"
proof (cases "pat @ s")
  case (Cons c cs)
  then have "take (length pat) (c # cs) = pat" by (metis append_eq_conv_conj)
  with Cons show ?thesis by simp
qed simp

lemma contains_sub_iff: "contains_sub s pat \<longleftrightarrow> (\<exists>a b. s = a @ pat @ b)"
proof
  assume "contains_sub s pat"
  then show "\<exists>a b. s = a @ pat @ b"
    unfolding contains_sub_def using find_sub_Some by blast
next
  assume "\<exists>a b. s = a @ pat @ b"
  then obtain a b where "s = a @ pat @ b" by blast
  moreover have "find_sub pat (a @ pat @ b) \<noteq> None"
    by (induction a) (auto simp: find_sub_prefix)
  ultimately show "contains_sub s pat" by (simp add: contains_sub_def)
qed

subsection \<open>Words\<close>

lemma unat_Suc_less: "(i :: 'a::len word) < n \<Longrightarrow> unat (i + 1) = Suc (unat i)"
proof -
  assume "i < n"
  then have "unat i < unat n" by (simp add: word_less_nat_alt)
  moreover have "unat n < 2 ^ LENGTH('a)" by (rule unsigned_less)
  ultimately have "Suc (unat i) < 2 ^ LENGTH('a)" by linarith
  then show ?thesis by (simp add: unat_word_ariths)
qed

end
