(* ===== verification/Helper.thy ===== *)
theory Helper
  imports Prelude
begin

unbundle bit_operations_syntax

text \<open>
  \<open>src/helper\<close>: splitting a string at a delimiter (\<open>string.cc\<close>), the short hash that names
  interfaces and the random identifier (\<open>hash.cc\<close>, \<open>hash.tpp\<close>); and, with the splitter, the
  joining loop that \<open>EtcdClientShell::del\<close> writes out by hand.
\<close>

subsection \<open>split (\<open>string.cc\<close>)\<close>

text \<open>
  One successful \<open>std::getline\<close>: the token up to the delimiter or the end, and what is left in
  the stream. It fails exactly when nothing is left, so a trailing delimiter yields no final
  empty token.
\<close>

definition getline :: "char \<Rightarrow> string \<Rightarrow> string \<times> string" where
  "getline delim s =
     (takeWhile (\<lambda>c. c \<noteq> delim) s, drop 1 (dropWhile (\<lambda>c. c \<noteq> delim) s))"

function split :: "string \<Rightarrow> char \<Rightarrow> string list" where
  "split str delim =
     (if str = [] then []
      else (case getline delim str of (token, rest) \<Rightarrow> token # split rest delim))"
  by pat_completeness auto
termination
proof (relation "measure (\<lambda>(str, delim). length str)", goal_cases)
  case (2 str delim token rest)
  then have "length rest \<le> length (dropWhile (\<lambda>c. c \<noteq> delim) str) - 1"
    by (auto simp: getline_def)
  moreover have "length (dropWhile (\<lambda>c. c \<noteq> delim) str) \<le> length str"
    by (rule length_dropWhile_le)
  moreover have "0 < length str" using 2 by simp
  ultimately have "length rest < length str" by linarith
  then show ?case by simp
qed simp

declare split.simps [simp del]

lemma split_Nil [simp]: "split [] d = []"
  by (simp add: split.simps)

lemma split_sep: "d \<notin> set a \<Longrightarrow> split (a @ d # s) d = a # split s d"
  by (simp add: split.simps [of "a @ d # s"] getline_def)

lemma split_single: "d \<notin> set a \<Longrightarrow> a \<noteq> [] \<Longrightarrow> split a d = [a]"
proof -
  assume "d \<notin> set a" "a \<noteq> []"
  then have "getline d a = (a, [])" by (simp add: getline_def)
  with \<open>a \<noteq> []\<close> show ?thesis by (simp add: split.simps [of a d])
qed

lemma split_tokens: "t \<in> set (split s d) \<Longrightarrow> d \<notin> set t"
proof (induction s d rule: split.induct)
  case (1 str delim)
  show ?case
  proof (cases "str = []")
    case False
    let ?g = "getline delim str"
    from False "1.prems" have "t = fst ?g \<or> t \<in> set (split (snd ?g) delim)"
      by (simp add: split.simps [of str delim] split_beta)
    then show ?thesis
    proof
      assume "t = fst ?g"
      then show ?thesis by (auto simp: getline_def dest: set_takeWhileD)
    next
      assume "t \<in> set (split (snd ?g) delim)"
      with "1.IH" [OF False, of "fst ?g" "snd ?g"] show ?thesis by simp
    qed
  qed (use "1.prems" in simp)
qed

subsection \<open>Joining with commas (the loop of \<open>EtcdClientShell::del\<close>)\<close>

text \<open>
  \<open>for i: to_put += values[i]; if (i != size - 1) to_put += ","\<close>
\<close>

fun join_values :: "string list \<Rightarrow> string" where
  "join_values [] = []"
| "join_values [v] = v"
| "join_values (v # w # ws) = v @ '','' @ join_values (w # ws)"

text \<open>A stored list is clean when no element is empty or contains the separator.\<close>

definition clean :: "string list \<Rightarrow> bool" where
  "clean vs \<longleftrightarrow> (\<forall>v \<in> set vs. v \<noteq> [] \<and> CHR '','' \<notin> set v)"

lemma clean_simps [simp]:
  "clean []" "clean (v # vs) \<longleftrightarrow> v \<noteq> [] \<and> CHR '','' \<notin> set v \<and> clean vs"
  "clean (vs @ ws) \<longleftrightarrow> clean vs \<and> clean ws"
  by (auto simp: clean_def)

lemma clean_removeAll: "clean vs \<Longrightarrow> clean (removeAll v vs)"
  by (auto simp: clean_def)

lemma join_values_eq_Nil: "clean vs \<Longrightarrow> join_values vs = [] \<longleftrightarrow> vs = []"
  by (cases vs rule: join_values.cases) auto

lemma split_join_values: "clean vs \<Longrightarrow> split (join_values vs) (CHR '','') = vs"
  by (induction vs rule: join_values.induct) (auto simp: split_single split_sep)

lemma join_values_snoc:
  "vs \<noteq> [] \<Longrightarrow> join_values (vs @ [v]) = join_values vs @ '','' @ v"
proof (induction vs rule: join_values.induct)
  case (3 a b cs)
  then show ?case by simp
qed auto

lemma join_values_inject:
  "clean vs \<Longrightarrow> clean ws \<Longrightarrow> join_values vs = join_values ws \<longleftrightarrow> vs = ws"
  by (metis split_join_values)

lemma newline_join_values:
  "c \<in> set (join_values vs) \<Longrightarrow> c = CHR '','' \<or> (\<exists>v \<in> set vs. c \<in> set v)"
  by (induction vs rule: join_values.induct) auto

subsection \<open>Short hash (\<open>hash.cc\<close>)\<close>

definition IFNAMSIZ :: nat where "IFNAMSIZ = 16"

definition FNV_prime :: "32 word" where "FNV_prime = 16777619"

definition offset_basis :: "32 word" where "offset_basis = 2166136261"

text \<open>\<open>for (char cha : input) { hash ^= uint8(cha); hash *= FNV_prime; }\<close>, modulo \<open>2 ^ 32\<close>.\<close>

primrec shortHash_from :: "32 word \<Rightarrow> string \<Rightarrow> 32 word" where
  "shortHash_from h [] = h"
| "shortHash_from h (c # cs) = shortHash_from ((h XOR of_nat (of_char c)) * FNV_prime) cs"

definition shortHash :: "string \<Rightarrow> 32 word" where
  "shortHash input = shortHash_from offset_basis input"

definition hex_digit :: "nat \<Rightarrow> char" where
  "hex_digit d = (if d < 10 then char_of (48 + d) else char_of (87 + d))"

fun hex :: "nat \<Rightarrow> string" where
  "hex n = (if n < 16 then [hex_digit n] else hex (n div 16) @ [hex_digit (n mod 16)])"

declare hex.simps [simp del]

text \<open>\<open>snprintf(buf, 7, "%06x", v)\<close>: at least six digits, cut to the six the buffer holds.\<close>

definition hex6 :: "nat \<Rightarrow> string" where
  "hex6 v = take 6 (replicate (6 - length (hex v)) (CHR ''0'') @ hex v)"

definition getShortHash :: "string \<Rightarrow> string" where
  "getShortHash long_name =
     (if length long_name \<le> IFNAMSIZ - 1 then long_name
      else hex6 (unat (shortHash long_name)))"

lemma length_hex6 [simp]: "length (hex6 v) = 6"
  by (simp add: hex6_def)

lemma shortHash_from_append: "shortHash_from h (a @ b) = shortHash_from (shortHash_from h a) b"
  by (induction a arbitrary: h) simp_all

lemma length_getShortHash:
  "length (getShortHash s) = (if length s \<le> 15 then length s else 6)"
  by (simp add: getShortHash_def IFNAMSIZ_def)

text \<open>A published FNV-1a test vector, evaluated on the definition.\<close>

lemma shortHash_known_answer: "shortHash ''a'' = 0xE40C292C"
  by (simp add: shortHash_def offset_basis_def FNV_prime_def)

subsection \<open>Random identifiers (\<open>hash.tpp\<close>)\<close>

definition HASH_MASK :: "64 word" where "HASH_MASK = 0xFF"

definition base62 :: string where
  "base62 = ''0123456789ABCDEFGHIJKLMNOPQRSTUVWXYZabcdefghijklmnopqrstuvwxyz''"

text \<open>\<open>dist\<close> is the stream of values drawn from the random engine.\<close>

definition id_chunk :: "bool \<Rightarrow> 64 word \<Rightarrow> string" where
  "id_chunk use_hex val =
     (if use_hex then hex (unat (val AND HASH_MASK)) else [base62 ! (unat val mod 62)])"

definition getUniqueId :: "(nat \<Rightarrow> 64 word) \<Rightarrow> nat \<Rightarrow> bool \<Rightarrow> string" where
  "getUniqueId dist len use_hex = concat (map (\<lambda>i. id_chunk use_hex (dist i)) [0..<len])"

lemma length_base62: "length base62 = 62"
  by (simp add: base62_def)

lemma concat_id_chunk: "concat (map (\<lambda>i. id_chunk False (dist i)) is) = map (\<lambda>i. base62 ! (unat (dist i) mod 62)) is"
  by (induction "is") (simp_all add: id_chunk_def)

lemma length_getUniqueId: "length (getUniqueId dist len False) = len"
  by (simp add: getUniqueId_def concat_id_chunk)

end
