(* ===== verification/Shell.thy ===== *)
theory Shell
  imports Prelude
begin

text \<open>
  \<open>src/util\<close>: running a shell command (\<open>ShellSync\<close>) and the process environment (\<open>EnvStd\<close>).

  The child process, which Boost.Process starts as \<open>/bin/sh -c command\<close>, is the parameter \<open>run\<close>:
  it takes the command and the world and gives how the child ended and the world it left behind.
\<close>

subsection \<open>ShellSync\<close>

text \<open>
  \<open>Spawn_failed\<close> is the \<open>std::system_error\<close> that Boost throws when the child cannot be started,
  \<open>Exited code out err\<close> a child that ran, with what it wrote to stdout and stderr.
\<close>

datatype child = Spawn_failed | Exited int string string

type_synonym 'w host = "string \<Rightarrow> 'w \<Rightarrow> child \<times> 'w"

text \<open>\<open>if (!out.empty() && out.back() == '\<newline>') out.pop_back();\<close>\<close>

definition pop_newline :: "string \<Rightarrow> string" where
  "pop_newline s = (if s \<noteq> [] \<and> last s = CHR 0x0A then butlast s else s)"

text \<open>
  The three-argument \<open>execute\<close>. The stream \<open>result\<close> is not emptied before stderr is written to
  it (\<open>clear\<close> only resets its error flags), so on a non-zero exit \<open>err\<close> starts with stdout.
\<close>

definition execute3 :: "'w host \<Rightarrow> string \<Rightarrow> string \<Rightarrow> string \<Rightarrow> ('w, int \<times> string \<times> string) op" where
  "execute3 run command out err w =
     (case run command w of
        (Spawn_failed, w') \<Rightarrow> ((- 1, out, err), w')
      | (Exited code std_out std_err, w') \<Rightarrow>
          ((code, pop_newline std_out, if code \<noteq> 0 then std_out @ std_err else err), w'))"

text \<open>The two-argument \<open>execute\<close>: success is exit code 0.\<close>

definition execute :: "'w host \<Rightarrow> string \<Rightarrow> string \<Rightarrow> ('w, bool \<times> string) op" where
  "execute run command out w =
     (case execute3 run command out [] w of ((ret, out', err), w') \<Rightarrow> ((ret = 0, out'), w'))"

lemma pop_newline_simps [simp]:
  "pop_newline [] = []" "pop_newline (s @ [CHR 0x0A]) = s"
  by (simp_all add: pop_newline_def)

lemma pop_newline_id: "CHR 0x0A \<notin> set s \<Longrightarrow> pop_newline s = s"
  unfolding pop_newline_def by (metis last_in_set)

lemma execute_Spawn_failed:
  "run command w = (Spawn_failed, w') \<Longrightarrow> execute run command out w = ((False, out), w')"
  by (simp add: execute_def execute3_def)

lemma execute_Exited:
  "run command w = (Exited code so se, w') \<Longrightarrow>
   execute run command out w = ((code = 0, pop_newline so), w')"
  by (simp add: execute_def execute3_def)

lemma execute_cases:
  obtains (failed) w' where "run command w = (Spawn_failed, w')"
      "execute run command out w = ((False, out), w')"
  | (exited) code so se w' where "run command w = (Exited code so se, w')"
      "execute run command out w = ((code = 0, pop_newline so), w')"
proof (cases "run command w")
  case (Pair ch w')
  with that show thesis
    by (cases ch) (auto intro: execute_Spawn_failed execute_Exited)
qed

lemma snd_execute: "snd (execute run command out w) = snd (run command w)"
  by (rule execute_cases [of run command w out]) auto

lemma execute3_err_holds_stdout:
  "run command w = (Exited code std_out std_err, w') \<Longrightarrow> code \<noteq> 0 \<Longrightarrow>
   execute3 run command out err w = ((code, pop_newline std_out, std_out @ std_err), w')"
  by (simp add: execute3_def)

subsection \<open>EnvStd\<close>

text \<open>
  The process environment is a map; \<open>setenv\<close> and \<open>unsetenv\<close> fail (EINVAL) on a name that is
  empty or contains \<open>=\<close>. \<open>get\<close> reads an unset variable as the empty string.
\<close>

type_synonym environ = "string \<rightharpoonup> string"

definition env_name_ok :: "string \<Rightarrow> bool" where
  "env_name_ok env \<longleftrightarrow> env \<noteq> [] \<and> CHR ''='' \<notin> set env"

definition env_get :: "environ \<Rightarrow> string \<Rightarrow> string" where
  "env_get e env = (case e env of None \<Rightarrow> [] | Some val \<Rightarrow> val)"

definition env_exist :: "environ \<Rightarrow> string \<Rightarrow> bool" where
  "env_exist e env = (env_get e env \<noteq> [])"

definition env_set :: "string \<Rightarrow> string \<Rightarrow> (environ, bool) op" where
  "env_set env val e = (if env_name_ok env then (True, e(env \<mapsto> val)) else (False, e))"

definition env_unset :: "string \<Rightarrow> (environ, bool) op" where
  "env_unset env e = (if env_name_ok env then (True, e(env := None)) else (False, e))"

lemma env_get_set: "env_set env val e = (True, e') \<Longrightarrow> env_get e' x = (if x = env then val else env_get e x)"
  by (auto simp: env_set_def env_get_def split: if_splits)

lemma env_get_unset: "env_unset env e = (True, e') \<Longrightarrow> env_get e' x = (if x = env then [] else env_get e x)"
  by (auto simp: env_unset_def env_get_def split: if_splits)

end
