(* ===== verification/Etcd.thy ===== *)
theory Etcd
  imports Helper Shell
begin

text \<open>
  \<open>src/etcd\<close>: the abstract client (\<open>EtcdClientIf\<close>, a record of its operations) and the client that
  drives \<open>etcdctl\<close> through the shell (\<open>EtcdClientShell\<close>). The contract of the interface and its
  interpretation on this client are in \<open>Etcd_Spec\<close>.

  \<open>etcdctl\<close> itself is not part of the repository and is a parameter (the shell that runs it).
\<close>

subsection \<open>Connection data (\<open>etcd_data.hpp\<close>)\<close>

record etcd_data =
  endpoints :: string
  ca_cert :: string
  cert :: string
  etcd_key :: string

definition env_or :: "environ \<Rightarrow> string \<Rightarrow> string \<Rightarrow> string" where
  "env_or e env dflt = (let val = env_get e env in if val = [] then dflt else val)"

definition etcd_data_default :: "environ \<Rightarrow> etcd_data" where
  "etcd_data_default e = \<lparr>
     endpoints = env_or e ''ETCDCTL_ENDPOINTS'' ''https://127.0.0.1:2379'',
     ca_cert = env_or e ''ETCDCTL_CACERT'' ''/etc/kubernetes/pki/etcd/ca.crt'',
     cert = env_or e ''ETCDCTL_CERT'' ''/etc/kubernetes/pki/etcd/healthcheck-client.crt'',
     etcd_key = env_or e ''ETCDCTL_KEY'' ''/etc/kubernetes/pki/etcd/healthcheck-client.key''\<rparr>"

definition etcd_data_of :: "environ \<Rightarrow> string \<Rightarrow> etcd_data" where
  "etcd_data_of e addr = (etcd_data_default e)\<lparr>endpoints := addr\<rparr>"

subsection \<open>The abstract client (\<open>etcd_client_if.h\<close>)\<close>

text \<open>The two \<open>get\<close> and the two \<open>del\<close> overloads have names of their own.\<close>

record 'w etcd_client_if =
  ec_test :: "('w, bool) op"
  ec_put :: "string \<Rightarrow> string \<Rightarrow> ('w, bool) op"
  ec_append :: "string \<Rightarrow> string \<Rightarrow> ('w, bool) op"
  ec_get :: "string \<Rightarrow> string \<Rightarrow> ('w, bool \<times> string) op"
  ec_get_all :: "string \<Rightarrow> (string \<rightharpoonup> string) \<Rightarrow> ('w, bool \<times> (string \<rightharpoonup> string)) throwing"
  ec_del :: "string \<Rightarrow> ('w, bool) op"
  ec_del_value :: "string \<Rightarrow> string \<Rightarrow> ('w, bool) op"
  ec_list :: "string \<Rightarrow> string list \<Rightarrow> ('w, bool \<times> string list) op"
  ec_dump :: "string \<Rightarrow> ('w, string) throwing"

subsection \<open>The shell client (\<open>etcd_client_shell.cc\<close>)\<close>

record 'w etcd_client_shell =
  command_prefix :: string
  shell :: "'w host"

definition ETCDCTL_VERSION :: string where "ETCDCTL_VERSION = ''ETCDCTL_API''"

definition etcd_ctor :: "etcd_data \<Rightarrow> 'w host \<Rightarrow> environ \<Rightarrow> 'w etcd_client_shell \<times> environ" where
  "etcd_ctor d sh e =
     (let e' = (if \<not> env_exist e ETCDCTL_VERSION then snd (env_set ETCDCTL_VERSION ''3'' e) else e)
      in (\<lparr>command_prefix = ''etcdctl --endpoints='' @ endpoints d @ '' --cacert='' @ ca_cert d
             @ '' --cert='' @ cert d @ '' --key='' @ etcd_key d @ '' '',
           shell = sh\<rparr>, e'))"

definition etcd_dtor :: "environ \<Rightarrow> environ" where
  "etcd_dtor e = (if env_exist e ETCDCTL_VERSION then snd (env_unset ETCDCTL_VERSION e) else e)"

definition etcd_test :: "'w etcd_client_shell \<Rightarrow> ('w, bool) op" where
  "etcd_test c w =
     (case execute (shell c) (command_prefix c @ '' -w table endpoint health'') [] w of
        ((ret, out), w') \<Rightarrow> (ret, w'))"

definition etcd_put :: "'w etcd_client_shell \<Rightarrow> string \<Rightarrow> string \<Rightarrow> ('w, bool) op" where
  "etcd_put c key val w =
     (case execute (shell c) (command_prefix c @ '' put -- '' @ key @ '' '' @ val) [] w of
        ((ret, out), w') \<Rightarrow> (ret, w'))"

definition strip_newlines :: "string \<Rightarrow> string" where
  "strip_newlines s = filter (\<lambda>c. c \<noteq> CHR 0x0A) s"

definition etcd_get :: "'w etcd_client_shell \<Rightarrow> string \<Rightarrow> string \<Rightarrow> ('w, bool \<times> string) op" where
  "etcd_get c key val w =
     (case execute (shell c) (command_prefix c @ '' get '' @ key @ '' --print-value-only'') val w of
        ((ret, val'), w') \<Rightarrow> ((ret, if ret then strip_newlines val' else val'), w'))"

definition etcd_append :: "'w etcd_client_shell \<Rightarrow> string \<Rightarrow> string \<Rightarrow> ('w, bool) op" where
  "etcd_append c key val w =
     (case etcd_get c key [] w of
        ((got, out), w') \<Rightarrow>
          let out' = (if got then (if out = [] then val else out @ '','' @ val) else val)
          in etcd_put c key out' w')"

text \<open>
  \<open>for (i = 0; i < map.size(); i += 2) value[map[i]] = map[i + 1];\<close>: with an odd number of
  lines the last read is past the end of the vector.
\<close>

fun store_pairs :: "(string \<rightharpoonup> string) \<Rightarrow> string list \<Rightarrow> (string \<rightharpoonup> string) result" where
  "store_pairs m [] = Inr m"
| "store_pairs m [k] = Inl Undefined_behaviour"
| "store_pairs m (k # v # rest) = store_pairs (m(k \<mapsto> v)) rest"

definition etcd_get_all :: "'w etcd_client_shell \<Rightarrow> string \<Rightarrow> (string \<rightharpoonup> string)
    \<Rightarrow> ('w, bool \<times> (string \<rightharpoonup> string)) throwing" where
  "etcd_get_all c key val w =
     (case execute (shell c) (command_prefix c @ '' get '' @ key @ '' --prefix'') [] w of
        ((ret, out), w') \<Rightarrow>
          (if ret \<and> out \<noteq> []
           then (case store_pairs val (split out (CHR 0x0A)) of
                   Inl e \<Rightarrow> Inl e | Inr m \<Rightarrow> Inr (ret, m))
           else Inr (ret, val), w'))"

definition etcd_del :: "'w etcd_client_shell \<Rightarrow> string \<Rightarrow> ('w, bool) op" where
  "etcd_del c key w =
     (case execute (shell c) (command_prefix c @ '' del '' @ key) [] w of
        ((ret, out), w') \<Rightarrow> (ret, w'))"

definition etcd_list :: "'w etcd_client_shell \<Rightarrow> string \<Rightarrow> string list \<Rightarrow> ('w, bool \<times> string list) op" where
  "etcd_list c key results w =
     (case etcd_get c key [] w of
        ((got, output), w') \<Rightarrow> if \<not> got then ((False, results), w') else ((True, split output (CHR '','')), w'))"

definition etcd_del_value :: "'w etcd_client_shell \<Rightarrow> string \<Rightarrow> string \<Rightarrow> ('w, bool) op" where
  "etcd_del_value c key val w =
     (case etcd_list c key [] w of
        ((listed, vals), w') \<Rightarrow>
          if \<not> listed then (False, w')
          else let to_put = join_values (removeAll val vals)
               in if to_put = [] then etcd_del c key w' else etcd_put c key to_put w')"

text \<open>
  \<open>order\<close> is the iteration order of the \<open>std::unordered_map\<close>, which the standard leaves open.
\<close>

type_synonym map_order = "(string \<rightharpoonup> string) \<Rightarrow> (string \<times> string) list"

definition etcd_dump :: "map_order \<Rightarrow> 'w etcd_client_shell \<Rightarrow> string \<Rightarrow> ('w, string) throwing" where
  "etcd_dump order c key w =
     (case etcd_get_all c key Map.empty w of
        (Inl e, w') \<Rightarrow> (Inl e, w')
      | (Inr (got, m), w') \<Rightarrow>
          (Inr (if got \<and> m \<noteq> Map.empty
                then concat (map (\<lambda>(k, v). k @ '' -> '' @ v @ [CHR 0x0A]) (order m))
                else []), w'))"

definition etcd_shell_if :: "map_order \<Rightarrow> 'w etcd_client_shell \<Rightarrow> 'w etcd_client_if" where
  "etcd_shell_if order c = \<lparr>ec_test = etcd_test c, ec_put = etcd_put c, ec_append = etcd_append c,
     ec_get = etcd_get c, ec_get_all = etcd_get_all c, ec_del = etcd_del c,
     ec_del_value = etcd_del_value c, ec_list = etcd_list c, ec_dump = etcd_dump order c\<rparr>"

end
