(* ===== verification/Subnet.thy ===== *)
theory Subnet
  imports Prelude "HOL-Library.Monad_Syntax"
begin

text \<open>
  \<open>src/net/macro.h\<close>, \<open>addr.cc\<close> and \<open>subnet.cc\<close>: IPv4 addresses and subnets in CIDR form.

  The text forms are parsed and printed by Boost.Asio, which is not part of the repository: its
  functions are the record \<open>asio\<close>, a parameter of the model. \<open>asio_documented\<close> is what the
  program relies on, the dotted-decimal text of an address and the \<open>address/prefix\<close> text of a
  network; \<open>demo_asio\<close> is a concrete instance.
\<close>

subsection \<open>Types and constants (\<open>macro.h\<close>)\<close>

type_synonym prefix = "32 word"

datatype ip_version = RESERVED | IPv4 | IPv6

datatype link_status = STATUS_RESERVED | UP | DOWN

definition MAX_PREFIX_IPV4 :: prefix where "MAX_PREFIX_IPV4 = 32"

text \<open>\<open>boost::asio::ip::network_v4\<close> as its two observable parts.\<close>

record network_v4 =
  net_address :: "32 word"
  prefix_length :: nat

record asio =
  make_network_v4 :: "string \<Rightarrow> network_v4 option"
  make_network_v6 :: "string \<Rightarrow> string option"
  make_address_v4 :: "string \<Rightarrow> 32 word option"
  make_address_v6 :: "string \<Rightarrow> string option"
  address_v4_to_string :: "32 word \<Rightarrow> string"
  network_v4_to_string :: "network_v4 \<Rightarrow> string"
  is_subnet_of_v4 :: "network_v4 \<Rightarrow> network_v4 \<Rightarrow> bool"

subsection \<open>The two regular expressions\<close>

text \<open>
  \<open>\d+\<close> and \<open>[\da-fA-F:]+\<close> are followed by characters outside their class, so a longest match
  never has to be given back.
\<close>

definition eat_some :: "(char \<Rightarrow> bool) \<Rightarrow> string \<Rightarrow> string option" where
  "eat_some P s = (if takeWhile P s = [] then None else Some (dropWhile P s))"

fun eat_char :: "char \<Rightarrow> string \<Rightarrow> string option" where
  "eat_char c [] = None"
| "eat_char c (x # xs) = (if x = c then Some xs else None)"

definition is_hex_colon :: "char \<Rightarrow> bool" where
  "is_hex_colon c \<longleftrightarrow> is_digit c \<or> c \<in> set ''abcdefABCDEF:''"

definition match_IPv4_REGEX :: "string \<Rightarrow> bool" where
  "match_IPv4_REGEX s = (do {
     s1 \<leftarrow> eat_some is_digit s; s2 \<leftarrow> eat_char (CHR ''.'') s1;
     s3 \<leftarrow> eat_some is_digit s2; s4 \<leftarrow> eat_char (CHR ''.'') s3;
     s5 \<leftarrow> eat_some is_digit s4; s6 \<leftarrow> eat_char (CHR ''.'') s5;
     s7 \<leftarrow> eat_some is_digit s6; s8 \<leftarrow> eat_char (CHR ''/'') s7;
     eat_some is_digit s8 } = Some [])"

definition match_IPv6_REGEX :: "string \<Rightarrow> bool" where
  "match_IPv6_REGEX s = (do {
     s1 \<leftarrow> eat_some is_hex_colon s; s2 \<leftarrow> eat_char (CHR ''/'') s1;
     eat_some is_digit s2 } = Some [])"

subsection \<open>\<open>std::stoi\<close>\<close>

text \<open>
  Leading white space and a sign are skipped, what follows the digits is ignored. \<open>None\<close> is
  \<open>std::invalid_argument\<close> (no digits) or \<open>std::out_of_range\<close> (not an \<open>int\<close>).
\<close>

definition is_space :: "char \<Rightarrow> bool" where
  "is_space c \<longleftrightarrow> c = CHR '' '' \<or> 9 \<le> (of_char c :: nat) \<and> (of_char c :: nat) \<le> 13"

definition stoi :: "string \<Rightarrow> int option" where
  "stoi s =
     (let s1 = dropWhile is_space s;
          neg = (s1 \<noteq> [] \<and> hd s1 = CHR ''-'');
          s2 = (if s1 \<noteq> [] \<and> (hd s1 = CHR ''-'' \<or> hd s1 = CHR ''+'') then tl s1 else s1);
          ds = takeWhile is_digit s2;
          n = (if neg then - int (undec ds) else int (undec ds))
      in if ds = [] \<or> n < - (2 ^ 31) \<or> 2 ^ 31 \<le> n then None else Some n)"

subsection \<open>Addr (\<open>addr.cc\<close>)\<close>

text \<open>
  \<open>addr_prefix = None\<close>: the member \<open>prefix_\<close> was never written (the constructor threw before it
  got there), so reading it is undefined.
\<close>

record addr =
  address_v4 :: "32 word"
  address_v6 :: string
  addr_version :: ip_version
  addr_prefix :: "prefix option"

definition reserved_addr :: "prefix option \<Rightarrow> addr" where
  "reserved_addr p = \<lparr>address_v4 = 0, address_v6 = [], addr_version = RESERVED, addr_prefix = p\<rparr>"

definition addr_parse :: "asio \<Rightarrow> string \<Rightarrow> string \<Rightarrow> prefix \<Rightarrow> addr" where
  "addr_parse A cidr_str addr_str p =
     (if match_IPv4_REGEX cidr_str
      then (case make_address_v4 A addr_str of
              None \<Rightarrow> reserved_addr (Some p)
            | Some a \<Rightarrow> \<lparr>address_v4 = a, address_v6 = [], addr_version = IPv4, addr_prefix = Some p\<rparr>)
      else (case make_address_v6 A addr_str of
              None \<Rightarrow> reserved_addr (Some p)
            | Some a \<Rightarrow> \<lparr>address_v4 = 0, address_v6 = a, addr_version = IPv6, addr_prefix = Some p\<rparr>))"

definition Addr :: "asio \<Rightarrow> string \<Rightarrow> addr" where
  "Addr A cidr =
     (if cidr = [] then reserved_addr None
      else if CHR ''/'' \<notin> set cidr
      then addr_parse A (cidr @ ''/'' @ dec (unat MAX_PREFIX_IPV4)) cidr MAX_PREFIX_IPV4
      else (let pos = length (takeWhile (\<lambda>c. c \<noteq> CHR ''/'') cidr)
            in case stoi (drop (pos + 1) cidr) of
                 None \<Rightarrow> reserved_addr None
               | Some n \<Rightarrow> addr_parse A cidr (take pos cidr) (word_of_int n)))"

definition ipv6_unsupported :: exn where
  "ipv6_unsupported = Ohno_exception ''IPv6 not supported yet''"

definition addr_getAddr :: "asio \<Rightarrow> addr \<Rightarrow> string result" where
  "addr_getAddr A a =
     (if addr_version a = IPv6 then Inl ipv6_unsupported else Inr (address_v4_to_string A (address_v4 a)))"

definition addr_getPrefix :: "addr \<Rightarrow> prefix result" where
  "addr_getPrefix a = (case addr_prefix a of None \<Rightarrow> Inl Undefined_behaviour | Some p \<Rightarrow> Inr p)"

definition addr_getAddrCidr :: "asio \<Rightarrow> addr \<Rightarrow> string result" where
  "addr_getAddrCidr A a =
     (case addr_getAddr A a of
        Inl e \<Rightarrow> Inl e
      | Inr s \<Rightarrow> (case addr_getPrefix a of Inl e \<Rightarrow> Inl e | Inr p \<Rightarrow> Inr (s @ ''/'' @ dec (unat p))))"

subsection \<open>Subnet (\<open>subnet.cc\<close>)\<close>

record subnet =
  subnet_v4 :: network_v4
  subnet_v6 :: string
  subnet_version :: ip_version

definition new_subnet :: subnet where
  "new_subnet = \<lparr>subnet_v4 = \<lparr>net_address = 0, prefix_length = 0\<rparr>, subnet_v6 = [],
     subnet_version = RESERVED\<rparr>"

definition subnet_init :: "asio \<Rightarrow> string \<Rightarrow> subnet \<Rightarrow> unit result \<times> subnet" where
  "subnet_init A cidr s =
     (if match_IPv4_REGEX cidr
      then (case make_network_v4 A cidr of
              None \<Rightarrow> (Inl Std_exception, s\<lparr>subnet_version := IPv4\<rparr>)
            | Some n \<Rightarrow> (Inr (), s\<lparr>subnet_version := IPv4, subnet_v4 := n\<rparr>))
      else if match_IPv6_REGEX cidr
      then (case make_network_v6 A cidr of
              None \<Rightarrow> (Inl Std_exception, s\<lparr>subnet_version := IPv6\<rparr>)
            | Some n \<Rightarrow> (Inr (), s\<lparr>subnet_version := IPv6, subnet_v6 := n\<rparr>))
      else (Inl (Ohno_exception ''Invalid CIDR format''), s\<lparr>subnet_version := RESERVED\<rparr>))"

definition checkIpv6 :: "subnet \<Rightarrow> unit result" where
  "checkIpv6 s = (if subnet_version s = IPv6 then Inl ipv6_unsupported else Inr ())"

definition getSubnet :: "asio \<Rightarrow> subnet \<Rightarrow> string result" where
  "getSubnet A s =
     (case checkIpv6 s of Inl e \<Rightarrow> Inl e | Inr _ \<Rightarrow> Inr (network_v4_to_string A (subnet_v4 s)))"

definition getPrefix :: "subnet \<Rightarrow> prefix result" where
  "getPrefix s =
     (case checkIpv6 s of Inl e \<Rightarrow> Inl e | Inr _ \<Rightarrow> Inr (of_nat (prefix_length (subnet_v4 s))))"

definition extractAddr :: "asio \<Rightarrow> subnet \<Rightarrow> string result" where
  "extractAddr A s =
     (case getSubnet A s of Inl e \<Rightarrow> Inl e | Inr cidr \<Rightarrow> Inr (takeWhile (\<lambda>c. c \<noteq> CHR ''/'') cidr))"

definition generateIpImpl :: "network_v4 \<Rightarrow> prefix \<Rightarrow> 32 word result" where
  "generateIpImpl base_net index =
     (if index < 1 then Inl (Ohno_exception ''Index out of range'')
      else if of_nat (prefix_length base_net) = MAX_PREFIX_IPV4 then Inr (net_address base_net)
      else Inr (net_address base_net + index))"

definition generateIp :: "asio \<Rightarrow> subnet \<Rightarrow> prefix \<Rightarrow> string result" where
  "generateIp A s index =
     (case checkIpv6 s of Inl e \<Rightarrow> Inl e
      | Inr _ \<Rightarrow> (case generateIpImpl (subnet_v4 s) index of Inl e \<Rightarrow> Inl e
         | Inr ip \<Rightarrow> Inr (address_v4_to_string A ip @ ''/'' @ dec (prefix_length (subnet_v4 s)))))"

definition isSubnetOf :: "asio \<Rightarrow> subnet \<Rightarrow> string \<Rightarrow> bool result" where
  "isSubnetOf A s cidr =
     (case subnet_init A cidr new_subnet of
        (Inl e, other) \<Rightarrow> Inl e
      | (Inr _, other) \<Rightarrow>
          (case checkIpv6 s of Inl e \<Rightarrow> Inl e
           | Inr _ \<Rightarrow> Inr (is_subnet_of_v4 A (subnet_v4 s) (subnet_v4 other))))"

text \<open>
  \<open>1 << (new_prefix - prefix_length)\<close> shifts a 32-bit \<open>int\<close>: by 32 (a \<open>/0\<close> network) it is
  undefined.
\<close>

definition getMaxSubnetsFromCidr :: "subnet \<Rightarrow> prefix \<Rightarrow> prefix result" where
  "getMaxSubnetsFromCidr s new_prefix =
     (case checkIpv6 s of Inl e \<Rightarrow> Inl e
      | Inr _ \<Rightarrow>
          let pl = of_nat (prefix_length (subnet_v4 s)) in
          if new_prefix \<le> pl
          then Inl (Ohno_exception (''New prefix('' @ dec (unat new_prefix)
            @ '') must be larger than current prefix('' @ dec (prefix_length (subnet_v4 s)) @ '')''))
          else if 32 \<le> unat (new_prefix - pl) then Inl Undefined_behaviour
          else Inr (push_bit (unat (new_prefix - pl)) 1))"

definition getMaxHosts :: "subnet \<Rightarrow> prefix result" where
  "getMaxHosts s = getMaxSubnetsFromCidr s MAX_PREFIX_IPV4"

end
