(* ===== verification/Ipam.thy ===== *)
theory Ipam
  imports Etcd Subnet
begin

text \<open>
  \<open>src/ipam/ipam.cc\<close>: handing out node subnets and pod addresses, kept in ETCD under
  \<open>/ohno/subnets\<close> and \<open>/ohno/addresses\<close>. The client \<open>etcd_client_\<close> is the argument \<open>E\<close>. The
  Kubernetes side (\<open>CenterIf\<close>) is a record of operations too.
\<close>

subsection \<open>CenterIf (\<open>center_if.h\<close>)\<close>

record node_info =
  info_name :: string
  internal_ip :: string
  pod_cidr :: string

text \<open>
  \<open>getKubernetesData()\<close> gives a \<open>std::unordered_map\<close>: an association list with distinct keys, in
  the order in which the map is iterated.
\<close>

record 'w center_if =
  ct_test :: "('w, bool) op"
  ct_node :: "string \<Rightarrow> ('w, node_info) op"
  ct_all :: "('w, (string \<times> node_info) list) op"

subsection \<open>Keys (\<open>ipam.h\<close>)\<close>

definition ETCD_KEY_PREFIX :: string where "ETCD_KEY_PREFIX = ''/ohno''"

definition ETCD_KEY_SUBNET :: string where "ETCD_KEY_SUBNET = ''/ohno/subnets''"

definition ETCD_KEY_ADDRESS :: string where "ETCD_KEY_ADDRESS = ''/ohno/addresses''"

definition subnet_key :: "string \<Rightarrow> string" where
  "subnet_key node = ETCD_KEY_SUBNET @ ''/'' @ node"

definition address_key :: "string \<Rightarrow> string" where
  "address_key node = ETCD_KEY_ADDRESS @ ''/'' @ node"

subsection \<open>Operations (\<open>ipam.cc\<close>)\<close>

definition ipam_init :: "'w etcd_client_if option \<Rightarrow> ('w, bool) op" where
  "ipam_init client w = (case client of None \<Rightarrow> (False, w) | Some E \<Rightarrow> ec_test E w)"

definition ipam_dump :: "'w etcd_client_if \<Rightarrow> ('w, string) throwing" where
  "ipam_dump E w = ec_dump E ETCD_KEY_PREFIX w"

definition ipam_getSubnet :: "'w etcd_client_if \<Rightarrow> string \<Rightarrow> ('w, bool \<times> string) op" where
  "ipam_getSubnet E node w =
     (case ec_get E (subnet_key node) [] w of
        ((ret, subnet), w') \<Rightarrow> ((ret \<and> subnet \<noteq> [], subnet), w'))"

definition ipam_allocateSubnet :: "'w etcd_client_if \<Rightarrow> 'w center_if \<Rightarrow> string \<Rightarrow> ('w, bool \<times> string) op" where
  "ipam_allocateSubnet E center node w =
     (case ipam_getSubnet E node w of
        ((True, subnet), w1) \<Rightarrow> ((True, subnet), w1)
      | ((False, _), w1) \<Rightarrow>
          (case ct_node center node w1 of
             (info, w2) \<Rightarrow>
               let subnet = pod_cidr info in
               (case ec_append E ETCD_KEY_SUBNET subnet w2 of
                  (True, w3) \<Rightarrow>
                    (case ec_put E (subnet_key node) subnet w3 of
                       (True, w4) \<Rightarrow> ((True, subnet), w4)
                     | (False, w4) \<Rightarrow> ((False, []), snd (ec_del_value E ETCD_KEY_SUBNET subnet w4)))
                | (False, w3) \<Rightarrow> ((False, []), w3))))"

definition ipam_releaseSubnet :: "'w etcd_client_if \<Rightarrow> string \<Rightarrow> string \<Rightarrow> ('w, bool) op" where
  "ipam_releaseSubnet E node subnet w =
     (case ec_del E (subnet_key node) w of
        (False, w1) \<Rightarrow> (False, w1)
      | (True, w1) \<Rightarrow> ec_del_value E ETCD_KEY_SUBNET subnet w1)"

definition ipam_isIpAvailable :: "'w etcd_client_if \<Rightarrow> string \<Rightarrow> string \<Rightarrow> ('w, bool) op" where
  "ipam_isIpAvailable E node ip_to_confirm w =
     (case ec_list E (address_key node) [] w of
        ((ret, all_addresses), w') \<Rightarrow>
          (if \<not> ret then True else ip_to_confirm \<notin> set all_addresses, w'))"

text \<open>\<open>for (net::Prefix i = 1; i < max_hosts - 1; ++i)\<close>, with \<open>limit = max_hosts - 1\<close>.\<close>

function allocate_from :: "'w etcd_client_if \<Rightarrow> asio \<Rightarrow> subnet \<Rightarrow> string \<Rightarrow> prefix \<Rightarrow> prefix
    \<Rightarrow> ('w, bool \<times> string) throwing" where
  "allocate_from E A subnet_obj node i limit w =
     (if i < limit then
        (case generateIp A subnet_obj i of
           Inl e \<Rightarrow> (Inl e, w)
         | Inr candidate_ip \<Rightarrow>
             (case ipam_isIpAvailable E node candidate_ip w of
                (True, w1) \<Rightarrow>
                  (case ec_append E (address_key node) candidate_ip w1 of
                     (True, w2) \<Rightarrow> (Inr (True, candidate_ip), w2)
                   | (False, w2) \<Rightarrow> allocate_from E A subnet_obj node (i + 1) limit w2)
              | (False, w1) \<Rightarrow> allocate_from E A subnet_obj node (i + 1) limit w1))
      else (Inr (False, []), w))"
  by pat_completeness auto
termination
  by (relation "measure (\<lambda>(E, A, subnet_obj, node, i, limit, w). unat limit - unat i)")
    (auto simp: unat_Suc_less word_less_nat_alt)

declare allocate_from.simps [simp del]

definition ipam_allocateIp :: "'w etcd_client_if \<Rightarrow> asio \<Rightarrow> string \<Rightarrow> string \<Rightarrow> ('w, bool \<times> string) throwing" where
  "ipam_allocateIp E A node result_ip w =
     (case ipam_getSubnet E node w of
        ((False, _), w1) \<Rightarrow> (Inr (False, result_ip), w1)
      | ((True, subnet), w1) \<Rightarrow>
          (case subnet_init A subnet new_subnet of
             (Inl e, _) \<Rightarrow> (Inl e, w1)
           | (Inr _, subnet_obj) \<Rightarrow>
               (case getMaxHosts subnet_obj of
                  Inl e \<Rightarrow> (Inl e, w1)
                | Inr max_hosts \<Rightarrow> allocate_from E A subnet_obj node 1 (max_hosts - 1) w1)))"

definition ipam_releaseIp :: "'w etcd_client_if \<Rightarrow> string \<Rightarrow> string \<Rightarrow> ('w, bool) op" where
  "ipam_releaseIp E node ip_to_del w = ec_del_value E (address_key node) ip_to_del w"

definition ipam_getAllIp :: "'w etcd_client_if \<Rightarrow> string \<Rightarrow> string list \<Rightarrow> ('w, bool \<times> string list) op" where
  "ipam_getAllIp E node all_ip w =
     (case ec_list E (address_key node) all_ip w of
        ((ret, all_ip'), w') \<Rightarrow> ((ret \<and> all_ip' \<noteq> [], all_ip'), w'))"

subsection \<open>IpamIf (\<open>ipam_if.h\<close>)\<close>

text \<open>The interface the plugin and the daemon use, and the class \<open>Ipam\<close> as an instance of it.\<close>

record 'w ipam_if =
  ip_dump :: "('w, string) throwing"
  ip_allocateSubnet :: "string \<Rightarrow> 'w center_if \<Rightarrow> ('w, bool \<times> string) op"
  ip_releaseSubnet :: "string \<Rightarrow> string \<Rightarrow> ('w, bool) op"
  ip_getSubnet :: "string \<Rightarrow> ('w, bool \<times> string) op"
  ip_allocateIp :: "string \<Rightarrow> string \<Rightarrow> ('w, bool \<times> string) throwing"
  ip_releaseIp :: "string \<Rightarrow> string \<Rightarrow> ('w, bool) op"

definition ipam_ops :: "'w etcd_client_if \<Rightarrow> asio \<Rightarrow> 'w ipam_if" where
  "ipam_ops E A = \<lparr>ip_dump = ipam_dump E,
     ip_allocateSubnet = (\<lambda>node center. ipam_allocateSubnet E center node),
     ip_releaseSubnet = ipam_releaseSubnet E, ip_getSubnet = ipam_getSubnet E,
     ip_allocateIp = ipam_allocateIp E A, ip_releaseIp = ipam_releaseIp E\<rparr>"

end
