(* ===== verification/Etcd_Spec.thy ===== *)
theory Etcd_Spec
  imports Etcd
begin

text \<open>
  What the clients of \<open>EtcdClientIf\<close> rely on, as the locale \<open>etcd_store\<close> (and \<open>etcd_reliable\<close>,
  a cluster that never fails), and its interpretation on \<open>EtcdClientShell\<close>.
\<close>

subsection \<open>Words of a shell command\<close>

text \<open>
  Keys and values go into the command line unquoted. A \<open>shell_word\<close> is a non-empty string the
  shell leaves alone and passes on as one argument: ASCII letters, digits and \<open>, - . / : _\<close>, which
  is what the keys, names, addresses and lists of this program are made of.
\<close>

definition word_char :: "char \<Rightarrow> bool" where
  "word_char c \<longleftrightarrow> (let n = (of_char c :: nat) in
     44 \<le> n \<and> n \<le> 58 \<or> 65 \<le> n \<and> n \<le> 90 \<or> n = 95 \<or> 97 \<le> n \<and> n \<le> 122)"

definition shell_word :: "string \<Rightarrow> bool" where
  "shell_word s \<longleftrightarrow> s \<noteq> [] \<and> (\<forall>c \<in> set s. word_char c)"

definition list_elem :: "string \<Rightarrow> bool" where
  "list_elem v \<longleftrightarrow> shell_word v \<and> CHR '','' \<notin> set v"

lemma word_char_simps [simp]:
  "\<not> word_char (CHR 0x0A)" "\<not> word_char (CHR '' '')" "word_char (CHR '','')"
  "word_char (CHR ''-'')" "word_char (CHR ''/'')" "word_char (CHR ''.'')"
  by (simp_all add: word_char_def)

lemma digit_word_char: "is_digit c \<Longrightarrow> word_char c"
  by (simp add: word_char_def is_digit_def Let_def)

lemma shell_word_append [simp]:
  "a \<noteq> [] \<Longrightarrow> b \<noteq> [] \<Longrightarrow> shell_word (a @ b) \<longleftrightarrow> shell_word a \<and> shell_word b"
  by (auto simp: shell_word_def)

lemma shell_word_chars: "shell_word s \<Longrightarrow> CHR 0x0A \<notin> set s \<and> CHR '' '' \<notin> set s \<and> s \<noteq> []"
  by (auto simp: shell_word_def)

lemma strip_newlines_word: "shell_word s \<Longrightarrow> strip_newlines s = s"
  by (auto simp: strip_newlines_def filter_id_conv dest: shell_word_chars)

lemma list_elem_clean: "(\<forall>v \<in> set vs. list_elem v) \<Longrightarrow> clean vs"
  by (auto simp: clean_def list_elem_def shell_word_def)

lemma shell_word_join: "vs \<noteq> [] \<Longrightarrow> (\<forall>v \<in> set vs. list_elem v) \<Longrightarrow> shell_word (join_values vs)"
  by (induction vs rule: join_values.induct) (auto simp: list_elem_def shell_word_def)

subsection \<open>Lists kept under one key\<close>

text \<open>
  \<open>holds m k vs\<close>: the key \<open>k\<close> of the map holds the list \<open>vs\<close>, joined with commas; the empty
  list is the absent key.
\<close>

definition holds :: "(string \<rightharpoonup> string) \<Rightarrow> string \<Rightarrow> string list \<Rightarrow> bool" where
  "holds m k vs \<longleftrightarrow> (\<forall>v \<in> set vs. list_elem v) \<and> m k = (if vs = [] then None else Some (join_values vs))"

text \<open>What \<open>get\<close> reads: the stored text without newlines, empty for an absent key.\<close>

definition stored_text :: "(string \<rightharpoonup> string) \<Rightarrow> string \<Rightarrow> string" where
  "stored_text m k = (case m k of None \<Rightarrow> [] | Some v \<Rightarrow> strip_newlines v)"

lemma holds_text: "holds m k vs \<Longrightarrow> stored_text m k = join_values vs"
  by (cases vs) (auto simp: holds_def stored_text_def strip_newlines_word shell_word_join simp del: join_values.simps(3))

lemma holds_split: "holds m k vs \<Longrightarrow> split (stored_text m k) (CHR '','') = vs"
  by (auto simp: holds_text split_join_values list_elem_clean holds_def)

lemma holds_unique: "holds m k vs \<Longrightarrow> holds m k ws \<Longrightarrow> vs = ws"
  by (metis holds_split)

lemma holds_cong: "m k = m' k \<Longrightarrow> holds m k vs \<longleftrightarrow> holds m' k vs"
  by (simp add: holds_def)

lemma holds_Nil: "holds m k [] \<longleftrightarrow> m k = None"
  by (simp add: holds_def)

lemma holds_put: "vs \<noteq> [] \<Longrightarrow> (\<forall>v \<in> set vs. list_elem v) \<Longrightarrow> holds (m(k \<mapsto> join_values vs)) k vs"
  by (simp add: holds_def)

subsection \<open>The contract of \<open>EtcdClientIf\<close>\<close>

text \<open>
  \<open>serves E view\<close>: the client \<open>E\<close> works on the key-value map that \<open>view\<close> reads off the world.
  An operation that reports failure may or may not have taken effect (a timed-out write).
\<close>

definition read_ok :: "'w etcd_client_if \<Rightarrow> string \<Rightarrow> 'w \<Rightarrow> bool" where
  "read_ok E k w = fst (fst (ec_get E k [] w))"

locale etcd_store =
  fixes serves :: "'w etcd_client_if \<Rightarrow> ('w \<Rightarrow> string \<rightharpoonup> string) \<Rightarrow> bool"
  assumes get_law: "serves E view \<Longrightarrow> shell_word k \<Longrightarrow> ec_get E k out w = ((ok, v), w') \<Longrightarrow>
      view w' = view w \<and> ok = read_ok E k w \<and> (ok \<longrightarrow> v = stored_text (view w) k)"
    and put_law: "serves E view \<Longrightarrow> shell_word k \<Longrightarrow> shell_word v \<Longrightarrow> ec_put E k v w = (ok, w') \<Longrightarrow>
      view w' = (view w)(k \<mapsto> v) \<or> \<not> ok \<and> view w' = view w"
    and del_law: "serves E view \<Longrightarrow> shell_word k \<Longrightarrow> ec_del E k w = (ok, w') \<Longrightarrow>
      view w' = (view w)(k := None) \<or> \<not> ok \<and> view w' = view w"
    and list_law: "serves E view \<Longrightarrow> shell_word k \<Longrightarrow> ec_list E k vs0 w = ((ok, vs), w') \<Longrightarrow>
      view w' = view w \<and> ok = read_ok E k w \<and>
      vs = (if ok then split (stored_text (view w) k) (CHR '','') else vs0)"
    and append_law: "serves E view \<Longrightarrow> shell_word k \<Longrightarrow> list_elem v \<Longrightarrow> holds (view w) k xs \<Longrightarrow>
      ec_append E k v w = (ok, w') \<Longrightarrow>
      (\<forall>j. j \<noteq> k \<longrightarrow> view w' j = view w j) \<and>
      (holds (view w') k ((if read_ok E k w then xs else []) @ [v]) \<or> \<not> ok \<and> view w' = view w)"
    and del_value_law: "serves E view \<Longrightarrow> shell_word k \<Longrightarrow> holds (view w) k xs \<Longrightarrow>
      ec_del_value E k v w = (ok, w') \<Longrightarrow>
      (\<forall>j. j \<noteq> k \<longrightarrow> view w' j = view w j) \<and>
      (holds (view w') k (removeAll v xs) \<or> \<not> ok \<and> view w' = view w)"
begin

lemma list_holds:
  "serves E view \<Longrightarrow> shell_word k \<Longrightarrow> holds (view w) k xs \<Longrightarrow> ec_list E k vs0 w = ((ok, vs), w') \<Longrightarrow>
   view w' = view w \<and> ok = read_ok E k w \<and> vs = (if ok then xs else vs0)"
  using list_law [of E view k vs0 w ok vs w'] holds_split [of "view w" k xs] by simp

end

text \<open>A cluster that answers every command.\<close>

locale etcd_reliable = etcd_store serves for serves :: "'w etcd_client_if \<Rightarrow> ('w \<Rightarrow> string \<rightharpoonup> string) \<Rightarrow> bool" +
  fixes reliable :: "'w etcd_client_if \<Rightarrow> bool"
  assumes up_get: "reliable E \<Longrightarrow> fst (fst (ec_get E k out w))"
    and up_put: "reliable E \<Longrightarrow> fst (ec_put E k v w)"
    and up_del: "reliable E \<Longrightarrow> fst (ec_del E k w)"
    and up_append: "reliable E \<Longrightarrow> fst (ec_append E k v w)"
    and up_del_value: "reliable E \<Longrightarrow> fst (ec_del_value E k v w)"
begin

lemma up_read: "reliable E \<Longrightarrow> read_ok E k w"
  by (simp add: read_ok_def up_get)

text \<open>Every operation succeeds, and the view changes as it promises.\<close>

lemma put_up:
  assumes "serves E view" "reliable E" "shell_word k" "shell_word v"
  shows "\<exists>w'. ec_put E k v w = (True, w') \<and> view w' = (view w)(k \<mapsto> v)"
proof -
  obtain ok w' where r: "ec_put E k v w = (ok, w')" by (metis prod.collapse)
  with up_put [OF assms(2), of k v w] put_law [OF assms(1,3,4) r] show ?thesis by auto
qed

lemma del_up:
  assumes "serves E view" "reliable E" "shell_word k"
  shows "\<exists>w'. ec_del E k w = (True, w') \<and> view w' = (view w)(k := None)"
proof -
  obtain ok w' where r: "ec_del E k w = (ok, w')" by (metis prod.collapse)
  with up_del [OF assms(2), of k w] del_law [OF assms(1,3) r] show ?thesis by auto
qed

lemma get_up:
  assumes "serves E view" "reliable E" "shell_word k"
  shows "\<exists>w'. ec_get E k out w = ((True, stored_text (view w) k), w') \<and> view w' = view w"
proof -
  obtain ok v w' where r: "ec_get E k out w = ((ok, v), w')" by (metis prod.collapse)
  with up_get [OF assms(2), of k out w] get_law [OF assms(1,3) r] show ?thesis by auto
qed

lemma list_up:
  assumes "serves E view" "reliable E" "shell_word k" "holds (view w) k xs"
  shows "\<exists>w'. ec_list E k out w = ((True, xs), w') \<and> view w' = view w"
proof -
  obtain ok vs w' where r: "ec_list E k out w = ((ok, vs), w')" by (metis prod.collapse)
  with list_holds [OF assms(1,3,4) r] up_read [OF assms(2), of k w] show ?thesis by auto
qed

lemma append_up:
  assumes "serves E view" "reliable E" "shell_word k" "list_elem v" "holds (view w) k xs"
  shows "\<exists>w'. ec_append E k v w = (True, w') \<and> holds (view w') k (xs @ [v]) \<and>
    (\<forall>j. j \<noteq> k \<longrightarrow> view w' j = view w j)"
proof -
  obtain ok w' where r: "ec_append E k v w = (ok, w')" by (metis prod.collapse)
  with append_law [OF assms(1,3,4,5) r] up_append [OF assms(2), of k v w] up_read [OF assms(2), of k w]
  show ?thesis by auto
qed

lemma del_value_up:
  assumes "serves E view" "reliable E" "shell_word k" "holds (view w) k xs"
  shows "\<exists>w'. ec_del_value E k v w = (True, w') \<and> holds (view w') k (removeAll v xs) \<and>
    (\<forall>j. j \<noteq> k \<longrightarrow> view w' j = view w j)"
proof -
  obtain ok w' where r: "ec_del_value E k v w = (ok, w')" by (metis prod.collapse)
  with del_value_law [OF assms(1,3,4) r] up_del_value [OF assms(2), of k v w] show ?thesis by auto
qed

end

subsection \<open>What \<open>etcdctl\<close> is documented to do\<close>

definition exit_ok :: "child \<Rightarrow> bool" where
  "exit_ok ch = (case ch of Spawn_failed \<Rightarrow> False | Exited code so se \<Rightarrow> code = 0)"

definition child_stdout :: "child \<Rightarrow> string" where
  "child_stdout ch = (case ch of Spawn_failed \<Rightarrow> [] | Exited code so se \<Rightarrow> so)"

text \<open>\<open>etcdctl get --print-value-only\<close> prints the value and a newline, or nothing.\<close>

definition printed_value :: "string option \<Rightarrow> string" where
  "printed_value v = (case v of None \<Rightarrow> [] | Some s \<Rightarrow> s @ [CHR 0x0A])"

definition etcdctl_serves :: "'w host \<Rightarrow> string \<Rightarrow> ('w \<Rightarrow> string \<rightharpoonup> string) \<Rightarrow> bool" where
  "etcdctl_serves run prefix view \<longleftrightarrow>
     (\<forall>k v w ch w'. shell_word k \<longrightarrow> shell_word v \<longrightarrow>
        run (prefix @ '' put -- '' @ k @ '' '' @ v) w = (ch, w') \<longrightarrow>
        view w' = (view w)(k \<mapsto> v) \<or> \<not> exit_ok ch \<and> view w' = view w) \<and>
     (\<forall>k w ch w'. shell_word k \<longrightarrow>
        run (prefix @ '' get '' @ k @ '' --print-value-only'') w = (ch, w') \<longrightarrow>
        view w' = view w \<and> (exit_ok ch \<longrightarrow> child_stdout ch = printed_value (view w k))) \<and>
     (\<forall>k w ch w'. shell_word k \<longrightarrow> run (prefix @ '' del '' @ k) w = (ch, w') \<longrightarrow>
        view w' = (view w)(k := None) \<or> \<not> exit_ok ch \<and> view w' = view w)"

definition etcdctl_reliable :: "'w host \<Rightarrow> string \<Rightarrow> bool" where
  "etcdctl_reliable run prefix \<longleftrightarrow> (\<forall>cmd w. exit_ok (fst (run (prefix @ cmd) w)))"

subsection \<open>The shell client fulfils the contract\<close>

definition shell_serves :: "'w etcd_client_if \<Rightarrow> ('w \<Rightarrow> string \<rightharpoonup> string) \<Rightarrow> bool" where
  "shell_serves E view \<longleftrightarrow>
     (\<exists>order c. E = etcd_shell_if order c \<and> etcdctl_serves (shell c) (command_prefix c) view)"

definition shell_reliable :: "'w etcd_client_if \<Rightarrow> bool" where
  "shell_reliable E \<longleftrightarrow>
     (\<exists>order c. E = etcd_shell_if order c \<and> etcdctl_reliable (shell c) (command_prefix c))"

lemma etcd_shell_if_simps [simp]:
  "ec_get (etcd_shell_if order c) = etcd_get c" "ec_put (etcd_shell_if order c) = etcd_put c"
  "ec_del (etcd_shell_if order c) = etcd_del c" "ec_list (etcd_shell_if order c) = etcd_list c"
  "ec_append (etcd_shell_if order c) = etcd_append c"
  "ec_del_value (etcd_shell_if order c) = etcd_del_value c"
  "ec_test (etcd_shell_if order c) = etcd_test c"
  "ec_dump (etcd_shell_if order c) = etcd_dump order c"
  "ec_get_all (etcd_shell_if order c) = etcd_get_all c"
  by (simp_all add: etcd_shell_if_def)

lemma execute_exit:
  "run command w = (ch, w') \<Longrightarrow> execute run command out w =
     ((exit_ok ch, if ch = Spawn_failed then out else pop_newline (child_stdout ch)), w')"
  by (cases ch) (simp_all add: execute_def execute3_def exit_ok_def child_stdout_def)

lemma etcd_get_run:
  "run = shell c \<Longrightarrow> run (command_prefix c @ '' get '' @ k @ '' --print-value-only'') w = (ch, w') \<Longrightarrow>
   \<exists>v. etcd_get c k out w = ((exit_ok ch, v), w') \<and>
       (exit_ok ch \<longrightarrow> v = strip_newlines (pop_newline (child_stdout ch)))"
  by (cases ch) (auto simp: etcd_get_def execute_exit exit_ok_def)

lemma strip_printed_value: "strip_newlines (pop_newline (printed_value (m k))) = stored_text m k"
  by (simp add: printed_value_def stored_text_def strip_newlines_def split: option.split)

lemma shell_get:
  assumes srv: "etcdctl_serves (shell c) (command_prefix c) view"
    and "shell_word k" "etcd_get c k out w = ((ok, v), w')"
  shows "view w' = view w \<and> ok = fst (fst (etcd_get c k [] w)) \<and> (ok \<longrightarrow> v = stored_text (view w) k)"
proof -
  obtain ch w1 where r: "shell c (command_prefix c @ '' get '' @ k @ '' --print-value-only'') w = (ch, w1)"
    by (cases "shell c (command_prefix c @ '' get '' @ k @ '' --print-value-only'') w")
  with srv assms(2) have vw: "view w1 = view w"
    and out: "exit_ok ch \<longrightarrow> child_stdout ch = printed_value (view w k)"
    by (auto simp: etcdctl_serves_def)
  from etcd_get_run [OF refl r, of out] etcd_get_run [OF refl r, of "[]"] vw out assms(3)
  show ?thesis by (auto simp: strip_printed_value)
qed

lemma shell_put:
  assumes srv: "etcdctl_serves (shell c) (command_prefix c) view"
    and "shell_word k" "shell_word v" "etcd_put c k v w = (ok, w')"
  shows "view w' = (view w)(k \<mapsto> v) \<or> \<not> ok \<and> view w' = view w"
proof -
  obtain ch w1 where r: "shell c (command_prefix c @ '' put -- '' @ k @ '' '' @ v) w = (ch, w1)"
    by (cases "shell c (command_prefix c @ '' put -- '' @ k @ '' '' @ v) w")
  with srv assms(2,3) have "view w1 = (view w)(k \<mapsto> v) \<or> \<not> exit_ok ch \<and> view w1 = view w"
    unfolding etcdctl_serves_def by blast
  with execute_exit [where run = "shell c" and out = "[]", OF r] assms(4) show ?thesis
    by (simp add: etcd_put_def)
qed

lemma shell_del:
  assumes srv: "etcdctl_serves (shell c) (command_prefix c) view"
    and "shell_word k" "etcd_del c k w = (ok, w')"
  shows "view w' = (view w)(k := None) \<or> \<not> ok \<and> view w' = view w"
proof -
  obtain ch w1 where r: "shell c (command_prefix c @ '' del '' @ k) w = (ch, w1)"
    by (cases "shell c (command_prefix c @ '' del '' @ k) w")
  with srv assms(2) have "view w1 = (view w)(k := None) \<or> \<not> exit_ok ch \<and> view w1 = view w"
    unfolding etcdctl_serves_def by blast
  with execute_exit [where run = "shell c" and out = "[]", OF r] assms(3) show ?thesis
    by (simp add: etcd_del_def)
qed

lemma shell_list:
  assumes srv: "etcdctl_serves (shell c) (command_prefix c) view"
    and "shell_word k" "etcd_list c k vs0 w = ((ok, vs), w')"
  shows "view w' = view w \<and> ok = fst (fst (etcd_get c k [] w)) \<and>
    vs = (if ok then split (stored_text (view w) k) (CHR '','') else vs0)"
proof -
  obtain got tx w1 where g: "etcd_get c k [] w = ((got, tx), w1)"
    by (metis prod.collapse)
  with shell_get [OF srv assms(2) g] assms(3) show ?thesis
    by (auto simp: etcd_list_def split: if_splits)
qed

lemma shell_append:
  assumes srv: "etcdctl_serves (shell c) (command_prefix c) view"
    and "shell_word k" "list_elem v" "holds (view w) k xs" "etcd_append c k v w = (ok, w')"
  defines "ys \<equiv> (if fst (fst (etcd_get c k [] w)) then xs else []) @ [v]"
  shows "(\<forall>j. j \<noteq> k \<longrightarrow> view w' j = view w j) \<and>
    (holds (view w') k ys \<or> \<not> ok \<and> view w' = view w)"
proof -
  obtain got tx w1 where g: "etcd_get c k [] w = ((got, tx), w1)"
    by (metis prod.collapse)
  from shell_get [OF srv assms(2) g] have vw: "view w1 = view w" and tx: "got \<Longrightarrow> tx = join_values xs"
    by (auto simp: holds_text [OF assms(4)])
  let ?new = "if got then if tx = [] then v else tx @ '','' @ v else v"
  have elems: "\<forall>x \<in> set ys. list_elem x" "ys \<noteq> []"
    using assms(3,4) by (auto simp: ys_def holds_def)
  have "clean xs" using assms(4) by (auto simp: holds_def intro: list_elem_clean)
  then have new: "?new = join_values ys"
    using tx g by (cases "xs = []") (auto simp: ys_def join_values_snoc join_values_eq_Nil)
  from assms(5) g have p: "etcd_put c k (join_values ys) w1 = (ok, w')"
    unfolding new [symmetric] by (simp add: etcd_append_def Let_def)
  from shell_put [OF srv assms(2) shell_word_join p] elems vw
  show ?thesis by (auto simp: holds_put)
qed

lemma shell_del_value:
  assumes srv: "etcdctl_serves (shell c) (command_prefix c) view"
    and "shell_word k" "holds (view w) k xs" "etcd_del_value c k v w = (ok, w')"
  shows "(\<forall>j. j \<noteq> k \<longrightarrow> view w' j = view w j) \<and>
    (holds (view w') k (removeAll v xs) \<or> \<not> ok \<and> view w' = view w)"
proof -
  obtain l vs w1 where l: "etcd_list c k [] w = ((l, vs), w1)" by (metis prod.collapse)
  from shell_list [OF srv assms(2) l] have vw: "view w1 = view w" and vs: "l \<Longrightarrow> vs = xs"
    by (auto simp: holds_split [OF assms(3)])
  show ?thesis
  proof (cases l)
    case False
    with assms(4) l vw show ?thesis by (simp add: etcd_del_value_def)
  next
    case True
    let ?ys = "removeAll v xs"
    have elems: "\<forall>x \<in> set ?ys. list_elem x" using assms(3) by (auto simp: holds_def)
    then have nil: "join_values ?ys = [] \<longleftrightarrow> ?ys = []"
      by (simp add: join_values_eq_Nil list_elem_clean)
    show ?thesis
    proof (cases "?ys = []")
      case True
      with assms(4) l vs \<open>l\<close> have "etcd_del c k w1 = (ok, w')" by (simp add: etcd_del_value_def)
      from shell_del [OF srv assms(2) this] vw True show ?thesis by (auto simp: holds_Nil)
    next
      case False
      with nil assms(4) l vs \<open>l\<close> have "etcd_put c k (join_values ?ys) w1 = (ok, w')"
        by (simp add: etcd_del_value_def)
      from shell_put [OF srv assms(2) shell_word_join this] elems False vw
      show ?thesis by (auto simp: holds_put)
    qed
  qed
qed

lemma shell_servesE:
  assumes "shell_serves E view"
  obtains order c where "E = etcd_shell_if order c" "etcdctl_serves (shell c) (command_prefix c) view"
  using assms unfolding shell_serves_def by blast

interpretation etcd_shell: etcd_store shell_serves
proof (unfold_locales, goal_cases)
  case (1 E view k out w ok v w')
  then show ?case by (elim shell_servesE) (simp add: read_ok_def, rule shell_get)
next
  case (2 E view k v w ok w')
  then show ?case by (elim shell_servesE) (simp, rule shell_put)
next
  case (3 E view k w ok w')
  then show ?case by (elim shell_servesE) (simp, rule shell_del)
next
  case (4 E view k vs0 w ok vs w')
  then show ?case by (elim shell_servesE) (simp only: read_ok_def etcd_shell_if_simps, rule shell_list)
next
  case (5 E view k v w xs ok w')
  then show ?case by (elim shell_servesE) (simp only: read_ok_def etcd_shell_if_simps, rule shell_append)
next
  case (6 E view k w xs v ok w')
  then show ?case by (elim shell_servesE) (simp only: etcd_shell_if_simps, rule shell_del_value)
qed

lemma exit_execute: "exit_ok (fst (run command w)) \<Longrightarrow> fst (fst (execute run command out w))"
  using execute_exit [of run command w "fst (run command w)" "snd (run command w)" out] by simp

lemma reliable_run:
  assumes "etcdctl_reliable (shell c) (command_prefix c)"
  shows "fst (fst (etcd_get c k out w))" "fst (etcd_put c k v w)" "fst (etcd_del c k w)"
    "fst (fst (etcd_list c k vs w))"
proof -
  have ex: "fst (fst (execute (shell c) (command_prefix c @ cmd) out w))" for cmd out w
    using assms by (simp add: etcdctl_reliable_def exit_execute)
  show get: "fst (fst (etcd_get c k out w))" for k out w
    using ex [of "'' get '' @ k @ '' --print-value-only''" out w]
    by (simp add: etcd_get_def split_beta)
  show "fst (etcd_put c k v w)" "fst (etcd_del c k w)"
    using ex [of "'' put -- '' @ k @ '' '' @ v" "[]" w] ex [of "'' del '' @ k" "[]" w]
    by (simp_all add: etcd_put_def etcd_del_def split_beta)
  show "fst (fst (etcd_list c k vs w))"
    using get [of k "[]" w] by (simp add: etcd_list_def split_beta)
qed

lemma reliable_append: "etcdctl_reliable (shell c) (command_prefix c) \<Longrightarrow> fst (etcd_append c k v w)"
  by (simp add: etcd_append_def Let_def reliable_run split_beta)

lemma reliable_del_value: "etcdctl_reliable (shell c) (command_prefix c) \<Longrightarrow> fst (etcd_del_value c k v w)"
  using reliable_run(4) [of c k "[]" w]
  by (simp add: etcd_del_value_def Let_def reliable_run split_beta)

interpretation etcd_shell_up: etcd_reliable shell_serves shell_reliable
  by unfold_locales
    (auto simp: shell_reliable_def reliable_run reliable_append reliable_del_value)

subsection \<open>A concrete \<open>etcdctl\<close>\<close>

text \<open>
  An \<open>etcdctl\<close> whose world is the key-value map itself, for the witnesses: it shows that the
  hypotheses above can hold together. Its \<open>--prefix\<close> lists the key itself only.
\<close>

definition demo_etcdctl :: "string \<Rightarrow> (string \<rightharpoonup> string) host" where
  "demo_etcdctl prefix cmd m =
     (case split (drop (length prefix) cmd) (CHR '' '') of
        [_, a, b, k, v] \<Rightarrow>
          if a = ''put'' then (Exited 0 (''OK'' @ [CHR 0x0A]) [], m(k \<mapsto> v)) else (Exited 0 [] [], m)
      | [_, a, k, b] \<Rightarrow>
          if b = ''--prefix''
          then (Exited 0 (case m k of None \<Rightarrow> [] | Some v \<Rightarrow> if shell_word v then k @ CHR 0x0A # v @ [CHR 0x0A] else []) [], m)
          else (Exited 0 (printed_value (m k)) [], m)
      | [_, a, k] \<Rightarrow> if a = ''del'' then (Exited 0 ''1'' [], m(k := None)) else (Exited 0 [] [], m)
      | _ \<Rightarrow> (Exited 0 [] [], m))"

definition demo_prefix :: string where
  "demo_prefix = command_prefix (fst (etcd_ctor (etcd_data_default Map.empty)
     (\<lambda>command (w :: unit). (Spawn_failed, w)) Map.empty))"

definition demo_client :: "(string \<rightharpoonup> string) etcd_client_shell" where
  "demo_client = \<lparr>command_prefix = demo_prefix, shell = demo_etcdctl demo_prefix\<rparr>"

lemma demo_put: "shell_word k \<Longrightarrow> shell_word v \<Longrightarrow>
   demo_etcdctl p (p @ '' put -- '' @ k @ '' '' @ v) m = (Exited 0 (''OK'' @ [CHR 0x0A]) [], m(k \<mapsto> v))"
  using split_sep [of "CHR '' ''" "[]" "''put -- '' @ k @ '' '' @ v"]
    split_sep [of "CHR '' ''" "''put''" "''-- '' @ k @ '' '' @ v"]
    split_sep [of "CHR '' ''" "''--''" "k @ '' '' @ v"]
    split_sep [of "CHR '' ''" k v] split_single [of "CHR '' ''" v]
  by (simp add: demo_etcdctl_def shell_word_chars)

lemma demo_get: "shell_word k \<Longrightarrow>
   demo_etcdctl p (p @ '' get '' @ k @ '' --print-value-only'') m = (Exited 0 (printed_value (m k)) [], m)"
  using split_sep [of "CHR '' ''" "[]" "''get '' @ k @ '' --print-value-only''"]
    split_sep [of "CHR '' ''" "''get''" "k @ '' --print-value-only''"]
    split_sep [of "CHR '' ''" k "''--print-value-only''"]
    split_single [of "CHR '' ''" "''--print-value-only''"]
  by (simp add: demo_etcdctl_def shell_word_chars)

lemma demo_prefix_get: "shell_word k \<Longrightarrow>
   demo_etcdctl p (p @ '' get '' @ k @ '' --prefix'') m =
     (Exited 0 (case m k of None \<Rightarrow> [] | Some v \<Rightarrow> if shell_word v then k @ CHR 0x0A # v @ [CHR 0x0A] else []) [], m)"
  using split_sep [of "CHR '' ''" "[]" "''get '' @ k @ '' --prefix''"]
    split_sep [of "CHR '' ''" "''get''" "k @ '' --prefix''"]
    split_sep [of "CHR '' ''" k "''--prefix''"]
    split_single [of "CHR '' ''" "''--prefix''"]
  by (simp add: demo_etcdctl_def shell_word_chars)

lemma demo_del: "shell_word k \<Longrightarrow>
   demo_etcdctl p (p @ '' del '' @ k) m = (Exited 0 ''1'' [], m(k := None))"
  using split_sep [of "CHR '' ''" "[]" "''del '' @ k"]
    split_sep [of "CHR '' ''" "''del''" k] split_single [of "CHR '' ''" k]
  by (simp add: demo_etcdctl_def shell_word_chars)

lemma demo_etcdctl_serves: "etcdctl_serves (demo_etcdctl p) p (\<lambda>m. m)"
  unfolding etcdctl_serves_def
  by (intro conjI allI impI;
      simp only: demo_put demo_get demo_del prod.inject child_stdout_def; elim conjE; hypsubst?; simp)

lemma demo_etcdctl_reliable: "etcdctl_reliable (demo_etcdctl p) p"
  by (auto simp: etcdctl_reliable_def demo_etcdctl_def exit_ok_def split: list.split)

lemma demo_client_shell: "shell demo_client = demo_etcdctl (command_prefix demo_client)"
  by (simp add: demo_client_def)

lemma demo_client_serves [simp]: "etcdctl_serves (shell demo_client) (command_prefix demo_client) (\<lambda>m. m)"
  unfolding demo_client_shell by (rule demo_etcdctl_serves)

lemma demo_client_reliable [simp]: "etcdctl_reliable (shell demo_client) (command_prefix demo_client)"
  unfolding demo_client_shell by (rule demo_etcdctl_reliable)

lemma demo_if_serves [simp]: "shell_serves (etcd_shell_if order demo_client) (\<lambda>m. m)"
  unfolding shell_serves_def by (rule exI [of _ order], rule exI [of _ demo_client]) simp

lemma demo_if_reliable [simp]: "shell_reliable (etcd_shell_if order demo_client)"
  unfolding shell_reliable_def by (rule exI [of _ order], rule exI [of _ demo_client]) simp

subsection \<open>Properties of the shell client\<close>

lemma shell_serves_intro: "etcdctl_serves (shell c) (command_prefix c) view \<Longrightarrow> shell_serves (etcd_shell_if order c) view"
  unfolding shell_serves_def by (rule exI [of _ order], rule exI [of _ c]) simp

lemma shell_reliable_intro: "etcdctl_reliable (shell c) (command_prefix c) \<Longrightarrow> shell_reliable (etcd_shell_if order c)"
  unfolding shell_reliable_def by (rule exI [of _ order], rule exI [of _ c]) simp

text \<open>
  C16: \<open>append\<close> on a key that holds a list adds the value at its end and touches no other key.
  It does so only when its own read succeeds: when the read fails and the write then succeeds, the
  list is replaced by the single value. A reported failure leaves the store either as it was or
  as after that write.
\<close>

theorem etcd_append_extends_list:
  assumes "etcdctl_serves (shell c) (command_prefix c) view"
    and "shell_word k" and "list_elem v" and "holds (view w) k xs"
    and "etcd_append c k v w = (ok, w')"
  shows "(\<forall>j. j \<noteq> k \<longrightarrow> view w' j = view w j) \<and>
    (holds (view w') k ((if fst (fst (etcd_get c k [] w)) then xs else []) @ [v]) \<or>
     \<not> ok \<and> view w' = view w)"
  using etcd_shell.append_law [OF shell_serves_intro [OF assms(1)] assms(2-4)] assms(5)
  by (simp add: read_ok_def)

theorem etcd_append_extends_list_witness:
  "holds (snd (etcd_append demo_client ''/ohno/subnets'' ''10.244.2.0/24''
      [''/ohno/subnets'' \<mapsto> ''10.244.1.0/24''])) ''/ohno/subnets'' [''10.244.1.0/24'', ''10.244.2.0/24'']"
proof -
  let ?m = "[''/ohno/subnets'' \<mapsto> ''10.244.1.0/24'']"
  let ?k = "''/ohno/subnets''" and ?v = "''10.244.2.0/24''"
  have w: "shell_word ?k" "list_elem ?v" "holds ?m ?k [''10.244.1.0/24'']"
    by (simp_all add: holds_def list_elem_def shell_word_def word_char_def)
  have up: "fst (etcd_append demo_client ?k ?v ?m)" "fst (fst (etcd_get demo_client ?k [] ?m))"
    by (rule reliable_append reliable_run(1), simp)+
  from etcd_append_extends_list [where view = "\<lambda>m. m" and w = ?m, OF demo_client_serves w surjective_pairing] up
  show ?thesis by simp
qed

text \<open>
  C17: \<open>del(key, value)\<close> on a key that holds a list removes every occurrence of the value, drops
  the key when nothing is left, and touches no other key; on failure the store is unchanged or as
  after that removal.
\<close>

theorem etcd_del_value_removes:
  assumes "etcdctl_serves (shell c) (command_prefix c) view"
    and "shell_word k" and "holds (view w) k xs" and "etcd_del_value c k v w = (ok, w')"
  shows "(\<forall>j. j \<noteq> k \<longrightarrow> view w' j = view w j) \<and>
    (holds (view w') k (removeAll v xs) \<or> \<not> ok \<and> view w' = view w)"
  using etcd_shell.del_value_law [OF shell_serves_intro [OF assms(1)] assms(2,3)] assms(4)
  by simp

theorem etcd_del_value_removes_witness:
  "snd (etcd_del_value demo_client ''/ohno/subnets'' ''10.244.1.0/24''
      [''/ohno/subnets'' \<mapsto> ''10.244.1.0/24'']) ''/ohno/subnets'' = None"
proof -
  let ?m = "[''/ohno/subnets'' \<mapsto> ''10.244.1.0/24'']" and ?k = "''/ohno/subnets''"
  have w: "shell_word ?k" "holds ?m ?k [''10.244.1.0/24'']"
    by (simp_all add: holds_def list_elem_def shell_word_def word_char_def)
  have up: "fst (etcd_del_value demo_client ?k ''10.244.1.0/24'' ?m)"
    by (rule reliable_del_value, simp)
  from etcd_del_value_removes [where view = "\<lambda>m. m" and w = ?m and v = "''10.244.1.0/24''",
      OF demo_client_serves w surjective_pairing] up
  show ?thesis by (simp add: holds_Nil)
qed

end
