(* ===== verification/Subnet_Facts.thy ===== *)
theory Subnet_Facts
  imports Subnet Helper Etcd_Spec
begin

text \<open>
  Facts on addresses and subnets: the documented text forms of Boost.Asio, a concrete instance,
  and what \<open>Addr\<close> and \<open>Subnet\<close> compute from them.
\<close>

subsection \<open>Dotted decimal\<close>

definition octet :: "nat \<Rightarrow> 32 word \<Rightarrow> nat" where
  "octet i a = unat a div 256 ^ i mod 256"

definition dotted :: "32 word \<Rightarrow> string" where
  "dotted a = dec (octet 3 a) @ ''.'' @ dec (octet 2 a) @ ''.'' @ dec (octet 1 a) @ ''.'' @ dec (octet 0 a)"

definition cidr_text :: "32 word \<Rightarrow> nat \<Rightarrow> string" where
  "cidr_text a p = dotted a @ ''/'' @ dec p"

definition asio_documented :: "asio \<Rightarrow> bool" where
  "asio_documented A \<longleftrightarrow>
     (\<forall>a. address_v4_to_string A a = dotted a \<and> make_address_v4 A (dotted a) = Some a) \<and>
     (\<forall>a p. p \<le> 32 \<longrightarrow> make_network_v4 A (cidr_text a p) = Some \<lparr>net_address = a, prefix_length = p\<rparr>) \<and>
     (\<forall>n. network_v4_to_string A n = cidr_text (net_address n) (prefix_length n))"

text \<open>The set of characters of a printed address, and what follows from it.\<close>

definition addr_char :: "char \<Rightarrow> bool" where
  "addr_char c \<longleftrightarrow> is_digit c \<or> c = CHR ''.'' \<or> c = CHR ''/''"

lemma dotted_chars: "c \<in> set (dotted a) \<Longrightarrow> is_digit c \<or> c = CHR ''.''"
  by (auto simp: dotted_def dest: dec_digits)

lemma slash_notin_dotted [simp]: "CHR ''/'' \<notin> set (dotted a)"
  by (auto dest: dotted_chars)

lemma dotted_not_Nil [simp]: "dotted a \<noteq> []"
  by (simp add: dotted_def)

lemma cidr_text_chars: "c \<in> set (cidr_text a p) \<Longrightarrow> addr_char c"
  by (auto simp: cidr_text_def addr_char_def dest: dec_digits dotted_chars)

lemma cidr_text_not_Nil [simp]: "cidr_text a p \<noteq> []"
  by (simp add: cidr_text_def)

lemma addr_char_word: "addr_char c \<Longrightarrow> word_char c \<and> c \<noteq> CHR '','' \<and> c \<noteq> CHR ''-''"
  by (auto simp: addr_char_def digit_word_char)

lemma cidr_text_list_elem [simp]: "list_elem (cidr_text a p)"
  unfolding list_elem_def shell_word_def
  by (auto dest!: cidr_text_chars addr_char_word)

lemma dotted_list_elem [simp]: "list_elem (dotted a)"
  unfolding list_elem_def shell_word_def
  by (auto dest!: dotted_chars simp: digit_word_char)

lemma asio_dotted:
  "asio_documented A \<Longrightarrow> address_v4_to_string A a = dotted a"
  "asio_documented A \<Longrightarrow> make_address_v4 A (dotted a) = Some a"
  "asio_documented A \<Longrightarrow> network_v4_to_string A n = cidr_text (net_address n) (prefix_length n)"
  "asio_documented A \<Longrightarrow> p \<le> 32 \<Longrightarrow>
     make_network_v4 A (cidr_text a p) = Some \<lparr>net_address = a, prefix_length = p\<rparr>"
  by (simp_all add: asio_documented_def)

subsection \<open>A concrete instance\<close>

definition undotted :: "string \<Rightarrow> 32 word" where
  "undotted s = of_nat (foldl (\<lambda>acc part. 256 * acc + undec part) 0 (split s (CHR ''.'')))"

definition demo_asio :: asio where
  "demo_asio = \<lparr>
     make_network_v4 = (\<lambda>s. case split s (CHR ''/'') of
        [a, p] \<Rightarrow> Some \<lparr>net_address = undotted a, prefix_length = undec p\<rparr> | _ \<Rightarrow> None),
     make_network_v6 = (\<lambda>s. Some s),
     make_address_v4 = (\<lambda>s. Some (undotted s)),
     make_address_v6 = (\<lambda>s. None),
     address_v4_to_string = dotted,
     network_v4_to_string = (\<lambda>n. cidr_text (net_address n) (prefix_length n)),
     is_subnet_of_v4 = (\<lambda>n m. prefix_length m < prefix_length n \<and>
       unat (net_address n) div 2 ^ (32 - prefix_length m) = unat (net_address m) div 2 ^ (32 - prefix_length m))\<rparr>"

lemma octets_value:
  assumes "x < (256 :: nat) ^ 4"
  shows "256 * (256 * (256 * (x div 256 ^ 3 mod 256) + x div 256 ^ 2 mod 256) + x div 256 ^ 1 mod 256)
    + x div 256 ^ 0 mod 256 = x"
proof -
  have "x div 256 ^ 3 mod 256 = x div 256 ^ 3" using assms by (simp add: div_less_iff_less_mult)
  moreover have "256 * (x div 256 ^ 3) + x div 256 ^ 2 mod 256 = x div 256 ^ 2"
    using mult_div_mod_eq [of 256 "x div 256 ^ 2"] by (simp add: div_mult2_eq [symmetric])
  moreover have "256 * (x div 256 ^ 2) + x div 256 ^ 1 mod 256 = x div 256 ^ 1"
    using mult_div_mod_eq [of 256 "x div 256 ^ 1"] by (simp add: div_mult2_eq [symmetric])
  moreover have "256 * (x div 256 ^ 1) + x div 256 ^ 0 mod 256 = x"
    using mult_div_mod_eq [of 256 x] by simp
  ultimately show ?thesis by simp
qed

lemma undotted_dotted: "undotted (dotted a) = a"
proof -
  have "unat a < 2 ^ LENGTH(32)" by (rule unsigned_less)
  then have "unat a < 256 ^ 4" by simp
  then have "unat a div 16777216 mod 256 = unat a div 16777216"
    by (simp add: div_less_iff_less_mult)
  with octets_value [OF \<open>unat a < 256 ^ 4\<close>]
  have "foldl (\<lambda>acc part. 256 * acc + undec part) 0 (split (dotted a) (CHR ''.'')) = unat a"
    by (simp add: dotted_def split_sep split_single octet_def)
  then show ?thesis by (simp add: undotted_def)
qed

lemma demo_asio_documented: "asio_documented demo_asio"
  by (simp add: asio_documented_def demo_asio_def undotted_dotted cidr_text_def split_sep split_single)

lemma dotted_inject: "dotted a = dotted b \<longleftrightarrow> a = b"
  by (metis undotted_dotted)

lemma cidr_text_inject: "cidr_text a p = cidr_text b q \<longleftrightarrow> a = b \<and> p = q"
  by (simp add: cidr_text_def append_sep_inject dotted_inject)

subsection \<open>The regular expressions accept printed addresses\<close>

lemma takeWhile_dec: "takeWhile is_digit (dec n) = dec n"
  by (simp add: dec_all_digits takeWhile_eq_all_conv)

lemma eat_some_dec: "s = [] \<or> \<not> is_digit (hd s) \<Longrightarrow> eat_some is_digit (dec n @ s) = Some s"
  by (cases s) (auto simp: eat_some_def takeWhile_append2 dropWhile_append2 takeWhile_dec dec_all_digits
      dropWhile_eq_Nil_conv)

lemma match_IPv4_cidr_text: "match_IPv4_REGEX (cidr_text a p)"
  using eat_some_dec [of "[]" p]
  by (simp add: match_IPv4_REGEX_def cidr_text_def dotted_def eat_some_dec)

lemma stoi_dec: "n < 2 ^ 31 \<Longrightarrow> stoi (dec n) = Some (int n)"
proof -
  assume n: "n < 2 ^ 31"
  obtain c cs where d: "dec n = c # cs" using dec_not_Nil by (cases "dec n") auto
  have c: "is_digit c" using dec_all_digits [of n] d by simp
  then have "\<not> is_space c" "c \<noteq> CHR ''-''" "c \<noteq> CHR ''+''" by (auto simp: is_digit_def is_space_def)
  then have "dropWhile is_space (dec n) = dec n" "hd (dec n) \<noteq> CHR ''-''" "hd (dec n) \<noteq> CHR ''+''"
    using d by simp_all
  with n show ?thesis by (simp add: stoi_def Let_def takeWhile_dec)
qed

subsection \<open>Addr and Subnet on printed addresses\<close>

lemma Addr_cidr_text:
  assumes "asio_documented A" "p \<le> 32"
  shows "Addr A (cidr_text a p) =
    \<lparr>address_v4 = a, address_v6 = [], addr_version = IPv4, addr_prefix = Some (of_nat p)\<rparr>"
  using assms match_IPv4_cidr_text [of a p]
  by (simp add: Addr_def addr_parse_def cidr_text_def stoi_dec asio_dotted)

lemma Addr_dotted:
  assumes "asio_documented A"
  shows "Addr A (dotted a) =
    \<lparr>address_v4 = a, address_v6 = [], addr_version = IPv4, addr_prefix = Some 32\<rparr>"
  using assms match_IPv4_cidr_text [of a 32]
  by (simp add: Addr_def addr_parse_def cidr_text_def asio_dotted MAX_PREFIX_IPV4_def)

lemma subnet_init_cidr_text:
  assumes "asio_documented A" "p \<le> 32"
  shows "subnet_init A (cidr_text a p) s =
    (Inr (), s\<lparr>subnet_version := IPv4, subnet_v4 := \<lparr>net_address = a, prefix_length = p\<rparr>\<rparr>)"
  using assms by (simp add: subnet_init_def match_IPv4_cidr_text asio_dotted)

definition v4_subnet :: "32 word \<Rightarrow> nat \<Rightarrow> subnet" where
  "v4_subnet net p = new_subnet\<lparr>subnet_version := IPv4, subnet_v4 := \<lparr>net_address = net, prefix_length = p\<rparr>\<rparr>"

lemma v4_subnet_init:
  "asio_documented A \<Longrightarrow> p \<le> 32 \<Longrightarrow> subnet_init A (cidr_text net p) new_subnet = (Inr (), v4_subnet net p)"
  by (simp add: subnet_init_cidr_text v4_subnet_def)

lemma v4_subnet_simps [simp]:
  "checkIpv6 (v4_subnet net p) = Inr ()" "net_address (subnet_v4 (v4_subnet net p)) = net"
  "prefix_length (subnet_v4 (v4_subnet net p)) = p"
  by (simp_all add: checkIpv6_def v4_subnet_def)

lemma generateIp_v4:
  assumes "asio_documented A" "p < 32" "0 < i" "i < 2 ^ 32"
  shows "generateIp A (v4_subnet net p) (of_nat i) = Inr (cidr_text (net + of_nat i) p)"
proof -
  have "unat (of_nat i :: 32 word) = i" using assms(4) by (simp add: unat_of_nat)
  then have "\<not> (of_nat i :: 32 word) < 1"
    using assms(3) by (simp add: word_less_nat_alt)
  moreover have "unat (of_nat p :: 32 word) = p" using assms(2) by (simp add: unat_of_nat)
  then have "(of_nat p :: 32 word) \<noteq> MAX_PREFIX_IPV4"
    using assms(2) by (auto simp: MAX_PREFIX_IPV4_def)
  ultimately show ?thesis
    using assms(1) by (simp add: generateIp_def generateIpImpl_def asio_dotted cidr_text_def)
qed

lemma unat_prefix_diff: "p \<le> 32 \<Longrightarrow> unat (32 - of_nat p :: 32 word) = 32 - p"
proof -
  assume p: "p \<le> 32"
  then have "unat (of_nat p :: 32 word) = p" by (simp add: unat_of_nat)
  moreover from this p have "(of_nat p :: 32 word) \<le> 32" by (simp add: word_le_nat_alt)
  ultimately show ?thesis by (simp add: unat_sub)
qed

lemma getMaxHosts_v4:
  assumes "p \<le> 32"
  shows "getMaxHosts (v4_subnet net p) =
    (if p = 32 then Inl (Ohno_exception ''New prefix(32) must be larger than current prefix(32)'')
     else if p = 0 then Inl Undefined_behaviour else Inr (2 ^ (32 - p)))"
proof -
  have "unat (of_nat p :: 32 word) = p" using assms by (simp add: unat_of_nat)
  then have le: "(32 :: 32 word) \<le> of_nat p \<longleftrightarrow> p = 32"
    using assms by (auto simp: word_le_nat_alt)
  have "dec 32 = ''32''" by code_simp
  with assms show ?thesis
    by (auto simp: getMaxHosts_def getMaxSubnetsFromCidr_def MAX_PREFIX_IPV4_def Let_def le
        unat_prefix_diff push_bit_eq_mult)
qed

lemma unat_pow2: "k < 32 \<Longrightarrow> unat (2 ^ k :: 32 word) = 2 ^ k"
proof -
  assume "k < 32"
  then have "(2 :: nat) ^ k < 2 ^ 32" by (intro power_strict_increasing) simp_all
  then show ?thesis
    using unat_of_nat [of "2 ^ k", where ?'a = 32] by (simp add: take_bit_eq_mod)
qed

text \<open>The addresses of a network whose host bits are zero.\<close>

definition canonical :: "32 word \<Rightarrow> nat \<Rightarrow> bool" where
  "canonical net p \<longleftrightarrow> p \<le> 32 \<and> 2 ^ (32 - p) dvd unat net"

lemma host_value:
  assumes "canonical net p" "i < 2 ^ (32 - p)"
  shows "unat (net + of_nat i) = unat net + i"
proof -
  let ?b = "2 ^ (32 - p) :: nat"
  obtain k where k: "unat net = ?b * k" using assms(1) by (auto simp: canonical_def)
  have "p \<le> 32" using assms(1) by (simp add: canonical_def)
  then have b: "?b * 2 ^ p = 2 ^ 32" by (simp flip: power_add)
  have "unat net < 2 ^ LENGTH(32)" by (rule unsigned_less)
  then have "?b * k < ?b * 2 ^ p" using k b by simp
  then have "Suc k \<le> 2 ^ p" by simp
  then have "?b * Suc k \<le> ?b * 2 ^ p" by (rule mult_le_mono2)
  then have "unat net + ?b \<le> 2 ^ 32" unfolding b k by simp
  with assms(2) have lt: "unat net + i < 2 ^ 32" by linarith
  then have "unat (of_nat i :: 32 word) = i" by (simp add: unat_of_nat)
  with lt show ?thesis by (simp add: unat_word_ariths)
qed

lemma host_index_less: "i < 2 ^ (32 - p) \<Longrightarrow> (i :: nat) < 2 ^ 32"
proof -
  assume "i < 2 ^ (32 - p)"
  moreover have "(2 :: nat) ^ (32 - p) \<le> 2 ^ 32" by (intro power_increasing) simp_all
  ultimately show ?thesis by linarith
qed

lemma host_same_block:
  assumes "canonical net p" "i < 2 ^ (32 - p)"
  shows "unat (net + of_nat i) div 2 ^ (32 - p) = unat net div 2 ^ (32 - p)"
proof -
  obtain k where "unat net = 2 ^ (32 - p) * k" using assms(1) unfolding canonical_def by blast
  then show ?thesis unfolding host_value [OF assms] using assms(2) by simp
qed

lemma addr_print:
  assumes "asio_documented A" "p \<le> 32"
  shows "addr_getAddrCidr A (Addr A (cidr_text a p)) = Inr (cidr_text a p)"
    "addr_getAddr A (Addr A (cidr_text a p)) = Inr (dotted a)"
    "addr_getAddrCidr A (Addr A (dotted a)) = Inr (cidr_text a 32)"
proof -
  have "unat (of_nat p :: 32 word) = p" using assms(2) by (simp add: unat_of_nat)
  with assms show "addr_getAddrCidr A (Addr A (cidr_text a p)) = Inr (cidr_text a p)"
    "addr_getAddr A (Addr A (cidr_text a p)) = Inr (dotted a)"
    "addr_getAddrCidr A (Addr A (dotted a)) = Inr (cidr_text a 32)"
    by (simp_all add: Addr_cidr_text Addr_dotted addr_getAddrCidr_def addr_getAddr_def addr_getPrefix_def
        asio_dotted) (simp_all add: cidr_text_def)
qed

subsection \<open>Properties\<close>

text \<open>
  C32: An IPv4 address in CIDR form is read into an \<open>Addr\<close> and printed back unchanged, and an
  address without a prefix is printed with the prefix 32.
\<close>

theorem addr_text_roundtrip:
  assumes "asio_documented A" and "p \<le> 32"
  shows "addr_getAddrCidr A (Addr A (cidr_text a p)) = Inr (cidr_text a p) \<and>
    addr_getAddr A (Addr A (cidr_text a p)) = Inr (dotted a) \<and>
    addr_getAddrCidr A (Addr A (dotted a)) = Inr (cidr_text a 32)"
  using addr_print [OF assms] by simp

theorem addr_text_roundtrip_witness:
  "addr_getAddrCidr demo_asio (Addr demo_asio (cidr_text 0x0AF40102 24)) = Inr (cidr_text 0x0AF40102 24)"
  using addr_text_roundtrip [OF demo_asio_documented, of 24 "0x0AF40102"] by simp

text \<open>
  C25: In a subnet whose host bits are zero and that has room for hosts, the address generated for
  an index between 1 and the number of addresses minus 2 is the base address plus the index, with
  the subnet's prefix; it lies in the subnet and is neither its network nor its broadcast
  address, and different indices give different addresses.
\<close>

theorem generated_ip_is_host_address:
  assumes "asio_documented A" and "canonical net p" and "p < 32"
    and "1 \<le> i" and "i + 1 < 2 ^ (32 - p)"
  shows "generateIp A (v4_subnet net p) (of_nat i) = Inr (cidr_text (net + of_nat i) p) \<and>
    unat (net + of_nat i) div 2 ^ (32 - p) = unat net div 2 ^ (32 - p) \<and>
    unat net < unat (net + of_nat i) \<and> unat (net + of_nat i) < unat net + (2 ^ (32 - p) - 1) \<and>
    (\<forall>j < 2 ^ (32 - p). cidr_text (net + of_nat j) p = cidr_text (net + of_nat i) p \<longrightarrow> j = i)"
proof (intro conjI allI impI)
  have i: "i < 2 ^ (32 - p)" using assms(5) by linarith
  note val = host_value [OF assms(2)]
  show "generateIp A (v4_subnet net p) (of_nat i) = Inr (cidr_text (net + of_nat i) p)"
    using assms(1,3,4) host_index_less [OF i] by (intro generateIp_v4) simp_all
  show "unat (net + of_nat i) div 2 ^ (32 - p) = unat net div 2 ^ (32 - p)"
    by (rule host_same_block [OF assms(2) i])
  show "unat net < unat (net + of_nat i)" using assms(4) by (simp add: val [OF i])
  show "unat (net + of_nat i) < unat net + (2 ^ (32 - p) - 1)"
    unfolding val [OF i] using assms(5) by linarith
  fix j assume j: "j < 2 ^ (32 - p)"
    and "cidr_text (net + of_nat j) p = cidr_text (net + of_nat i) p"
  from this(2) have "net + of_nat j = net + of_nat i" unfolding cidr_text_inject by (rule conjunct1)
  then have "unat net + j = unat net + i" unfolding val [OF j, symmetric] val [OF i, symmetric] by (rule arg_cong)
  then show "j = i" by (rule add_left_imp_eq)
qed

theorem generated_ip_is_host_address_witness:
  "generateIp demo_asio (v4_subnet 0x0AF40100 24) (of_nat 254) = Inr (cidr_text (0x0AF40100 + of_nat 254) 24)"
proof -
  have c: "canonical 0x0AF40100 24" by (simp add: canonical_def)
  have "(24 :: nat) < 32" "(1 :: nat) \<le> 254" "(254 :: nat) + 1 < 2 ^ (32 - 24)" by simp_all
  from generated_ip_is_host_address [OF demo_asio_documented c this] show ?thesis by blast
qed

end
