(* ===== verification/Ipam_Facts.thy ===== *)
theory Ipam_Facts
  imports Ipam Subnet_Facts
begin

text \<open>
  What the address manager guarantees, over any ETCD client that fulfils the contract of
  \<open>Etcd_Spec\<close>: the lemmas are proved in the locales \<open>etcd_store\<close> and \<open>etcd_reliable\<close>, and the
  properties at the end follow for the shell client by its interpretations.
\<close>

subsection \<open>Keys and addresses of a node\<close>

definition ip_at :: "32 word \<Rightarrow> nat \<Rightarrow> nat \<Rightarrow> string" where
  "ip_at net p i = cidr_text (net + of_nat i) p"

definition host_ips :: "32 word \<Rightarrow> nat \<Rightarrow> string list" where
  "host_ips net p = map (ip_at net p) [1 ..< 2 ^ (32 - p) - 1]"

text \<open>
  \<open>lease_table m node net p xs\<close>: the node owns the subnet \<open>net/p\<close> and \<open>xs\<close> are the addresses
  recorded as in use, oldest first.
\<close>

definition lease_table :: "(string \<rightharpoonup> string) \<Rightarrow> string \<Rightarrow> 32 word \<Rightarrow> nat \<Rightarrow> string list \<Rightarrow> bool" where
  "lease_table m node net p xs \<longleftrightarrow>
     m (subnet_key node) = Some (cidr_text net p) \<and> holds m (address_key node) xs"

lemma key_shell_word [simp]:
  "shell_word node \<Longrightarrow> shell_word (subnet_key node)"
  "shell_word node \<Longrightarrow> shell_word (address_key node)"
  "shell_word ETCD_KEY_SUBNET"
  by (auto simp: shell_word_def subnet_key_def address_key_def ETCD_KEY_SUBNET_def
      ETCD_KEY_ADDRESS_def word_char_def Let_def)

lemma key_distinct [simp]:
  "subnet_key node \<noteq> address_key node'" "address_key node \<noteq> subnet_key node'"
  "ETCD_KEY_SUBNET \<noteq> subnet_key node" "ETCD_KEY_SUBNET \<noteq> address_key node"
  "subnet_key node \<noteq> ETCD_KEY_SUBNET" "address_key node \<noteq> ETCD_KEY_SUBNET"
  "subnet_key node = subnet_key node' \<longleftrightarrow> node = node'"
  "address_key node = address_key node' \<longleftrightarrow> node = node'"
  by (auto simp: subnet_key_def address_key_def ETCD_KEY_SUBNET_def ETCD_KEY_ADDRESS_def)

lemma list_elem_ip_at [simp]: "list_elem (ip_at net p i)"
  by (simp add: ip_at_def)

lemma stored_cidr_text: "m k = Some (cidr_text net p) \<Longrightarrow> stored_text m k = cidr_text net p"
  using cidr_text_list_elem [of net p]
  by (simp add: stored_text_def list_elem_def strip_newlines_word)

lemma ip_at_inject:
  assumes "canonical net p" "i < 2 ^ (32 - p)" "j < 2 ^ (32 - p)"
  shows "ip_at net p i = ip_at net p j \<longleftrightarrow> i = j"
proof
  assume "ip_at net p i = ip_at net p j"
  then have "net + of_nat i = net + of_nat j" unfolding ip_at_def cidr_text_inject by (rule conjunct1)
  then have "unat net + i = unat net + j"
    unfolding host_value [OF assms(1,2), symmetric] host_value [OF assms(1,3), symmetric] by (rule arg_cong)
  then show "i = j" by (rule add_left_imp_eq)
qed simp

lemma distinct_host_ips:
  assumes "canonical net p"
  shows "distinct (host_ips net p)"
proof -
  have "inj_on (ip_at net p) {..< 2 ^ (32 - p)}"
    unfolding inj_on_def lessThan_iff using ip_at_inject [OF assms] by blast
  then have "inj_on (ip_at net p) (set [1 ..< 2 ^ (32 - p) - 1])"
    by (rule inj_on_subset) (simp only: set_upt, auto)
  then show ?thesis unfolding host_ips_def by (simp only: distinct_map distinct_upt simp_thms)
qed

subsection \<open>The search loop, by index\<close>

lemma of_nat_less_iff32: "i < 2 ^ 32 \<Longrightarrow> n < 2 ^ 32 \<Longrightarrow> (of_nat i :: 32 word) < of_nat n \<longleftrightarrow> i < n"
  by (simp add: word_less_nat_alt unat_of_nat)

lemma allocate_from_step:
  assumes "asio_documented A" "p < 32" "0 < i" "i \<le> n" "n < 2 ^ 32"
  shows "allocate_from E A (v4_subnet net p) node (of_nat i) (of_nat n) w =
     (if i < n
      then (case ipam_isIpAvailable E node (ip_at net p i) w of
                (True, w1) \<Rightarrow>
                  (case ec_append E (address_key node) (ip_at net p i) w1 of
                     (True, w2) \<Rightarrow> (Inr (True, ip_at net p i), w2)
                   | (False, w2) \<Rightarrow> allocate_from E A (v4_subnet net p) node (of_nat (Suc i)) (of_nat n) w2)
              | (False, w1) \<Rightarrow> allocate_from E A (v4_subnet net p) node (of_nat (Suc i)) (of_nat n) w1)
      else (Inr (False, []), w))"
proof -
  have "(of_nat i :: 32 word) < of_nat n \<longleftrightarrow> i < n"
    using assms(4,5) by (intro of_nat_less_iff32) auto
  moreover have "generateIp A (v4_subnet net p) (of_nat i) = Inr (ip_at net p i)"
    using assms generateIp_v4 [of A p i net] by (simp add: ip_at_def)
  moreover have "of_nat (Suc i) = (of_nat i + 1 :: 32 word)" by simp
  ultimately show ?thesis
    by (subst allocate_from.simps) (simp only: sum.case)
qed

lemma allocateIp_run:
  assumes "asio_documented A" "0 < p" "p < 32"
    and "ipam_getSubnet E node w = ((True, cidr_text net p), w1)"
  shows "ipam_allocateIp E A node out w =
    allocate_from E A (v4_subnet net p) node (of_nat 1) (of_nat (2 ^ (32 - p) - 1)) w1"
  using assms by (simp add: ipam_allocateIp_def v4_subnet_init getMaxHosts_v4 of_nat_diff)

subsection \<open>Under the contract of the store\<close>

text \<open>
  \<open>extended m m' k xs hosts ys\<close>: the list under \<open>k\<close> grew from \<open>xs\<close> to \<open>xs @ ys\<close> by new
  distinct elements of \<open>hosts\<close>, and nothing else changed.
\<close>

definition extended :: "(string \<rightharpoonup> string) \<Rightarrow> (string \<rightharpoonup> string) \<Rightarrow> string \<Rightarrow> string list
    \<Rightarrow> string set \<Rightarrow> string list \<Rightarrow> bool" where
  "extended m m' k xs hosts ys \<longleftrightarrow>
     holds m' k (xs @ ys) \<and> distinct ys \<and> set ys \<subseteq> hosts \<and> set ys \<inter> set xs = {} \<and>
     (\<forall>j. j \<noteq> k \<longrightarrow> m' j = m j)"

lemma extended_refl: "holds m k xs \<Longrightarrow> extended m m k xs hosts []"
  by (simp add: extended_def)

lemma extended_Cons:
  assumes "extended m1 m2 k (xs @ [y]) hosts ys" "y \<in> hosts" "y \<notin> set xs" "\<forall>j. j \<noteq> k \<longrightarrow> m1 j = m j"
  shows "extended m m2 k xs hosts (y # ys)"
  using assms by (auto simp: extended_def)

lemma extended_cong: "extended m1 m2 k xs hosts ys \<Longrightarrow> \<forall>j. j \<noteq> k \<longrightarrow> m1 j = m j \<Longrightarrow> extended m m2 k xs hosts ys"
  by (auto simp: extended_def)

context etcd_store
begin

lemma available_law:
  assumes "serves E view" "shell_word node" "holds (view w) (address_key node) xs"
    and "ipam_isIpAvailable E node ip w = (b, w')"
  shows "view w' = view w \<and> (b \<longleftrightarrow> (read_ok E (address_key node) w \<longrightarrow> ip \<notin> set xs))"
proof -
  obtain ok vs w1 where l: "ec_list E (address_key node) [] w = ((ok, vs), w1)" by (metis prod.collapse)
  from list_holds [OF assms(1) key_shell_word(2) [OF assms(2)] assms(3) l] assms(4) l
  show ?thesis by (auto simp: ipam_isIpAvailable_def)
qed

lemma getSubnet_law:
  assumes "serves E view" "shell_word node" "view w (subnet_key node) = Some (cidr_text net p)"
    and "ipam_getSubnet E node w = ((ok, s), w')"
  shows "view w' = view w \<and> (ok \<longrightarrow> s = cidr_text net p) \<and> (ok \<longleftrightarrow> read_ok E (subnet_key node) w)"
proof -
  obtain got v w1 where g: "ec_get E (subnet_key node) [] w = ((got, v), w1)" by (metis prod.collapse)
  from get_law [OF assms(1) key_shell_word(1) [OF assms(2)] g] assms(4) g stored_cidr_text [of "view w", OF assms(3)]
  show ?thesis by (auto simp: ipam_getSubnet_def)
qed

text \<open>One round of the loop on an address that is tried.\<close>

lemma try_append:
  assumes "serves E view" "shell_word node" "holds (view w) (address_key node) xs"
    and "read_ok E (address_key node) w" and "list_elem ip" "ip \<in> hosts" "ip \<notin> set xs"
    and "ec_append E (address_key node) ip w = (ok, w')"
  shows "extended (view w) (view w') (address_key node) xs hosts [ip] \<or>
    \<not> ok \<and> extended (view w) (view w') (address_key node) xs hosts []"
  using append_law [OF assms(1) key_shell_word(2) [OF assms(2)] assms(5,3,8)] assms(3,4,6,7)
  by (auto simp: extended_def)

lemma allocate_from_safe:
  assumes "serves E view" "asio_documented A" "shell_word node" "p < 32"
    and reads: "\<And>w. read_ok E (address_key node) w"
    and "0 < i" "i \<le> n" "n < 2 ^ 32" "holds (view w) (address_key node) xs"
    and hosts: "ip_at net p ` {i ..< n} \<subseteq> hosts"
    and "allocate_from E A (v4_subnet net p) node (of_nat i) (of_nat n) w = (r, w')"
  shows "\<exists>ys. extended (view w) (view w') (address_key node) xs hosts ys \<and>
    (r = Inr (False, []) \<or> (\<exists>ip. r = Inr (True, ip) \<and> ys \<noteq> [] \<and> last ys = ip))"
  using assms(6-)
proof (induction "n - i" arbitrary: i w xs)
  case 0
  then have "i = n" by simp
  with 0 allocate_from_step [of A p i n E net node w] assms(2,4)
  show ?case by (auto intro!: exI [of _ "[]"] extended_refl)
next
  case (Suc d)
  let ?k = "address_key node" and ?ip = "ip_at net p i"
  have i: "i < n" "d = n - Suc i" "Suc i \<le> n" "0 < Suc i" using Suc.hyps(2) by simp_all
  have hs: "ip_at net p ` {Suc i ..< n} \<subseteq> hosts" using Suc.prems(5) by auto
  note IH = Suc.hyps(1) [OF i(2) i(4) i(3) Suc.prems(3) _ hs]
  have ip: "?ip \<in> hosts" using i(1) Suc.prems(5) by auto
  obtain b w1 where av: "ipam_isIpAvailable E node ?ip w = (b, w1)" by (metis prod.collapse)
  from available_law [OF assms(1,3) Suc.prems(4) av] reads
  have v1: "view w1 = view w" and b: "b \<longleftrightarrow> ?ip \<notin> set xs" by auto
  have h1: "holds (view w1) ?k xs" using Suc.prems(4) v1 by simp
  note step = allocate_from_step [OF assms(2,4) Suc.prems(1,2,3), of E net node w]
  show ?case
  proof (cases b)
    case False
    with step av i(1) Suc.prems(6)
    have "allocate_from E A (v4_subnet net p) node (of_nat (Suc i)) (of_nat n) w1 = (r, w')" by simp
    from IH [OF h1 this] v1 show ?thesis by auto
  next
    case True
    obtain ok w2 where ap: "ec_append E ?k ?ip w1 = (ok, w2)" by (metis prod.collapse)
    from True b have new: "?ip \<notin> set xs" by simp
    note tried = try_append [OF assms(1,3) h1 reads list_elem_ip_at ip new ap, unfolded v1]
    show ?thesis
    proof (cases ok)
      case True
      with step av \<open>b\<close> ap i(1) Suc.prems(6) have "r = Inr (True, ?ip)" "w' = w2" by simp_all
      with tried True show ?thesis by (intro exI [of _ "[?ip]"]) auto
    next
      case False
      with step av \<open>b\<close> ap i(1) Suc.prems(6)
      have rest: "allocate_from E A (v4_subnet net p) node (of_nat (Suc i)) (of_nat n) w2 = (r, w')" by simp
      from tried show ?thesis
      proof (elim disjE conjE)
        assume e: "extended (view w) (view w2) ?k xs hosts [?ip]"
        then have "holds (view w2) ?k (xs @ [?ip])" and o: "\<forall>j. j \<noteq> ?k \<longrightarrow> view w2 j = view w j"
          by (simp_all add: extended_def)
        from IH [OF this(1) rest] obtain ys where
          "extended (view w2) (view w') ?k (xs @ [?ip]) hosts ys" and
          r: "r = Inr (False, []) \<or> (\<exists>ip. r = Inr (True, ip) \<and> ys \<noteq> [] \<and> last ys = ip)" by blast
        from extended_Cons [OF this(1) ip new o] r show ?thesis
          by (intro exI [of _ "?ip # ys"]) auto
      next
        assume e: "extended (view w) (view w2) ?k xs hosts []"
        then have "holds (view w2) ?k xs" and o: "\<forall>j. j \<noteq> ?k \<longrightarrow> view w2 j = view w j"
          by (simp_all add: extended_def)
        from IH [OF this(1) rest] extended_cong [OF _ o] show ?thesis by blast
      qed
    qed
  qed
qed

lemma allocateIp_safe:
  assumes "serves E view" "asio_documented A" "shell_word node" "0 < p" "p < 32"
    and "\<And>w. read_ok E (address_key node) w"
    and "lease_table (view w) node net p xs" "ipam_allocateIp E A node out w = (r, w')"
  shows "\<exists>ys. extended (view w) (view w') (address_key node) xs (set (host_ips net p)) ys \<and>
    (r = Inr (False, out) \<or> r = Inr (False, []) \<or> (\<exists>ip. r = Inr (True, ip) \<and> ys \<noteq> [] \<and> last ys = ip))"
proof -
  from assms(7) have sk: "view w (subnet_key node) = Some (cidr_text net p)"
    and h: "holds (view w) (address_key node) xs" by (simp_all add: lease_table_def)
  obtain ok s w1 where g: "ipam_getSubnet E node w = ((ok, s), w1)" by (metis prod.collapse)
  from getSubnet_law [OF assms(1,3) sk g] have v1: "view w1 = view w" and s: "ok \<longrightarrow> s = cidr_text net p"
    by simp_all
  show ?thesis
  proof (cases ok)
    case False
    with assms(8) g have "r = Inr (False, out)" "w' = w1" by (simp_all add: ipam_allocateIp_def)
    with v1 extended_refl [OF h] show ?thesis by auto
  next
    case True
    with s g have "ipam_getSubnet E node w = ((True, cidr_text net p), w1)" by simp
    from allocateIp_run [OF assms(2,4,5) this, of out] assms(8)
    have run: "allocate_from E A (v4_subnet net p) node (of_nat 1) (of_nat (2 ^ (32 - p) - 1)) w1 = (r, w')"
      by simp
    have n: "(1 :: nat) \<le> 2 ^ (32 - p) - 1" "(2 :: nat) ^ (32 - p) - 1 < 2 ^ 32"
      using assms(4,5) one_less_power [of "2 :: nat" "32 - p"]
        power_strict_increasing [of "32 - p" 32 "2 :: nat"] by simp_all
    have "ip_at net p ` {1 ..< 2 ^ (32 - p) - 1} \<subseteq> set (host_ips net p)"
      unfolding host_ips_def set_map set_upt by (rule subset_refl)
    from allocate_from_safe [OF assms(1-3,5,6) zero_less_one n h [folded v1] this run]
    show ?thesis unfolding v1 by blast
  qed
qed

end

text \<open>With a cluster that answers: the loop finds the first address that is not in the list.\<close>

definition first_free :: "string list \<Rightarrow> string list \<Rightarrow> string option" where
  "first_free candidates taken = find (\<lambda>c. c \<notin> set taken) candidates"

definition allocated :: "(string \<rightharpoonup> string) \<Rightarrow> string \<Rightarrow> string list \<Rightarrow> string option
    \<Rightarrow> (bool \<times> string) result \<Rightarrow> (string \<rightharpoonup> string) \<Rightarrow> bool" where
  "allocated m k xs choice r m' \<longleftrightarrow>
     (case choice of
        None \<Rightarrow> r = Inr (False, []) \<and> m' = m
      | Some ip \<Rightarrow> r = Inr (True, ip) \<and> holds m' k (xs @ [ip]) \<and> (\<forall>j. j \<noteq> k \<longrightarrow> m' j = m j))"

context etcd_reliable
begin

lemma allocate_from_first:
  assumes "serves E view" "reliable E" "asio_documented A" "shell_word node" "p < 32"
    and "0 < i" "i \<le> n" "n < 2 ^ 32" "holds (view w) (address_key node) xs"
    and "allocate_from E A (v4_subnet net p) node (of_nat i) (of_nat n) w = (r, w')"
  shows "allocated (view w) (address_key node) xs (first_free (map (ip_at net p) [i ..< n]) xs) r (view w')"
  using assms(6-)
proof (induction "n - i" arbitrary: i w)
  case 0
  then have "i = n" by simp
  with 0 allocate_from_step [of A p i n E net node w] assms(3,5)
  show ?case by (auto simp: first_free_def allocated_def)
next
  case (Suc d)
  let ?k = "address_key node" and ?ip = "ip_at net p i"
  have i: "i < n" "d = n - Suc i" "Suc i \<le> n" "0 < Suc i" using Suc.hyps(2) by simp_all
  obtain b w1 where av: "ipam_isIpAvailable E node ?ip w = (b, w1)" by (metis prod.collapse)
  from available_law [OF assms(1,4) Suc.prems(4) av] up_read [OF assms(2)]
  have v1: "view w1 = view w" and b: "b \<longleftrightarrow> ?ip \<notin> set xs" by auto
  have h1: "holds (view w1) ?k xs" using Suc.prems(4) v1 by simp
  note step = allocate_from_step [OF assms(3,5) Suc.prems(1,2,3), of E net node w]
  show ?case
  proof (cases b)
    case False
    with step av i(1) Suc.prems(5)
    have rest: "allocate_from E A (v4_subnet net p) node (of_nat (Suc i)) (of_nat n) w1 = (r, w')" by simp
    have "first_free (map (ip_at net p) [i ..< n]) xs = first_free (map (ip_at net p) [Suc i ..< n]) xs"
      using False b i(1) by (simp add: first_free_def upt_conv_Cons)
    with Suc.hyps(1) [OF i(2) i(4) i(3) Suc.prems(3) h1 rest] v1 show ?thesis by simp
  next
    case True
    obtain ok w2 where ap: "ec_append E ?k ?ip w1 = (ok, w2)" by (metis prod.collapse)
    with up_append [OF assms(2), of ?k ?ip w1] have ok by simp
    with step av \<open>b\<close> ap i(1) Suc.prems(5) have r: "r = Inr (True, ?ip)" "w' = w2" by simp_all
    have "first_free (map (ip_at net p) [i ..< n]) xs = Some ?ip"
      using \<open>b\<close> b i(1) by (simp add: first_free_def upt_conv_Cons)
    with append_law [OF assms(1) key_shell_word(2) [OF assms(4)] list_elem_ip_at h1 ap]
      up_read [OF assms(2), of ?k w1] \<open>ok\<close> r v1
    show ?thesis by (simp add: allocated_def)
  qed
qed

lemma allocateIp_first:
  assumes "serves E view" "reliable E" "asio_documented A" "shell_word node" "0 < p" "p < 32"
    and "lease_table (view w) node net p xs" "ipam_allocateIp E A node out w = (r, w')"
  shows "allocated (view w) (address_key node) xs (first_free (host_ips net p) xs) r (view w')"
proof -
  from assms(7) have sk: "view w (subnet_key node) = Some (cidr_text net p)"
    and h: "holds (view w) (address_key node) xs" by (simp_all add: lease_table_def)
  obtain ok s w1 where g: "ipam_getSubnet E node w = ((ok, s), w1)" by (metis prod.collapse)
  from getSubnet_law [OF assms(1,4) sk g] up_read [OF assms(2)]
  have v1: "view w1 = view w" and s: "ok" "s = cidr_text net p" by simp_all
  with g have "ipam_getSubnet E node w = ((True, cidr_text net p), w1)" by simp
  from allocateIp_run [OF assms(3,5,6) this, of out] assms(8)
  have run: "allocate_from E A (v4_subnet net p) node (of_nat 1) (of_nat (2 ^ (32 - p) - 1)) w1 = (r, w')"
    by simp
  have n: "(1 :: nat) \<le> 2 ^ (32 - p) - 1" "(2 :: nat) ^ (32 - p) - 1 < 2 ^ 32"
    using assms(5,6) one_less_power [of "2 :: nat" "32 - p"]
      power_strict_increasing [of "32 - p" 32 "2 :: nat"] by simp_all
  from allocate_from_first [OF assms(1-4,6) zero_less_one n h [folded v1] run]
  show ?thesis unfolding v1 host_ips_def .
qed

lemma allocateSubnet_up:
  assumes "serves E view" "reliable E" "shell_word node"
    and "\<And>w. view (snd (ct_node center node w)) = view w \<and> fst (ct_node center node w) = info"
    and "list_elem (pod_cidr info)" "holds (view w) ETCD_KEY_SUBNET xs" "view w (subnet_key node) = None"
  shows "\<exists>w'. ipam_allocateSubnet E center node w = ((True, pod_cidr info), w') \<and>
    holds (view w') ETCD_KEY_SUBNET (xs @ [pod_cidr info]) \<and> view w' (subnet_key node) = Some (pod_cidr info) \<and>
    (\<forall>j. j \<notin> {ETCD_KEY_SUBNET, subnet_key node} \<longrightarrow> view w' j = view w j)"
proof -
  let ?s = "pod_cidr info" and ?k = "subnet_key node"
  from get_up [OF assms(1,2) key_shell_word(1) [OF assms(3)], of "[]" w] assms(7) obtain w1 where
    1: "ec_get E ?k [] w = ((True, []), w1)" "view w1 = view w" by (auto simp: stored_text_def)
  obtain w2 where 2: "ct_node center node w1 = (info, w2)" "view w2 = view w"
    using assms(4) [of w1] 1(2) by (metis prod.collapse)
  have "holds (view w2) ETCD_KEY_SUBNET xs" using assms(6) 2(2) by simp
  from append_up [OF assms(1,2) key_shell_word(3) assms(5) this] obtain w3 where
    3: "ec_append E ETCD_KEY_SUBNET ?s w2 = (True, w3)" "holds (view w3) ETCD_KEY_SUBNET (xs @ [?s])"
      "\<forall>j. j \<noteq> ETCD_KEY_SUBNET \<longrightarrow> view w3 j = view w2 j" by blast
  have "shell_word ?s" using assms(5) by (simp add: list_elem_def)
  from put_up [OF assms(1,2) key_shell_word(1) [OF assms(3)] this, of w3] obtain w4 where
    4: "ec_put E ?k ?s w3 = (True, w4)" "view w4 = (view w3)(?k \<mapsto> ?s)" by blast
  from 1 2 3 4 show ?thesis by (simp add: ipam_allocateSubnet_def ipam_getSubnet_def holds_def)
qed

lemma allocateSubnet_again:
  assumes "serves E view" "reliable E" "shell_word node" "view w (subnet_key node) = Some s" "shell_word s"
  shows "\<exists>w'. ipam_allocateSubnet E center node w = ((True, s), w') \<and> view w' = view w"
  using get_up [OF assms(1,2) key_shell_word(1) [OF assms(3)], of "[]" w] assms(4,5) strip_newlines_word [OF assms(5)]
  by (auto simp: ipam_allocateSubnet_def ipam_getSubnet_def stored_text_def shell_word_def)

lemma releaseSubnet_up:
  assumes "serves E view" "reliable E" "shell_word node" "holds (view w) ETCD_KEY_SUBNET xs"
  shows "\<exists>w'. ipam_releaseSubnet E node s w = (True, w') \<and> holds (view w') ETCD_KEY_SUBNET (removeAll s xs) \<and>
    view w' (subnet_key node) = None \<and> (\<forall>j. j \<notin> {ETCD_KEY_SUBNET, subnet_key node} \<longrightarrow> view w' j = view w j)"
proof -
  from del_up [OF assms(1,2) key_shell_word(1) [OF assms(3)], of w] obtain w1 where
    1: "ec_del E (subnet_key node) w = (True, w1)" "view w1 = (view w)(subnet_key node := None)" by blast
  have "holds (view w1) ETCD_KEY_SUBNET xs" using assms(4) 1(2) by (simp add: holds_def)
  from del_value_up [OF assms(1,2) key_shell_word(3) this, of s] 1 show ?thesis
    by (auto simp: ipam_releaseSubnet_def)
qed

lemma releaseIp_removes:
  assumes "serves E view" "reliable E" "shell_word node" "lease_table (view w) node net p xs"
    and "ipam_releaseIp E node ip w = (ok, w')"
  shows "ok \<and> lease_table (view w') node net p (removeAll ip xs) \<and>
    (\<forall>j. j \<noteq> address_key node \<longrightarrow> view w' j = view w j)"
  using del_value_law [OF assms(1) key_shell_word(2) [OF assms(3)], of w xs ip ok w'] assms(4,5)
    up_del_value [OF assms(2), of "address_key node" ip w]
  by (auto simp: lease_table_def ipam_releaseIp_def)

end

subsection \<open>Two processes\<close>

text \<open>
  A client between whose reads and appends another process gets its turn: \<open>act\<close> is all it does to the
  world. Only what happens before an append matters here.
\<close>

definition meanwhile :: "('w \<Rightarrow> 'w) \<Rightarrow> 'w etcd_client_if \<Rightarrow> 'w etcd_client_if" where
  "meanwhile act E = E\<lparr>ec_append := (\<lambda>k v w. ec_append E k v (act w))\<rparr>"

lemma meanwhile_reads:
  "ipam_isIpAvailable (meanwhile act E) node ip w = ipam_isIpAvailable E node ip w"
  "ipam_getSubnet (meanwhile act E) node w = ipam_getSubnet E node w"
  "ec_append (meanwhile act E) k v w = ec_append E k v (act w)"
  by (simp_all add: meanwhile_def ipam_isIpAvailable_def ipam_getSubnet_def)

context etcd_reliable
begin

text \<open>The search settles on the first free address before the other process gets its turn.\<close>

lemma allocate_from_meanwhile:
  assumes "serves E view" "reliable E" "asio_documented A" "shell_word node" "p < 32"
    and "0 < i" "i \<le> n" "n < 2 ^ 32" "holds (view w) (address_key node) xs"
    and "first_free (map (ip_at net p) [i ..< n]) xs = Some ip"
  shows "\<exists>w1. view w1 = view w \<and> (\<forall>w2. ec_append E (address_key node) ip (act w1) = (True, w2) \<longrightarrow>
    allocate_from (meanwhile act E) A (v4_subnet net p) node (of_nat i) (of_nat n) w = (Inr (True, ip), w2))"
  using assms(6-)
proof (induction "n - i" arbitrary: i w)
  case 0
  then show ?case by (simp add: first_free_def)
next
  case (Suc d)
  let ?ip = "ip_at net p i"
  have i: "i < n" "d = n - Suc i" "Suc i \<le> n" "0 < Suc i" using Suc.hyps(2) by simp_all
  obtain b w1 where av: "ipam_isIpAvailable E node ?ip w = (b, w1)" by (metis prod.collapse)
  from available_law [OF assms(1,4) Suc.prems(4) av] up_read [OF assms(2)]
  have v1: "view w1 = view w" and b: "b \<longleftrightarrow> ?ip \<notin> set xs" by auto
  note step = allocate_from_step [OF assms(3,5) Suc.prems(1,2,3), of "meanwhile act E" net node w, unfolded meanwhile_reads]
  show ?case
  proof (cases b)
    case False
    have "first_free (map (ip_at net p) [i ..< n]) xs = first_free (map (ip_at net p) [Suc i ..< n]) xs"
      using False b i(1) by (simp add: first_free_def upt_conv_Cons)
    with Suc.prems(4,5) v1 Suc.hyps(1) [OF i(2) i(4) i(3) Suc.prems(3), of w1] step av False i(1) show ?thesis by simp
  next
    case True
    have "ip = ?ip" using Suc.prems(5) True b i(1) by (simp add: first_free_def upt_conv_Cons)
    with step av True i(1) v1 show ?thesis by (intro exI [of _ w1]) simp
  qed
qed

lemma allocateIp_meanwhile:
  assumes "serves E view" "reliable E" "asio_documented A" "shell_word node" "0 < p" "p < 32"
    and "lease_table (view w) node net p xs" "first_free (host_ips net p) xs = Some ip"
  shows "\<exists>w1. view w1 = view w \<and> (\<forall>w2. ec_append E (address_key node) ip (act w1) = (True, w2) \<longrightarrow>
    ipam_allocateIp (meanwhile act E) A node out w = (Inr (True, ip), w2))"
proof -
  from assms(7) have sk: "view w (subnet_key node) = Some (cidr_text net p)"
    and h: "holds (view w) (address_key node) xs" by (simp_all add: lease_table_def)
  obtain ok s w0 where g: "ipam_getSubnet E node w = ((ok, s), w0)" by (metis prod.collapse)
  from getSubnet_law [OF assms(1,4) sk g] up_read [OF assms(2)]
  have v0: "view w0 = view w" and s: "ok" "s = cidr_text net p" by simp_all
  with g have "ipam_getSubnet (meanwhile act E) node w = ((True, cidr_text net p), w0)" by (simp add: meanwhile_reads)
  note run = allocateIp_run [OF assms(3,5,6) this, of out]
  have n: "(1 :: nat) \<le> 2 ^ (32 - p) - 1" "(2 :: nat) ^ (32 - p) - 1 < 2 ^ 32"
    using assms(5,6) one_less_power [of "2 :: nat" "32 - p"]
      power_strict_increasing [of "32 - p" 32 "2 :: nat"] by simp_all
  show ?thesis
    unfolding run v0 [symmetric]
    by (rule allocate_from_meanwhile [OF assms(1-4,6) zero_less_one n h [folded v0] assms(8) [unfolded host_ips_def]])
qed

end

subsection \<open>Leases over time\<close>

text \<open>
  The node's pods over any sequence of CNI calls: the state is the world and the addresses that
  pods hold. An allocation that is granted adds one, a refused or throwing one adds none, and a pod
  that gives its address back stops using it whether or not ETCD could be updated.
\<close>

inductive lease_step :: "'w etcd_client_if \<Rightarrow> asio \<Rightarrow> string \<Rightarrow> 'w \<times> string list \<Rightarrow> 'w \<times> string list \<Rightarrow> bool"
  for E A node where
  granted: "ipam_allocateIp E A node out w = (Inr (True, ip), w') \<Longrightarrow>
     lease_step E A node (w, held) (w', held @ [ip])"
| refused: "ipam_allocateIp E A node out w = (r, w') \<Longrightarrow> \<forall>ip. r \<noteq> Inr (True, ip) \<Longrightarrow>
     lease_step E A node (w, held) (w', held)"
| returned: "ip \<in> set held \<Longrightarrow> ipam_releaseIp E node ip w = (ok, w') \<Longrightarrow>
     lease_step E A node (w, held) (w', removeAll ip held)"

definition lease_inv :: "('w \<Rightarrow> string \<rightharpoonup> string) \<Rightarrow> string \<Rightarrow> 32 word \<Rightarrow> nat \<Rightarrow> 'w \<times> string list \<Rightarrow> bool" where
  "lease_inv view node net p s \<longleftrightarrow>
     (\<exists>xs. lease_table (view (fst s)) node net p xs \<and> distinct xs \<and> set xs \<subseteq> set (host_ips net p) \<and>
       distinct (snd s) \<and> set (snd s) \<subseteq> set xs)"

lemma lease_table_extended:
  "lease_table m node net p xs \<Longrightarrow> extended m m' (address_key node) xs hosts ys \<Longrightarrow>
   lease_table m' node net p (xs @ ys)"
  by (simp add: lease_table_def extended_def)

lemma lease_inv_length: "lease_inv view node net p (w, held) \<Longrightarrow> length held \<le> 2 ^ (32 - p) - 2"
proof -
  assume "lease_inv view node net p (w, held)"
  then have "distinct held" "set held \<subseteq> set (host_ips net p)" by (auto simp: lease_inv_def)
  then have "length held \<le> card (set (host_ips net p))"
    by (metis card_mono distinct_card finite_set)
  also have "\<dots> \<le> length (host_ips net p)" by (rule card_length)
  also have "\<dots> = 2 ^ (32 - p) - 2" by (simp add: host_ips_def)
  finally show ?thesis .
qed

context etcd_store
begin

lemma lease_step_inv:
  assumes "serves E view" "asio_documented A" "shell_word node" "0 < p" "p < 32"
    and reads: "\<And>w. read_ok E (address_key node) w"
    and "lease_step E A node s s'" "lease_inv view node net p s"
  shows "lease_inv view node net p s'"
proof -
  from assms(8) obtain xs where xs: "lease_table (view (fst s)) node net p xs" "distinct xs"
    "set xs \<subseteq> set (host_ips net p)" "distinct (snd s)" "set (snd s) \<subseteq> set xs"
    by (auto simp: lease_inv_def)
  note alloc = allocateIp_safe [OF assms(1-5) reads xs(1)]
  from assms(7) show ?thesis
  proof (cases rule: lease_step.cases)
    case (granted out w ip w' held)
    from alloc [of out "Inr (True, ip)" w'] granted obtain ys where
      e: "extended (view w) (view w') (address_key node) xs (set (host_ips net p)) ys"
      and y: "ys \<noteq> []" "last ys = ip" by auto
    then have "ip \<in> set ys" by auto
    with e xs granted show ?thesis
      using lease_table_extended [of "view w" node net p xs "view w'", OF _ e]
      by (auto simp: lease_inv_def extended_def intro!: exI [of _ "xs @ ys"])
  next
    case (refused out w r w' held)
    from alloc [of out r w'] refused obtain ys where
      e: "extended (view w) (view w') (address_key node) xs (set (host_ips net p)) ys" by auto
    with xs refused show ?thesis
      using lease_table_extended [of "view w" node net p xs "view w'", OF _ e]
      by (auto simp: lease_inv_def extended_def intro!: exI [of _ "xs @ ys"])
  next
    case (returned ip held w ok w')
    from del_value_law [OF assms(1) key_shell_word(2) [OF assms(3)], of w xs ip ok w'] xs(1) returned
    have o: "\<forall>j. j \<noteq> address_key node \<longrightarrow> view w' j = view w j" and
      "holds (view w') (address_key node) (removeAll ip xs) \<or> view w' = view w"
      by (auto simp: lease_table_def ipam_releaseIp_def)
    then show ?thesis
    proof (elim disjE)
      assume "holds (view w') (address_key node) (removeAll ip xs)"
      with xs o returned show ?thesis
        by (auto simp: lease_inv_def lease_table_def distinct_removeAll intro!: exI [of _ "removeAll ip xs"])
    next
      assume "view w' = view w"
      with xs returned show ?thesis by (auto simp: lease_inv_def distinct_removeAll intro!: exI [of _ xs])
    qed
  qed
qed

lemma lease_steps_inv:
  assumes "serves E view" "asio_documented A" "shell_word node" "0 < p" "p < 32"
    and "\<And>w. read_ok E (address_key node) w"
    and "(lease_step E A node)\<^sup>*\<^sup>* s s'" "lease_inv view node net p s"
  shows "lease_inv view node net p s'"
  using assms(7,8) by (induction rule: rtranclp_induct) (auto intro: lease_step_inv [OF assms(1-6)])

end

subsection \<open>Properties\<close>

text \<open>
  C15: As long as reads of the node's address list succeed, an allocation never hands out an
  address that the list holds: whatever writes fail on the way (with or without effect), the list
  only grows, by distinct host addresses of the node's subnet that were not in it, a granted
  address is the last of them, no exception is thrown and no other key changes.
\<close>

theorem allocated_ip_is_fresh:
  assumes "shell_serves E view" and "asio_documented A" and "shell_word node"
    and "0 < p" and "p < 32" and "\<And>w. read_ok E (address_key node) w"
    and "lease_table (view w) node net p xs" and "ipam_allocateIp E A node out w = (r, w')"
  shows "\<exists>ys. lease_table (view w') node net p (xs @ ys) \<and> distinct ys \<and>
    set ys \<subseteq> set (host_ips net p) - set xs \<and> (\<forall>j. j \<noteq> address_key node \<longrightarrow> view w' j = view w j) \<and>
    (\<exists>ok ip. r = Inr (ok, ip) \<and> (ok \<longrightarrow> ys \<noteq> [] \<and> last ys = ip))"
proof -
  from etcd_shell.allocateIp_safe [OF assms] obtain ys where
    e: "extended (view w) (view w') (address_key node) xs (set (host_ips net p)) ys" and
    r: "r = Inr (False, out) \<or> r = Inr (False, []) \<or> (\<exists>ip. r = Inr (True, ip) \<and> ys \<noteq> [] \<and> last ys = ip)"
    by blast
  have "\<exists>ok ip. r = Inr (ok, ip) \<and> (ok \<longrightarrow> ys \<noteq> [] \<and> last ys = ip)" using r by blast
  with e lease_table_extended [OF assms(7) e] show ?thesis
    by (intro exI [of _ ys]) (auto simp: extended_def)
qed

text \<open>The state used by the witnesses: one node, a /29 subnet, one address in use.\<close>

definition demo_store :: "string \<rightharpoonup> string" where
  "demo_store = [subnet_key ''n1'' \<mapsto> cidr_text 0x0AF40100 29, address_key ''n1'' \<mapsto> ip_at 0x0AF40100 29 1]"

abbreviation demo_etcd :: "(string \<rightharpoonup> string) etcd_client_if" where
  "demo_etcd \<equiv> etcd_shell_if (\<lambda>_. []) demo_client"

lemma demo_node [simp]: "shell_word ''n1''"
  by (simp add: shell_word_def word_char_def)

lemma demo_store_table: "lease_table demo_store ''n1'' 0x0AF40100 29 [ip_at 0x0AF40100 29 1]"
  by (simp add: lease_table_def demo_store_def holds_def)

lemma demo_read_ok: "read_ok demo_etcd k w"
  by (rule etcd_shell_up.up_read) simp

lemma demo_first_free:
  "first_free (host_ips 0x0AF40100 29) [ip_at 0x0AF40100 29 1] = Some (ip_at 0x0AF40100 29 2)"
proof -
  have "canonical 0x0AF40100 29" by (simp add: canonical_def)
  from ip_at_inject [OF this, of 2 1] have "ip_at 0x0AF40100 29 2 \<noteq> ip_at 0x0AF40100 29 1" by simp
  moreover have "host_ips 0x0AF40100 29 =
      ip_at 0x0AF40100 29 1 # ip_at 0x0AF40100 29 2 # map (ip_at 0x0AF40100 29) [3 ..< 7]"
    by (simp add: host_ips_def upt_conv_Cons eval_nat_numeral)
  ultimately show ?thesis by (simp add: first_free_def)
qed

theorem allocated_ip_is_fresh_witness:
  "\<exists>ys. lease_table (snd (ipam_allocateIp demo_etcd demo_asio ''n1'' [] demo_store)) ''n1'' 0x0AF40100 29
     (ip_at 0x0AF40100 29 1 # ys)"
proof -
  have p: "(0 :: nat) < 29" "(29 :: nat) < 32" by simp_all
  from allocated_ip_is_fresh [where view = "\<lambda>m. m" and w = demo_store, OF demo_if_serves demo_asio_documented
      demo_node p demo_read_ok demo_store_table surjective_pairing, of "[]"]
  show ?thesis by auto
qed

text \<open>
  C4: With a cluster that answers, \<open>allocateIp\<close> implements the abstract allocator: it returns
  the first host address of the node's subnet that the list does not hold and appends exactly that
  one to the list, or returns false and changes nothing when every host address is in use.
\<close>

theorem allocateIp_refines_first_free:
  assumes "shell_serves E view" and "shell_reliable E" and "asio_documented A" and "shell_word node"
    and "0 < p" and "p < 32" and "lease_table (view w) node net p xs"
    and "ipam_allocateIp E A node out w = (r, w')"
  shows "case first_free (host_ips net p) xs of
      None \<Rightarrow> r = Inr (False, []) \<and> view w' = view w
    | Some ip \<Rightarrow> r = Inr (True, ip) \<and> lease_table (view w') node net p (xs @ [ip]) \<and>
        (\<forall>j. j \<noteq> address_key node \<longrightarrow> view w' j = view w j)"
  using etcd_shell_up.allocateIp_first [OF assms] assms(7)
  by (auto simp: allocated_def lease_table_def split: option.splits)

theorem allocateIp_refines_first_free_witness:
  "fst (ipam_allocateIp demo_etcd demo_asio ''n1'' [] demo_store) = Inr (True, ip_at 0x0AF40100 29 2)"
proof -
  have p: "(0 :: nat) < 29" "(29 :: nat) < 32" by simp_all
  from allocateIp_refines_first_free [where view = "\<lambda>m. m" and w = demo_store, OF demo_if_serves
      demo_if_reliable demo_asio_documented demo_node p demo_store_table surjective_pairing]
  show ?thesis unfolding demo_first_free by simp
qed

text \<open>
  C3: Over any sequence of allocations (granted, refused or failing) and releases (also ones whose
  ETCD update fails), as long as reads of the list succeed, no two pods of the node hold the same
  address: the addresses held are distinct, all of them host addresses of the node's subnet
  recorded in ETCD, and at most the size of the subnet minus 2 of them are out.
\<close>

theorem leases_stay_distinct:
  assumes "shell_serves E view" and "asio_documented A" and "shell_word node"
    and "0 < p" and "p < 32" and "\<And>w. read_ok E (address_key node) w"
    and "lease_table (view w0) node net p []"
    and "(lease_step E A node)\<^sup>*\<^sup>* (w0, []) (w, held)"
  shows "distinct held \<and> set held \<subseteq> set (host_ips net p) \<and> length held \<le> 2 ^ (32 - p) - 2 \<and>
    (\<exists>xs. lease_table (view w) node net p xs \<and> set held \<subseteq> set xs)"
proof -
  have "lease_inv view node net p (w0, [])" using assms(7) by (auto simp: lease_inv_def)
  from etcd_shell.lease_steps_inv [OF assms(1-6,8) this] have inv: "lease_inv view node net p (w, held)" .
  from lease_inv_length [OF inv] inv show ?thesis by (auto simp: lease_inv_def)
qed

theorem leases_stay_distinct_witness:
  "\<exists>w. lease_step demo_etcd demo_asio ''n1'' ([subnet_key ''n1'' \<mapsto> cidr_text 0x0AF40100 29], []) (w, [ip_at 0x0AF40100 29 1])
     \<and> distinct [ip_at 0x0AF40100 29 1]"
proof -
  let ?m = "[subnet_key ''n1'' \<mapsto> cidr_text 0x0AF40100 29]"
  have p: "(0 :: nat) < 29" "(29 :: nat) < 32" by simp_all
  have t: "lease_table ?m ''n1'' 0x0AF40100 29 []" by (simp add: lease_table_def holds_def)
  have f: "first_free (host_ips 0x0AF40100 29) [] = Some (ip_at 0x0AF40100 29 1)"
    by (simp add: first_free_def host_ips_def upt_conv_Cons)
  have "fst (ipam_allocateIp demo_etcd demo_asio ''n1'' [] ?m) = Inr (True, ip_at 0x0AF40100 29 1)"
    using etcd_shell_up.allocateIp_first [where view = "\<lambda>m. m" and w = ?m, OF demo_if_serves
      demo_if_reliable demo_asio_documented demo_node p t surjective_pairing]
    unfolding f by (simp add: allocated_def)
  then have st: "lease_step demo_etcd demo_asio ''n1'' (?m, [])
      (snd (ipam_allocateIp demo_etcd demo_asio ''n1'' [] ?m), [] @ [ip_at 0x0AF40100 29 1])"
    by (intro lease_step.granted) (simp add: prod_eq_iff)
  then have sts: "(lease_step demo_etcd demo_asio ''n1'')\<^sup>*\<^sup>* (?m, [])
      (snd (ipam_allocateIp demo_etcd demo_asio ''n1'' [] ?m), [] @ [ip_at 0x0AF40100 29 1])" by blast
  have "distinct ([] @ [ip_at 0x0AF40100 29 1])"
    using leases_stay_distinct [where view = "\<lambda>m. m", OF demo_if_serves demo_asio_documented demo_node p
      demo_read_ok t sts] by (rule conjunct1)
  with st show ?thesis by auto
qed

text \<open>
  C27: Allocating an address and releasing it again, with a cluster that answers, leaves the table
  of the node as it was.
\<close>

theorem allocate_release_roundtrip:
  assumes "shell_serves E view" and "shell_reliable E" and "asio_documented A" and "shell_word node"
    and "0 < p" and "p < 32" and "lease_table (view w) node net p xs"
    and "ipam_allocateIp E A node out w = (Inr (True, ip), w1)"
    and "ipam_releaseIp E node ip w1 = (ok, w2)"
  shows "ok \<and> ip \<in> set (host_ips net p) - set xs \<and> lease_table (view w2) node net p xs"
proof -
  from etcd_shell_up.allocateIp_first [OF assms(1-8)] assms(7)
  have f: "first_free (host_ips net p) xs = Some ip" and t: "lease_table (view w1) node net p (xs @ [ip])"
    by (auto simp: allocated_def lease_table_def split: option.splits)
  from f have ip: "ip \<in> set (host_ips net p)" "ip \<notin> set xs"
    by (auto simp: first_free_def find_Some_iff)
  from etcd_shell_up.releaseIp_removes [OF assms(1,2,4) t assms(9)] ip show ?thesis by auto
qed

theorem allocate_release_roundtrip_witness:
  "lease_table (snd (ipam_releaseIp demo_etcd ''n1'' (ip_at 0x0AF40100 29 2)
      (snd (ipam_allocateIp demo_etcd demo_asio ''n1'' [] demo_store)))) ''n1'' 0x0AF40100 29
      [ip_at 0x0AF40100 29 1]"
proof -
  have p: "(0 :: nat) < 29" "(29 :: nat) < 32" by simp_all
  have "fst (ipam_allocateIp demo_etcd demo_asio ''n1'' [] demo_store) = Inr (True, ip_at 0x0AF40100 29 2)"
    using etcd_shell_up.allocateIp_first [where view = "\<lambda>m. m" and w = demo_store, OF demo_if_serves
      demo_if_reliable demo_asio_documented demo_node p demo_store_table surjective_pairing]
    unfolding demo_first_free by (simp add: allocated_def)
  then have a: "ipam_allocateIp demo_etcd demo_asio ''n1'' [] demo_store =
      (Inr (True, ip_at 0x0AF40100 29 2), snd (ipam_allocateIp demo_etcd demo_asio ''n1'' [] demo_store))"
    by (simp add: prod_eq_iff)
  from allocate_release_roundtrip [where view = "\<lambda>m. m", OF demo_if_serves demo_if_reliable
      demo_asio_documented demo_node p demo_store_table a surjective_pairing]
  show ?thesis by simp
qed

text \<open>
  C30: When the node's list cannot be read but writes work, \<open>allocateIp\<close> takes every address for
  free: it hands out the first host address although a pod may hold it, and the list that
  recorded all addresses in use is replaced by that one address.
\<close>

theorem unread_list_is_overwritten:
  assumes "shell_serves E view" and "asio_documented A" and "shell_word node"
    and "0 < p" and "p < 31" and "lease_table (view w) node net p xs"
    and "read_ok E (subnet_key node) w" and "\<And>w. \<not> read_ok E (address_key node) w"
    and "\<And>w. fst (ec_append E (address_key node) (ip_at net p 1) w)"
  shows "\<exists>w'. ipam_allocateIp E A node out w = (Inr (True, ip_at net p 1), w') \<and>
    lease_table (view w') node net p [ip_at net p 1]"
proof -
  let ?k = "address_key node" and ?ip = "ip_at net p 1"
  from assms(6) have sk: "view w (subnet_key node) = Some (cidr_text net p)"
    and h: "holds (view w) ?k xs" by (simp_all add: lease_table_def)
  obtain g s w1 where g: "ipam_getSubnet E node w = ((g, s), w1)" by (metis prod.collapse)
  from etcd_shell.getSubnet_law [OF assms(1,3) sk g] assms(7) g
  have v1: "view w1 = view w" and g: "ipam_getSubnet E node w = ((True, cidr_text net p), w1)" by auto
  obtain b w2 where av: "ipam_isIpAvailable E node ?ip w1 = (b, w2)" by (metis prod.collapse)
  from etcd_shell.available_law [OF assms(1,3) h [folded v1] av] assms(8) av v1
  have v2: "view w2 = view w" and av: "ipam_isIpAvailable E node ?ip w1 = (True, w2)" by auto
  obtain w3 where ap: "ec_append E ?k ?ip w2 = (True, w3)" using assms(9) [of w2] by (metis prod.collapse)
  from h v2 have h2: "holds (view w2) ?k xs" by simp
  from etcd_shell.append_law [OF assms(1) key_shell_word(2) [OF assms(3)] list_elem_ip_at h2 ap] assms(8) v2 sk
  have "lease_table (view w3) node net p [?ip]" by (simp add: lease_table_def)
  then have table: "lease_table (view w3) node net p [?ip]" .
  have "(2 :: nat) ^ 1 < 2 ^ (32 - p)" using assms(5) by (intro power_strict_increasing) simp_all
  then have big: "1 < (2 :: nat) ^ (32 - p) - 1" by simp
  have "(2 :: nat) ^ (32 - p) < 2 ^ 32" using assms(4,5) by (intro power_strict_increasing) simp_all
  then have "(2 :: nat) ^ (32 - p) - 1 < 2 ^ 32" by (rule le_less_trans [OF diff_le_self])
  moreover have "p < 32" using assms(5) by simp
  ultimately have p: "p < 32" "1 < (2 :: nat) ^ (32 - p) - 1" "(2 :: nat) ^ (32 - p) - 1 < 2 ^ 32"
    using big by simp_all
  have "ipam_allocateIp E A node out w = (Inr (True, ?ip), w3)"
    using allocateIp_run [OF assms(2,4) p(1) g, of out]
      allocate_from_step [OF assms(2) p(1) zero_less_one less_imp_le [OF p(2)] p(3), of E net node w1] p(2) av ap
    by simp
  with table show ?thesis by blast
qed

definition broken_read :: "string \<Rightarrow> string \<Rightarrow> (string \<rightharpoonup> string) host" where
  "broken_read prefix k cmd m =
     (if cmd = prefix @ '' get '' @ k @ '' --print-value-only''
      then (Exited 1 [] ''context deadline exceeded'', m) else demo_etcdctl prefix cmd m)"

definition broken_client :: "(string \<rightharpoonup> string) etcd_client_shell" where
  "broken_client = \<lparr>command_prefix = demo_prefix, shell = broken_read demo_prefix (address_key ''n1'')\<rparr>"

lemma broken_client_serves: "etcdctl_serves (shell broken_client) (command_prefix broken_client) (\<lambda>m. m)"
  using demo_etcdctl_serves [of demo_prefix]
  unfolding etcdctl_serves_def broken_client_def broken_read_def
  by (auto simp: exit_ok_def)

theorem unread_list_is_overwritten_witness:
  "\<exists>w'. ipam_allocateIp (etcd_shell_if (\<lambda>_. []) broken_client) demo_asio ''n1'' [] demo_store =
     (Inr (True, ip_at 0x0AF40100 29 1), w') \<and> w' (address_key ''n1'') = Some (ip_at 0x0AF40100 29 1)"
proof -
  let ?E = "etcd_shell_if (\<lambda>_. []) broken_client"
  have p: "(0 :: nat) < 29" "(29 :: nat) < 31" by simp_all
  let ?get = "demo_prefix @ '' get '' @ subnet_key ''n1'' @ '' --print-value-only''"
  have "broken_read demo_prefix (address_key ''n1'') ?get demo_store = demo_etcdctl demo_prefix ?get demo_store"
    by (simp add: broken_read_def)
  then have "exit_ok (fst (broken_read demo_prefix (address_key ''n1'') ?get demo_store))"
    using demo_etcdctl_reliable [of demo_prefix] by (simp only: etcdctl_reliable_def)
  then have "fst (fst (execute (broken_read demo_prefix (address_key ''n1'')) ?get [] demo_store))"
    by (rule exit_execute)
  then have s: "read_ok ?E (subnet_key ''n1'') demo_store"
    by (simp add: read_ok_def etcd_get_def broken_client_def split_beta)
  have a: "\<not> read_ok ?E (address_key ''n1'') m" for m
    by (simp add: read_ok_def etcd_get_def broken_client_def split_beta broken_read_def execute_def execute3_def)
  have u: "fst (ec_append ?E (address_key ''n1'') (ip_at 0x0AF40100 29 1) m)" for m
  proof -
    have "exit_ok (fst (broken_read demo_prefix (address_key ''n1'')
      (demo_prefix @ '' put -- '' @ address_key ''n1'' @ '' '' @ v) m'))" for v m'
      using demo_etcdctl_reliable [of demo_prefix] by (simp add: broken_read_def etcdctl_reliable_def)
    then show ?thesis
      by (simp add: etcd_append_def etcd_put_def broken_client_def split_beta Let_def exit_execute)
  qed
  from unread_list_is_overwritten [where view = "\<lambda>m. m" and out = "[]", OF shell_serves_intro [OF broken_client_serves]
      demo_asio_documented demo_node p demo_store_table s a u]
  show ?thesis by (auto simp: lease_table_def holds_def)
qed

text \<open>
  C31: Reading the list and appending to it are two steps with no transaction around them. When one CNI
  process runs \<open>allocateIp\<close>, and another one runs the whole of its \<open>allocateIp\<close> after the first has found an
  address free and before it appends, both return the same address with success, and the list holds it
  twice.
\<close>

theorem concurrent_allocation_duplicates:
  assumes "shell_serves E view" and "shell_reliable E" and "asio_documented A" and "shell_word node"
    and "0 < p" and "p < 32" and "lease_table (view w) node net p xs"
    and "first_free (host_ips net p) xs = Some ip"
    and "other = ipam_allocateIp E A node out'"
    and "ipam_allocateIp (meanwhile (\<lambda>w1. snd (other w1)) E) A node out w = (r, w')"
  shows "r = Inr (True, ip) \<and> lease_table (view w') node net p (xs @ [ip, ip]) \<and>
    (\<exists>w1 w2. view w1 = view w \<and> other w1 = (Inr (True, ip), w2) \<and> ec_append E (address_key node) ip w2 = (True, w'))"
proof -
  have "list_elem ip" using assms(8) by (auto simp: first_free_def find_Some_iff host_ips_def)
  from etcd_shell_up.allocateIp_meanwhile [OF assms(1-8), of "\<lambda>w1. snd (other w1)" out] obtain w1 where
    v1: "view w1 = view w" and run: "\<And>w3. ec_append E (address_key node) ip (snd (other w1)) = (True, w3) \<Longrightarrow>
      ipam_allocateIp (meanwhile (\<lambda>w1. snd (other w1)) E) A node out w = (Inr (True, ip), w3)" by blast
  obtain r2 w2 where o: "other w1 = (r2, w2)" by fastforce
  from etcd_shell_up.allocateIp_first [OF assms(1-6) assms(7) [folded v1] o [unfolded assms(9)]] assms(7,8) v1
  have r2: "r2 = Inr (True, ip)" and t: "lease_table (view w2) node net p (xs @ [ip])"
    by (auto simp: allocated_def lease_table_def)
  from t have h2: "holds (view w2) (address_key node) (xs @ [ip])" by (simp add: lease_table_def)
  obtain ok w3 where a: "ec_append E (address_key node) ip w2 = (ok, w3)" by fastforce
  have ok: "ok" using etcd_shell_up.up_append [OF assms(2), of "address_key node" ip w2] a by simp
  from etcd_shell.append_law [OF assms(1) key_shell_word(2) [OF assms(4)] \<open>list_elem ip\<close> h2 a] t ok
    etcd_shell_up.up_read [OF assms(2)]
  have "lease_table (view w3) node net p (xs @ [ip, ip])" by (simp add: lease_table_def)
  moreover have "ec_append E (address_key node) ip (snd (other w1)) = (True, w3)" using o a ok by simp
  from run [OF this] assms(10) have "r = Inr (True, ip)" "w' = w3" by simp_all
  moreover have "other w1 = (Inr (True, ip), w2)" "ec_append E (address_key node) ip w2 = (True, w3)"
    using o r2 a ok by simp_all
  ultimately show ?thesis using v1 by (intro conjI exI [of _ w1] exI [of _ w2]) simp_all
qed

theorem concurrent_allocation_duplicates_witness:
  "\<exists>r w'. ipam_allocateIp (meanwhile (\<lambda>w1. snd (ipam_allocateIp demo_etcd demo_asio ''n1'' [] w1)) demo_etcd) demo_asio
      ''n1'' [] demo_store = (r, w') \<and> r = Inr (True, ip_at 0x0AF40100 29 2) \<and>
     lease_table w' ''n1'' 0x0AF40100 29 [ip_at 0x0AF40100 29 1, ip_at 0x0AF40100 29 2, ip_at 0x0AF40100 29 2]"
proof -
  have p: "(0 :: nat) < 29" "(29 :: nat) < 32" by simp_all
  obtain r w' where run: "ipam_allocateIp (meanwhile (\<lambda>w1. snd (ipam_allocateIp demo_etcd demo_asio ''n1'' [] w1)) demo_etcd)
      demo_asio ''n1'' [] demo_store = (r, w')" by (metis prod.collapse)
  note res = concurrent_allocation_duplicates [where view = "\<lambda>m. m", OF demo_if_serves demo_if_reliable
      demo_asio_documented demo_node p demo_store_table demo_first_free refl run]
  have "[ip_at 0x0AF40100 29 1] @ [ip_at 0x0AF40100 29 2, ip_at 0x0AF40100 29 2] =
      [ip_at 0x0AF40100 29 1, ip_at 0x0AF40100 29 2, ip_at 0x0AF40100 29 2]" by (simp only: append.simps)
  with run res [THEN conjunct1] res [THEN conjunct2, THEN conjunct1] show ?thesis by metis
qed

text \<open>
  C33: A node subnet with prefix 31 has no address to give (\<open>allocateIp\<close> returns false and changes
  nothing), a subnet of a single address (prefix 32) makes it throw, and prefix 0 reaches the
  undefined shift, in every state of the address list.
\<close>

theorem allocateIp_degenerate_subnets:
  assumes "shell_serves E view" and "asio_documented A" and "shell_word node"
    and "read_ok E (subnet_key node) w" and "view w (subnet_key node) = Some (cidr_text net p)"
    and "p \<in> {0, 31, 32}" and "ipam_allocateIp E A node out w = (r, w')"
  shows "view w' = view w \<and>
    r = (if p = 31 then Inr (False, []) else if p = 0 then Inl Undefined_behaviour
         else Inl (Ohno_exception ''New prefix(32) must be larger than current prefix(32)''))"
proof -
  obtain g s w1 where g: "ipam_getSubnet E node w = ((g, s), w1)" by (metis prod.collapse)
  from etcd_shell.getSubnet_law [OF assms(1,3,5) g] assms(4) g
  have v1: "view w1 = view w" and g: "ipam_getSubnet E node w = ((True, cidr_text net p), w1)" by auto
  have "allocate_from E A sub node 1 (2 - 1) w1 = (Inr (False, []), w1)" for sub
    by (simp add: allocate_from.simps)
  with assms(2,6,7) g v1 show ?thesis
    by (auto simp: ipam_allocateIp_def v4_subnet_init getMaxHosts_v4)
qed

theorem allocateIp_degenerate_subnets_witness:
  "fst (ipam_allocateIp demo_etcd demo_asio ''n1'' [] [subnet_key ''n1'' \<mapsto> cidr_text 0x0AF40100 31]) =
     Inr (False, [])"
proof -
  let ?m = "[subnet_key ''n1'' \<mapsto> cidr_text 0x0AF40100 31]"
  have "?m (subnet_key ''n1'') = Some (cidr_text 0x0AF40100 31)" "(31 :: nat) \<in> {0, 31, 32}"
    by simp_all
  from allocateIp_degenerate_subnets [where view = "\<lambda>m. m" and w = ?m, OF demo_if_serves demo_asio_documented
      demo_node demo_read_ok this surjective_pairing, of "[]"] show ?thesis by simp
qed

text \<open>
  C26: With a cluster that answers, \<open>allocateSubnet\<close> is idempotent and \<open>releaseSubnet\<close> undoes it.
  A node without a subnet gets the pod CIDR that Kubernetes gives it, recorded in the shared list
  and under the node's key; asking again returns the same subnet and changes nothing; releasing it
  removes the key and the entry, so that the list is what it was.
\<close>

theorem subnet_allocation_roundtrip:
  assumes "shell_serves E view" and "shell_reliable E" and "shell_word node"
    and "\<And>w. view (snd (ct_node center node w)) = view w \<and> fst (ct_node center node w) = info"
    and "list_elem (pod_cidr info)" and "pod_cidr info \<notin> set xs"
    and "holds (view w) ETCD_KEY_SUBNET xs" and "view w (subnet_key node) = None"
    and "ipam_allocateSubnet E center node w = (r1, w1)"
    and "ipam_allocateSubnet E center node w1 = (r2, w2)"
    and "ipam_releaseSubnet E node (pod_cidr info) w2 = (r3, w3)"
  shows "r1 = (True, pod_cidr info) \<and> holds (view w1) ETCD_KEY_SUBNET (xs @ [pod_cidr info]) \<and>
    view w1 (subnet_key node) = Some (pod_cidr info) \<and> r2 = r1 \<and> view w2 = view w1 \<and>
    r3 \<and> holds (view w3) ETCD_KEY_SUBNET xs \<and> view w3 (subnet_key node) = None"
proof -
  from etcd_shell_up.allocateSubnet_up [OF assms(1-5,7,8)] assms(9)
  have 1: "r1 = (True, pod_cidr info)" "holds (view w1) ETCD_KEY_SUBNET (xs @ [pod_cidr info])"
    "view w1 (subnet_key node) = Some (pod_cidr info)" by auto
  have "shell_word (pod_cidr info)" using assms(5) by (simp add: list_elem_def)
  from etcd_shell_up.allocateSubnet_again [OF assms(1-3) 1(3) this, of center] assms(10)
  have 2: "r2 = r1" "view w2 = view w1" using 1(1) by auto
  from 1(2) 2(2) have "holds (view w2) ETCD_KEY_SUBNET (xs @ [pod_cidr info])" by simp
  from etcd_shell_up.releaseSubnet_up [OF assms(1-3) this, of "pod_cidr info"] assms(6,11) 1 2 show ?thesis by auto
qed

definition demo_center :: "'w center_if" where
  "demo_center = \<lparr>ct_test = (\<lambda>w. (True, w)),
     ct_node = (\<lambda>node w. (\<lparr>info_name = node, internal_ip = ''192.168.0.11'', pod_cidr = ''10.244.1.0/24''\<rparr>, w)),
     ct_all = (\<lambda>w. ([], w))\<rparr>"

theorem subnet_allocation_roundtrip_witness:
  "fst (ipam_allocateSubnet demo_etcd demo_center ''n1'' Map.empty) = (True, ''10.244.1.0/24'')"
proof -
  let ?info = "\<lparr>info_name = ''n1'', internal_ip = ''192.168.0.11'', pod_cidr = ''10.244.1.0/24''\<rparr>"
  have c: "(\<lambda>m. m) (snd (ct_node demo_center ''n1'' w)) = (\<lambda>m. m) w \<and> fst (ct_node demo_center ''n1'' w) = ?info"
    for w :: "string \<rightharpoonup> string" by (simp add: demo_center_def)
  have e: "list_elem (pod_cidr ?info)" "pod_cidr ?info \<notin> set []" "holds Map.empty ETCD_KEY_SUBNET []"
    "Map.empty (subnet_key ''n1'') = None"
    by (simp_all add: list_elem_def shell_word_def word_char_def holds_def)
  from subnet_allocation_roundtrip [where view = "\<lambda>m. m" and w = Map.empty, OF demo_if_serves demo_if_reliable
      demo_node c e surjective_pairing surjective_pairing surjective_pairing]
  show ?thesis by simp
qed

end
