(* ===== verification/Netlink.thy ===== *)
theory Netlink
  imports Shell Subnet
begin

text \<open>
  \<open>src/net/netlink\<close>: the interface to the kernel's network configuration (\<open>NetlinkIf\<close>, a record of
  its operations) and its implementation on the \<open>ip\<close> and \<open>bridge\<close> commands (\<open>NetlinkIpCmd\<close>).
\<close>

subsection \<open>NetlinkIf (\<open>netlink_if.h\<close>)\<close>

datatype bridge_addr_gen_mode = mode_reserved | mode_none

datatype route_nh_flags = NH_NONE | NH_onlink | NH_pervasive

text \<open>An empty \<open>netns\<close> is the root namespace, an empty \<open>dev\<close> any device.\<close>

record 'w netlink_if =
  nl_linkDestory :: "string \<Rightarrow> string \<Rightarrow> ('w, bool) op"
  nl_linkExist :: "string \<Rightarrow> string \<Rightarrow> ('w, bool) op"
  nl_linkSetStatus :: "string \<Rightarrow> link_status \<Rightarrow> string \<Rightarrow> ('w, bool) op"
  nl_linkIsInNetns :: "string \<Rightarrow> string \<Rightarrow> ('w, bool) op"
  nl_linkToNetns :: "string \<Rightarrow> string \<Rightarrow> ('w, bool) op"
  nl_linkRename :: "string \<Rightarrow> string \<Rightarrow> string \<Rightarrow> ('w, bool) op"
  nl_vethCreate :: "string \<Rightarrow> string \<Rightarrow> ('w, bool) op"
  nl_bridgeCreate :: "string \<Rightarrow> ('w, bool) op"
  nl_vxlanCreate :: "string \<Rightarrow> string \<Rightarrow> string \<Rightarrow> ('w, bool) op"
  nl_vrfCreate :: "string \<Rightarrow> 32 word \<Rightarrow> ('w, bool) op"
  nl_bridgeSetStatus :: "string \<Rightarrow> bool \<Rightarrow> string \<Rightarrow> bridge_addr_gen_mode \<Rightarrow> string \<Rightarrow> ('w, bool) op"
  nl_vxlanSetSlave :: "string \<Rightarrow> bool \<Rightarrow> bool \<Rightarrow> string \<Rightarrow> ('w, bool) op"
  nl_addressIsExist :: "string \<Rightarrow> string \<Rightarrow> string \<Rightarrow> ('w, bool) op"
  nl_addressSetEntry :: "string \<Rightarrow> string \<Rightarrow> bool \<Rightarrow> string \<Rightarrow> ('w, bool) op"
  nl_routeIsExist :: "string \<Rightarrow> string \<Rightarrow> string \<Rightarrow> string \<Rightarrow> ('w, bool) op"
  nl_routeSetEntry :: "string \<Rightarrow> string \<Rightarrow> bool \<Rightarrow> string \<Rightarrow> string \<Rightarrow> route_nh_flags \<Rightarrow> ('w, bool) op"
  nl_neighIsExist :: "string \<Rightarrow> string \<Rightarrow> string \<Rightarrow> ('w, bool) op"
  nl_neighSetEntry :: "string \<Rightarrow> string \<Rightarrow> bool \<Rightarrow> string \<Rightarrow> string \<Rightarrow> ('w, bool) op"
  nl_fdbIsExist :: "string \<Rightarrow> string \<Rightarrow> string \<Rightarrow> string \<Rightarrow> ('w, bool) op"
  nl_fdbSetEntry :: "string \<Rightarrow> string \<Rightarrow> string \<Rightarrow> bool \<Rightarrow> string \<Rightarrow> ('w, bool) op"

subsection \<open>NetlinkIpCmd (\<open>netlink_ip_cmd.cc\<close>)\<close>

definition PORT_VXLAN :: nat where "PORT_VXLAN = 4789"

definition VXLAN_VNI :: nat where "VXLAN_VNI = 42"

definition addNetns :: "string \<Rightarrow> string \<Rightarrow> string" where
  "addNetns command netns =
     (if netns = [] then command else ''ip netns exec '' @ netns @ '' '' @ command)"

definition executeCommand :: "'w host \<Rightarrow> string \<Rightarrow> ('w, bool) op" where
  "executeCommand sh command w = (case execute sh command [] w of ((ret, output), w') \<Rightarrow> (ret, w'))"

text \<open>The three lookups that test whether the output of the command is empty.\<close>

definition has_output :: "'w host \<Rightarrow> string \<Rightarrow> ('w, bool) op" where
  "has_output sh cmd w =
     (case execute3 sh cmd [] [] w of
        ((ret, output, err), w') \<Rightarrow> (if ret = 0 then output \<noteq> [] else False, w'))"

definition add_or_del :: "bool \<Rightarrow> string" where
  "add_or_del add = (if add then ''add'' else ''del'')"

definition on_or_off :: "bool \<Rightarrow> string" where
  "on_or_off b = (if b then ''on'' else ''off'')"

definition dev_arg :: "string \<Rightarrow> string" where
  "dev_arg dev = (if dev = [] then [] else ''dev '' @ dev)"

definition dest_arg :: "string \<Rightarrow> string" where
  "dest_arg dst = (if dst = [] then ''default'' else dst)"

definition linkDestory :: "'w host \<Rightarrow> string \<Rightarrow> string \<Rightarrow> ('w, bool) op" where
  "linkDestory sh name netns = executeCommand sh (addNetns (''ip link del dev '' @ name) netns)"

definition linkExist :: "'w host \<Rightarrow> string \<Rightarrow> string \<Rightarrow> ('w, bool) op" where
  "linkExist sh name netns = executeCommand sh (addNetns (''ip link show '' @ name) netns)"

definition linkSetStatus :: "'w host \<Rightarrow> string \<Rightarrow> link_status \<Rightarrow> string \<Rightarrow> ('w, bool) op" where
  "linkSetStatus sh name status netns =
     (let action = (if status = UP then '' up'' else '' down'')
      in executeCommand sh (addNetns (''ip link set dev '' @ name @ '' '' @ action) netns))"

definition linkIsInNetns :: "'w host \<Rightarrow> string \<Rightarrow> string \<Rightarrow> ('w, bool) op" where
  "linkIsInNetns sh name netns w =
     (case execute sh (addNetns (''ip link show dev '' @ name) netns) [] w of
        ((ret, output), w') \<Rightarrow> (if ret then contains_sub output name else False, w'))"

definition linkToNetns :: "'w host \<Rightarrow> string \<Rightarrow> string \<Rightarrow> ('w, bool) op" where
  "linkToNetns sh name netns = executeCommand sh (''ip link set dev '' @ name @ '' netns '' @ netns)"

definition linkRename :: "'w host \<Rightarrow> string \<Rightarrow> string \<Rightarrow> string \<Rightarrow> ('w, bool) op" where
  "linkRename sh name new_name netns =
     executeCommand sh (addNetns (''ip link set dev '' @ name @ '' name '' @ new_name) netns)"

definition vethCreate :: "'w host \<Rightarrow> string \<Rightarrow> string \<Rightarrow> ('w, bool) op" where
  "vethCreate sh name1 name2 =
     executeCommand sh (''ip link add dev '' @ name1 @ '' type veth peer '' @ name2)"

definition bridgeCreate :: "'w host \<Rightarrow> string \<Rightarrow> ('w, bool) op" where
  "bridgeCreate sh name = executeCommand sh (''ip link add dev '' @ name @ '' type bridge'')"

definition vxlanCreate :: "'w host \<Rightarrow> string \<Rightarrow> string \<Rightarrow> string \<Rightarrow> ('w, bool) op" where
  "vxlanCreate sh name underlay_addr underlay_dev =
     executeCommand sh (''ip link add dev '' @ name @ '' type vxlan id '' @ dec VXLAN_VNI
       @ '' dstport '' @ dec PORT_VXLAN @ '' local '' @ underlay_addr @ '' dev '' @ underlay_dev
       @ '' nolearning proxy'')"

definition vrfCreate :: "'w host \<Rightarrow> string \<Rightarrow> 32 word \<Rightarrow> ('w, bool) op" where
  "vrfCreate sh name table =
     executeCommand sh (''ip link add name '' @ name @ '' type vrf table '' @ dec (unat table))"

definition bridgeSetStatus :: "'w host \<Rightarrow> string \<Rightarrow> bool \<Rightarrow> string \<Rightarrow> bridge_addr_gen_mode \<Rightarrow> string
    \<Rightarrow> ('w, bool) op" where
  "bridgeSetStatus sh name master bridge mode netns =
     (let action = (if master then ''master'' else ''nomaster'');
          mode_str = (if mode = mode_reserved then [] else ''addrgenmode '' @ ''none'')
      in executeCommand sh (addNetns (''ip link set dev '' @ name @ '' '' @ action @ '' '' @ bridge
           @ '' '' @ mode_str) netns))"

definition vxlanSetSlave :: "'w host \<Rightarrow> string \<Rightarrow> bool \<Rightarrow> bool \<Rightarrow> string \<Rightarrow> ('w, bool) op" where
  "vxlanSetSlave sh name neigh_suppress learning netns =
     executeCommand sh (addNetns (''ip link set '' @ name @ '' type bridge_slave neigh_suppress ''
       @ on_or_off neigh_suppress @ '' learning '' @ on_or_off learning) netns)"

definition addressIsExist :: "'w host \<Rightarrow> string \<Rightarrow> string \<Rightarrow> string \<Rightarrow> ('w, bool) op" where
  "addressIsExist sh name addr netns w =
     (case execute sh (addNetns (''ip addr show dev '' @ name) netns) [] w of
        ((ret, output), w') \<Rightarrow> (if ret then contains_sub output addr else False, w'))"

definition addressSetEntry :: "'w host \<Rightarrow> string \<Rightarrow> string \<Rightarrow> bool \<Rightarrow> string \<Rightarrow> ('w, bool) op" where
  "addressSetEntry sh name addr add netns =
     executeCommand sh (addNetns (''ip addr '' @ add_or_del add @ '' '' @ addr @ '' dev '' @ name) netns)"

definition routeIsExist :: "'w host \<Rightarrow> string \<Rightarrow> string \<Rightarrow> string \<Rightarrow> string \<Rightarrow> ('w, bool) op" where
  "routeIsExist sh dst via dev netns =
     has_output sh (addNetns (''ip route show '' @ dest_arg dst @ '' via '' @ via @ '' '' @ dev_arg dev) netns)"

definition routeSetEntry :: "'w host \<Rightarrow> string \<Rightarrow> string \<Rightarrow> bool \<Rightarrow> string \<Rightarrow> string \<Rightarrow> route_nh_flags
    \<Rightarrow> ('w, bool) op" where
  "routeSetEntry sh dst via add dev netns nhflags =
     (let nhflags_str = (case nhflags of NH_NONE \<Rightarrow> [] | NH_onlink \<Rightarrow> ''onlink'' | NH_pervasive \<Rightarrow> ''pervasive'')
      in executeCommand sh (addNetns (''ip route '' @ add_or_del add @ '' '' @ dest_arg dst @ '' via ''
           @ via @ '' '' @ dev_arg dev @ '' '' @ nhflags_str) netns))"

definition neighIsExist :: "'w host \<Rightarrow> string \<Rightarrow> string \<Rightarrow> string \<Rightarrow> ('w, bool) op" where
  "neighIsExist sh addr dev netns =
     has_output sh (addNetns (''ip neigh show '' @ addr @ '' '' @ dev_arg dev) netns)"

definition neighSetEntry :: "'w host \<Rightarrow> string \<Rightarrow> string \<Rightarrow> bool \<Rightarrow> string \<Rightarrow> string \<Rightarrow> ('w, bool) op" where
  "neighSetEntry sh addr mac add dev netns =
     executeCommand sh (addNetns (''ip neigh '' @ add_or_del add @ '' '' @ addr @ '' lladdr '' @ mac
       @ '' '' @ dev_arg dev) netns)"

definition fdbIsExist :: "'w host \<Rightarrow> string \<Rightarrow> string \<Rightarrow> string \<Rightarrow> string \<Rightarrow> ('w, bool) op" where
  "fdbIsExist sh mac underlay_addr dev netns =
     has_output sh (addNetns (''bridge fdb show dev '' @ dev @ '' | grep '' @ mac @ '' | grep ''
       @ underlay_addr) netns)"

definition fdbSetEntry :: "'w host \<Rightarrow> string \<Rightarrow> string \<Rightarrow> string \<Rightarrow> bool \<Rightarrow> string \<Rightarrow> ('w, bool) op" where
  "fdbSetEntry sh mac underlay_addr dev add netns =
     executeCommand sh (addNetns (''bridge fdb '' @ add_or_del add @ '' '' @ mac @ '' dev '' @ dev
       @ '' dst '' @ underlay_addr) netns)"

definition netlink_ip_cmd :: "'w host \<Rightarrow> 'w netlink_if" where
  "netlink_ip_cmd sh = \<lparr>
     nl_linkDestory = linkDestory sh, nl_linkExist = linkExist sh,
     nl_linkSetStatus = linkSetStatus sh, nl_linkIsInNetns = linkIsInNetns sh,
     nl_linkToNetns = linkToNetns sh, nl_linkRename = linkRename sh,
     nl_vethCreate = vethCreate sh, nl_bridgeCreate = bridgeCreate sh,
     nl_vxlanCreate = vxlanCreate sh, nl_vrfCreate = vrfCreate sh,
     nl_bridgeSetStatus = bridgeSetStatus sh, nl_vxlanSetSlave = vxlanSetSlave sh,
     nl_addressIsExist = addressIsExist sh, nl_addressSetEntry = addressSetEntry sh,
     nl_routeIsExist = routeIsExist sh, nl_routeSetEntry = routeSetEntry sh,
     nl_neighIsExist = neighIsExist sh, nl_neighSetEntry = neighSetEntry sh,
     nl_fdbIsExist = fdbIsExist sh, nl_fdbSetEntry = fdbSetEntry sh\<rparr>"

end
