(* ===== verification/Nic.thy ===== *)
theory Nic
  imports Netlink
begin

text \<open>
  \<open>src/net\<close>: network interfaces (\<open>Nic\<close> and its subclasses \<open>Bridge\<close>, \<open>Veth\<close>, \<open>Vxlan\<close>, \<open>Vrf\<close>,
  \<open>Underlay\<close>) and the routes, neighbours and FDB entries attached to them. An interface keeps
  its own lists next to the kernel's configuration, which it reaches through \<open>NetlinkIf\<close>.

  The object is passed and returned. \<open>nic_netlink = None\<close> is a weak pointer that is not set or
  has expired. A virtual call is a case distinction on \<open>nic_kind\<close>.
\<close>

subsection \<open>Route, Neigh, Fdb\<close>

record route =
  rt_dest :: string
  rt_via :: string
  rt_dev :: string

definition Route :: "string \<Rightarrow> string \<Rightarrow> string \<Rightarrow> route" where
  "Route dest via dev = \<lparr>rt_dest = dest, rt_via = via, rt_dev = dev\<rparr>"

record neigh =
  ne_addr :: string
  ne_mac :: string
  ne_dev :: string

definition Neigh :: "string \<Rightarrow> string \<Rightarrow> string \<Rightarrow> neigh" where
  "Neigh addr mac dev = \<lparr>ne_addr = addr, ne_mac = mac, ne_dev = dev\<rparr>"

record fdb =
  fdb_mac :: string
  fdb_underlay_addr :: string
  fdb_dev :: string

definition Fdb :: "string \<Rightarrow> string \<Rightarrow> string \<Rightarrow> fdb" where
  "Fdb mac underlay_addr dev = \<lparr>fdb_mac = mac, fdb_underlay_addr = underlay_addr, fdb_dev = dev\<rparr>"

subsection \<open>The interface object\<close>

datatype nic_type = SYS | USER

datatype nic_kind = Plain | Bridge | Veth string | Vxlan string string | Vrf "32 word"

text \<open>\<open>nic_status = None\<close>: the member \<open>status_\<close> has no initialiser and was never set.\<close>

record 'w nic =
  nic_kind :: nic_kind
  nic_type :: nic_type
  nic_netlink :: "'w netlink_if option"
  nic_name :: string
  nic_netns :: string
  nic_status :: "link_status option"
  nic_addrs :: "addr list"
  nic_routes :: "route list"
  nic_neighs :: "neigh list"
  nic_fdbs :: "fdb list"

definition new_nic :: "nic_kind \<Rightarrow> nic_type \<Rightarrow> 'w nic" where
  "new_nic kind ty = \<lparr>nic_kind = kind, nic_type = ty, nic_netlink = None, nic_name = [],
     nic_netns = [], nic_status = None, nic_addrs = [], nic_routes = [], nic_neighs = [], nic_fdbs = []\<rparr>"

definition new_plain :: "'w nic" where "new_plain = new_nic Plain USER"

definition new_bridge :: "'w nic" where "new_bridge = new_nic Bridge USER"

definition new_veth :: "string \<Rightarrow> 'w nic" where "new_veth peer_name = new_nic (Veth peer_name) USER"

definition Underlay :: "'w nic" where "Underlay = new_nic Plain SYS"

definition VRF_TABLE :: "32 word" where "VRF_TABLE = 1100"

definition new_vrf :: "'w nic" where "new_vrf = new_nic (Vrf VRF_TABLE) USER"

text \<open>The address keeps its CIDR form when it cannot be printed without a prefix.\<close>

definition new_vxlan :: "asio \<Rightarrow> string \<Rightarrow> string \<Rightarrow> 'w nic" where
  "new_vxlan A underlay_addr underlay_dev =
     new_nic (Vxlan (case addr_getAddr A (Addr A underlay_addr) of
                       Inl e \<Rightarrow> underlay_addr | Inr s \<Rightarrow> s) underlay_dev) USER"

definition PATH_NAMESPACE :: string where "PATH_NAMESPACE = ''/var/run/netns''"

definition NAME_VXLAN :: string where "NAME_VXLAN = ''ohnov''"

text \<open>\<open>std::string_view::substr\<close> throws \<open>std::out_of_range\<close> past the end.\<close>

definition simpleNetns :: "string \<Rightarrow> string result" where
  "simpleNetns netns =
     (if contains_sub netns PATH_NAMESPACE
      then (if length PATH_NAMESPACE + 1 \<le> length netns
            then Inr (drop (length PATH_NAMESPACE + 1) netns) else Inl Std_exception)
      else Inr netns)"

subsection \<open>Set up and clean up\<close>

text \<open>\<open>created\<close>: create the link unless it exists, in the root namespace.\<close>

definition created :: "'w netlink_if \<Rightarrow> string \<Rightarrow> ('w, bool) op \<Rightarrow> ('w, bool) op" where
  "created ntl name create w =
     (case nl_linkExist ntl name [] w of (True, w1) \<Rightarrow> (True, w1) | (False, w1) \<Rightarrow> create w1)"

definition base_setup :: "'w netlink_if option \<Rightarrow> 'w nic \<Rightarrow> bool \<times> 'w nic" where
  "base_setup netlink n = (\<not> Option.is_none netlink, n\<lparr>nic_netlink := netlink\<rparr>)"

definition bridge_setup :: "'w netlink_if option \<Rightarrow> 'w nic \<Rightarrow> ('w, bool \<times> 'w nic) op" where
  "bridge_setup netlink n w =
     (let n' = snd (base_setup netlink n); name = nic_name n' in
      case nic_netlink n' of
        None \<Rightarrow> ((False, n'), w)
      | Some ntl \<Rightarrow> (case created ntl name (nl_bridgeCreate ntl name) w of (ok, w') \<Rightarrow> ((ok, n'), w')))"

definition veth_setup :: "string \<Rightarrow> 'w netlink_if option \<Rightarrow> 'w nic \<Rightarrow> ('w, bool \<times> 'w nic) op" where
  "veth_setup peer_name netlink n w =
     (let n' = snd (base_setup netlink n) in
      case nic_netlink n' of
        None \<Rightarrow> ((False, n'), w)
      | Some ntl \<Rightarrow> (case nl_vethCreate ntl (nic_name n') peer_name w of (ok, w') \<Rightarrow> ((ok, n'), w')))"

definition vxlan_setup :: "string \<Rightarrow> string \<Rightarrow> 'w netlink_if option \<Rightarrow> 'w nic \<Rightarrow> ('w, bool \<times> 'w nic) op" where
  "vxlan_setup underlay_addr underlay_dev netlink n w =
     (let n' = snd (base_setup netlink n); name = nic_name n' in
      case nic_netlink n' of
        None \<Rightarrow> ((False, n'), w)
      | Some ntl \<Rightarrow>
          (case created ntl name (nl_vxlanCreate ntl name underlay_addr underlay_dev) w of
             (ok, w') \<Rightarrow> ((ok, n'), w')))"

definition vrf_setup :: "32 word \<Rightarrow> 'w netlink_if option \<Rightarrow> 'w nic \<Rightarrow> ('w, bool \<times> 'w nic) op" where
  "vrf_setup table netlink n w =
     (let n' = snd (base_setup netlink n); name = nic_name n' in
      case nic_netlink n' of
        None \<Rightarrow> ((False, n'), w)
      | Some ntl \<Rightarrow> (case created ntl name (nl_vrfCreate ntl name table) w of (ok, w') \<Rightarrow> ((ok, n'), w')))"

text \<open>The virtual call.\<close>

definition nic_setup :: "'w netlink_if option \<Rightarrow> 'w nic \<Rightarrow> ('w, bool \<times> 'w nic) op" where
  "nic_setup netlink n w =
     (case nic_kind n of
        Plain \<Rightarrow> (base_setup netlink n, w)
      | Bridge \<Rightarrow> bridge_setup netlink n w
      | Veth peer_name \<Rightarrow> veth_setup peer_name netlink n w
      | Vxlan underlay_addr underlay_dev \<Rightarrow> vxlan_setup underlay_addr underlay_dev netlink n w
      | Vrf table \<Rightarrow> vrf_setup table netlink n w)"

fun cleanup_routes :: "'w netlink_if \<Rightarrow> string \<Rightarrow> route list \<Rightarrow> 'w \<Rightarrow> 'w" where
  "cleanup_routes ntl netns [] w = w"
| "cleanup_routes ntl netns (r # rs) w =
     (case nl_routeIsExist ntl (rt_dest r) (rt_via r) (rt_dev r) netns w of
        (True, w1) \<Rightarrow> cleanup_routes ntl netns rs
          (snd (nl_routeSetEntry ntl (rt_dest r) (rt_via r) False (rt_dev r) netns NH_NONE w1))
      | (False, w1) \<Rightarrow> cleanup_routes ntl netns rs w1)"

fun cleanup_addrs :: "asio \<Rightarrow> 'w netlink_if \<Rightarrow> string \<Rightarrow> string \<Rightarrow> addr list \<Rightarrow> ('w, unit) throwing" where
  "cleanup_addrs A ntl name netns [] w = (Inr (), w)"
| "cleanup_addrs A ntl name netns (a # as) w =
     (case addr_getAddrCidr A a of
        Inl e \<Rightarrow> (Inl e, w)
      | Inr cidr \<Rightarrow> cleanup_addrs A ntl name netns as (snd (nl_addressSetEntry ntl name cidr False netns w)))"

text \<open>\<open>cleanup\<close> leaves the object as it is.\<close>

definition nic_cleanup :: "asio \<Rightarrow> 'w nic \<Rightarrow> ('w, unit) throwing" where
  "nic_cleanup A n w =
     (case nic_netlink n of
        None \<Rightarrow> (Inr (), w)
      | Some ntl \<Rightarrow>
          (let w1 = cleanup_routes ntl (nic_netns n) (nic_routes n) w in
           if nic_type n = USER
           then (case cleanup_addrs A ntl (nic_name n) (nic_netns n) (nic_addrs n) w1 of
                   (Inl e, w2) \<Rightarrow> (Inl e, w2)
                 | (Inr _, w2) \<Rightarrow> (Inr (), snd (nl_linkDestory ntl (nic_name n) (nic_netns n) w2)))
           else (Inr (), w1)))"

definition nic_isExist :: "'w nic \<Rightarrow> ('w, bool) op" where
  "nic_isExist n w =
     (case nic_netlink n of
        None \<Rightarrow> (False, w) | Some ntl \<Rightarrow> nl_linkExist ntl (nic_name n) (nic_netns n) w)"

subsection \<open>Name, namespace, status\<close>

definition nic_setName :: "string \<Rightarrow> 'w nic \<Rightarrow> 'w nic" where
  "nic_setName name n = n\<lparr>nic_name := name\<rparr>"

definition nic_rename :: "string \<Rightarrow> 'w nic \<Rightarrow> ('w, bool \<times> 'w nic) op" where
  "nic_rename name n w =
     (if name = [] then ((True, n), w)
      else (case nic_netlink n of
              None \<Rightarrow> ((False, n), w)
            | Some ntl \<Rightarrow>
                (case nl_linkRename ntl (nic_name n) name (nic_netns n) w of
                   (True, w') \<Rightarrow> ((True, nic_setName name n), w')
                 | (False, w') \<Rightarrow> ((False, n), w'))))"

definition nic_setNetns :: "string \<Rightarrow> 'w nic \<Rightarrow> ('w, bool result \<times> 'w nic) op" where
  "nic_setNetns netns n w =
     (case nic_netlink n of
        None \<Rightarrow> ((Inr False, n), w)
      | Some ntl \<Rightarrow>
          (case simpleNetns netns of
             Inl e \<Rightarrow> ((Inl e, n), w)
           | Inr netns_simple \<Rightarrow>
               (case nl_linkIsInNetns ntl (nic_name n) netns_simple w of
                  (True, w1) \<Rightarrow> ((Inr True, n\<lparr>nic_netns := netns_simple\<rparr>), w1)
                | (False, w1) \<Rightarrow>
                    (case nl_linkToNetns ntl (nic_name n) netns_simple w1 of
                       (True, w2) \<Rightarrow> ((Inr True, n\<lparr>nic_netns := netns_simple\<rparr>), w2)
                     | (False, w2) \<Rightarrow> ((Inr False, n), w2)))))"

definition base_setStatus :: "link_status \<Rightarrow> 'w nic \<Rightarrow> ('w, bool \<times> 'w nic) op" where
  "base_setStatus status n w =
     (case nic_netlink n of
        None \<Rightarrow> ((False, n), w)
      | Some ntl \<Rightarrow>
          (case nl_linkSetStatus ntl (nic_name n) status (nic_netns n) w of
             (True, w') \<Rightarrow> ((True, n\<lparr>nic_status := Some status\<rparr>), w')
           | (False, w') \<Rightarrow> ((False, n), w')))"

text \<open>A \<open>Veth\<close> sets its peer, which stays in the root namespace, before itself.\<close>

definition nic_setStatus :: "link_status \<Rightarrow> 'w nic \<Rightarrow> ('w, bool \<times> 'w nic) op" where
  "nic_setStatus status n w =
     (case nic_kind n of
        Veth peer_name \<Rightarrow>
          (case nic_netlink n of
             None \<Rightarrow> ((False, n), w)
           | Some ntl \<Rightarrow>
               (case nl_linkSetStatus ntl peer_name status [] w of
                  (True, w1) \<Rightarrow> base_setStatus status n w1
                | (False, w1) \<Rightarrow> ((False, n), w1)))
      | _ \<Rightarrow> base_setStatus status n w)"

definition nic_getStatus :: "'w nic \<Rightarrow> bool result" where
  "nic_getStatus n =
     (case nic_status n of None \<Rightarrow> Inl Undefined_behaviour | Some s \<Rightarrow> Inr (s = UP))"

subsection \<open>Addresses\<close>

definition nic_addAddr :: "asio \<Rightarrow> addr \<Rightarrow> 'w nic \<Rightarrow> ('w, bool result \<times> 'w nic) op" where
  "nic_addAddr A a n w =
     (case addr_getAddrCidr A a of
        Inl e \<Rightarrow> ((Inl e, n), w)
      | Inr addr_cidr \<Rightarrow>
          (case nic_netlink n of
             None \<Rightarrow> ((Inr False, n), w)
           | Some ntl \<Rightarrow>
               let n' = n\<lparr>nic_addrs := nic_addrs n @ [a]\<rparr> in
               (case nl_addressIsExist ntl (nic_name n) addr_cidr (nic_netns n) w of
                  (True, w1) \<Rightarrow> ((Inr True, n'), w1)
                | (False, w1) \<Rightarrow>
                    (case nl_addressSetEntry ntl (nic_name n) addr_cidr True (nic_netns n) w1 of
                       (True, w2) \<Rightarrow> ((Inr True, n'), w2)
                     | (False, w2) \<Rightarrow> ((Inr False, n), w2)))))"

fun remove_addr :: "asio \<Rightarrow> string \<Rightarrow> addr list \<Rightarrow> addr list result" where
  "remove_addr A cidr [] = Inr []"
| "remove_addr A cidr (a # as) =
     (case addr_getAddrCidr A a of
        Inl e \<Rightarrow> Inl e
      | Inr s \<Rightarrow> (case remove_addr A cidr as of
                   Inl e \<Rightarrow> Inl e | Inr as' \<Rightarrow> Inr (if s = cidr then as' else a # as')))"

definition nic_delAddr :: "asio \<Rightarrow> string \<Rightarrow> 'w nic \<Rightarrow> ('w, bool result \<times> 'w nic) op" where
  "nic_delAddr A cidr n w =
     (case nic_netlink n of
        None \<Rightarrow> ((Inr False, n), w)
      | Some ntl \<Rightarrow>
          (case nl_addressIsExist ntl (nic_name n) cidr (nic_netns n) w of
             (False, w1) \<Rightarrow> ((Inr True, n), w1)
           | (True, w1) \<Rightarrow>
               (case nl_addressSetEntry ntl (nic_name n) cidr False (nic_netns n) w1 of
                  (False, w2) \<Rightarrow> ((Inr False, n), w2)
                | (True, w2) \<Rightarrow>
                    (case remove_addr A cidr (nic_addrs n) of
                       Inl e \<Rightarrow> ((Inl e, n), w2)
                     | Inr as \<Rightarrow> ((Inr True, n\<lparr>nic_addrs := as\<rparr>), w2)))))"

fun find_addr :: "asio \<Rightarrow> string \<Rightarrow> addr list \<Rightarrow> addr option result" where
  "find_addr A cidr [] = Inr None"
| "find_addr A cidr (a # as) =
     (case addr_getAddrCidr A a of
        Inl e \<Rightarrow> Inl e | Inr s \<Rightarrow> if s = cidr then Inr (Some a) else find_addr A cidr as)"

definition nic_getAddr :: "asio \<Rightarrow> string \<Rightarrow> 'w nic \<Rightarrow> addr option result" where
  "nic_getAddr A cidr n =
     (if cidr = [] then (case nic_addrs n of [] \<Rightarrow> Inr None | a # as \<Rightarrow> Inr (Some a))
      else find_addr A cidr (nic_addrs n))"

subsection \<open>Routes\<close>

definition nic_addRoute :: "route \<Rightarrow> route_nh_flags \<Rightarrow> 'w nic \<Rightarrow> ('w, bool \<times> 'w nic) op" where
  "nic_addRoute r nhflags n w =
     (case nic_netlink n of
        None \<Rightarrow> ((False, n), w)
      | Some ntl \<Rightarrow>
          let n' = n\<lparr>nic_routes := nic_routes n @ [r]\<rparr> in
          (case nl_routeIsExist ntl (rt_dest r) (rt_via r) (rt_dev r) (nic_netns n) w of
             (True, w1) \<Rightarrow> ((True, n'), w1)
           | (False, w1) \<Rightarrow>
               (case nl_routeSetEntry ntl (rt_dest r) (rt_via r) True (rt_dev r) (nic_netns n) nhflags w1 of
                  (True, w2) \<Rightarrow> ((True, n'), w2)
                | (False, w2) \<Rightarrow> ((False, n), w2))))"

definition nic_delRoute :: "string \<Rightarrow> string \<Rightarrow> string \<Rightarrow> 'w nic \<Rightarrow> ('w, bool \<times> 'w nic) op" where
  "nic_delRoute dst via dev n w =
     (case nic_netlink n of
        None \<Rightarrow> ((False, n), w)
      | Some ntl \<Rightarrow>
          (case nl_routeIsExist ntl dst via dev (nic_netns n) w of
             (False, w1) \<Rightarrow> ((True, n), w1)
           | (True, w1) \<Rightarrow>
               (case nl_routeSetEntry ntl dst via False dev (nic_netns n) NH_NONE w1 of
                  (False, w2) \<Rightarrow> ((False, n), w2)
                | (True, w2) \<Rightarrow> ((True, n\<lparr>nic_routes := removeAll (Route dst via dev) (nic_routes n)\<rparr>), w2))))"

definition nic_getRoute :: "string \<Rightarrow> string \<Rightarrow> string \<Rightarrow> 'w nic \<Rightarrow> route option" where
  "nic_getRoute dst via dev n = find (\<lambda>r. rt_dest r = dst \<and> rt_via r = via \<and> rt_dev r = dev) (nic_routes n)"

subsection \<open>Neighbours and FDB entries\<close>

definition nic_addNeigh :: "neigh \<Rightarrow> 'w nic \<Rightarrow> ('w, bool \<times> 'w nic) op" where
  "nic_addNeigh e n w =
     (case nic_netlink n of
        None \<Rightarrow> ((False, n), w)
      | Some ntl \<Rightarrow>
          let n' = n\<lparr>nic_neighs := nic_neighs n @ [e]\<rparr> in
          (case nl_neighIsExist ntl (ne_addr e) (ne_dev e) (nic_netns n) w of
             (True, w1) \<Rightarrow> ((True, n'), w1)
           | (False, w1) \<Rightarrow>
               (case nl_neighSetEntry ntl (ne_addr e) (ne_mac e) True (ne_dev e) (nic_netns n) w1 of
                  (True, w2) \<Rightarrow> ((True, n'), w2)
                | (False, w2) \<Rightarrow> ((False, n), w2))))"

definition nic_delNeigh :: "string \<Rightarrow> string \<Rightarrow> string \<Rightarrow> 'w nic \<Rightarrow> ('w, bool \<times> 'w nic) op" where
  "nic_delNeigh addr mac dev n w =
     (case nic_netlink n of
        None \<Rightarrow> ((False, n), w)
      | Some ntl \<Rightarrow>
          (case nl_neighIsExist ntl addr dev (nic_netns n) w of
             (False, w1) \<Rightarrow> ((True, n), w1)
           | (True, w1) \<Rightarrow>
               (case nl_neighSetEntry ntl addr mac False dev (nic_netns n) w1 of
                  (False, w2) \<Rightarrow> ((False, n), w2)
                | (True, w2) \<Rightarrow> ((True, n\<lparr>nic_neighs := removeAll (Neigh addr mac dev) (nic_neighs n)\<rparr>), w2))))"

definition nic_addFdb :: "fdb \<Rightarrow> 'w nic \<Rightarrow> ('w, bool \<times> 'w nic) op" where
  "nic_addFdb e n w =
     (case nic_netlink n of
        None \<Rightarrow> ((False, n), w)
      | Some ntl \<Rightarrow>
          let n' = n\<lparr>nic_fdbs := nic_fdbs n @ [e]\<rparr> in
          (case nl_fdbIsExist ntl (fdb_mac e) (fdb_underlay_addr e) (fdb_dev e) (nic_netns n) w of
             (True, w1) \<Rightarrow> ((True, n'), w1)
           | (False, w1) \<Rightarrow>
               (case nl_fdbSetEntry ntl (fdb_mac e) (fdb_underlay_addr e) (fdb_dev e) True (nic_netns n) w1 of
                  (True, w2) \<Rightarrow> ((True, n'), w2)
                | (False, w2) \<Rightarrow> ((False, n), w2))))"

text \<open>The list entry is found by MAC and underlay address only.\<close>

definition nic_delFdb :: "string \<Rightarrow> string \<Rightarrow> string \<Rightarrow> 'w nic \<Rightarrow> ('w, bool \<times> 'w nic) op" where
  "nic_delFdb addr mac dev n w =
     (case nic_netlink n of
        None \<Rightarrow> ((False, n), w)
      | Some ntl \<Rightarrow>
          (case nl_fdbIsExist ntl mac addr dev (nic_netns n) w of
             (False, w1) \<Rightarrow> ((True, n), w1)
           | (True, w1) \<Rightarrow>
               (case nl_fdbSetEntry ntl mac addr dev False (nic_netns n) w1 of
                  (False, w2) \<Rightarrow> ((False, n), w2)
                | (True, w2) \<Rightarrow>
                    ((True, n\<lparr>nic_fdbs := filter (\<lambda>e. \<not> (fdb_mac e = mac \<and> fdb_underlay_addr e = addr))
                                (nic_fdbs n)\<rparr>), w2))))"

subsection \<open>Bridge and Vxlan\<close>

definition is_bridge :: "'w nic \<Rightarrow> bool" where
  "is_bridge n = (case nic_kind n of Bridge \<Rightarrow> True | Vrf _ \<Rightarrow> True | _ \<Rightarrow> False)"

definition bridge_setImpl :: "string \<Rightarrow> bool \<Rightarrow> bridge_addr_gen_mode \<Rightarrow> 'w nic \<Rightarrow> ('w, bool) op" where
  "bridge_setImpl nic_name' master mode n w =
     (case nic_netlink n of
        None \<Rightarrow> (False, w)
      | Some ntl \<Rightarrow> nl_bridgeSetStatus ntl nic_name' master (nic_name n) mode (nic_netns n) w)"

definition setMaster :: "string \<Rightarrow> bridge_addr_gen_mode \<Rightarrow> 'w nic \<Rightarrow> ('w, bool) op" where
  "setMaster nic_name' mode n = bridge_setImpl nic_name' True mode n"

definition setNoMaster :: "string \<Rightarrow> bridge_addr_gen_mode \<Rightarrow> 'w nic \<Rightarrow> ('w, bool) op" where
  "setNoMaster nic_name' mode n = bridge_setImpl nic_name' False mode n"

definition setSlave :: "bool \<Rightarrow> bool \<Rightarrow> 'w nic \<Rightarrow> ('w, bool) op" where
  "setSlave neigh_suppress learning n w =
     (case nic_netlink n of
        None \<Rightarrow> (False, w)
      | Some ntl \<Rightarrow> nl_vxlanSetSlave ntl (nic_name n) neigh_suppress learning (nic_netns n) w)"

end
