(* ===== verification/Cluster.thy ===== *)
theory Cluster
  imports Nic
begin

text \<open>
  \<open>src/ipam\<close>: the in-memory picture of the cluster that a CNI call builds: a \<open>Cluster\<close> of \<open>Node\<close>s,
  each with its network namespaces (\<open>Netns\<close>, one per pod, the root namespace being the pod
  \<open>host\<close>), each with its interfaces.

  A \<open>std::unordered_map\<close> is an association list with distinct keys. The objects are shared through
  \<open>std::shared_ptr\<close> in the code; here a part is a value, and what changes a part puts it back into
  the whole (\<open>Cni\<close>).
\<close>

subsection \<open>std::unordered_map\<close>

text \<open>\<open>emplace\<close> keeps the entry that is there.\<close>

definition emplace :: "'k \<Rightarrow> 'v \<Rightarrow> ('k \<times> 'v) list \<Rightarrow> ('k \<times> 'v) list" where
  "emplace k v m = (if map_of m k = None then m @ [(k, v)] else m)"

definition erase :: "'k \<Rightarrow> ('k \<times> 'v) list \<Rightarrow> ('k \<times> 'v) list" where
  "erase k m = filter (\<lambda>e. fst e \<noteq> k) m"

definition distinct_keys :: "('k \<times> 'v) list \<Rightarrow> bool" where
  "distinct_keys m = distinct (map fst m)"

lemma map_of_emplace [simp]:
  "map_of (emplace k v m) x = (if x = k \<and> map_of m k = None then Some v else map_of m x)"
  by (auto simp: emplace_def map_add_def map_of_append split: option.split)

lemma map_of_erase [simp]: "map_of (erase k m) x = (if x = k then None else map_of m x)"
  by (induction m) (auto simp: erase_def)

lemma distinct_keys_emplace: "distinct_keys m \<Longrightarrow> distinct_keys (emplace k v m)"
  by (auto simp: distinct_keys_def emplace_def map_of_eq_None_iff)

lemma distinct_keys_erase: "distinct_keys m \<Longrightarrow> distinct_keys (erase k m)"
  by (induction m) (auto simp: distinct_keys_def erase_def)

lemma emplace_erase: "map_of m k = None \<Longrightarrow> erase k (emplace k v m) = m"
  by (auto simp: emplace_def erase_def map_of_eq_None_iff filter_id_conv)

lemma length_emplace: "map_of m k = None \<Longrightarrow> length (emplace k v m) = Suc (length m)"
  by (simp add: emplace_def)

lemma length_erase:
  "distinct_keys m \<Longrightarrow> map_of m k = Some v \<Longrightarrow> length m = Suc (length (erase k m))"
proof (induction m)
  case (Cons e m)
  show ?case
  proof (cases "fst e = k")
    case True
    with Cons.prems(1) True have "k \<notin> fst ` set m" by (simp add: distinct_keys_def)
    then have "\<forall>e' \<in> set m. fst e' \<noteq> k" by blast
    then have "erase k m = m" by (simp add: erase_def filter_id_conv)
    with True show ?thesis by (simp add: erase_def)
  next
    case False
    with Cons show ?thesis by (cases e) (auto simp: erase_def distinct_keys_def)
  qed
qed simp

subsection \<open>Netns (\<open>netns.cc\<close>)\<close>

record 'w netns =
  netns_name :: string
  netns_nics :: "(string \<times> 'w nic) list"

definition new_netns :: "'w netns" where "new_netns = \<lparr>netns_name = [], netns_nics = []\<rparr>"

definition netns_setName :: "string \<Rightarrow> 'w netns \<Rightarrow> 'w netns" where
  "netns_setName pod_name p = p\<lparr>netns_name := pod_name\<rparr>"

definition netns_addNic :: "'w nic \<Rightarrow> 'w netns \<Rightarrow> 'w netns" where
  "netns_addNic n p = p\<lparr>netns_nics := emplace (nic_name n) n (netns_nics p)\<rparr>"

definition netns_delNic :: "string \<Rightarrow> 'w netns \<Rightarrow> 'w netns" where
  "netns_delNic name p = p\<lparr>netns_nics := erase name (netns_nics p)\<rparr>"

definition netns_getNic :: "string \<Rightarrow> 'w netns \<Rightarrow> 'w nic option" where
  "netns_getNic name p = map_of (netns_nics p) name"

subsection \<open>Node (\<open>node.cc\<close>)\<close>

definition HOST :: string where "HOST = ''host''"

record 'w node =
  node_name :: string
  node_netns :: "(string \<times> 'w netns) list"
  node_subnet :: "subnet option"
  node_underlay_addr :: "addr option"
  node_underlay_dev :: string

definition new_node :: "'w node" where
  "new_node = \<lparr>node_name = [], node_netns = [], node_subnet = None, node_underlay_addr = None,
     node_underlay_dev = []\<rparr>"

definition node_setName :: "string \<Rightarrow> 'w node \<Rightarrow> 'w node" where
  "node_setName name n = n\<lparr>node_name := name\<rparr>"

definition node_addNetns :: "string \<Rightarrow> 'w netns \<Rightarrow> 'w node \<Rightarrow> 'w node" where
  "node_addNetns name p n = n\<lparr>node_netns := emplace name p (node_netns n)\<rparr>"

definition node_delNetns :: "string \<Rightarrow> 'w node \<Rightarrow> 'w node" where
  "node_delNetns name n = n\<lparr>node_netns := erase name (node_netns n)\<rparr>"

definition node_getNetns :: "string \<Rightarrow> 'w node \<Rightarrow> 'w netns option" where
  "node_getNetns name n = map_of (node_netns n) name"

definition node_getNetnsSize :: "'w node \<Rightarrow> nat" where
  "node_getNetnsSize n = length (node_netns n)"

text \<open>The pointer is set before \<open>init\<close> is called, which may throw.\<close>

definition node_setSubnet :: "asio \<Rightarrow> string \<Rightarrow> 'w node \<Rightarrow> unit result \<times> 'w node" where
  "node_setSubnet A cidr n =
     (case subnet_init A cidr new_subnet of (r, s) \<Rightarrow> (r, n\<lparr>node_subnet := Some s\<rparr>))"

definition node_getSubnet :: "asio \<Rightarrow> 'w node \<Rightarrow> string result" where
  "node_getSubnet A n = (case node_subnet n of None \<Rightarrow> Inr [] | Some s \<Rightarrow> getSubnet A s)"

definition node_setUnderlayAddr :: "asio \<Rightarrow> string \<Rightarrow> 'w node \<Rightarrow> 'w node" where
  "node_setUnderlayAddr A underlay_addr n = n\<lparr>node_underlay_addr := Some (Addr A underlay_addr)\<rparr>"

definition node_getUnderlayAddr :: "asio \<Rightarrow> 'w node \<Rightarrow> string result" where
  "node_getUnderlayAddr A n =
     (case node_underlay_addr n of None \<Rightarrow> Inr [] | Some a \<Rightarrow> addr_getAddrCidr A a)"

definition node_setUnderlayDev :: "string \<Rightarrow> 'w node \<Rightarrow> 'w node" where
  "node_setUnderlayDev dev n = n\<lparr>node_underlay_dev := dev\<rparr>"

definition node_getUnderlayDev :: "'w node \<Rightarrow> string" where
  "node_getUnderlayDev n = node_underlay_dev n"

subsection \<open>Cluster (\<open>cluster.cc\<close>)\<close>

type_synonym 'w cluster = "(string \<times> 'w node) list"

definition cluster_addNode :: "string \<Rightarrow> 'w node \<Rightarrow> 'w cluster \<Rightarrow> 'w cluster" where
  "cluster_addNode name n c = emplace name n c"

definition cluster_delNode :: "string \<Rightarrow> 'w cluster \<Rightarrow> 'w cluster" where
  "cluster_delNode name c = erase name c"

definition cluster_getNode :: "string \<Rightarrow> 'w cluster \<Rightarrow> 'w node option" where
  "cluster_getNode name c = map_of c name"

end
