(* ===== verification/Storage.thy ===== *)
theory Storage
  imports Etcd Nic
begin

text \<open>
  \<open>src/cni/storage.cc\<close>: what the plugin remembers in ETCD between two calls, per node: the network
  namespace of a pod, the pod of a namespace, the pods, their interfaces, the addresses and routes
  of an interface, and the node's VTEP. \<open>StorageIf\<close> is a record of operations; \<open>storage_ops E A\<close> is
  the class \<open>Storage\<close> on the ETCD client \<open>E\<close>.
\<close>

subsection \<open>StorageIf (\<open>storage_if.h\<close>)\<close>

record 'w storage_if =
  st_dump :: "('w, string) throwing"
  st_addNetns :: "string \<Rightarrow> string \<Rightarrow> string \<Rightarrow> ('w, bool) op"
  st_delNetns :: "string \<Rightarrow> string \<Rightarrow> ('w, bool) op"
  st_getNetns :: "string \<Rightarrow> string \<Rightarrow> ('w, string) op"
  st_addPod :: "string \<Rightarrow> string \<Rightarrow> string \<Rightarrow> ('w, bool) throwing"
  st_delPod :: "string \<Rightarrow> string \<Rightarrow> ('w, bool) throwing"
  st_getPod :: "string \<Rightarrow> string \<Rightarrow> ('w, string) throwing"
  st_getAllPods :: "string \<Rightarrow> ('w, string list) op"
  st_addNic :: "string \<Rightarrow> string \<Rightarrow> string \<Rightarrow> ('w, bool) op"
  st_delNic :: "string \<Rightarrow> string \<Rightarrow> string \<Rightarrow> ('w, bool) op"
  st_getAllNic :: "string \<Rightarrow> string \<Rightarrow> ('w, string list) op"
  st_addAddr :: "string \<Rightarrow> string \<Rightarrow> string \<Rightarrow> addr \<Rightarrow> ('w, bool) throwing"
  st_delAddr :: "string \<Rightarrow> string \<Rightarrow> string \<Rightarrow> ('w, bool) op"
  st_getAllAddrs :: "string \<Rightarrow> string \<Rightarrow> string \<Rightarrow> ('w, string list) op"
  st_addRoute :: "string \<Rightarrow> string \<Rightarrow> string \<Rightarrow> route \<Rightarrow> ('w, bool) op"
  st_delRoute :: "string \<Rightarrow> string \<Rightarrow> string \<Rightarrow> ('w, bool) op"
  st_getAllRoutes :: "string \<Rightarrow> string \<Rightarrow> string \<Rightarrow> ('w, route list) throwing"
  st_addVtep :: "string \<Rightarrow> string \<Rightarrow> string \<Rightarrow> ('w, bool) op"
  st_delVtep :: "string \<Rightarrow> ('w, bool) op"
  st_getVtep :: "string \<Rightarrow> ('w, string \<times> string) throwing"

subsection \<open>Keys and values\<close>

definition ETCD_KEY_PREFIX_NODE :: string where "ETCD_KEY_PREFIX_NODE = ''/ohno/node''"

definition SEPARATOR :: char where "SEPARATOR = CHR ''-''"

definition getNetnsKey :: "string \<Rightarrow> string \<Rightarrow> string" where
  "getNetnsKey node_name pod_name =
     ETCD_KEY_PREFIX_NODE @ ''/'' @ node_name @ ''/pod/'' @ pod_name @ ''/netns''"

definition getSinglePodKey :: "string \<Rightarrow> string \<Rightarrow> string result" where
  "getSinglePodKey node_name netns_name =
     (case simpleNetns netns_name of
        Inl e \<Rightarrow> Inl e
      | Inr simple \<Rightarrow> Inr (ETCD_KEY_PREFIX_NODE @ ''/'' @ node_name @ ''/netns/'' @ simple @ ''/pod''))"

definition getAllPodsKey :: "string \<Rightarrow> string" where
  "getAllPodsKey node_name = ETCD_KEY_PREFIX_NODE @ ''/'' @ node_name @ ''/pod''"

definition getNicKey :: "string \<Rightarrow> string \<Rightarrow> string" where
  "getNicKey node_name pod_name =
     ETCD_KEY_PREFIX_NODE @ ''/'' @ node_name @ ''/pod/'' @ pod_name @ ''/nic''"

definition getAddrKey :: "string \<Rightarrow> string \<Rightarrow> string \<Rightarrow> string" where
  "getAddrKey node_name pod_name nic =
     ETCD_KEY_PREFIX_NODE @ ''/'' @ node_name @ ''/pod/'' @ pod_name @ ''/nic/'' @ nic @ ''/addr''"

definition getRouteKey :: "string \<Rightarrow> string \<Rightarrow> string \<Rightarrow> string" where
  "getRouteKey node_name pod_name nic =
     ETCD_KEY_PREFIX_NODE @ ''/'' @ node_name @ ''/pod/'' @ pod_name @ ''/nic/'' @ nic @ ''/route''"

definition getRouteValue :: "string \<Rightarrow> string \<Rightarrow> string \<Rightarrow> string" where
  "getRouteValue dest via dev = dest @ [SEPARATOR] @ via @ [SEPARATOR] @ dev"

definition getVtepKey :: "string \<Rightarrow> string" where
  "getVtepKey node_name = ETCD_KEY_PREFIX_NODE @ ''/'' @ node_name @ ''/vtep''"

definition getVtepValue :: "string \<Rightarrow> string \<Rightarrow> string" where
  "getVtepValue vtep_addr vtep_mac = vtep_addr @ [SEPARATOR] @ vtep_mac"

subsection \<open>Operations\<close>

definition storage_init :: "'w etcd_client_if option \<Rightarrow> ('w, bool) op" where
  "storage_init client w = (case client of None \<Rightarrow> (False, w) | Some E \<Rightarrow> ec_test E w)"

definition storage_dump :: "'w etcd_client_if \<Rightarrow> ('w, string) throwing" where
  "storage_dump E w = ec_dump E ETCD_KEY_PREFIX_NODE w"

definition storage_addNetns :: "'w etcd_client_if \<Rightarrow> string \<Rightarrow> string \<Rightarrow> string \<Rightarrow> ('w, bool) op" where
  "storage_addNetns E node_name pod_name netns_name = ec_put E (getNetnsKey node_name pod_name) netns_name"

definition storage_delNetns :: "'w etcd_client_if \<Rightarrow> string \<Rightarrow> string \<Rightarrow> ('w, bool) op" where
  "storage_delNetns E node_name pod_name = ec_del E (getNetnsKey node_name pod_name)"

text \<open>The getters give what \<open>get\<close> or \<open>list\<close> left in the result, whether or not it succeeded.\<close>

definition storage_getNetns :: "'w etcd_client_if \<Rightarrow> string \<Rightarrow> string \<Rightarrow> ('w, string) op" where
  "storage_getNetns E node_name pod_name w =
     (case ec_get E (getNetnsKey node_name pod_name) [] w of ((ok, ret), w') \<Rightarrow> (ret, w'))"

definition storage_addPod :: "'w etcd_client_if \<Rightarrow> string \<Rightarrow> string \<Rightarrow> string \<Rightarrow> ('w, bool) throwing" where
  "storage_addPod E node_name netns_name pod_name w =
     (case getSinglePodKey node_name netns_name of
        Inl e \<Rightarrow> (Inl e, w)
      | Inr key \<Rightarrow>
          (case ec_put E key pod_name w of
             (False, w1) \<Rightarrow> (Inr False, w1)
           | (True, w1) \<Rightarrow>
               (case ec_append E (getAllPodsKey node_name) pod_name w1 of (ok, w2) \<Rightarrow> (Inr ok, w2))))"

definition storage_delPod :: "'w etcd_client_if \<Rightarrow> string \<Rightarrow> string \<Rightarrow> ('w, bool) throwing" where
  "storage_delPod E node_name netns_name w =
     (case getSinglePodKey node_name netns_name of
        Inl e \<Rightarrow> (Inl e, w)
      | Inr key \<Rightarrow>
          (case ec_get E key [] w of
             ((False, _), w1) \<Rightarrow> (Inr False, w1)
           | ((True, pod_name), w1) \<Rightarrow>
               (case ec_del E key w1 of
                  (False, w2) \<Rightarrow> (Inr False, w2)
                | (True, w2) \<Rightarrow>
                    (case ec_del_value E (getAllPodsKey node_name) pod_name w2 of (ok, w3) \<Rightarrow> (Inr ok, w3)))))"

definition storage_getPod :: "'w etcd_client_if \<Rightarrow> string \<Rightarrow> string \<Rightarrow> ('w, string) throwing" where
  "storage_getPod E node_name netns_name w =
     (case getSinglePodKey node_name netns_name of
        Inl e \<Rightarrow> (Inl e, w)
      | Inr key \<Rightarrow> (case ec_get E key [] w of ((ok, ret), w') \<Rightarrow> (Inr ret, w')))"

definition storage_getAllPods :: "'w etcd_client_if \<Rightarrow> string \<Rightarrow> ('w, string list) op" where
  "storage_getAllPods E node_name w =
     (case ec_list E (getAllPodsKey node_name) [] w of ((ok, vec), w') \<Rightarrow> (vec, w'))"

definition storage_addNic :: "'w etcd_client_if \<Rightarrow> string \<Rightarrow> string \<Rightarrow> string \<Rightarrow> ('w, bool) op" where
  "storage_addNic E node_name pod_name nic = ec_append E (getNicKey node_name pod_name) nic"

definition storage_delNic :: "'w etcd_client_if \<Rightarrow> string \<Rightarrow> string \<Rightarrow> string \<Rightarrow> ('w, bool) op" where
  "storage_delNic E node_name pod_name nic = ec_del_value E (getNicKey node_name pod_name) nic"

definition storage_getAllNic :: "'w etcd_client_if \<Rightarrow> string \<Rightarrow> string \<Rightarrow> ('w, string list) op" where
  "storage_getAllNic E node_name pod_name w =
     (case ec_list E (getNicKey node_name pod_name) [] w of ((ok, vec), w') \<Rightarrow> (vec, w'))"

definition storage_addAddr :: "'w etcd_client_if \<Rightarrow> asio \<Rightarrow> string \<Rightarrow> string \<Rightarrow> string \<Rightarrow> addr
    \<Rightarrow> ('w, bool) throwing" where
  "storage_addAddr E A node_name pod_name nic a w =
     (case addr_getAddrCidr A a of
        Inl e \<Rightarrow> (Inl e, w)
      | Inr addr_str \<Rightarrow>
          (case ec_append E (getAddrKey node_name pod_name nic) addr_str w of (ok, w') \<Rightarrow> (Inr ok, w')))"

definition storage_delAddr :: "'w etcd_client_if \<Rightarrow> string \<Rightarrow> string \<Rightarrow> string \<Rightarrow> ('w, bool) op" where
  "storage_delAddr E node_name pod_name nic = ec_del E (getAddrKey node_name pod_name nic)"

definition storage_getAllAddrs :: "'w etcd_client_if \<Rightarrow> string \<Rightarrow> string \<Rightarrow> string \<Rightarrow> ('w, string list) op" where
  "storage_getAllAddrs E node_name pod_name nic w =
     (case ec_list E (getAddrKey node_name pod_name nic) [] w of ((ok, vec), w') \<Rightarrow> (vec, w'))"

definition storage_addRoute :: "'w etcd_client_if \<Rightarrow> string \<Rightarrow> string \<Rightarrow> string \<Rightarrow> route \<Rightarrow> ('w, bool) op" where
  "storage_addRoute E node_name pod_name nic r =
     ec_append E (getRouteKey node_name pod_name nic) (getRouteValue (rt_dest r) (rt_via r) (rt_dev r))"

definition storage_delRoute :: "'w etcd_client_if \<Rightarrow> string \<Rightarrow> string \<Rightarrow> string \<Rightarrow> ('w, bool) op" where
  "storage_delRoute E node_name pod_name nic = ec_del E (getRouteKey node_name pod_name nic)"

text \<open>\<open>route[0]\<close>, \<open>route[1]\<close>, \<open>route[2]\<close>: undefined when an entry has fewer than three parts.\<close>

definition route_of :: "string \<Rightarrow> route result" where
  "route_of item =
     (case split item SEPARATOR of
        dest # via # dev # rest \<Rightarrow> Inr (Route dest via dev) | _ \<Rightarrow> Inl Undefined_behaviour)"

fun routes_of :: "string list \<Rightarrow> route list result" where
  "routes_of [] = Inr []"
| "routes_of (item # items) =
     (case route_of item of
        Inl e \<Rightarrow> Inl e
      | Inr r \<Rightarrow> (case routes_of items of Inl e \<Rightarrow> Inl e | Inr rs \<Rightarrow> Inr (r # rs)))"

definition storage_getAllRoutes :: "'w etcd_client_if \<Rightarrow> string \<Rightarrow> string \<Rightarrow> string \<Rightarrow> ('w, route list) throwing" where
  "storage_getAllRoutes E node_name pod_name nic w =
     (case ec_list E (getRouteKey node_name pod_name nic) [] w of ((ok, vec), w') \<Rightarrow> (routes_of vec, w'))"

definition storage_addVtep :: "'w etcd_client_if \<Rightarrow> string \<Rightarrow> string \<Rightarrow> string \<Rightarrow> ('w, bool) op" where
  "storage_addVtep E node_name vtep_addr vtep_mac = ec_put E (getVtepKey node_name) (getVtepValue vtep_addr vtep_mac)"

definition storage_delVtep :: "'w etcd_client_if \<Rightarrow> string \<Rightarrow> ('w, bool) op" where
  "storage_delVtep E node_name = ec_del E (getVtepKey node_name)"

definition vtep_of :: "string \<Rightarrow> (string \<times> string) result" where
  "vtep_of ret =
     (case split ret SEPARATOR of
        [] \<Rightarrow> Inr ([], []) | [_] \<Rightarrow> Inl Undefined_behaviour | a # m # rest \<Rightarrow> Inr (a, m))"

definition storage_getVtep :: "'w etcd_client_if \<Rightarrow> string \<Rightarrow> ('w, string \<times> string) throwing" where
  "storage_getVtep E node_name w =
     (case ec_get E (getVtepKey node_name) [] w of
        ((ok, ret), w') \<Rightarrow> (if ok then vtep_of ret else Inr ([], []), w'))"

definition storage_ops :: "'w etcd_client_if \<Rightarrow> asio \<Rightarrow> 'w storage_if" where
  "storage_ops E A = \<lparr>
     st_dump = storage_dump E, st_addNetns = storage_addNetns E, st_delNetns = storage_delNetns E,
     st_getNetns = storage_getNetns E, st_addPod = storage_addPod E, st_delPod = storage_delPod E,
     st_getPod = storage_getPod E, st_getAllPods = storage_getAllPods E,
     st_addNic = storage_addNic E, st_delNic = storage_delNic E, st_getAllNic = storage_getAllNic E,
     st_addAddr = storage_addAddr E A, st_delAddr = storage_delAddr E,
     st_getAllAddrs = storage_getAllAddrs E, st_addRoute = storage_addRoute E,
     st_delRoute = storage_delRoute E, st_getAllRoutes = storage_getAllRoutes E,
     st_addVtep = storage_addVtep E, st_delVtep = storage_delVtep E, st_getVtep = storage_getVtep E\<rparr>"

end
