(* ===== verification/Json.thy ===== *)
theory Json
  imports Prelude
begin

text \<open>
  The JSON forms of the plugin's configuration, environment, result and error (\<open>src/cni\<close>) and of
  the node list of the Kubernetes API server (\<open>src/kube\<close>).

  JSON values are those of nlohmann/json, which is not part of the repository: its functions are
  the record \<open>json_lib\<close> over an unspecified type of values. \<open>json_documented\<close> states what reading
  back a value that was just built gives; \<open>demo_json\<close> in \<open>Json_Facts\<close> is a concrete instance.
\<close>

subsection \<open>The library\<close>

text \<open>The readers throw (\<open>type_error\<close>, \<open>out_of_range\<close>, \<open>parse_error\<close>) as \<open>Inl\<close>.\<close>

record 'j json_lib =
  j_contains :: "'j \<Rightarrow> string \<Rightarrow> bool"
  j_at :: "'j \<Rightarrow> string \<Rightarrow> 'j result"
  j_string :: "'j \<Rightarrow> string result"
  j_bool :: "'j \<Rightarrow> bool result"
  j_int :: "'j \<Rightarrow> int result"
  j_array :: "'j \<Rightarrow> 'j list result"
  j_object :: "(string \<times> 'j) list \<Rightarrow> 'j"
  j_of_string :: "string \<Rightarrow> 'j"
  j_of_bool :: "bool \<Rightarrow> 'j"
  j_of_int :: "int \<Rightarrow> 'j"
  j_of_array :: "'j list \<Rightarrow> 'j"
  j_parse :: "string \<Rightarrow> 'j result"
  j_dump :: "nat \<Rightarrow> 'j \<Rightarrow> string"

definition json_documented :: "'j json_lib \<Rightarrow> bool" where
  "json_documented J \<longleftrightarrow>
     (\<forall>kvs k. j_contains J (j_object J kvs) k = (map_of kvs k \<noteq> None)) \<and>
     (\<forall>kvs k v. map_of kvs k = Some v \<longrightarrow> j_at J (j_object J kvs) k = Inr v) \<and>
     (\<forall>s. j_string J (j_of_string J s) = Inr s) \<and> (\<forall>b. j_bool J (j_of_bool J b) = Inr b) \<and>
     (\<forall>i. j_int J (j_of_int J i) = Inr i) \<and> (\<forall>vs. j_array J (j_of_array J vs) = Inr vs)"

text \<open>\<open>if (json.contains(KEY)) field = json.at(KEY).get<T>();\<close>\<close>

definition field :: "'j json_lib \<Rightarrow> 'j \<Rightarrow> string \<Rightarrow> ('j \<Rightarrow> 'a result) \<Rightarrow> 'a \<Rightarrow> 'a result" where
  "field J j key get dflt =
     (if j_contains J j key then (case j_at J j key of Inl e \<Rightarrow> Inl e | Inr v \<Rightarrow> get v) else Inr dflt)"

definition and_then :: "'a result \<Rightarrow> ('a \<Rightarrow> 'b result) \<Rightarrow> 'b result" where
  "and_then r f = (case r of Inl e \<Rightarrow> Inl e | Inr a \<Rightarrow> f a)"

fun get_all :: "('j \<Rightarrow> 'a result) \<Rightarrow> 'j list \<Rightarrow> 'a list result" where
  "get_all get [] = Inr []"
| "get_all get (v # vs) = and_then (get v) (\<lambda>a. and_then (get_all get vs) (\<lambda>as. Inr (a # as)))"

definition get_vector :: "'j json_lib \<Rightarrow> ('j \<Rightarrow> 'a result) \<Rightarrow> 'j \<Rightarrow> 'a list result" where
  "get_vector J get j = and_then (j_array J j) (get_all get)"

lemma and_then_Inr [simp]: "and_then (Inr a) f = f a" "and_then (Inl e) f = Inl e"
  by (simp_all add: and_then_def)

lemma get_all_map: "(\<And>x. get (put x) = Inr x) \<Longrightarrow> get_all get (map put xs) = Inr xs"
  by (induction xs) simp_all

lemma json_simps:
  assumes "json_documented J"
  shows "map_of kvs k = Some v \<Longrightarrow> field J (j_object J kvs) k get dflt = get v"
    "j_string J (j_of_string J s) = Inr s" "j_bool J (j_of_bool J b) = Inr b"
    "j_int J (j_of_int J i) = Inr i" "j_array J (j_of_array J vs) = Inr vs"
  using assms by (auto simp: json_documented_def field_def)

subsection \<open>Enumerations by name (\<open>enum_name.hpp\<close>)\<close>

datatype ipam_mode = Mode_RESERVED | Mode_host_gw | Mode_vxlan | Mode_evpn

definition mode_names :: "(string \<times> ipam_mode) list" where
  "mode_names = [(''RESERVED'', Mode_RESERVED), (''host_gw'', Mode_host_gw), (''vxlan'', Mode_vxlan),
     (''evpn'', Mode_evpn)]"

datatype level = Trace | Debug | Info | Warn | Error | Critical | Off | MAXSIZE

definition level_names :: "(string \<times> level) list" where
  "level_names = [(''trace'', Trace), (''debug'', Debug), (''info'', Info), (''warn'', Warn),
     (''error'', Error), (''critical'', Critical), (''off'', Off), (''MAXSIZE'', MAXSIZE)]"

datatype address_type = Address_Reserved | InternalIP | Hostname

definition address_type_names :: "(string \<times> address_type) list" where
  "address_type_names = [(''Reserved'', Address_Reserved), (''InternalIP'', InternalIP), (''Hostname'', Hostname)]"

definition stringEnum :: "(string \<times> 'e) list \<Rightarrow> string \<Rightarrow> 'e option" where
  "stringEnum names str = map_of names str"

fun enumName :: "(string \<times> 'e) list \<Rightarrow> 'e \<Rightarrow> string" where
  "enumName [] e = []"
| "enumName ((s, e') # names) e = (if e' = e then s else enumName names e)"

definition enum_or :: "(string \<times> 'e) list \<Rightarrow> 'e \<Rightarrow> string \<Rightarrow> 'e" where
  "enum_or names dflt str = (case stringEnum names str of None \<Rightarrow> dflt | Some e \<Rightarrow> e)"

lemma enum_or_name [simp]:
  "enum_or mode_names d (enumName mode_names m) = m"
  "enum_or level_names d' (enumName level_names l) = l"
  "enum_or address_type_names d'' (enumName address_type_names a) = a"
proof -
  show "enum_or mode_names d (enumName mode_names m) = m"
    by (cases m) (simp_all add: enum_or_def stringEnum_def mode_names_def)
  show "enum_or level_names d' (enumName level_names l) = l"
    by (cases l) (simp_all add: enum_or_def stringEnum_def level_names_def)
  show "enum_or address_type_names d'' (enumName address_type_names a) = a"
    by (cases a) (simp_all add: enum_or_def stringEnum_def address_type_names_def)
qed

subsection \<open>CniConfig (\<open>cni_config.cc\<close>)\<close>

record config_ipam =
  cci_subnet :: string
  cci_mode :: ipam_mode

record config =
  cc_version :: string
  cc_name :: string
  cc_type :: string
  cc_bridge :: string
  cc_log :: string
  cc_loglevel :: level
  cc_ssl :: bool
  cc_ipam :: config_ipam

definition DEFAULT_CONF_PLUGINS_NAME :: string where "DEFAULT_CONF_PLUGINS_NAME = ''ohno''"

definition default_config_ipam :: config_ipam where
  "default_config_ipam = \<lparr>cci_subnet = ''10.244.0.0/16'', cci_mode = Mode_evpn\<rparr>"

definition default_config :: config where
  "default_config = \<lparr>cc_version = ''0.3.1'', cc_name = ''mynet'', cc_type = DEFAULT_CONF_PLUGINS_NAME,
     cc_bridge = ''ohnobr'', cc_log = ''/var/run/log/ohno.log'', cc_loglevel = Debug, cc_ssl = True,
     cc_ipam = default_config_ipam\<rparr>"

definition config_ipam_from_json :: "'j json_lib \<Rightarrow> config_ipam \<Rightarrow> 'j \<Rightarrow> config_ipam result" where
  "config_ipam_from_json J c j =
     and_then (field J j ''subnet'' (j_string J) (cci_subnet c)) (\<lambda>subnet.
     and_then (field J j ''mode'' (\<lambda>v. and_then (j_string J v) (\<lambda>s. Inr (enum_or mode_names Mode_host_gw s)))
       (cci_mode c)) (\<lambda>mode. Inr \<lparr>cci_subnet = subnet, cci_mode = mode\<rparr>))"

definition config_ipam_to_json :: "'j json_lib \<Rightarrow> config_ipam \<Rightarrow> 'j" where
  "config_ipam_to_json J c =
     j_object J [(''subnet'', j_of_string J (cci_subnet c)),
       (''mode'', j_of_string J (enumName mode_names (cci_mode c)))]"

definition config_from_json :: "'j json_lib \<Rightarrow> config \<Rightarrow> 'j \<Rightarrow> config result" where
  "config_from_json J c j =
     and_then (field J j ''cniVersion'' (j_string J) (cc_version c)) (\<lambda>version.
     and_then (field J j ''name'' (j_string J) (cc_name c)) (\<lambda>name.
     and_then (field J j ''type'' (j_string J) (cc_type c)) (\<lambda>ty.
     and_then (field J j ''bridge'' (j_string J) (cc_bridge c)) (\<lambda>bridge.
     and_then (field J j ''log'' (j_string J) (cc_log c)) (\<lambda>log.
     and_then (field J j ''logLevel'' (\<lambda>v. and_then (j_string J v) (\<lambda>s. Inr (enum_or level_names Info s)))
       (cc_loglevel c)) (\<lambda>loglevel.
     and_then (field J j ''ssl'' (j_bool J) (cc_ssl c)) (\<lambda>ssl.
     and_then (field J j ''ipam'' (config_ipam_from_json J default_config_ipam) (cc_ipam c)) (\<lambda>ipam.
     Inr \<lparr>cc_version = version, cc_name = name, cc_type = ty, cc_bridge = bridge, cc_log = log,
       cc_loglevel = loglevel, cc_ssl = ssl, cc_ipam = ipam\<rparr>))))))))"

definition config_to_json :: "'j json_lib \<Rightarrow> config \<Rightarrow> 'j" where
  "config_to_json J c =
     j_object J [(''cniVersion'', j_of_string J (cc_version c)), (''name'', j_of_string J (cc_name c)),
       (''type'', j_of_string J (cc_type c)), (''bridge'', j_of_string J (cc_bridge c)),
       (''log'', j_of_string J (cc_log c)),
       (''logLevel'', j_of_string J (enumName level_names (cc_loglevel c))),
       (''ssl'', j_of_bool J (cc_ssl c)), (''ipam'', config_ipam_to_json J (cc_ipam c))]"

subsection \<open>CniEnv (\<open>cni_env.cc\<close>)\<close>

record cni_env =
  ce_command :: string
  ce_container_id :: string
  ce_netns :: string
  ce_ifname :: string

definition env_from_json :: "'j json_lib \<Rightarrow> cni_env \<Rightarrow> 'j \<Rightarrow> cni_env result" where
  "env_from_json J c j =
     and_then (field J j ''CNI_COMMAND'' (j_string J) (ce_command c)) (\<lambda>command.
     and_then (field J j ''CNI_CONTAINERID'' (j_string J) (ce_container_id c)) (\<lambda>container_id.
     and_then (field J j ''CNI_NETNS'' (j_string J) (ce_netns c)) (\<lambda>netns.
     and_then (field J j ''CNI_IFNAME'' (j_string J) (ce_ifname c)) (\<lambda>ifname.
     Inr \<lparr>ce_command = command, ce_container_id = container_id, ce_netns = netns, ce_ifname = ifname\<rparr>))))"

definition env_to_json :: "'j json_lib \<Rightarrow> cni_env \<Rightarrow> 'j" where
  "env_to_json J c =
     j_object J [(''CNI_COMMAND'', j_of_string J (ce_command c)),
       (''CNI_CONTAINERID'', j_of_string J (ce_container_id c)),
       (''CNI_NETNS'', j_of_string J (ce_netns c)), (''CNI_IFNAME'', j_of_string J (ce_ifname c))]"

subsection \<open>CniResult and CniVersion (\<open>cni_result.cc\<close>)\<close>

record result_ips =
  cri_address :: string
  cri_gateway :: string

record result_interfaces =
  ri_name :: string
  ri_sandbox :: string

record cni_result =
  cr_cniversion :: string
  cr_ips :: "result_ips list"
  cr_interfaces :: "result_interfaces list"

record cni_version =
  cv_version :: string
  cv_supported :: "string list"

definition ips_from_json :: "'j json_lib \<Rightarrow> 'j \<Rightarrow> result_ips result" where
  "ips_from_json J j =
     and_then (field J j ''address'' (j_string J) []) (\<lambda>a.
     and_then (field J j ''gateway'' (j_string J) []) (\<lambda>g. Inr \<lparr>cri_address = a, cri_gateway = g\<rparr>))"

definition ips_to_json :: "'j json_lib \<Rightarrow> result_ips \<Rightarrow> 'j" where
  "ips_to_json J r = j_object J [(''address'', j_of_string J (cri_address r)), (''gateway'', j_of_string J (cri_gateway r))]"

definition interfaces_from_json :: "'j json_lib \<Rightarrow> 'j \<Rightarrow> result_interfaces result" where
  "interfaces_from_json J j =
     and_then (field J j ''name'' (j_string J) []) (\<lambda>n.
     and_then (field J j ''sandbox'' (j_string J) []) (\<lambda>s. Inr \<lparr>ri_name = n, ri_sandbox = s\<rparr>))"

definition interfaces_to_json :: "'j json_lib \<Rightarrow> result_interfaces \<Rightarrow> 'j" where
  "interfaces_to_json J r =
     j_object J [(''name'', j_of_string J (ri_name r)), (''sandbox'', j_of_string J (ri_sandbox r))]"

definition result_from_json :: "'j json_lib \<Rightarrow> cni_result \<Rightarrow> 'j \<Rightarrow> cni_result result" where
  "result_from_json J r j =
     and_then (field J j ''cniVersion'' (j_string J) (cr_cniversion r)) (\<lambda>version.
     and_then (field J j ''interfaces'' (get_vector J (interfaces_from_json J)) (cr_interfaces r)) (\<lambda>interfaces.
     and_then (field J j ''ips'' (get_vector J (ips_from_json J)) (cr_ips r)) (\<lambda>ips.
     Inr \<lparr>cr_cniversion = version, cr_ips = ips, cr_interfaces = interfaces\<rparr>)))"

definition result_to_json :: "'j json_lib \<Rightarrow> cni_result \<Rightarrow> 'j" where
  "result_to_json J r =
     j_object J [(''cniVersion'', j_of_string J (cr_cniversion r)),
       (''interfaces'', j_of_array J (map (interfaces_to_json J) (cr_interfaces r))),
       (''ips'', j_of_array J (map (ips_to_json J) (cr_ips r)))]"

definition default_version :: cni_version where
  "default_version = \<lparr>cv_version = [], cv_supported = [''0.3.0'', ''0.3.1'', ''0.4.0'']\<rparr>"

definition version_from_json :: "'j json_lib \<Rightarrow> cni_version \<Rightarrow> 'j \<Rightarrow> cni_version result" where
  "version_from_json J v j =
     and_then (field J j ''cniVersion'' (j_string J) (cv_version v)) (\<lambda>version.
     and_then (field J j ''supportedVersions'' (get_vector J (j_string J)) (cv_supported v)) (\<lambda>supported.
     Inr \<lparr>cv_version = version, cv_supported = supported\<rparr>))"

definition version_to_json :: "'j json_lib \<Rightarrow> cni_version \<Rightarrow> 'j" where
  "version_to_json J v =
     j_object J [(''cniVersion'', j_of_string J (cv_version v)),
       (''supportedVersions'', j_of_array J (map (j_of_string J) (cv_supported v)))]"

subsection \<open>CniError (\<open>cni_error.cc\<close>)\<close>

definition CNI_ERRCODE_OHNO :: int where "CNI_ERRCODE_OHNO = 278"

definition CNI_ERRCODE_NOT_SUPPORTED :: int where "CNI_ERRCODE_NOT_SUPPORTED = 287"

record cni_error =
  er_cniversion :: string
  er_code :: int
  er_msg :: string
  er_details :: string

definition error_msg :: "int \<Rightarrow> string" where
  "error_msg code =
     (if code = 1 then ''Incompatible CNI version''
      else if code = 2 then ''Unsupported field in network configuration. The error message must contain the key and value of the unsupported field.''
      else if code = 3 then ''Container unknown or does not exist. This error implies the runtime does not need to perform any container network cleanup (for example, calling the DEL action on the container).''
      else if code = 4 then ''Invalid necessary environment variables, like CNI_COMMAND, CNI_CONTAINERID, etc. The error message must contain the names of invalid variables.''
      else if code = 5 then ''I/O failure. For example, failed to read network config bytes from stdin.''
      else if code = 6 then ''Failed to decode content. For example, failed to unmarshal network config from bytes or failed to decode version info from string.''
      else if code = 7 then ''Invalid network config. If some validations on network configs do not pass, this error will be raised.''
      else if code = 11 then ''Try again later. If the plugin detects some transient condition that should clear up, it can use this code to notify the runtime it should re-try the operation later.''
      else if code = CNI_ERRCODE_OHNO then ''Kubernetes cluster environment troubles (by ohno)''
      else if code = CNI_ERRCODE_NOT_SUPPORTED then ''Not supported (by ohno)''
      else ''Custom error code supported by specific vendors.'')"

definition CniError :: "int \<Rightarrow> string \<Rightarrow> cni_error" where
  "CniError code details =
     \<lparr>er_cniversion = ''1.1.0'', er_code = code, er_msg = error_msg code, er_details = details\<rparr>"

definition error_from_json :: "'j json_lib \<Rightarrow> cni_error \<Rightarrow> 'j \<Rightarrow> cni_error result" where
  "error_from_json J e j =
     and_then (field J j ''cniVersion'' (j_string J) (er_cniversion e)) (\<lambda>version.
     and_then (field J j ''code'' (j_int J) (er_code e)) (\<lambda>code.
     and_then (field J j ''msg'' (j_string J) (er_msg e)) (\<lambda>msg.
     and_then (field J j ''details'' (j_string J) (er_details e)) (\<lambda>details.
     Inr \<lparr>er_cniversion = version, er_code = code, er_msg = msg, er_details = details\<rparr>))))"

definition error_to_json :: "'j json_lib \<Rightarrow> cni_error \<Rightarrow> 'j" where
  "error_to_json J e =
     j_object J [(''cniVersion'', j_of_string J (er_cniversion e)), (''code'', j_of_int J (er_code e)),
       (''msg'', j_of_string J (er_msg e)), (''details'', j_of_string J (er_details e))]"

subsection \<open>Kubernetes nodes (\<open>kube_apiv1_nodes.cc\<close>)\<close>

record kube_address =
  ka_type :: address_type
  ka_address :: string

record kube_item =
  ki_name :: string
  ki_addresses :: "kube_address list"
  ki_pod_cidr :: string

definition address_from_json :: "'j json_lib \<Rightarrow> 'j \<Rightarrow> kube_address result" where
  "address_from_json J j =
     and_then (field J j ''type'' (\<lambda>v. and_then (j_string J v)
       (\<lambda>s. Inr (enum_or address_type_names Address_Reserved s))) Address_Reserved) (\<lambda>ty.
     and_then (field J j ''address'' (j_string J) []) (\<lambda>a. Inr \<lparr>ka_type = ty, ka_address = a\<rparr>))"

definition address_to_json :: "'j json_lib \<Rightarrow> kube_address \<Rightarrow> 'j" where
  "address_to_json J a =
     j_object J [(''type'', j_of_string J (enumName address_type_names (ka_type a))),
       (''address'', j_of_string J (ka_address a))]"

definition metadata_from_json :: "'j json_lib \<Rightarrow> 'j \<Rightarrow> string result" where
  "metadata_from_json J j = field J j ''name'' (j_string J) []"

definition metadata_to_json :: "'j json_lib \<Rightarrow> string \<Rightarrow> 'j" where
  "metadata_to_json J name = j_object J [(''name'', j_of_string J name)]"

definition status_from_json :: "'j json_lib \<Rightarrow> 'j \<Rightarrow> kube_address list result" where
  "status_from_json J j = field J j ''addresses'' (get_vector J (address_from_json J)) []"

definition status_to_json :: "'j json_lib \<Rightarrow> kube_address list \<Rightarrow> 'j" where
  "status_to_json J as = j_object J [(''addresses'', j_of_array J (map (address_to_json J) as))]"

definition spec_from_json :: "'j json_lib \<Rightarrow> 'j \<Rightarrow> string result" where
  "spec_from_json J j = field J j ''podCIDR'' (j_string J) []"

definition spec_to_json :: "'j json_lib \<Rightarrow> string \<Rightarrow> 'j" where
  "spec_to_json J cidr = j_object J [(''podCIDR'', j_of_string J cidr)]"

definition item_from_json :: "'j json_lib \<Rightarrow> 'j \<Rightarrow> kube_item result" where
  "item_from_json J j =
     and_then (field J j ''metadata'' (metadata_from_json J) []) (\<lambda>name.
     and_then (field J j ''spec'' (spec_from_json J) []) (\<lambda>cidr.
     and_then (field J j ''status'' (status_from_json J) []) (\<lambda>addresses.
     Inr \<lparr>ki_name = name, ki_addresses = addresses, ki_pod_cidr = cidr\<rparr>)))"

definition item_to_json :: "'j json_lib \<Rightarrow> kube_item \<Rightarrow> 'j" where
  "item_to_json J i =
     j_object J [(''metadata'', metadata_to_json J (ki_name i)), (''spec'', spec_to_json J (ki_pod_cidr i)),
       (''status'', status_to_json J (ki_addresses i))]"

definition nodes_from_json :: "'j json_lib \<Rightarrow> 'j \<Rightarrow> kube_item list result" where
  "nodes_from_json J j = field J j ''items'' (get_vector J (item_from_json J)) []"

definition nodes_to_json :: "'j json_lib \<Rightarrow> kube_item list \<Rightarrow> 'j" where
  "nodes_to_json J is = j_object J [(''items'', j_of_array J (map (item_to_json J) is))]"

end
