(* ===== verification/Log.thy ===== *)
theory Log
  imports Json
begin

text \<open>
  \<open>src/log\<close>: the loggers of the process. The globals of \<open>logger.cc\<close> are the record \<open>log_state\<close>; its
  last two fields are what spdlog, which is not part of the repository, has been made to write. Two
  things of the outside are parameters: whether a log file can be opened (\<open>opens\<close>) and
  \<open>std::filesystem::is_directory\<close>, which may throw (\<open>is_dir\<close>). The mutex is not modelled.
\<close>

subsection \<open>Levels, identifiers and loggers (\<open>logger.h\<close>)\<close>

text \<open>\<open>static_cast<uint32_t>\<close> of a level; the macros and spdlog compare levels by it.\<close>

primrec level_num :: "level \<Rightarrow> nat" where
  "level_num Trace = 0" | "level_num Debug = 1" | "level_num Info = 2" | "level_num Warn = 3"
| "level_num Error = 4" | "level_num Critical = 5" | "level_num Off = 6" | "level_num MAXSIZE = 7"

lemma level_num_inject: "level_num a = level_num b \<Longrightarrow> a = b"
  by (cases a; cases b) simp_all

instantiation level :: linorder
begin

definition less_eq_level :: "level \<Rightarrow> level \<Rightarrow> bool" where
  "less_eq_level a b \<longleftrightarrow> level_num a \<le> level_num b"

definition less_level :: "level \<Rightarrow> level \<Rightarrow> bool" where
  "less_level a b \<longleftrightarrow> level_num a < level_num b"

instance
  by standard (auto simp: less_eq_level_def less_level_def dest: level_num_inject)

end

datatype log_id = Id_ohno | Id_backend | Id_cni | Id_etcd | Id_ipam | Id_net | Id_util | Id_MAXSIZE

definition id_names :: "(string \<times> log_id) list" where
  "id_names = [(''ohno'', Id_ohno), (''backend'', Id_backend), (''cni'', Id_cni), (''etcd'', Id_etcd),
     (''ipam'', Id_ipam), (''net'', Id_net), (''util'', Id_util), (''MAXSIZE'', Id_MAXSIZE)]"

definition LOGNAME_DEFAULT :: string where "LOGNAME_DEFAULT = ''ohno''"

definition LOGLEVEL_DEFAULT :: level where "LOGLEVEL_DEFAULT = Trace"

definition LOGFILE_DEFAULT :: string where "LOGFILE_DEFAULT = ''/var/run/log/ohno.log''"

text \<open>A \<open>spdlog::logger\<close>: the file and the size and number of its rotated copies, whether it also
  prints to stdout, its level and the level it flushes on.\<close>

record logger =
  lg_file :: string
  lg_max_size :: nat
  lg_max_files :: nat
  lg_stdout :: bool
  lg_level :: level
  lg_flush_on :: level

record log_state =
  g_map :: "string \<rightharpoonup> logger"
  g_level :: level
  g_logfile :: string
  g_stdout :: bool
  in_files :: "(string \<times> level \<times> string) list"
  on_stdout :: "(level \<times> string) list"

definition log_init :: log_state where
  "log_init = \<lparr>g_map = Map.empty, g_level = LOGLEVEL_DEFAULT, g_logfile = LOGFILE_DEFAULT, g_stdout = False,
     in_files = [], on_stdout = []\<rparr>"

record log_config =
  lc_level :: level
  lc_file :: string

definition new_log_config :: log_config where
  "new_log_config = \<lparr>lc_level = LOGLEVEL_DEFAULT, lc_file = LOGFILE_DEFAULT\<rparr>"

subsection \<open>Logger (\<open>logger.cc\<close>, \<open>logger.tpp\<close>)\<close>

definition getLogger :: "(string \<Rightarrow> bool) \<Rightarrow> string \<Rightarrow> log_state \<Rightarrow> logger result \<times> log_state" where
  "getLogger opens log_name s =
     (let log_name2 = (if log_name = [] then LOGNAME_DEFAULT else log_name) in
      case g_map s log_name2 of
        Some l \<Rightarrow> (Inr l, s)
      | None \<Rightarrow>
          if \<not> opens (g_logfile s) then (Inl Std_exception, s)
          else (let temp = \<lparr>lg_file = g_logfile s, lg_max_size = 4 * 1024 * 1024, lg_max_files = 5,
                  lg_stdout = g_stdout s, lg_level = g_level s, lg_flush_on = g_level s\<rparr>
                in (Inr temp, s\<lparr>g_map := (g_map s)(log_name2 \<mapsto> temp)\<rparr>)))"

definition getModuleLogger :: "(string \<Rightarrow> bool) \<Rightarrow> log_id \<Rightarrow> log_state \<Rightarrow> logger result \<times> log_state" where
  "getModuleLogger opens mid s = getLogger opens (enumName id_names mid) s"

text \<open>\<open>spdlog::logger::log\<close>: a message below the level of the logger is dropped.\<close>

definition logger_log :: "logger \<Rightarrow> level \<Rightarrow> string \<Rightarrow> log_state \<Rightarrow> log_state" where
  "logger_log l lvl msg s =
     (if lg_level l \<le> lvl
      then s\<lparr>in_files := in_files s @ [(lg_file l, lvl, msg)],
             on_stdout := (if lg_stdout l then on_stdout s @ [(lvl, msg)] else on_stdout s)\<rparr>
      else s)"

text \<open>\<open>OHNO_GLOBAL_LOG\<close>, and \<open>OHNO_LOG\<close> in an object whose own level is \<open>own\<close>.\<close>

definition global_log :: "(string \<Rightarrow> bool) \<Rightarrow> level \<Rightarrow> string \<Rightarrow> log_state \<Rightarrow> unit result \<times> log_state" where
  "global_log opens lvl msg s =
     (if g_level s \<le> lvl
      then (case getLogger opens LOGNAME_DEFAULT s of
              (Inl e, s') \<Rightarrow> (Inl e, s') | (Inr l, s') \<Rightarrow> (Inr (), logger_log l lvl msg s'))
      else (Inr (), s))"

definition module_log :: "(string \<Rightarrow> bool) \<Rightarrow> log_id \<Rightarrow> level \<Rightarrow> level \<Rightarrow> string \<Rightarrow> log_state \<Rightarrow> unit result \<times> log_state" where
  "module_log opens mid own lvl msg s =
     (if own \<le> lvl
      then (case getModuleLogger opens mid s of
              (Inl e, s') \<Rightarrow> (Inl e, s') | (Inr l, s') \<Rightarrow> (Inr (), logger_log l lvl msg s'))
      else (Inr (), s))"

subsection \<open>LogConfig (\<open>logger.cc\<close>)\<close>

definition setLevel :: "level \<Rightarrow> log_config \<times> log_state \<Rightarrow> log_config \<times> log_state" where
  "setLevel lvl = (\<lambda>(c, s). (c\<lparr>lc_level := lvl\<rparr>, s\<lparr>g_level := lvl\<rparr>))"

text \<open>The Chinese words of the two messages (log level, log file), in UTF-8.\<close>

definition TEXT_LEVEL :: string where
  "TEXT_LEVEL = [CHR 0xE6, CHR 0x97, CHR 0xA5, CHR 0xE5, CHR 0xBF, CHR 0x97, CHR 0xE7, CHR 0xAD, CHR 0x89, CHR 0xE7, CHR 0xBA, CHR 0xA7] @ '': ''"

definition TEXT_FILE :: string where
  "TEXT_FILE = [CHR 0xE6, CHR 0x97, CHR 0xA5, CHR 0xE5, CHR 0xBF, CHR 0x97, CHR 0xE6, CHR 0x96, CHR 0x87, CHR 0xE4, CHR 0xBB, CHR 0xB6] @ '': ''"

definition setLevel_str :: "(string \<Rightarrow> bool) \<Rightarrow> string \<Rightarrow> log_config \<times> log_state \<Rightarrow> unit result \<times> log_config \<times> log_state" where
  "setLevel_str opens level_str = (\<lambda>(c, s).
     case global_log opens Info (TEXT_LEVEL @ level_str) s of
       (Inl e, s') \<Rightarrow> (Inl e, c, s')
     | (Inr _, s') \<Rightarrow> (Inr (), setLevel (enum_or level_names LOGLEVEL_DEFAULT level_str) (c, s')))"

text \<open>\<open>log_path /= name\<close> for a relative name.\<close>

definition path_append :: "string \<Rightarrow> string \<Rightarrow> string" where
  "path_append p name = (if last p = CHR ''/'' then p @ name else p @ ''/'' @ name)"

definition setLogFile :: "(string \<Rightarrow> bool) \<Rightarrow> (string \<Rightarrow> bool result) \<Rightarrow> string \<Rightarrow> log_config \<times> log_state
    \<Rightarrow> unit result \<times> log_config \<times> log_state" where
  "setLogFile opens is_dir file = (\<lambda>(c, s).
     case (if file \<noteq> [] then global_log opens Info (TEXT_FILE @ file) s else (Inr (), s)) of
       (Inl e, s') \<Rightarrow> (Inl e, c, s')
     | (Inr _, s') \<Rightarrow>
         (let log_path = (if file = [] then LOGFILE_DEFAULT else file) in
          case is_dir log_path of
            Inl e \<Rightarrow> (Inl e, c, s')
          | Inr b \<Rightarrow>
              (let f = (if b then path_append log_path (LOGNAME_DEFAULT @ ''.log'') else log_path)
               in (Inr (), c\<lparr>lc_file := f\<rparr>, s'\<lparr>g_logfile := f\<rparr>))))"

definition setStdout :: "bool \<Rightarrow> log_state \<Rightarrow> log_state" where
  "setStdout b s = s\<lparr>g_stdout := b\<rparr>"

subsection \<open>What \<open>main\<close> does with it (\<open>ohno.cc\<close>, \<open>ohnod.cc\<close>)\<close>

text \<open>The configuration of the plugin: first its file, then its level.\<close>

definition log_configure :: "(string \<Rightarrow> bool) \<Rightarrow> (string \<Rightarrow> bool result) \<Rightarrow> config \<Rightarrow> log_state
    \<Rightarrow> unit result \<times> log_state" where
  "log_configure opens is_dir conf s =
     (case setLogFile opens is_dir (cc_log conf) (new_log_config, s) of
        (Inl e, c, s') \<Rightarrow> (Inl e, s')
      | (Inr _, c, s') \<Rightarrow> (Inr (), snd (setLevel (cc_loglevel conf) (c, s'))))"

text \<open>The plugin logs that it starts and which configuration it read, and only then sets the log file.\<close>

definition ohno_logging :: "(string \<Rightarrow> bool) \<Rightarrow> (string \<Rightarrow> bool result) \<Rightarrow> string \<Rightarrow> string \<Rightarrow> config \<Rightarrow> log_state
    \<Rightarrow> unit result \<times> log_state" where
  "ohno_logging opens is_dir launch parsed conf s =
     (case global_log opens Info launch s of
        (Inl e, s1) \<Rightarrow> (Inl e, s1)
      | (Inr _, s1) \<Rightarrow>
     (case global_log opens Info parsed s1 of
        (Inl e, s2) \<Rightarrow> (Inl e, s2)
      | (Inr _, s2) \<Rightarrow> log_configure opens is_dir conf s2))"

definition ohnod_logging :: "level \<Rightarrow> log_state \<Rightarrow> log_state" where
  "ohnod_logging lvl s = setStdout True (snd (setLevel lvl (new_log_config, s)))"

end
