(* ===== verification/Backend.thy ===== *)
theory Backend
  imports Cluster Storage Ipam Log
begin

text \<open>
  \<open>src/backend/backend.cc\<close> and \<open>backend_if.h\<close>: the data every routing backend has and the life of
  its worker thread.
\<close>

record 'w backend =
  bk_interval :: int
  bk_center :: "'w center_if option"
  bk_nic :: "'w nic option"

definition new_backend :: "'w backend" where
  "new_backend = \<lparr>bk_interval = 0, bk_center = None, bk_nic = None\<rparr>"

definition backend_setInterval :: "int \<Rightarrow> ('w, 'z) backend_scheme \<Rightarrow> ('w, 'z) backend_scheme" where
  "backend_setInterval sec b = b\<lparr>bk_interval := sec\<rparr>"

definition backend_setCenter :: "'w center_if option \<Rightarrow> ('w, 'z) backend_scheme \<Rightarrow> ('w, 'z) backend_scheme" where
  "backend_setCenter center b = b\<lparr>bk_center := center\<rparr>"

definition backend_setNic :: "'w nic option \<Rightarrow> ('w, 'z) backend_scheme \<Rightarrow> ('w, 'z) backend_scheme" where
  "backend_setNic n b = b\<lparr>bk_nic := n\<rparr>"

definition DEFAULT_INTERVAL :: int where "DEFAULT_INTERVAL = 1"

definition sleep_time :: "('w, 'z) backend_scheme \<Rightarrow> int" where
  "sleep_time b = (if bk_interval b = 0 then DEFAULT_INTERVAL else bk_interval b)"

subsection \<open>The log lines of a backend that are modelled\<close>

text \<open>
  The handlers of the backends log at level info what they have just erased from their cache, out of
  the erased entry (\<open>info\<close> is a reference into it). What is undefined is the formatting, so it depends
  on the levels: the backend's own, which nothing of \<open>src\<close> sets, and that of the logger of its
  module, \<open>lvl\<close>, which is the level \<open>ohnod\<close> was started with. The default of \<open>ohnod\<close> is info.
\<close>

definition info_formatted :: "level \<Rightarrow> bool" where
  "info_formatted lvl \<longleftrightarrow> LOGLEVEL_DEFAULT \<le> Info \<and> lvl \<le> Info"

text \<open>It is the condition under which a module's info line is written.\<close>

lemma info_formatted_written:
  "getModuleLogger opens m s = (Inr l, s') \<Longrightarrow>
    in_files (snd (module_log opens m LOGLEVEL_DEFAULT Info msg s)) =
      in_files s' @ (if info_formatted (lg_level l) then [(lg_file l, Info, msg)] else [])"
  by (simp add: module_log_def info_formatted_def LOGLEVEL_DEFAULT_def less_eq_level_def logger_log_def)

subsection \<open>The worker thread\<close>

text \<open>
  \<open>monitor_\<close>: no thread, or a joinable thread that is about to test \<open>running\<close>, is inside the
  callback, is asleep, or has left its function. The other thread calls \<open>start\<close> and \<open>stop\<close>; \<open>stop\<close>
  clears the flag and then waits in \<open>join\<close> (\<open>joining\<close>). \<open>calls\<close> counts the calls of the callback
  that have begun. The callback either returns or throws; a thrown exception ends the thread's
  function. \<open>std::terminate\<close> is what assigning to a joinable thread would run into.
\<close>

datatype monitor = No_thread | Testing | In_callback | Sleeping | Ended

record worker =
  running :: bool
  monitor :: monitor
  joining :: bool
  calls :: nat
  terminated :: bool

definition new_worker :: worker where
  "new_worker = \<lparr>running = False, monitor = No_thread, joining = False, calls = 0, terminated = False\<rparr>"

definition worker_start :: "worker \<Rightarrow> worker" where
  "worker_start s =
     (if running s then s
      else if monitor s \<noteq> No_thread then s\<lparr>running := True, terminated := True\<rparr>
      else s\<lparr>running := True, monitor := Testing\<rparr>)"

definition worker_stop :: "worker \<Rightarrow> worker" where
  "worker_stop s = s\<lparr>running := False, joining := (monitor s \<noteq> No_thread)\<rparr>"

definition worker_joined :: "worker \<Rightarrow> worker" where
  "worker_joined s = s\<lparr>monitor := No_thread, joining := False\<rparr>"

inductive worker_step :: "worker \<Rightarrow> worker \<Rightarrow> bool" where
  start: "\<not> joining s \<Longrightarrow> worker_step s (worker_start s)"
| stop: "\<not> joining s \<Longrightarrow> worker_step s (worker_stop s)"
| join: "joining s \<Longrightarrow> monitor s = Ended \<Longrightarrow> worker_step s (worker_joined s)"
| loop: "monitor s = Testing \<Longrightarrow> running s \<Longrightarrow>
    worker_step s (s\<lparr>monitor := In_callback, calls := Suc (calls s)\<rparr>)"
| leave: "monitor s = Testing \<Longrightarrow> \<not> running s \<Longrightarrow> worker_step s (s\<lparr>monitor := Ended\<rparr>)"
| returned: "monitor s = In_callback \<Longrightarrow> worker_step s (s\<lparr>monitor := Sleeping\<rparr>)"
| threw: "monitor s = In_callback \<Longrightarrow> worker_step s (s\<lparr>monitor := Ended\<rparr>)"
| wake: "monitor s = Sleeping \<Longrightarrow> worker_step s (s\<lparr>monitor := Testing\<rparr>)"

end
