(* ===== verification/Backend_Facts.thy ===== *)
theory Backend_Facts
  imports Backend
begin

text \<open>
  The life of the worker thread of a routing backend: the states that \<open>start\<close>, \<open>stop\<close> and the
  thread itself can reach from a new backend, in every interleaving.
\<close>

inductive_cases worker_stepE: "worker_step s t"

text \<open>
  What every reachable state satisfies: \<open>std::terminate\<close> was not called, a set flag comes with a
  thread, and a thread without the flag is being joined.
\<close>

definition worker_ok :: "worker \<Rightarrow> bool" where
  "worker_ok s \<longleftrightarrow> \<not> terminated s \<and> (running s \<longrightarrow> monitor s \<noteq> No_thread) \<and>
     (joining s \<longleftrightarrow> \<not> running s \<and> monitor s \<noteq> No_thread)"

lemma new_worker_ok: "worker_ok new_worker"
  by (simp add: worker_ok_def new_worker_def)

lemma worker_step_ok: "worker_step s t \<Longrightarrow> worker_ok s \<Longrightarrow> worker_ok t"
  by (erule worker_stepE) (auto simp: worker_ok_def worker_start_def worker_stop_def worker_joined_def)

lemma worker_reachable_ok: "worker_step\<^sup>*\<^sup>* new_worker s \<Longrightarrow> worker_ok s"
  by (induction rule: rtranclp_induct) (auto intro: new_worker_ok worker_step_ok)

text \<open>The steps the thread still has to make before \<open>join\<close> returns, once the flag is cleared.\<close>

definition steps_left :: "worker \<Rightarrow> nat" where
  "steps_left s = (case monitor s of No_thread \<Rightarrow> 0 | Ended \<Rightarrow> 1 | Testing \<Rightarrow> 2 | Sleeping \<Rightarrow> 3 | In_callback \<Rightarrow> 4)"

lemma steps_left_le: "steps_left s \<le> 4"
  by (simp add: steps_left_def split: monitor.split)

text \<open>A step taken while the other thread waits in \<open>join\<close>.\<close>

definition waiting_step :: "worker \<Rightarrow> worker \<Rightarrow> bool" where
  "waiting_step s t \<longleftrightarrow> joining s \<and> worker_step s t"

lemma waiting_step_progress:
  assumes "worker_ok s" "waiting_step s t"
  shows "calls t = calls s \<and> steps_left t < steps_left s"
  using assms unfolding waiting_step_def
  by (elim conjE worker_stepE) (auto simp: worker_ok_def steps_left_def worker_joined_def)

lemma waiting_steps_progress:
  "(waiting_step ^^ n) s t \<Longrightarrow> worker_ok s \<Longrightarrow> worker_ok t \<and> calls t = calls s \<and> n + steps_left t \<le> steps_left s"
proof (induction n arbitrary: t)
  case (Suc n)
  then obtain u where u: "(waiting_step ^^ n) s u" "waiting_step u t" by auto
  from Suc.IH [OF u(1) Suc.prems(2)] have ih: "worker_ok u" "calls u = calls s" "n + steps_left u \<le> steps_left s"
    by simp_all
  from u(2) have "worker_ok t" using worker_step_ok ih(1) by (auto simp: waiting_step_def)
  with waiting_step_progress [OF ih(1) u(2)] ih show ?case by simp
qed simp

lemma waiting_can_step:
  assumes "worker_ok s" "joining s"
  shows "\<exists>t. waiting_step s t"
proof -
  from assms have "\<not> running s" "monitor s \<noteq> No_thread" by (auto simp: worker_ok_def)
  then show ?thesis
    using assms(2) unfolding waiting_step_def
    by (cases "monitor s") (auto intro: worker_step.intros)
qed

text \<open>The first steps of a backend, for the witnesses: started, and in its first callback.\<close>

definition first_call :: worker where
  "first_call = \<lparr>running = True, monitor = In_callback, joining = False, calls = 1, terminated = False\<rparr>"

lemma started_reachable: "worker_step\<^sup>*\<^sup>* new_worker (worker_start new_worker)"
  by (rule r_into_rtranclp, rule worker_step.start) (simp add: new_worker_def)

lemma first_call_reachable: "worker_step\<^sup>*\<^sup>* new_worker first_call"
proof -
  have "worker_step (worker_start new_worker) first_call"
    using worker_step.loop [of "worker_start new_worker"]
    by (simp add: new_worker_def worker_start_def first_call_def)
  with started_reachable show ?thesis by (rule rtranclp.rtrancl_into_rtrancl)
qed

lemma stopped_reachable: "worker_step\<^sup>*\<^sup>* new_worker s \<Longrightarrow> \<not> joining s \<Longrightarrow> worker_step\<^sup>*\<^sup>* new_worker (worker_stop s)"
  by (rule rtranclp.rtrancl_into_rtrancl) (auto intro: worker_step.stop)

subsection \<open>Properties\<close>

text \<open>
  C12: In every interleaving of \<open>start\<close>, \<open>stop\<close> and the worker thread, starting from a new backend,
  \<open>start\<close> never assigns a new thread to a joinable one (which would end the process), a set flag
  always comes with a thread, and once \<open>stop\<close> has returned there is no thread left.
\<close>

theorem worker_thread_lifecycle:
  assumes "worker_step\<^sup>*\<^sup>* new_worker s"
  shows "\<not> terminated s \<and> (running s \<longrightarrow> monitor s \<noteq> No_thread) \<and>
    (\<not> running s \<and> \<not> joining s \<longrightarrow> monitor s = No_thread) \<and> (joining s \<longrightarrow> \<not> running s)"
  using worker_reachable_ok [OF assms] by (auto simp: worker_ok_def)

theorem worker_thread_lifecycle_witness:
  "\<exists>s. worker_step\<^sup>*\<^sup>* new_worker s \<and> joining s \<and> calls s = 1 \<and> \<not> terminated s"
proof -
  have r: "worker_step\<^sup>*\<^sup>* new_worker (worker_stop first_call)"
    by (rule stopped_reachable [OF first_call_reachable]) (simp add: first_call_def)
  from worker_thread_lifecycle [OF r] r show ?thesis
    by (intro exI [of _ "worker_stop first_call"]) (simp add: first_call_def worker_stop_def)
qed

text \<open>
  C18: \<open>stop\<close> ends. While it waits in \<open>join\<close>, a step is always possible, whatever steps are
  taken the callback is not entered again, and after at most four of them the wait is over,
  with no thread and the flag cleared.
\<close>

theorem worker_stop_completes:
  assumes "worker_step\<^sup>*\<^sup>* new_worker s" and "joining s"
  shows "(\<exists>t. waiting_step s t) \<and>
    (\<forall>n t. (waiting_step ^^ n) s t \<longrightarrow> n \<le> 4 \<and> calls t = calls s \<and>
       (joining t \<and> (\<exists>u. waiting_step t u) \<or> \<not> running t \<and> monitor t = No_thread))"
proof -
  note ok = worker_reachable_ok [OF assms(1)]
  have "n \<le> 4 \<and> calls t = calls s \<and> (joining t \<and> (\<exists>u. waiting_step t u) \<or> \<not> running t \<and> monitor t = No_thread)"
    if run: "(waiting_step ^^ n) s t" for n t
  proof -
    from waiting_steps_progress [OF run ok] steps_left_le [of s]
    have t: "worker_ok t" "calls t = calls s" "n \<le> 4" by simp_all
    have "\<not> running t"
      using run assms(2)
    proof (induction n arbitrary: t)
      case 0
      with ok show ?case by (auto simp: worker_ok_def)
    next
      case (Suc n)
      then obtain u where u: "\<not> running u" "waiting_step u t" by auto
      then show ?case unfolding waiting_step_def
        by (elim conjE worker_stepE) (auto simp: worker_joined_def)
    qed
    with t waiting_can_step [OF t(1)] show ?thesis by (auto simp: worker_ok_def)
  qed
  with waiting_can_step [OF ok assms(2)] show ?thesis by blast
qed

theorem worker_stop_completes_witness:
  "\<exists>s t. joining s \<and> monitor s = Testing \<and> waiting_step s t"
proof -
  let ?b = "worker_stop (worker_start new_worker)"
  have r: "worker_step\<^sup>*\<^sup>* new_worker ?b"
    by (rule stopped_reachable [OF started_reachable]) (simp add: new_worker_def worker_start_def)
  have j: "joining ?b" "monitor ?b = Testing"
    by (simp_all add: new_worker_def worker_start_def worker_stop_def)
  from worker_stop_completes [OF r j(1)] j show ?thesis by blast
qed

text \<open>
  C35: An exception that leaves the callback ends the thread but not the flag: from then on
  \<open>start\<close> does nothing, no further event is handled, and only \<open>stop\<close> changes the state.
\<close>

theorem worker_dead_after_exception:
  assumes "worker_step\<^sup>*\<^sup>* new_worker s" and "monitor s = In_callback" and "running s"
  defines "d \<equiv> s\<lparr>monitor := Ended\<rparr>"
  shows "worker_step s d \<and> running d \<and> worker_start d = d \<and>
    (\<forall>t. worker_step d t \<longleftrightarrow> t = d \<or> t = worker_stop d)"
proof -
  have nj: "\<not> joining d" using worker_reachable_ok [OF assms(1)] assms(3) by (simp add: worker_ok_def d_def)
  have st: "worker_start d = d" using assms(3) by (simp add: d_def worker_start_def)
  have "worker_step s d" unfolding d_def using assms(2) by (rule worker_step.threw)
  moreover have "worker_step d t \<longleftrightarrow> t = d \<or> t = worker_stop d" for t
  proof
    assume "worker_step d t"
    then show "t = d \<or> t = worker_stop d"
      using nj st by (elim worker_stepE) (simp_all add: d_def)
  next
    assume "t = d \<or> t = worker_stop d"
    with worker_step.start [OF nj] worker_step.stop [OF nj] st show "worker_step d t" by auto
  qed
  ultimately show ?thesis using assms(3) st by (simp add: d_def)
qed

theorem worker_dead_after_exception_witness:
  "\<exists>d. worker_step\<^sup>*\<^sup>* new_worker d \<and> monitor d = Ended \<and> worker_start d = d"
proof -
  let ?d = "first_call\<lparr>monitor := Ended\<rparr>"
  have b: "monitor first_call = In_callback" "running first_call" by (simp_all add: first_call_def)
  from worker_dead_after_exception [OF first_call_reachable b]
  have "worker_step first_call ?d" "worker_start ?d = ?d" by simp_all
  with first_call_reachable show ?thesis
    by (intro exI [of _ ?d]) (simp add: rtranclp.rtrancl_into_rtrancl)
qed

end
