(* ===== verification/Host_Gw.thy ===== *)
theory Host_Gw
  imports Backend
begin

text \<open>
  \<open>src/backend/host_gw.cc\<close>: a static route per other node of the cluster that owns a subnet.

  \<open>node_cache_\<close> is a \<open>std::unordered_map\<close>, an association list with distinct keys; \<open>arrange\<close> is the
  order in which the second loop of the handler walks it. The level of the backend's module logger is
  the argument \<open>lvl\<close> of the handler.
\<close>

record 'w host_gw = "'w backend" +
  hg_cache :: "(string \<times> node_info) list"
  hg_ipam :: "'w ipam_if option"

type_synonym arrangement = "(string \<times> node_info) list \<Rightarrow> (string \<times> node_info) list"

definition new_host_gw :: "'w host_gw" where
  "new_host_gw = backend.extend new_backend \<lparr>hg_cache = [], hg_ipam = None\<rparr>"

definition hostgw_setIpam :: "'w ipam_if option \<Rightarrow> 'w host_gw \<Rightarrow> 'w host_gw" where
  "hostgw_setIpam I b = b\<lparr>hg_ipam := I\<rparr>"

text \<open>First loop: nodes that appeared.\<close>

fun hostgw_add :: "'w ipam_if \<Rightarrow> string \<Rightarrow> (string \<times> node_info) list \<Rightarrow> (string \<times> node_info) list
    \<Rightarrow> 'w nic \<Rightarrow> ('w, (string \<times> node_info) list \<times> 'w nic) op" where
  "hostgw_add I current [] cache n w = ((cache, n), w)"
| "hostgw_add I current ((name, info) # cluster) cache n w =
     (if current = name then hostgw_add I current cluster cache n w
      else (case ip_getSubnet I name w of
              ((_, subnet), w1) \<Rightarrow>
                if subnet \<noteq> [] \<and> map_of cache name = None
                then (case nic_addRoute (Route (pod_cidr info) (internal_ip info) []) NH_NONE n w1 of
                        ((False, n'), w2) \<Rightarrow> hostgw_add I current cluster cache n' w2
                      | ((True, n'), w2) \<Rightarrow> hostgw_add I current cluster (emplace name info cache) n' w2)
                else hostgw_add I current cluster cache n w1))"

text \<open>
  Second loop: nodes that disappeared, or all when the current node has no subnet. The log line after
  \<open>node_cache_.erase(it)\<close> reads the CIDR and the address of the erased entry: undefined behaviour when
  it is formatted (\<open>fmt\<close>).
\<close>

fun hostgw_del :: "bool \<Rightarrow> 'w ipam_if \<Rightarrow> string \<Rightarrow> (string \<times> node_info) list
    \<Rightarrow> 'w nic \<Rightarrow> ('w, unit result \<times> (string \<times> node_info) list \<times> 'w nic) op" where
  "hostgw_del fmt I subnet_cur [] n w = ((Inr (), [], n), w)"
| "hostgw_del fmt I subnet_cur ((name, info) # cache) n w =
     (case ip_getSubnet I name w of
        ((_, subnet), w1) \<Rightarrow>
          if subnet_cur = [] \<or> subnet = []
          then (case nic_delRoute (pod_cidr info) (internal_ip info) [] n w1 of
                  ((False, n'), w2) \<Rightarrow>
                    (case hostgw_del fmt I subnet_cur cache n' w2 of
                       ((r, kept, n''), w3) \<Rightarrow> ((r, (name, info) # kept, n''), w3))
                | ((True, n'), w2) \<Rightarrow>
                    if fmt then ((Inl Undefined_behaviour, cache, n'), w2)
                    else hostgw_del fmt I subnet_cur cache n' w2)
          else (case hostgw_del fmt I subnet_cur cache n w1 of
                  ((r, kept, n'), w2) \<Rightarrow> ((r, (name, info) # kept, n'), w2)))"

definition hostgw_eventHandler :: "level \<Rightarrow> arrangement \<Rightarrow> string \<Rightarrow> 'w host_gw
    \<Rightarrow> ('w, unit result \<times> 'w host_gw) op" where
  "hostgw_eventHandler lvl arrange current b w =
     (case (bk_center b, hg_ipam b, bk_nic b) of
        (Some center, Some I, Some n) \<Rightarrow>
          (case ct_all center w of
             (cluster, w1) \<Rightarrow>
               (case ip_getSubnet I current w1 of
                  ((_, subnet_cur), w2) \<Rightarrow>
                    (case (if subnet_cur \<noteq> [] then hostgw_add I current cluster (hg_cache b) n w2
                           else ((hg_cache b, n), w2)) of
                       ((cache, n'), w3) \<Rightarrow>
                         (case hostgw_del (info_formatted lvl) I subnet_cur (arrange cache) n' w3 of
                            ((r, cache', n''), w4) \<Rightarrow>
                              ((r, b\<lparr>hg_cache := cache', bk_nic := Some n''\<rparr>), w4)))))
      | _ \<Rightarrow> ((Inl Undefined_behaviour, b), w))"

end
