(* ===== verification/Netlink_Spec.thy ===== *)
theory Netlink_Spec
  imports Nic Etcd_Spec
begin

text \<open>
  What the clients of \<open>NetlinkIf\<close> rely on for routes, as the locale \<open>route_table\<close> (and
  \<open>route_table_up\<close>, a kernel that does what it can), the interpretation on \<open>NetlinkIpCmd\<close>, and what
  follows for the routes of a \<open>Nic\<close>.

  The \<open>ip\<close> command is not part of the repository: \<open>ip_routes_documented\<close> states what its three
  route commands are documented to do, and \<open>demo_ip\<close> shows that this can hold.
\<close>

subsection \<open>The kernel's routing tables\<close>

text \<open>
  Per network namespace (the empty name is the root namespace), at most one route per destination:
  its gateway and device. An empty device in a query or deletion stands for any.
\<close>

type_synonym routes = "string \<Rightarrow> string \<rightharpoonup> string \<times> string"

definition route_there :: "routes \<Rightarrow> string \<Rightarrow> string \<Rightarrow> string \<Rightarrow> string \<Rightarrow> bool" where
  "route_there t ns dst via dev \<longleftrightarrow> (\<exists>d. t ns (dest_arg dst) = Some (via, d) \<and> (dev = [] \<or> d = dev))"

definition set_route :: "routes \<Rightarrow> string \<Rightarrow> string \<Rightarrow> (string \<times> string) option \<Rightarrow> routes" where
  "set_route t ns dst e = t(ns := (t ns)(dest_arg dst := e))"

definition added :: "routes \<Rightarrow> routes \<Rightarrow> string \<Rightarrow> string \<Rightarrow> string \<Rightarrow> string \<Rightarrow> bool" where
  "added t t' ns dst via dev \<longleftrightarrow>
     t ns (dest_arg dst) = None \<and> (\<exists>d. (dev = [] \<or> d = dev) \<and> t' = set_route t ns dst (Some (via, d)))"

definition removed :: "routes \<Rightarrow> routes \<Rightarrow> string \<Rightarrow> string \<Rightarrow> string \<Rightarrow> string \<Rightarrow> bool" where
  "removed t t' ns dst via dev \<longleftrightarrow> route_there t ns dst via dev \<and> t' = set_route t ns dst None"

text \<open>Arguments that the shell passes on as they are.\<close>

definition arg_ok :: "string \<Rightarrow> bool" where
  "arg_ok s \<longleftrightarrow> s = [] \<or> shell_word s"

lemma arg_ok_simps [simp]: "arg_ok []" "shell_word s \<Longrightarrow> arg_ok s"
  by (simp_all add: arg_ok_def)

lemma set_route_other: "dest_arg dst \<noteq> x \<Longrightarrow> set_route t ns dst e ns' x = t ns' x"
  by (simp add: set_route_def)

lemma dest_arg_word: "shell_word dst \<Longrightarrow> dest_arg dst = dst"
  by (auto simp: dest_arg_def shell_word_def)

subsection \<open>The contract\<close>

locale route_table =
  fixes manages :: "'w netlink_if \<Rightarrow> ('w \<Rightarrow> routes) \<Rightarrow> bool"
  assumes exist_law: "manages N t \<Longrightarrow> arg_ok dst \<Longrightarrow> shell_word via \<Longrightarrow> arg_ok dev \<Longrightarrow> arg_ok ns \<Longrightarrow>
      nl_routeIsExist N dst via dev ns w = (b, w') \<Longrightarrow>
      t w' = t w \<and> (b \<longrightarrow> route_there (t w) ns dst via dev)"
    and add_law: "manages N t \<Longrightarrow> arg_ok dst \<Longrightarrow> shell_word via \<Longrightarrow> arg_ok dev \<Longrightarrow> arg_ok ns \<Longrightarrow>
      nl_routeSetEntry N dst via True dev ns nhflags w = (ok, w') \<Longrightarrow>
      (if ok then added (t w) (t w') ns dst via dev else t w' = t w)"
    and del_law: "manages N t \<Longrightarrow> arg_ok dst \<Longrightarrow> shell_word via \<Longrightarrow> arg_ok dev \<Longrightarrow> arg_ok ns \<Longrightarrow>
      nl_routeSetEntry N dst via False dev ns nhflags w = (ok, w') \<Longrightarrow>
      (if ok then removed (t w) (t w') ns dst via dev else t w' = t w)"
begin

text \<open>Looking up, and adding, never takes a route away.\<close>

lemma exist_keeps:
  "manages N t \<Longrightarrow> arg_ok dst \<Longrightarrow> shell_word via \<Longrightarrow> arg_ok dev \<Longrightarrow> arg_ok ns \<Longrightarrow>
   t (snd (nl_routeIsExist N dst via dev ns w)) = t w"
  using exist_law [of N t dst via dev ns w "fst (nl_routeIsExist N dst via dev ns w)"
      "snd (nl_routeIsExist N dst via dev ns w)"] by simp

lemma addRoute_law:
  assumes "manages N t" "nic_netlink n = Some N" "arg_ok (nic_netns n)"
    and "arg_ok (rt_dest r)" "shell_word (rt_via r)" "arg_ok (rt_dev r)"
    and "nic_addRoute r nhflags n w = ((ok, n'), w')"
  shows "(if ok then n' = n\<lparr>nic_routes := nic_routes n @ [r]\<rparr> \<and>
               route_there (t w') (nic_netns n) (rt_dest r) (rt_via r) (rt_dev r) \<and>
               (t w' = t w \<or> added (t w) (t w') (nic_netns n) (rt_dest r) (rt_via r) (rt_dev r))
          else n' = n \<and> t w' = t w)"
proof -
  obtain b w1 where e: "nl_routeIsExist N (rt_dest r) (rt_via r) (rt_dev r) (nic_netns n) w = (b, w1)"
    by (metis prod.collapse)
  note laws = exist_law [OF assms(1,4,5,6,3) e]
  show ?thesis
  proof (cases b)
    case True
    with laws e assms(2,7) show ?thesis by (auto simp: nic_addRoute_def Let_def)
  next
    case False
    obtain o2 w2 where s: "nl_routeSetEntry N (rt_dest r) (rt_via r) True (rt_dev r) (nic_netns n) nhflags w1 = (o2, w2)"
      by (metis prod.collapse)
    from add_law [OF assms(1,4,5,6,3) s] laws False e s assms(2,7) show ?thesis
      by (cases o2) (auto simp: nic_addRoute_def Let_def added_def route_there_def set_route_def)
  qed
qed

lemma delRoute_law:
  assumes "manages N t" "nic_netlink n = Some N" "arg_ok (nic_netns n)"
    and "arg_ok dst" "shell_word via" "arg_ok dev"
    and "nic_delRoute dst via dev n w = ((ok, n'), w')"
  shows "(if ok then n' = n \<and> t w' = t w \<or>
               n' = n\<lparr>nic_routes := removeAll (Route dst via dev) (nic_routes n)\<rparr> \<and>
               removed (t w) (t w') (nic_netns n) dst via dev
          else n' = n \<and> t w' = t w)"
proof -
  obtain b w1 where e: "nl_routeIsExist N dst via dev (nic_netns n) w = (b, w1)" by (metis prod.collapse)
  note laws = exist_law [OF assms(1,4,5,6,3) e]
  show ?thesis
  proof (cases b)
    case False
    with laws e assms(2,7) show ?thesis by (auto simp: nic_delRoute_def)
  next
    case True
    obtain o2 w2 where s: "nl_routeSetEntry N dst via False dev (nic_netns n) NH_NONE w1 = (o2, w2)"
      by (metis prod.collapse)
    from del_law [OF assms(1,4,5,6,3) s] laws True e s assms(2,7) show ?thesis
      by (cases o2) (auto simp: nic_delRoute_def)
  qed
qed

end

text \<open>
  A kernel that answers every query, removes what is there, and adds a route where the destination
  is free.
\<close>

locale route_table_up = route_table manages
  for manages :: "'w netlink_if \<Rightarrow> ('w \<Rightarrow> routes) \<Rightarrow> bool" +
  fixes able :: "'w netlink_if \<Rightarrow> ('w \<Rightarrow> routes) \<Rightarrow> bool"
  assumes up_exist: "able N t \<Longrightarrow> arg_ok dst \<Longrightarrow> shell_word via \<Longrightarrow> arg_ok dev \<Longrightarrow> arg_ok ns \<Longrightarrow>
      route_there (t w) ns dst via dev \<Longrightarrow> fst (nl_routeIsExist N dst via dev ns w)"
    and up_add: "able N t \<Longrightarrow> arg_ok dst \<Longrightarrow> shell_word via \<Longrightarrow> arg_ok dev \<Longrightarrow> arg_ok ns \<Longrightarrow>
      t w ns (dest_arg dst) = None \<Longrightarrow> fst (nl_routeSetEntry N dst via True dev ns nhflags w)"
    and up_del: "able N t \<Longrightarrow> arg_ok dst \<Longrightarrow> shell_word via \<Longrightarrow> arg_ok dev \<Longrightarrow> arg_ok ns \<Longrightarrow>
      route_there (t w) ns dst via dev \<Longrightarrow> fst (nl_routeSetEntry N dst via False dev ns nhflags w)"
begin

lemma addRoute_up:
  assumes "manages N t" "able N t" "nic_netlink n = Some N" "arg_ok (nic_netns n)"
    and "arg_ok (rt_dest r)" "shell_word (rt_via r)" "arg_ok (rt_dev r)"
    and "t w (nic_netns n) (dest_arg (rt_dest r)) = None \<or>
      route_there (t w) (nic_netns n) (rt_dest r) (rt_via r) (rt_dev r)"
  shows "fst (fst (nic_addRoute r nhflags n w))"
proof -
  obtain b w1 where e: "nl_routeIsExist N (rt_dest r) (rt_via r) (rt_dev r) (nic_netns n) w = (b, w1)"
    by (metis prod.collapse)
  show ?thesis
  proof (cases b)
    case True
    with e assms(3) show ?thesis by (simp add: nic_addRoute_def Let_def)
  next
    case False
    with up_exist [OF assms(2,5,6,7,4), of w] e assms(8) exist_law [OF assms(1,5,6,7,4) e]
    have "t w1 (nic_netns n) (dest_arg (rt_dest r)) = None" by auto
    from up_add [OF assms(2,5,6,7,4), of w1 nhflags] this False e assms(3) show ?thesis
      by (auto simp: nic_addRoute_def Let_def split: prod.split bool.split)
  qed
qed

lemma delRoute_up:
  assumes "manages N t" "able N t" "nic_netlink n = Some N" "arg_ok (nic_netns n)"
    and "arg_ok dst" "shell_word via" "arg_ok dev"
  shows "fst (fst (nic_delRoute dst via dev n w)) \<and>
    \<not> route_there (t (snd (nic_delRoute dst via dev n w))) (nic_netns n) dst via dev"
proof -
  obtain b w1 where e: "nl_routeIsExist N dst via dev (nic_netns n) w = (b, w1)" by (metis prod.collapse)
  note el = exist_law [OF assms(1,5,6,7,4) e]
  show ?thesis
  proof (cases b)
    case False
    with up_exist [OF assms(2,5,6,7,4), of w] e el assms(3) show ?thesis by (auto simp: nic_delRoute_def)
  next
    case True
    obtain o2 w2 where s: "nl_routeSetEntry N dst via False dev (nic_netns n) NH_NONE w1 = (o2, w2)"
      by (metis prod.collapse)
    from True el have "route_there (t w1) (nic_netns n) dst via dev" by simp
    from up_del [OF assms(2,5,6,7,4) this, of NH_NONE] s del_law [OF assms(1,5,6,7,4) s] True e assms(3)
    show ?thesis by (auto simp: nic_delRoute_def removed_def route_there_def set_route_def)
  qed
qed

end

subsection \<open>What \<open>ip route\<close> is documented to do\<close>

definition ip_route_show :: "string \<Rightarrow> string \<Rightarrow> string \<Rightarrow> string \<Rightarrow> string" where
  "ip_route_show dst via dev ns =
     addNetns (''ip route show '' @ dest_arg dst @ '' via '' @ via @ '' '' @ dev_arg dev) ns"

definition flags_text :: "route_nh_flags \<Rightarrow> string" where
  "flags_text nhflags = (case nhflags of NH_NONE \<Rightarrow> [] | NH_onlink \<Rightarrow> ''onlink'' | NH_pervasive \<Rightarrow> ''pervasive'')"

definition ip_route_set :: "bool \<Rightarrow> string \<Rightarrow> string \<Rightarrow> string \<Rightarrow> string \<Rightarrow> route_nh_flags \<Rightarrow> string" where
  "ip_route_set add dst via dev ns nhflags =
     addNetns (''ip route '' @ add_or_del add @ '' '' @ dest_arg dst @ '' via '' @ via @ '' '' @ dev_arg dev
       @ '' '' @ flags_text nhflags) ns"

text \<open>
  \<open>show\<close> prints a line of text per matching route and changes nothing. \<open>add\<close> fails when the
  destination has a route, \<open>del\<close> when no route matches; a failing command changes nothing.
\<close>

definition prints_iff :: "string \<Rightarrow> bool \<Rightarrow> bool" where
  "prints_iff out b \<longleftrightarrow> (pop_newline out \<noteq> [] \<longleftrightarrow> b)"

definition ip_routes_documented :: "'w host \<Rightarrow> ('w \<Rightarrow> routes) \<Rightarrow> bool" where
  "ip_routes_documented run t \<longleftrightarrow>
     (\<forall>dst via dev ns w ch w'. arg_ok dst \<longrightarrow> shell_word via \<longrightarrow> arg_ok dev \<longrightarrow> arg_ok ns \<longrightarrow>
        run (ip_route_show dst via dev ns) w = (ch, w') \<longrightarrow>
        t w' = t w \<and> (exit_ok ch \<longrightarrow> prints_iff (child_stdout ch) (route_there (t w) ns dst via dev))) \<and>
     (\<forall>dst via dev ns nhflags w ch w'. arg_ok dst \<longrightarrow> shell_word via \<longrightarrow> arg_ok dev \<longrightarrow> arg_ok ns \<longrightarrow>
        run (ip_route_set True dst via dev ns nhflags) w = (ch, w') \<longrightarrow>
        (if exit_ok ch then added (t w) (t w') ns dst via dev else t w' = t w)) \<and>
     (\<forall>dst via dev ns nhflags w ch w'. arg_ok dst \<longrightarrow> shell_word via \<longrightarrow> arg_ok dev \<longrightarrow> arg_ok ns \<longrightarrow>
        run (ip_route_set False dst via dev ns nhflags) w = (ch, w') \<longrightarrow>
        (if exit_ok ch then removed (t w) (t w') ns dst via dev else t w' = t w))"

definition ip_routes_able :: "'w host \<Rightarrow> ('w \<Rightarrow> routes) \<Rightarrow> bool" where
  "ip_routes_able run t \<longleftrightarrow>
     (\<forall>dst via dev ns w. arg_ok dst \<longrightarrow> shell_word via \<longrightarrow> arg_ok dev \<longrightarrow> arg_ok ns \<longrightarrow>
        exit_ok (fst (run (ip_route_show dst via dev ns) w))) \<and>
     (\<forall>dst via dev ns nhflags w. arg_ok dst \<longrightarrow> shell_word via \<longrightarrow> arg_ok dev \<longrightarrow> arg_ok ns \<longrightarrow>
        t w ns (dest_arg dst) = None \<longrightarrow> exit_ok (fst (run (ip_route_set True dst via dev ns nhflags) w))) \<and>
     (\<forall>dst via dev ns nhflags w. arg_ok dst \<longrightarrow> shell_word via \<longrightarrow> arg_ok dev \<longrightarrow> arg_ok ns \<longrightarrow>
        route_there (t w) ns dst via dev \<longrightarrow> exit_ok (fst (run (ip_route_set False dst via dev ns nhflags) w)))"

subsection \<open>\<open>NetlinkIpCmd\<close> fulfils the contract\<close>

definition ip_cmd_manages :: "'w netlink_if \<Rightarrow> ('w \<Rightarrow> routes) \<Rightarrow> bool" where
  "ip_cmd_manages N t \<longleftrightarrow> (\<exists>run. N = netlink_ip_cmd run \<and> ip_routes_documented run t)"

definition ip_cmd_able :: "'w netlink_if \<Rightarrow> ('w \<Rightarrow> routes) \<Rightarrow> bool" where
  "ip_cmd_able N t \<longleftrightarrow> (\<exists>run. N = netlink_ip_cmd run \<and> ip_routes_documented run t \<and> ip_routes_able run t)"

lemma netlink_ip_cmd_routes [simp]:
  "nl_routeIsExist (netlink_ip_cmd run) dst via dev ns = has_output run (ip_route_show dst via dev ns)"
  "nl_routeSetEntry (netlink_ip_cmd run) dst via add dev ns nhflags =
     executeCommand run (ip_route_set add dst via dev ns nhflags)"
  by (simp_all add: netlink_ip_cmd_def routeIsExist_def routeSetEntry_def ip_route_show_def
      ip_route_set_def flags_text_def Let_def)

lemma has_output_run: "run cmd w = (ch, w') \<Longrightarrow>
   has_output run cmd w = (exit_ok ch \<and> pop_newline (child_stdout ch) \<noteq> [], w')"
  by (cases ch) (simp_all add: has_output_def execute3_def exit_ok_def child_stdout_def)

lemma executeCommand_run: "run cmd w = (ch, w') \<Longrightarrow> executeCommand run cmd w = (exit_ok ch, w')"
  by (simp add: executeCommand_def execute_exit)

lemma has_output_split: "has_output run cmd w = (b, w') \<Longrightarrow>
   \<exists>ch. run cmd w = (ch, w') \<and> b = (exit_ok ch \<and> pop_newline (child_stdout ch) \<noteq> [])"
  using has_output_run [of run cmd w "fst (run cmd w)" "snd (run cmd w)"] by (cases "run cmd w") auto

lemma executeCommand_split: "executeCommand run cmd w = (ok, w') \<Longrightarrow> \<exists>ch. run cmd w = (ch, w') \<and> ok = exit_ok ch"
  using executeCommand_run [of run cmd w "fst (run cmd w)" "snd (run cmd w)"] by (cases "run cmd w") auto

lemma ip_show_doc:
  "ip_routes_documented run t \<Longrightarrow> arg_ok dst \<Longrightarrow> shell_word via \<Longrightarrow> arg_ok dev \<Longrightarrow> arg_ok ns \<Longrightarrow>
   run (ip_route_show dst via dev ns) w = (ch, w') \<Longrightarrow>
   t w' = t w \<and> (exit_ok ch \<longrightarrow> prints_iff (child_stdout ch) (route_there (t w) ns dst via dev))"
  unfolding ip_routes_documented_def by (drule conjunct1) (erule allE | erule (1) impE | assumption)+

lemma ip_add_doc:
  "ip_routes_documented run t \<Longrightarrow> arg_ok dst \<Longrightarrow> shell_word via \<Longrightarrow> arg_ok dev \<Longrightarrow> arg_ok ns \<Longrightarrow>
   run (ip_route_set True dst via dev ns nhflags) w = (ch, w') \<Longrightarrow>
   (if exit_ok ch then added (t w) (t w') ns dst via dev else t w' = t w)"
  unfolding ip_routes_documented_def by blast

lemma ip_del_doc:
  "ip_routes_documented run t \<Longrightarrow> arg_ok dst \<Longrightarrow> shell_word via \<Longrightarrow> arg_ok dev \<Longrightarrow> arg_ok ns \<Longrightarrow>
   run (ip_route_set False dst via dev ns nhflags) w = (ch, w') \<Longrightarrow>
   (if exit_ok ch then removed (t w) (t w') ns dst via dev else t w' = t w)"
  unfolding ip_routes_documented_def by blast

lemma ip_cmd_managesE:
  assumes "ip_cmd_manages N t"
  obtains run where "N = netlink_ip_cmd run" "ip_routes_documented run t"
  using assms unfolding ip_cmd_manages_def by blast

interpretation ip_cmd: route_table ip_cmd_manages
proof (unfold_locales, goal_cases)
  case (1 N t dst via dev ns w b w')
  from 1(1) obtain run where r: "N = netlink_ip_cmd run" "ip_routes_documented run t" by (rule ip_cmd_managesE)
  from 1(6) [unfolded r netlink_ip_cmd_routes] obtain ch where
    c: "run (ip_route_show dst via dev ns) w = (ch, w')" and b: "b = (exit_ok ch \<and> pop_newline (child_stdout ch) \<noteq> [])"
    by (blast dest: has_output_split)
  from ip_show_doc [OF r(2) 1(2-5) c] b show ?case by (auto simp: prints_iff_def)
next
  case (2 N t dst via dev ns nhflags w ok w')
  from 2(1) obtain run where r: "N = netlink_ip_cmd run" "ip_routes_documented run t" by (rule ip_cmd_managesE)
  from 2(6) [unfolded r netlink_ip_cmd_routes] obtain ch where
    c: "run (ip_route_set True dst via dev ns nhflags) w = (ch, w')" and ok: "ok = exit_ok ch"
    by (blast dest: executeCommand_split)
  from ip_add_doc [OF r(2) 2(2-5) c] ok show ?case by simp
next
  case (3 N t dst via dev ns nhflags w ok w')
  from 3(1) obtain run where r: "N = netlink_ip_cmd run" "ip_routes_documented run t" by (rule ip_cmd_managesE)
  from 3(6) [unfolded r netlink_ip_cmd_routes] obtain ch where
    c: "run (ip_route_set False dst via dev ns nhflags) w = (ch, w')" and ok: "ok = exit_ok ch"
    by (blast dest: executeCommand_split)
  from ip_del_doc [OF r(2) 3(2-5) c] ok show ?case by simp
qed

lemma fst_executeCommand: "exit_ok (fst (run cmd w)) \<Longrightarrow> fst (executeCommand run cmd w)"
  using executeCommand_run [of run cmd w "fst (run cmd w)" "snd (run cmd w)"] by simp

interpretation ip_cmd_up: route_table_up ip_cmd_manages ip_cmd_able
proof (unfold_locales, goal_cases)
  case (1 N t dst via dev ns w)
  then obtain run where r: "N = netlink_ip_cmd run" "ip_routes_documented run t" "ip_routes_able run t"
    by (auto simp: ip_cmd_able_def)
  obtain ch w' where c: "run (ip_route_show dst via dev ns) w = (ch, w')" by (cases "run (ip_route_show dst via dev ns) w")
  from r(3) 1 have "exit_ok (fst (run (ip_route_show dst via dev ns) w))"
    unfolding ip_routes_able_def by blast
  with ip_show_doc [OF r(2) 1(2-5) c] c 1(6) show ?case by (simp add: r(1) has_output_run prints_iff_def)
next
  case (2 N t dst via dev ns w nhflags)
  then obtain run where r: "N = netlink_ip_cmd run" "ip_routes_able run t" by (auto simp: ip_cmd_able_def)
  with 2 have "exit_ok (fst (run (ip_route_set True dst via dev ns nhflags) w))"
    unfolding ip_routes_able_def by blast
  with r(1) show ?case by (simp add: fst_executeCommand)
next
  case (3 N t dst via dev ns w nhflags)
  then obtain run where r: "N = netlink_ip_cmd run" "ip_routes_able run t" by (auto simp: ip_cmd_able_def)
  with 3 have "exit_ok (fst (run (ip_route_set False dst via dev ns nhflags) w))"
    unfolding ip_routes_able_def by blast
  with r(1) show ?case by (simp add: fst_executeCommand)
qed

subsection \<open>A concrete \<open>ip\<close>\<close>

text \<open>An \<open>ip\<close> whose world is the routing tables themselves, for the witnesses.\<close>

definition words :: "string \<Rightarrow> string list" where
  "words s = filter (\<lambda>t. t \<noteq> []) (split s (CHR '' ''))"

lemma words_sep: "CHR '' '' \<notin> set a \<Longrightarrow> words (a @ CHR '' '' # s) = (if a = [] then [] else [a]) @ words s"
  by (simp add: words_def split_sep)

lemma words_end: "CHR '' '' \<notin> set a \<Longrightarrow> words a = (if a = [] then [] else [a])"
  by (cases "a = []") (simp_all add: words_def split_single)

definition split_netns :: "string list \<Rightarrow> string \<times> string list" where
  "split_netns ws = (if take 3 ws = [''ip'', ''netns'', ''exec''] then (ws ! 3, drop 4 ws) else ([], ws))"

definition named_dev :: "string list \<Rightarrow> string" where
  "named_dev rest = (case rest of x # d # _ \<Rightarrow> if x = ''dev'' then d else [] | _ \<Rightarrow> [])"

definition demo_ip :: "routes host" where
  "demo_ip cmd t =
     (case split_netns (words cmd) of
        (ns, a # b # action # dst # c # via # rest) \<Rightarrow>
          (let dev = named_dev rest in
           if action = ''show''
           then (Exited 0 (if route_there t ns dst via dev then ''route'' @ [CHR 0x0A] else []) [], t)
           else if action = ''add''
           then (if t ns (dest_arg dst) = None
                 then (Exited 0 [] [], set_route t ns dst (Some (via, if dev = [] then ''eth0'' else dev)))
                 else (Exited 2 [] ''File exists'', t))
           else (if route_there t ns dst via dev then (Exited 0 [] [], set_route t ns dst None)
                 else (Exited 2 [] ''No such process'', t)))
      | _ \<Rightarrow> (Exited 1 [] [], t))"

lemma arg_no_space: "arg_ok s \<Longrightarrow> CHR '' '' \<notin> set s"
  by (auto simp: arg_ok_def shell_word_chars)

lemma dest_arg_simps [simp]:
  "dest_arg (dest_arg dst) = dest_arg dst" "dest_arg dst \<noteq> []"
  "arg_ok dst \<Longrightarrow> CHR '' '' \<notin> set (dest_arg dst)"
  by (auto simp: dest_arg_def dest: arg_no_space)

lemma route_there_dest_arg [simp]: "route_there t ns (dest_arg dst) via dev = route_there t ns dst via dev"
  by (simp add: route_there_def)

lemma set_route_dest_arg [simp]: "set_route t ns (dest_arg dst) e = set_route t ns dst e"
  by (simp add: set_route_def)

lemma words_dev_arg: "arg_ok dev \<Longrightarrow> words (dev_arg dev) = (if dev = [] then [] else [''dev'', dev])"
  using words_sep [of "''dev''" dev] words_end [of dev] arg_no_space [of dev] by (auto simp: dev_arg_def words_def)

lemma words_dev_flags: "arg_ok dev \<Longrightarrow>
   words (dev_arg dev @ '' '' @ flags_text nhflags) = (if dev = [] then [] else [''dev'', dev]) @ words (flags_text nhflags)"
  using words_sep [of "''dev''" "dev @ '' '' @ flags_text nhflags"] words_sep [of dev "flags_text nhflags"]
    words_sep [of "[]" "flags_text nhflags"] arg_no_space [of dev]
  by (auto simp: dev_arg_def)

lemma named_dev_flags: "named_dev ((if dev = [] then [] else [''dev'', dev]) @ words (flags_text nhflags)) = dev"
  by (cases nhflags) (simp_all add: named_dev_def flags_text_def words_end)

lemma split_netns_addNetns:
  assumes "arg_ok ns" "words cmd = [''ip'', ''route''] @ rest"
  shows "split_netns (words (addNetns cmd ns)) = (ns, words cmd)"
proof (cases "ns = []")
  case True
  with assms(2) show ?thesis by (cases rest) (simp_all add: addNetns_def split_netns_def)
next
  case False
  have "words (addNetns cmd ns) = [''ip'', ''netns'', ''exec'', ns] @ words cmd"
    using False words_sep [of "''ip''" "''netns exec '' @ ns @ '' '' @ cmd"]
      words_sep [of "''netns''" "''exec '' @ ns @ '' '' @ cmd"] words_sep [of "''exec''" "ns @ '' '' @ cmd"]
      words_sep [of ns cmd] arg_no_space [OF assms(1)] by (simp add: addNetns_def)
  then show ?thesis by (simp add: split_netns_def)
qed

lemma words_route_args:
  assumes "arg_ok dst" "shell_word via" "action \<noteq> []" "CHR '' '' \<notin> set action"
  shows "words (''ip route '' @ action @ '' '' @ dest_arg dst @ '' via '' @ via @ '' '' @ s) =
    [''ip'', ''route'', action, dest_arg dst, ''via'', via] @ words s"
  using assms words_sep [of "''ip''" "''route '' @ action @ '' '' @ dest_arg dst @ '' via '' @ via @ '' '' @ s"]
    words_sep [of "''route''" "action @ '' '' @ dest_arg dst @ '' via '' @ via @ '' '' @ s"]
    words_sep [of action "dest_arg dst @ '' via '' @ via @ '' '' @ s"]
    words_sep [of "dest_arg dst" "''via '' @ via @ '' '' @ s"]
    words_sep [of "''via''" "via @ '' '' @ s"] words_sep [of via s] shell_word_chars [of via]
  by simp

lemma demo_ip_show:
  assumes "arg_ok dst" "shell_word via" "arg_ok dev" "arg_ok ns"
  shows "demo_ip (ip_route_show dst via dev ns) t =
    (Exited 0 (if route_there t ns dst via dev then ''route'' @ [CHR 0x0A] else []) [], t)"
proof -
  note w = words_route_args [OF assms(1,2), of "''show''" "dev_arg dev", simplified]
  have "named_dev (words (dev_arg dev)) = dev" using assms(3) by (simp add: words_dev_arg named_dev_def)
  with w show ?thesis
    using split_netns_addNetns [OF assms(4), of "''ip route show '' @ dest_arg dst @ '' via '' @ via @ '' '' @ dev_arg dev"]
    by (simp add: demo_ip_def ip_route_show_def)
qed

lemma demo_ip_set:
  assumes "arg_ok dst" "shell_word via" "arg_ok dev" "arg_ok ns"
  shows "demo_ip (ip_route_set True dst via dev ns nhflags) t =
      (if t ns (dest_arg dst) = None
       then (Exited 0 [] [], set_route t ns dst (Some (via, if dev = [] then ''eth0'' else dev)))
       else (Exited 2 [] ''File exists'', t))"
    "demo_ip (ip_route_set False dst via dev ns nhflags) t =
      (if route_there t ns dst via dev then (Exited 0 [] [], set_route t ns dst None)
       else (Exited 2 [] ''No such process'', t))"
proof -
  let ?s = "dev_arg dev @ '' '' @ flags_text nhflags"
  have nd: "named_dev (words ?s) = dev"
    using assms(3) by (simp only: words_dev_flags named_dev_flags)
  have sp: "split_netns (words (ip_route_set add dst via dev ns nhflags)) =
      (ns, [''ip'', ''route'', add_or_del add, dest_arg dst, ''via'', via] @ words ?s)" for add
    using words_route_args [OF assms(1,2), of "add_or_del add" ?s]
      split_netns_addNetns [OF assms(4), of "''ip route '' @ add_or_del add @ '' '' @ dest_arg dst @ '' via '' @ via @ '' '' @ ?s"]
    by (simp add: ip_route_set_def add_or_del_def)
  show "demo_ip (ip_route_set True dst via dev ns nhflags) t =
      (if t ns (dest_arg dst) = None
       then (Exited 0 [] [], set_route t ns dst (Some (via, if dev = [] then ''eth0'' else dev)))
       else (Exited 2 [] ''File exists'', t))"
    by (simp add: demo_ip_def sp nd [simplified] add_or_del_def Let_def)
  show "demo_ip (ip_route_set False dst via dev ns nhflags) t =
      (if route_there t ns dst via dev then (Exited 0 [] [], set_route t ns dst None)
       else (Exited 2 [] ''No such process'', t))"
    by (simp add: demo_ip_def sp nd [simplified] add_or_del_def Let_def)
qed

lemma demo_ip_documented: "ip_routes_documented demo_ip (\<lambda>t. t)"
  unfolding ip_routes_documented_def
  by (intro conjI allI impI; simp only: demo_ip_show demo_ip_set)
    (auto simp: prints_iff_def pop_newline_def child_stdout_def exit_ok_def added_def removed_def split: if_splits)

lemma demo_ip_able: "ip_routes_able demo_ip (\<lambda>t. t)"
  by (simp add: ip_routes_able_def demo_ip_show demo_ip_set exit_ok_def)

end
