(* ===== verification/Host_Gw_Facts.thy ===== *)
theory Host_Gw_Facts
  imports Host_Gw Netlink_Spec "HOL-Library.Multiset"
begin

text \<open>
  The host-gw backend keeps the kernel's routes and its cache of routed nodes together: what one
  run of \<open>eventHandler\<close> does, whatever commands fail, and exactly what it reaches when none does.
\<close>

subsection \<open>Vocabulary\<close>

text \<open>\<open>routed\<close>: the kernel has the route of every node in the list.\<close>

definition routed :: "routes \<Rightarrow> string \<Rightarrow> (string \<times> node_info) list \<Rightarrow> bool" where
  "routed t ns m \<longleftrightarrow> (\<forall>e \<in> set m. route_there t ns (pod_cidr (snd e)) (internal_ip (snd e)) [])"

text \<open>Nodes whose data can stand in a command, and of which no two own the same pod CIDR.\<close>

definition nodes_ok :: "(string \<times> node_info) set \<Rightarrow> bool" where
  "nodes_ok S \<longleftrightarrow> (\<forall>e \<in> S. shell_word (pod_cidr (snd e)) \<and> shell_word (internal_ip (snd e))) \<and>
     (\<forall>e \<in> S. \<forall>e' \<in> S. pod_cidr (snd e) = pod_cidr (snd e') \<longrightarrow> fst e = fst e')"

text \<open>
  \<open>subnets_known I t subs\<close>: reading a node's subnet gives \<open>subs\<close> of the world and touches neither
  that nor the routes. \<open>routes_keep N subs\<close>: route commands do not touch it either.
\<close>

definition subnets_known :: "'w ipam_if \<Rightarrow> ('w \<Rightarrow> routes) \<Rightarrow> ('w \<Rightarrow> string \<Rightarrow> string) \<Rightarrow> bool" where
  "subnets_known I t subs \<longleftrightarrow>
     (\<forall>name w. \<exists>ok w'. ip_getSubnet I name w = ((ok, subs w name), w') \<and> t w' = t w \<and> subs w' = subs w)"

definition routes_keep :: "'w netlink_if \<Rightarrow> ('w \<Rightarrow> 'v) \<Rightarrow> bool" where
  "routes_keep N f \<longleftrightarrow>
     (\<forall>dst via dev ns w. f (snd (nl_routeIsExist N dst via dev ns w)) = f w) \<and>
     (\<forall>dst via add dev ns nhflags w. f (snd (nl_routeSetEntry N dst via add dev ns nhflags w)) = f w)"

lemma routed_simps [simp]:
  "routed t ns []" "routed t ns (e # m) \<longleftrightarrow> route_there t ns (pod_cidr (snd e)) (internal_ip (snd e)) [] \<and> routed t ns m"
  "routed t ns (m @ m') \<longleftrightarrow> routed t ns m \<and> routed t ns m'"
  by (auto simp: routed_def)

lemma routed_subset: "routed t ns m \<Longrightarrow> set m' \<subseteq> set m \<Longrightarrow> routed t ns m'"
  by (auto simp: routed_def)

lemma route_there_added: "added t t' ns dst via dev \<Longrightarrow> route_there t ns d v [] \<Longrightarrow> route_there t' ns d v []"
  by (auto simp: added_def route_there_def set_route_def)

lemma routed_added: "added t t' ns dst via dev \<Longrightarrow> routed t ns m \<Longrightarrow> routed t' ns m"
  by (auto simp: routed_def intro: route_there_added)

lemma routed_emplace: "routed t ns m \<Longrightarrow> route_there t ns (pod_cidr info) (internal_ip info) [] \<Longrightarrow>
   routed t ns (emplace name info m)"
  by (simp add: emplace_def)

lemma set_emplace: "set (emplace k v m) \<subseteq> insert (k, v) (set m)"
  by (auto simp: emplace_def)

lemma emplace_grows: "set m \<subseteq> set (emplace k v m)"
  by (auto simp: emplace_def)

lemma keys_emplace: "fst ` set (emplace k v m) = insert k (fst ` set m)"
  by (auto simp: emplace_def map_of_eq_None_iff intro: rev_image_eqI)

lemma nodes_ok_subset: "nodes_ok S \<Longrightarrow> T \<subseteq> S \<Longrightarrow> nodes_ok T"
  unfolding nodes_ok_def by blast

lemma nodes_ok_words: "nodes_ok S \<Longrightarrow> e \<in> S \<Longrightarrow> shell_word (pod_cidr (snd e)) \<and> shell_word (internal_ip (snd e))"
  unfolding nodes_ok_def by blast

lemma nodes_ok_names: "nodes_ok S \<Longrightarrow> e \<in> S \<Longrightarrow> e' \<in> S \<Longrightarrow> pod_cidr (snd e) = pod_cidr (snd e') \<Longrightarrow> fst e = fst e'"
  unfolding nodes_ok_def by blast

lemma nodes_ok_dest: "nodes_ok S \<Longrightarrow> e \<in> S \<Longrightarrow> dest_arg (pod_cidr (snd e)) = pod_cidr (snd e)"
  by (simp add: dest_arg_word nodes_ok_words)

text \<open>The first entry of a list owns a CIDR that no other entry of it has.\<close>

lemma nodes_ok_head:
  assumes "nodes_ok (set (e # m))" "distinct_keys (e # m)"
  shows "pod_cidr (snd e) \<notin> pod_cidr ` snd ` set m" "fst e \<notin> fst ` set m" "distinct_keys m" "nodes_ok (set m)"
proof -
  show "fst e \<notin> fst ` set m" "distinct_keys m" using assms(2) by (simp_all add: distinct_keys_def)
  then show "pod_cidr (snd e) \<notin> pod_cidr ` snd ` set m"
    using nodes_ok_names [OF assms(1), of e] by fastforce
  show "nodes_ok (set m)" using assms(1) by (rule nodes_ok_subset) auto
qed

lemma subnets_knownE:
  assumes "subnets_known I t subs"
  obtains ok w' where "ip_getSubnet I name w = ((ok, subs w name), w')" "t w' = t w" "subs w' = subs w"
  using assms unfolding subnets_known_def by blast

lemma Route_sel [simp]: "rt_dest (Route d v e) = d" "rt_via (Route d v e) = v" "rt_dev (Route d v e) = e"
  by (simp_all add: Route_def)

lemma addRoute_keeps: "routes_keep N f \<Longrightarrow> nic_netlink n = Some N \<Longrightarrow> f (snd (nic_addRoute r fl n w)) = f w"
  by (simp add: nic_addRoute_def Let_def routes_keep_def split_beta split: bool.split)

lemma delRoute_keeps: "routes_keep N f \<Longrightarrow> nic_netlink n = Some N \<Longrightarrow> f (snd (nic_delRoute dst via dev n w)) = f w"
  by (simp add: nic_delRoute_def routes_keep_def split_beta split: bool.split)

subsection \<open>The two loops, whatever fails\<close>

context route_table
begin

lemma node_route_law:
  assumes "manages N t" "nic_netlink n = Some N" "arg_ok (nic_netns n)" "nodes_ok S" "(name, info) \<in> S"
    and "nic_addRoute (Route (pod_cidr info) (internal_ip info) []) fl n w = ((ok, n'), w')"
  shows "nic_netlink n' = Some N \<and> nic_netns n' = nic_netns n \<and>
    (t w' = t w \<or> ok \<and> added (t w) (t w') (nic_netns n) (pod_cidr info) (internal_ip info) []) \<and>
    (ok \<longrightarrow> route_there (t w') (nic_netns n) (pod_cidr info) (internal_ip info) [])"
proof -
  have "shell_word (pod_cidr info)" "shell_word (internal_ip info)"
    using nodes_ok_words [OF assms(4,5)] by simp_all
  with addRoute_law [OF assms(1,2,3), of "Route (pod_cidr info) (internal_ip info) []", OF _ _ _ assms(6)] assms(2)
  show ?thesis by (cases ok) auto
qed

lemma node_unroute_law:
  assumes "manages N t" "nic_netlink n = Some N" "arg_ok (nic_netns n)" "nodes_ok S" "(name, info) \<in> S"
    and "nic_delRoute (pod_cidr info) (internal_ip info) [] n w = ((ok, n'), w')"
  shows "nic_netlink n' = Some N \<and> nic_netns n' = nic_netns n \<and> (\<not> ok \<longrightarrow> t w' = t w) \<and>
    (\<forall>x. x \<noteq> pod_cidr info \<longrightarrow> t w' (nic_netns n) x = t w (nic_netns n) x)"
proof -
  have c: "shell_word (pod_cidr info)" "shell_word (internal_ip info)"
    using nodes_ok_words [OF assms(4,5)] by simp_all
  then have "dest_arg (pod_cidr info) = pod_cidr info" by (simp add: dest_arg_word)
  with c delRoute_law [OF assms(1,2,3), of "pod_cidr info" "internal_ip info" "[]", OF _ _ _ assms(6)] assms(2)
  show ?thesis by (cases ok) (auto simp: removed_def set_route_def)
qed

lemma hostgw_add_safe:
  assumes "manages N t" "subnets_known I t subs" "nodes_ok (set cluster)" "arg_ok (nic_netns n)"
    and "nic_netlink n = Some N" "routed (t w) (nic_netns n) cache" "distinct_keys cache"
      "map_of cache current = None"
    and "hostgw_add I current cluster cache n w = ((cache', n'), w')"
  shows "routed (t w') (nic_netns n) cache' \<and> distinct_keys cache' \<and> map_of cache' current = None \<and>
    set cache \<subseteq> set cache' \<and> set cache' \<subseteq> set cache \<union> set cluster \<and> nic_netlink n' = Some N \<and> nic_netns n' = nic_netns n"
  using assms(3-)
proof (induction cluster arbitrary: cache n w)
  case Nil
  then show ?case by simp
next
  case (Cons e cluster)
  obtain name info where e: "e = (name, info)" by (cases e)
  have ok': "nodes_ok (set cluster)" using Cons.prems(1) by (rule nodes_ok_subset) auto
  show ?case
  proof (cases "current = name")
    case True
    with Cons.IH [OF ok' Cons.prems(2-6)] Cons.prems(7) show ?thesis by (auto simp: e)
  next
    case other: False
    obtain got w1 where g: "ip_getSubnet I name w = ((got, subs w name), w1)" "t w1 = t w"
      using assms(2) by (rule subnets_knownE)
    show ?thesis
    proof (cases "subs w name \<noteq> [] \<and> map_of cache name = None")
      case False
      with Cons.prems(7) other g
      have "hostgw_add I current cluster cache n w1 = ((cache', n'), w')" by (simp add: e)
      from Cons.IH [OF ok' Cons.prems(2,3) _ Cons.prems(5,6) this] Cons.prems(4) g(2) show ?thesis by auto
    next
      case True
      obtain ok n1 w2 where a: "nic_addRoute (Route (pod_cidr info) (internal_ip info) []) NH_NONE n w1 = ((ok, n1), w2)"
        by (metis prod.collapse)
      from node_route_law [OF assms(1) Cons.prems(3,2,1), of name info, OF _ a]
      have n1: "nic_netlink n1 = Some N" "nic_netns n1 = nic_netns n"
        and tr: "t w2 = t w1 \<or> added (t w1) (t w2) (nic_netns n) (pod_cidr info) (internal_ip info) []"
        and th: "ok \<longrightarrow> route_there (t w2) (nic_netns n) (pod_cidr info) (internal_ip info) []"
        by (auto simp: e)
      have r: "routed (t w2) (nic_netns n) cache" using tr Cons.prems(4) g(2) routed_added by auto
      define c where "c = (if ok then emplace name info cache else cache)"
      have "routed (t w2) (nic_netns n1) c" "distinct_keys c" "map_of c current = None"
        "set cache \<subseteq> set c" "set c \<subseteq> insert e (set cache)"
        using r th n1 Cons.prems(5,6) other set_emplace [of name info cache] emplace_grows [of cache name info]
        by (auto simp: c_def e intro: routed_emplace distinct_keys_emplace)
      moreover have "hostgw_add I current cluster c n1 w2 = ((cache', n'), w')"
        using Cons.prems(7) other g True a by (cases ok) (simp_all add: e c_def)
      moreover have "arg_ok (nic_netns n1)" using Cons.prems(2) n1 by simp
      ultimately show ?thesis using Cons.IH [OF ok' _ n1(1), of w2 c] n1 by auto
    qed
  qed
qed

lemma hostgw_del_safe:
  assumes "manages N t" "subnets_known I t subs" "nodes_ok (set cache)" "arg_ok (nic_netns n)"
    and "nic_netlink n = Some N" "routed (t w) (nic_netns n) cache" "distinct_keys cache"
    and "hostgw_del False I sc cache n w = ((r, kept, n'), w')"
  shows "routed (t w') (nic_netns n) kept \<and> distinct_keys kept \<and> set kept \<subseteq> set cache \<and>
    nic_netlink n' = Some N \<and> nic_netns n' = nic_netns n \<and>
    (\<forall>x. x \<notin> pod_cidr ` snd ` set cache \<longrightarrow> t w' (nic_netns n) x = t w (nic_netns n) x)"
  using assms(3-)
proof (induction cache arbitrary: n w r kept n' w')
  case Nil
  then show ?case by simp
next
  case (Cons e cache)
  obtain name info where e: "e = (name, info)" by (cases e)
  note head = nodes_ok_head [OF Cons.prems(1,5), unfolded e, simplified]
  have ok': "nodes_ok (set cache)" and dk: "distinct_keys cache" "name \<notin> fst ` set cache"
    and apart: "pod_cidr info \<notin> pod_cidr ` snd ` set cache" using head by simp_all
  have cidr: "dest_arg (pod_cidr info) = pod_cidr info" using nodes_ok_dest [OF Cons.prems(1), of e] by (simp add: e)
  obtain got w1 where g: "ip_getSubnet I name w = ((got, subs w name), w1)" "t w1 = t w"
    using assms(2) by (rule subnets_knownE)
  define drop_it where "drop_it \<longleftrightarrow> sc = [] \<or> subs w name = []"
  obtain ok n1 w2 where a: "nic_delRoute (pod_cidr info) (internal_ip info) [] n w1 = ((ok, n1), w2)"
    by (metis prod.collapse)
  define m where "m = (if drop_it then n1 else n)"
  define w3 where "w3 = (if drop_it then w2 else w1)"
  from node_unroute_law [OF assms(1) Cons.prems(3,2,1), of name info, OF _ a] g(2)
  have m: "nic_netlink m = Some N" "nic_netns m = nic_netns n" and same: "\<not> (drop_it \<and> ok) \<longrightarrow> t w3 = t w"
    and frame: "\<forall>x. x \<noteq> pod_cidr info \<longrightarrow> t w3 (nic_netns n) x = t w (nic_netns n) x"
    using Cons.prems(3) by (auto simp: m_def w3_def e)
  obtain r1 kept1 n2 w4 where d: "hostgw_del False I sc cache m w3 = ((r1, kept1, n2), w4)" by (metis prod.collapse)
  have res: "w' = w4" "n' = n2" "kept = (if drop_it \<and> ok then kept1 else e # kept1)"
    using Cons.prems(6) g a d by (cases "drop_it"; cases ok; simp add: e drop_it_def m_def w3_def)+
  have "routed (t w3) (nic_netns m) cache"
    unfolding routed_def
  proof
    fix e' assume e': "e' \<in> set cache"
    then have "pod_cidr (snd e') \<in> pod_cidr ` snd ` set cache" by (intro imageI)
    with apart have "pod_cidr (snd e') \<noteq> pod_cidr info" by metis
    moreover note nodes_ok_dest [OF ok' e']
    ultimately show "route_there (t w3) (nic_netns m) (pod_cidr (snd e')) (internal_ip (snd e')) []"
      using frame Cons.prems(4) e' m(2) by (auto simp: routed_def route_there_def)
  qed
  moreover have "arg_ok (nic_netns m)" using Cons.prems(2) m(2) by simp
  ultimately have ih: "routed (t w4) (nic_netns n) kept1" "distinct_keys kept1" "set kept1 \<subseteq> set cache"
    "nic_netlink n2 = Some N" "nic_netns n2 = nic_netns n"
    "\<forall>x. x \<notin> pod_cidr ` snd ` set cache \<longrightarrow> t w4 (nic_netns n) x = t w3 (nic_netns n) x"
    using Cons.IH [OF ok' _ m(1) _ dk(1) d] m(2) by simp_all
  have "route_there (t w4) (nic_netns n) (pod_cidr info) (internal_ip info) []" if "\<not> (drop_it \<and> ok)"
    using that same ih(6) apart Cons.prems(4) by (simp add: route_there_def cidr e)
  moreover have "distinct_keys (e # kept1)" using ih(2,3) dk(2) by (auto simp: distinct_keys_def e)
  ultimately show ?case using ih res frame by (auto simp: e)
qed

end

subsection \<open>The two loops, when every command does what it can\<close>

text \<open>No route of the kernel uses the CIDR of one of these nodes with another gateway.\<close>

definition no_foreign :: "routes \<Rightarrow> string \<Rightarrow> (string \<times> node_info) list \<Rightarrow> bool" where
  "no_foreign t ns m \<longleftrightarrow> (\<forall>e \<in> set m. t ns (pod_cidr (snd e)) = None \<or>
     route_there t ns (pod_cidr (snd e)) (internal_ip (snd e)) [])"

lemma no_foreign_frame:
  assumes "no_foreign t ns (e # m)" "nodes_ok (set (e # m))" "distinct_keys (e # m)"
    and "\<forall>x. x \<noteq> pod_cidr (snd e) \<longrightarrow> t' ns x = t ns x"
  shows "no_foreign t' ns m"
  unfolding no_foreign_def
proof
  fix e' assume e': "e' \<in> set m"
  then have "pod_cidr (snd e') \<in> pod_cidr ` snd ` set m" by (intro imageI)
  with nodes_ok_head(1) [OF assms(2,3)] have "pod_cidr (snd e') \<noteq> pod_cidr (snd e)" by metis
  with assms(4) have same: "t' ns (pod_cidr (snd e')) = t ns (pod_cidr (snd e'))" by simp
  from assms(1) e' have "t ns (pod_cidr (snd e')) = None \<or>
      route_there t ns (pod_cidr (snd e')) (internal_ip (snd e')) []" by (simp add: no_foreign_def)
  with nodes_ok_dest [OF nodes_ok_head(4) [OF assms(2,3)] e'] same
  show "t' ns (pod_cidr (snd e')) = None \<or> route_there t' ns (pod_cidr (snd e')) (internal_ip (snd e')) []"
    by (simp add: no_foreign_def route_there_def)
qed

context route_table_up
begin

lemma hostgw_add_exact:
  assumes "manages N t" "able N t" "subnets_known I t subs" "routes_keep N subs"
    and "nodes_ok (set cluster)" "distinct_keys cluster" "arg_ok (nic_netns n)" "nic_netlink n = Some N"
    and "no_foreign (t w) (nic_netns n) cluster"
    and "hostgw_add I current cluster cache n w = ((cache', n'), w')"
  shows "fst ` set cache' = fst ` set cache \<union> {x \<in> fst ` set cluster. x \<noteq> current \<and> subs w x \<noteq> []} \<and>
    subs w' = subs w"
  using assms(5-)
proof (induction cluster arbitrary: cache n w)
  case Nil
  then show ?case by simp
next
  case (Cons e cluster)
  obtain name info where e: "e = (name, info)" by (cases e)
  note head = nodes_ok_head [OF Cons.prems(1,2)]
  note IH = Cons.IH [OF head(4,3)]
  obtain got w1 where g: "ip_getSubnet I name w = ((got, subs w name), w1)" "t w1 = t w" "subs w1 = subs w"
    using assms(3) by (rule subnets_knownE)
  have nf: "no_foreign (t w) (nic_netns n) cluster"
    using no_foreign_frame [OF Cons.prems(5,1,2), of "t w"] by simp
  show ?case
  proof (cases "current = name")
    case True
    with Cons.prems(6) have "hostgw_add I current cluster cache n w = ((cache', n'), w')" by (simp add: e)
    from IH [OF Cons.prems(3,4) nf this] True show ?thesis by (auto simp: e)
  next
    case other: False
    show ?thesis
    proof (cases "subs w name \<noteq> [] \<and> map_of cache name = None")
      case False
      with Cons.prems(6) other g
      have "hostgw_add I current cluster cache n w1 = ((cache', n'), w')" by (simp add: e)
      from IH [OF Cons.prems(3,4) _ this] nf g False other
      show ?thesis by (auto simp: e map_of_eq_None_iff)
    next
      case True
      obtain ok n1 w2 where a: "nic_addRoute (Route (pod_cidr info) (internal_ip info) []) NH_NONE n w1 = ((ok, n1), w2)"
        by (metis prod.collapse)
      have words: "shell_word (pod_cidr info)" "shell_word (internal_ip info)"
        using nodes_ok_words [OF Cons.prems(1), of e] by (simp_all add: e)
      from Cons.prems(5) have "t w1 (nic_netns n) (pod_cidr info) = None \<or>
          route_there (t w1) (nic_netns n) (pod_cidr info) (internal_ip info) []"
        by (simp add: no_foreign_def e g(2))
      with addRoute_up [OF assms(1,2) Cons.prems(4,3), of "Route (pod_cidr info) (internal_ip info) []" w1 NH_NONE]
        words a have ok by (simp add: dest_arg_word)
      from node_route_law [OF assms(1) Cons.prems(4,3,1), of name info, OF _ a] \<open>ok\<close>
      have n1: "nic_netlink n1 = Some N" "nic_netns n1 = nic_netns n"
        and tr: "t w2 = t w1 \<or> added (t w1) (t w2) (nic_netns n) (pod_cidr info) (internal_ip info) []"
        by (auto simp: e)
      have "\<forall>x. x \<noteq> pod_cidr (snd e) \<longrightarrow> t w2 (nic_netns n1) x = t w (nic_netns n1) x"
        using tr g(2) words by (auto simp: e added_def set_route_def dest_arg_word)
      from no_foreign_frame [where t = "t w" and ns = "nic_netns n1" and t' = "t w2", OF _ Cons.prems(1,2) this] Cons.prems(5) n1
      have nf2: "no_foreign (t w2) (nic_netns n1) cluster" by simp
      from addRoute_keeps [OF assms(4) Cons.prems(4), of "Route (pod_cidr info) (internal_ip info) []" NH_NONE w1] a g(3)
      have su: "subs w2 = subs w" by simp
      have "hostgw_add I current cluster (emplace name info cache) n1 w2 = ((cache', n'), w')"
        using Cons.prems(6) other g True a \<open>ok\<close> by (simp add: e)
      from IH [OF _ n1(1) nf2 this] n1(2) Cons.prems(3) su True other
      show ?thesis by (auto simp: e keys_emplace)
    qed
  qed
qed

lemma hostgw_del_exact:
  assumes "manages N t" "able N t" "subnets_known I t subs" "routes_keep N subs"
    and "nodes_ok (set cache)" "distinct_keys cache" "arg_ok (nic_netns n)" "nic_netlink n = Some N"
    and "routed (t w) (nic_netns n) cache"
    and "hostgw_del False I sc cache n w = ((r, kept, n'), w')"
  shows "kept = (if sc = [] then [] else filter (\<lambda>e. subs w (fst e) \<noteq> []) cache) \<and> subs w' = subs w \<and>
    (\<forall>e \<in> set cache - set kept.
       \<not> route_there (t w') (nic_netns n) (pod_cidr (snd e)) (internal_ip (snd e)) [])"
  using assms(5-)
proof (induction cache arbitrary: n w r kept n' w')
  case Nil
  then show ?case by simp
next
  case (Cons e cache)
  obtain name info where e: "e = (name, info)" by (cases e)
  note head = nodes_ok_head [OF Cons.prems(1,2)]
  obtain got w1 where g: "ip_getSubnet I name w = ((got, subs w name), w1)" "t w1 = t w" "subs w1 = subs w"
    using assms(3) by (rule subnets_knownE)
  obtain ok n1 w2 where a: "nic_delRoute (pod_cidr info) (internal_ip info) [] n w1 = ((ok, n1), w2)"
    by (metis prod.collapse)
  have words: "shell_word (pod_cidr info)" "shell_word (internal_ip info)"
    using nodes_ok_words [OF Cons.prems(1), of e] by (simp_all add: e)
  define drop_it where "drop_it \<longleftrightarrow> sc = [] \<or> subs w name = []"
  define m where "m = (if drop_it then n1 else n)"
  define w3 where "w3 = (if drop_it then w2 else w1)"
  from delRoute_up [OF assms(1,2) Cons.prems(4,3), of "pod_cidr info" "internal_ip info" "[]" w1] words a
  have del: ok "\<not> route_there (t w2) (nic_netns n) (pod_cidr info) (internal_ip info) []" by simp_all
  from node_unroute_law [OF assms(1) Cons.prems(4,3,1), of name info, OF _ a] g(2) Cons.prems(4)
  have m: "nic_netlink m = Some N" "nic_netns m = nic_netns n"
    and frame: "\<forall>x. x \<noteq> pod_cidr info \<longrightarrow> t w3 (nic_netns n) x = t w (nic_netns n) x"
    by (auto simp: m_def w3_def e)
  from delRoute_keeps [OF assms(4) Cons.prems(4), of "pod_cidr info" "internal_ip info" "[]" w1] a g(3)
  have su: "subs w3 = subs w" by (simp add: w3_def)
  obtain r1 kept1 n2 w4 where d: "hostgw_del False I sc cache m w3 = ((r1, kept1, n2), w4)" by (metis prod.collapse)
  have res: "w' = w4" "kept = (if drop_it then kept1 else e # kept1)"
    using Cons.prems(6) g a d del(1) by (cases "drop_it"; simp add: e drop_it_def m_def w3_def)+
  have r3: "routed (t w3) (nic_netns m) cache"
    unfolding routed_def
  proof
    fix e' assume e': "e' \<in> set cache"
    then have "pod_cidr (snd e') \<in> pod_cidr ` snd ` set cache" by (intro imageI)
    with head(1) have "pod_cidr (snd e') \<noteq> pod_cidr info" by (metis e snd_conv)
    moreover note nodes_ok_dest [OF head(4) e']
    ultimately show "route_there (t w3) (nic_netns m) (pod_cidr (snd e')) (internal_ip (snd e')) []"
      using frame Cons.prems(5) e' m(2) by (auto simp: routed_def route_there_def)
  qed
  have am: "arg_ok (nic_netns m)" using Cons.prems(3) m(2) by simp
  from hostgw_del_safe [OF assms(1,3) head(4) am m(1) r3 head(3) d]
  have fr4: "t w4 (nic_netns n) (pod_cidr info) = t w3 (nic_netns n) (pod_cidr info)"
    using head(1) m(2) by (simp add: e)
  have gone: "\<not> route_there (t w4) (nic_netns n) (pod_cidr info) (internal_ip info) []" if drop_it
    using that del(2) fr4 words by (simp add: route_there_def w3_def dest_arg_word)
  from Cons.IH [OF head(4,3) am m(1) r3 d] su m(2) res gone show ?case
    by (auto simp: e drop_it_def)
qed

end

subsection \<open>The log line after an erase\<close>

text \<open>
  The second loop with its log line left out (\<open>hostgw_del False\<close>) always returns. The loop that formats
  the line agrees with it as long as nothing is erased and is undefined from the first erase on.
\<close>

lemma hostgw_del_unformatted:
  "\<exists>kept n' w'. hostgw_del False I sc cache n w = ((Inr (), kept, n'), w') \<and> length kept \<le> length cache"
proof (induction cache arbitrary: n w)
  case (Cons e cache)
  obtain name info where e: "e = (name, info)" by (cases e)
  obtain got s w1 where g: "ip_getSubnet I name w = ((got, s), w1)" by (metis prod.collapse)
  obtain ok n1 w2 where d: "nic_delRoute (pod_cidr info) (internal_ip info) [] n w1 = ((ok, n1), w2)"
    by (metis prod.collapse)
  from Cons.IH [of n1 w2] Cons.IH [of n w1] show ?case by (cases ok) (auto simp: e g d)
qed simp

lemma hostgw_del_formatted:
  assumes "hostgw_del fmt I sc cache n w = ((r, kept, n'), w')"
  shows "r = Inr () \<and> hostgw_del False I sc cache n w = ((Inr (), kept, n'), w') \<and> (fmt \<longrightarrow> kept = cache) \<or>
    r = Inl Undefined_behaviour \<and> fmt \<and>
      length (fst (snd (fst (hostgw_del False I sc cache n w)))) < length cache"
  using assms
proof (induction cache arbitrary: n w r kept n' w')
  case (Cons e cache)
  obtain name info where e: "e = (name, info)" by (cases e)
  obtain got s w1 where g: "ip_getSubnet I name w = ((got, s), w1)" by (metis prod.collapse)
  obtain ok n1 w2 where d: "nic_delRoute (pod_cidr info) (internal_ip info) [] n w1 = ((ok, n1), w2)"
    by (metis prod.collapse)
  define m where "m = (if sc = [] \<or> s = [] then n1 else n)"
  define v where "v = (if sc = [] \<or> s = [] then w2 else w1)"
  obtain r0 k0 n0 w0 where f: "hostgw_del fmt I sc cache m v = ((r0, k0, n0), w0)" by (metis prod.collapse)
  obtain k1 n2 w3 where u: "hostgw_del False I sc cache m v = ((Inr (), k1, n2), w3)" "length k1 \<le> length cache"
    using hostgw_del_unformatted [of I sc cache m v] by auto
  from Cons.IH [OF f] u Cons.prems f show ?case
    by (cases "sc = [] \<or> s = []"; cases ok; cases fmt) (auto simp: e g d m_def v_def)
qed simp

text \<open>It is undefined only where a node of the cache has lost its subnet, or the current node has none.\<close>

lemma hostgw_del_lost:
  assumes "subnets_known I t subs" and "hostgw_del fmt I sc cache n w = ((Inl e, kept, n'), w')"
  shows "sc = [] \<or> (\<exists>x \<in> set cache. \<exists>v. subs v (fst x) = [])"
  using assms(2)
proof (induction cache arbitrary: n w kept n' w')
  case (Cons x cache)
  obtain name info where x: "x = (name, info)" by (cases x)
  obtain got w1 where g: "ip_getSubnet I name w = ((got, subs w name), w1)"
    using assms(1) by (rule subnets_knownE)
  show ?case
  proof (cases "sc = [] \<or> subs w name = []")
    case True
    then show ?thesis by (auto simp: x)
  next
    case False
    obtain r0 k0 n0 w0 where f: "hostgw_del fmt I sc cache n w1 = ((r0, k0, n0), w0)" by (metis prod.collapse)
    with False Cons.prems g have "r0 = Inl e" by (simp add: x)
    with Cons.IH [of n w1 k0 n0 w0] f show ?thesis by auto
  qed
qed simp

subsection \<open>The handler\<close>

text \<open>A host-gw backend that was set up, on a kernel reached through \<open>ip\<close>.\<close>

definition hostgw_ready :: "'w host \<Rightarrow> 'w center_if \<Rightarrow> 'w ipam_if \<Rightarrow> 'w nic \<Rightarrow> 'w host_gw \<Rightarrow> bool" where
  "hostgw_ready run C I n b \<longleftrightarrow> bk_center b = Some C \<and> hg_ipam b = Some I \<and> bk_nic b = Some n \<and>
     nic_netlink n = Some (netlink_ip_cmd run) \<and> arg_ok (nic_netns n)"

text \<open>What holds between two events: every cached node is routed, and the node itself is not cached.\<close>

definition hostgw_inv :: "('w \<Rightarrow> routes) \<Rightarrow> string \<Rightarrow> 'w nic \<Rightarrow> 'w host_gw \<Rightarrow> 'w \<Rightarrow> bool" where
  "hostgw_inv t current n b w \<longleftrightarrow> distinct_keys (hg_cache b) \<and> map_of (hg_cache b) current = None \<and>
     routed (t w) (nic_netns n) (hg_cache b)"

definition arranges :: "arrangement \<Rightarrow> bool" where
  "arranges arrange \<longleftrightarrow> (\<forall>m. mset (arrange m) = mset m)"

lemma arranges_set: "arranges arrange \<Longrightarrow> set (arrange m) = set m"
  unfolding arranges_def by (metis set_mset_mset)

lemma arranges_distinct: "arranges arrange \<Longrightarrow> distinct_keys (arrange m) = distinct_keys m"
  unfolding arranges_def distinct_keys_def by (metis mset_eq_imp_distinct_iff mset_map)

subsection \<open>A concrete cluster\<close>

text \<open>The node n1 runs the backend; n2 is in the cluster and owns a subnet; the kernel has no routes.\<close>

definition demo_cluster :: "(string \<times> node_info) list" where
  "demo_cluster = [(''n1'', \<lparr>info_name = ''n1'', internal_ip = ''10.0.0.1'', pod_cidr = ''10.244.1.0/24''\<rparr>),
     (''n2'', \<lparr>info_name = ''n2'', internal_ip = ''10.0.0.2'', pod_cidr = ''10.244.2.0/24''\<rparr>)]"

definition demo_subnet :: "string \<Rightarrow> string" where
  "demo_subnet name = (if name = ''n1'' then ''10.244.1.0/24'' else if name = ''n2'' then ''10.244.2.0/24'' else [])"

definition demo_nodes :: "'w center_if" where
  "demo_nodes = \<lparr>ct_test = (\<lambda>w. (True, w)),
     ct_node = (\<lambda>name w. (\<lparr>info_name = name, internal_ip = [], pod_cidr = []\<rparr>, w)),
     ct_all = (\<lambda>w. (demo_cluster, w))\<rparr>"

definition demo_ipam :: "'w ipam_if" where
  "demo_ipam = \<lparr>ip_dump = (\<lambda>w. (Inr [], w)), ip_allocateSubnet = (\<lambda>node center w. ((False, []), w)),
     ip_releaseSubnet = (\<lambda>node subnet w. (False, w)),
     ip_getSubnet = (\<lambda>node w. ((demo_subnet node \<noteq> [], demo_subnet node), w)),
     ip_allocateIp = (\<lambda>node out w. (Inr (False, out), w)), ip_releaseIp = (\<lambda>node ip w. (False, w))\<rparr>"

definition demo_gw_nic :: "routes nic" where
  "demo_gw_nic = new_plain\<lparr>nic_netlink := Some (netlink_ip_cmd demo_ip)\<rparr>"

definition demo_gw :: "routes host_gw" where
  "demo_gw = new_host_gw\<lparr>bk_center := Some demo_nodes, hg_ipam := Some demo_ipam, bk_nic := Some demo_gw_nic\<rparr>"

definition no_routes :: routes where "no_routes = (\<lambda>ns dst. None)"

lemma demo_gw_facts:
  "hostgw_ready demo_ip demo_nodes demo_ipam demo_gw_nic demo_gw"
  "hostgw_inv (\<lambda>t. t) ''n1'' demo_gw_nic demo_gw no_routes"
  "subnets_known demo_ipam (\<lambda>t. t) (\<lambda>t. demo_subnet)" "arranges (\<lambda>m. m)"
  "routes_keep N (\<lambda>t. demo_subnet)"
  "ct_all demo_nodes no_routes = (demo_cluster, no_routes)" "distinct_keys demo_cluster"
  "no_foreign no_routes ns demo_cluster"
  by (simp_all add: hostgw_ready_def hostgw_inv_def demo_gw_def demo_gw_nic_def new_plain_def new_nic_def
      new_host_gw_def new_backend_def backend.defs distinct_keys_def subnets_known_def demo_ipam_def
      arranges_def routes_keep_def demo_nodes_def demo_cluster_def no_foreign_def no_routes_def)

lemma demo_gw_nodes: "nodes_ok (set demo_cluster \<union> set (hg_cache demo_gw))"
  by (simp add: nodes_ok_def demo_cluster_def demo_gw_def new_host_gw_def new_backend_def backend.defs
      shell_word_def word_char_def)

lemma demo_owns: "demo_subnet ''n1'' \<noteq> []" "hg_cache demo_gw = []" "\<forall>e \<in> set demo_cluster. demo_subnet (fst e) \<noteq> []"
  by (simp_all add: demo_subnet_def demo_cluster_def demo_gw_def new_host_gw_def new_backend_def backend.defs)

text \<open>The node n3, which has left and owns no subnet any more, is still cached and routed.\<close>

definition demo_lost_gw :: "routes host_gw" where
  "demo_lost_gw = demo_gw\<lparr>hg_cache := [(''n3'', \<lparr>info_name = ''n3'', internal_ip = ''10.0.0.3'', pod_cidr = ''10.244.3.0/24''\<rparr>)]\<rparr>"

definition lost_routes :: routes where
  "lost_routes = set_route no_routes [] ''10.244.3.0/24'' (Some (''10.0.0.3'', []))"

lemma demo_lost_route: "route_there lost_routes [] ''10.244.3.0/24'' ''10.0.0.3'' []"
  "x \<noteq> ''10.244.3.0/24'' \<Longrightarrow> lost_routes ns x = None"
  by (simp_all add: lost_routes_def no_routes_def route_there_def set_route_def dest_arg_def)

lemma demo_lost_facts:
  "hostgw_ready demo_ip demo_nodes demo_ipam demo_gw_nic demo_lost_gw"
  "hostgw_inv (\<lambda>t. t) ''n1'' demo_gw_nic demo_lost_gw lost_routes"
  "ct_all demo_nodes lost_routes = (demo_cluster, lost_routes)"
  "nodes_ok (set demo_cluster \<union> set (hg_cache demo_lost_gw))"
  "no_foreign lost_routes ns demo_cluster"
  using demo_gw_facts(1)
  by (simp_all add: hostgw_ready_def hostgw_inv_def demo_lost_gw_def demo_gw_nic_def new_plain_def new_nic_def
      distinct_keys_def demo_nodes_def nodes_ok_def demo_cluster_def no_foreign_def demo_lost_route
      shell_word_def word_char_def)

lemma warn_unformatted: "\<not> info_formatted Warn"
  by (simp add: info_formatted_def less_eq_level_def)

lemma info_formats: "info_formatted Info"
  by (simp add: info_formatted_def LOGLEVEL_DEFAULT_def less_eq_level_def)

subsection \<open>Properties\<close>

text \<open>The handler as its two loops: the cache between them and the state after each.\<close>

lemma hostgw_eventHandler_loops:
  assumes "hostgw_ready run C I n b" "ct_all C w = (cluster, w1)"
    and "ip_getSubnet I current w1 = ((got, sc), w2)"
    and "hostgw_eventHandler lvl arrange current b w = ((r, b'), w')"
  obtains cache n' w3 n'' where
    "(if sc \<noteq> [] then hostgw_add I current cluster (hg_cache b) n w2 else ((hg_cache b, n), w2)) = ((cache, n'), w3)"
    "hostgw_del (info_formatted lvl) I sc (arrange cache) n' w3 = ((r, hg_cache b', n''), w')" "bk_nic b' = Some n''"
proof -
  obtain cache n' w3 where l:
    "(if sc \<noteq> [] then hostgw_add I current cluster (hg_cache b) n w2 else ((hg_cache b, n), w2)) = ((cache, n'), w3)"
    by (metis prod.collapse)
  obtain r1 cache' n'' w4 where d:
    "hostgw_del (info_formatted lvl) I sc (arrange cache) n' w3 = ((r1, cache', n''), w4)" by (metis prod.collapse)
  from assms l d have "r = r1" "b' = b\<lparr>hg_cache := cache', bk_nic := Some n''\<rparr>" "w' = w4"
    by (auto simp: hostgw_eventHandler_def hostgw_ready_def simp del: hostgw_add.simps hostgw_del.simps)
  with l d that show thesis by simp
qed

text \<open>
  C11: Whatever commands fail, a run of the host-gw handler that erases nothing, or does not format
  its info lines, keeps the cache and the kernel together: the handler returns, every node left in
  the cache has its route in the kernel, no node is cached twice, the node it runs on never is, and
  only nodes of the cluster or of the old cache are. The one other outcome is the log line after an
  erase, which reads the erased entry: undefined behaviour, only where info lines are formatted and
  the current node or a cached one has no subnet.
\<close>

theorem hostgw_cache_stays_routed:
  assumes "ip_routes_documented run t" and "hostgw_ready run C I n b" and "hostgw_inv t current n b w"
    and "subnets_known I t subs" and "arranges arrange"
    and "ct_all C w = (cluster, w1)" and "t w1 = t w"
    and "nodes_ok (set cluster \<union> set (hg_cache b))"
    and "hostgw_eventHandler lvl arrange current b w = ((r, b'), w')"
  shows "r = Inl Undefined_behaviour \<and> info_formatted lvl \<and>
      (subs w1 current = [] \<or> (\<exists>e \<in> set cluster \<union> set (hg_cache b). \<exists>v. subs v (fst e) = [])) \<or>
    r = Inr () \<and> (\<exists>n'. hostgw_ready run C I n' (b\<lparr>bk_nic := Some n'\<rparr>) \<and> bk_nic b' = Some n' \<and>
      nic_netns n' = nic_netns n \<and> hostgw_inv t current n' b' w') \<and> set (hg_cache b') \<subseteq> set cluster \<union> set (hg_cache b)"
proof -
  have mg: "ip_cmd_manages (netlink_ip_cmd run) t" using assms(1) by (auto simp: ip_cmd_manages_def)
  have rdy: "nic_netlink n = Some (netlink_ip_cmd run)" "arg_ok (nic_netns n)"
    using assms(2) by (simp_all add: hostgw_ready_def)
  obtain got w2 where g: "ip_getSubnet I current w1 = ((got, subs w1 current), w2)" "t w2 = t w1"
    using assms(4) by (rule subnets_knownE)
  from assms(2,6) g(1) assms(9) obtain cache n1 w3 n2 where loops:
    "(if subs w1 current \<noteq> [] then hostgw_add I current cluster (hg_cache b) n w2 else ((hg_cache b, n), w2)) =
      ((cache, n1), w3)"
    "hostgw_del (info_formatted lvl) I (subs w1 current) (arrange cache) n1 w3 = ((r, hg_cache b', n2), w')"
    "bk_nic b' = Some n2"
    by (rule hostgw_eventHandler_loops)
  have inv: "routed (t w2) (nic_netns n) (hg_cache b)" "distinct_keys (hg_cache b)" "map_of (hg_cache b) current = None"
    using assms(3,7) g(2) by (simp_all add: hostgw_inv_def)
  have "nodes_ok (set cluster)" using assms(8) by (rule nodes_ok_subset) simp
  from ip_cmd.hostgw_add_safe [OF mg assms(4) this rdy(2,1) inv, of cache n1 w3] loops(1) inv rdy
  have mid: "routed (t w3) (nic_netns n1) cache" "distinct_keys cache" "map_of cache current = None"
    "set cache \<subseteq> set (hg_cache b) \<union> set cluster" "nic_netlink n1 = Some (netlink_ip_cmd run)"
    "nic_netns n1 = nic_netns n" by (auto split: if_splits)
  have ar: "set (arrange cache) = set cache" "distinct_keys (arrange cache)"
    using arranges_set [OF assms(5)] arranges_distinct [OF assms(5)] mid(2) by simp_all
  show ?thesis
  proof (cases "r = Inr ()")
    case False
    with hostgw_del_formatted [OF loops(2)] have ub: "r = Inl Undefined_behaviour" "info_formatted lvl" by auto
    with hostgw_del_lost [OF assms(4), of "info_formatted lvl" "subs w1 current" "arrange cache" n1 w3 Undefined_behaviour] loops(2)
    have "subs w1 current = [] \<or> (\<exists>x \<in> set (arrange cache). \<exists>v. subs v (fst x) = [])" by blast
    with ub ar(1) mid(4) show ?thesis by blast
  next
    case True
    with hostgw_del_formatted [OF loops(2)] have del: "hostgw_del False I (subs w1 current) (arrange cache) n1 w3 =
        ((Inr (), hg_cache b', n2), w')" by simp
    have "nodes_ok (set (arrange cache))" using assms(8) by (rule nodes_ok_subset) (use ar mid(4) in auto)
    moreover have "arg_ok (nic_netns n1)" using rdy(2) mid(6) by simp
    moreover have "routed (t w3) (nic_netns n1) (arrange cache)" using mid(1) by (rule routed_subset) (simp add: ar)
    ultimately have fin: "routed (t w') (nic_netns n1) (hg_cache b')" "distinct_keys (hg_cache b')"
      "set (hg_cache b') \<subseteq> set cache" "nic_netlink n2 = Some (netlink_ip_cmd run)" "nic_netns n2 = nic_netns n1"
      using ip_cmd.hostgw_del_safe [OF mg assms(4) _ _ mid(5) _ ar(2) del] ar(1) by simp_all
    have "map_of (hg_cache b') current = None"
      using mid(3) fin(3) by (force simp: map_of_eq_None_iff)
    with fin mid(4,6) True loops(3) rdy assms(2) show ?thesis
      by (auto simp: hostgw_ready_def hostgw_inv_def intro!: exI [of _ n2])
  qed
qed

theorem hostgw_cache_stays_routed_witness:
  "(\<exists>b' w'. hostgw_eventHandler Info (\<lambda>m. m) ''n1'' demo_gw no_routes = ((Inr (), b'), w') \<and>
     routed w' [] (hg_cache b') \<and> map_of (hg_cache b') ''n1'' = None) \<and>
   (\<exists>b' w'. hostgw_eventHandler Warn (\<lambda>m. m) ''n1'' demo_lost_gw lost_routes = ((Inr (), b'), w') \<and>
     routed w' [] (hg_cache b'))"
proof
  obtain r b' w' where h: "hostgw_eventHandler Info (\<lambda>m. m) ''n1'' demo_gw no_routes = ((r, b'), w')"
    by (metis prod.collapse)
  from hostgw_cache_stays_routed [where t = "\<lambda>t. t" and subs = "\<lambda>t. demo_subnet" and w = no_routes, OF demo_ip_documented demo_gw_facts(1-4,6) refl demo_gw_nodes h] h
  show "\<exists>b' w'. hostgw_eventHandler Info (\<lambda>m. m) ''n1'' demo_gw no_routes = ((Inr (), b'), w') \<and>
     routed w' [] (hg_cache b') \<and> map_of (hg_cache b') ''n1'' = None"
    using demo_owns(1,3) by (auto simp: demo_owns(2) hostgw_inv_def demo_gw_nic_def new_plain_def new_nic_def)
next
  obtain r b' w' where h: "hostgw_eventHandler Warn (\<lambda>m. m) ''n1'' demo_lost_gw lost_routes = ((r, b'), w')"
    by (metis prod.collapse)
  from hostgw_cache_stays_routed [where t = "\<lambda>t. t" and subs = "\<lambda>t. demo_subnet" and w = lost_routes, OF demo_ip_documented demo_lost_facts(1,2) demo_gw_facts(3,4) demo_lost_facts(3) refl demo_lost_facts(4) h] h
  show "\<exists>b' w'. hostgw_eventHandler Warn (\<lambda>m. m) ''n1'' demo_lost_gw lost_routes = ((Inr (), b'), w') \<and>
     routed w' [] (hg_cache b')"
    by (auto simp: hostgw_inv_def demo_gw_nic_def new_plain_def new_nic_def warn_unformatted)
qed

text \<open>
  C7: When every command does what it can and no foreign route is in the way, the handler reaches
  exactly the state it aims at. Afterwards the cached nodes are all the nodes, of the cluster or
  cached before, other than the current one, that own a subnet in IPAM; none if the current node
  owns none; and the routes of the nodes it dropped are gone from the kernel. That is what it does
  where its info lines are not formatted, or no cached node is to be dropped. Otherwise, at the
  default level of the daemon, the first drop runs into undefined behaviour: the log line reads the
  entry that was just erased.
\<close>

theorem hostgw_handler_converges:
  assumes "ip_routes_documented run t" and "ip_routes_able run t"
    and "hostgw_ready run C I n b" and "hostgw_inv t current n b w"
    and "subnets_known I t subs" and "routes_keep (netlink_ip_cmd run) subs" and "arranges arrange"
    and "ct_all C w = (cluster, w1)" and "t w1 = t w" and "subs w1 = subs w"
    and "nodes_ok (set cluster \<union> set (hg_cache b))" and "distinct_keys cluster"
    and "no_foreign (t w) (nic_netns n) cluster"
    and "hostgw_eventHandler lvl arrange current b w = ((r, b'), w')"
  shows "if info_formatted lvl \<and> (\<exists>e \<in> set (hg_cache b). subs w current = [] \<or> subs w (fst e) = [])
    then r = Inl Undefined_behaviour
    else r = Inr () \<and>
      fst ` set (hg_cache b') =
        {x \<in> fst ` (set cluster \<union> set (hg_cache b)). subs w current \<noteq> [] \<and> x \<noteq> current \<and> subs w x \<noteq> []} \<and>
      (\<forall>e \<in> set (hg_cache b) - set (hg_cache b').
         \<not> route_there (t w') (nic_netns n) (pod_cidr (snd e)) (internal_ip (snd e)) [])"
proof -
  have mg: "ip_cmd_manages (netlink_ip_cmd run) t" and ab: "ip_cmd_able (netlink_ip_cmd run) t"
    using assms(1,2) by (auto simp: ip_cmd_manages_def ip_cmd_able_def)
  have rdy: "nic_netlink n = Some (netlink_ip_cmd run)" "arg_ok (nic_netns n)"
    using assms(3) by (simp_all add: hostgw_ready_def)
  obtain got w2 where g: "ip_getSubnet I current w1 = ((got, subs w current), w2)" "t w2 = t w" "subs w2 = subs w"
    using assms(5,9,10) by (metis subnets_knownE)
  from assms(3,8) g(1) assms(14) obtain cache n1 w3 n2 where loops:
    "(if subs w current \<noteq> [] then hostgw_add I current cluster (hg_cache b) n w2 else ((hg_cache b, n), w2)) =
      ((cache, n1), w3)"
    "hostgw_del (info_formatted lvl) I (subs w current) (arrange cache) n1 w3 = ((r, hg_cache b', n2), w')"
    by (rule hostgw_eventHandler_loops)
  have inv: "routed (t w2) (nic_netns n) (hg_cache b)" "distinct_keys (hg_cache b)" "map_of (hg_cache b) current = None"
    using assms(4) g(2) by (simp_all add: hostgw_inv_def)
  have cl: "nodes_ok (set cluster)" using assms(11) by (rule nodes_ok_subset) simp
  from ip_cmd.hostgw_add_safe [OF mg assms(5) cl rdy(2,1) inv, of cache n1 w3] loops(1) inv rdy
  have mid: "routed (t w3) (nic_netns n1) cache" "distinct_keys cache" "set (hg_cache b) \<subseteq> set cache"
    "set cache \<subseteq> set (hg_cache b) \<union> set cluster" "nic_netlink n1 = Some (netlink_ip_cmd run)"
    "nic_netns n1 = nic_netns n" by (auto split: if_splits)
  have "no_foreign (t w2) (nic_netns n) cluster" using assms(13) g(2) by simp
  from ip_cmd_up.hostgw_add_exact [OF mg ab assms(5,6) cl assms(12) rdy(2,1) this, of current "hg_cache b" cache n1 w3]
    loops(1) g(3)
  have names: "subs w current \<noteq> [] \<longrightarrow> fst ` set cache = fst ` set (hg_cache b) \<union>
      {x \<in> fst ` set cluster. x \<noteq> current \<and> subs w x \<noteq> []}" and su: "subs w3 = subs w"
    by (auto split: if_splits)
  have ar: "set (arrange cache) = set cache" "distinct_keys (arrange cache)"
    using arranges_set [OF assms(7)] arranges_distinct [OF assms(7)] mid(2) by simp_all
  have "nodes_ok (set (arrange cache))" using assms(11) by (rule nodes_ok_subset) (use ar mid(4) in auto)
  moreover have "arg_ok (nic_netns n1)" using rdy(2) mid(6) by simp
  moreover have "routed (t w3) (nic_netns n1) (arrange cache)" using mid(1) by (rule routed_subset) (simp add: ar)
  moreover obtain kept n3 w4 where
    del: "hostgw_del False I (subs w current) (arrange cache) n1 w3 = ((Inr (), kept, n3), w4)"
    using hostgw_del_unformatted [of I "subs w current" "arrange cache" n1 w3] by auto
  ultimately have kept: "kept = (if subs w current = [] then [] else
        filter (\<lambda>e. subs w (fst e) \<noteq> []) (arrange cache))"
    and gone: "\<forall>e \<in> set cache - set kept.
       \<not> route_there (t w4) (nic_netns n) (pod_cidr (snd e)) (internal_ip (snd e)) []"
    using ip_cmd_up.hostgw_del_exact [OF mg ab assms(5,6) _ ar(2) _ mid(5) _ del] su mid(6) ar(1) by simp_all
  have fresh: "current \<notin> fst ` set (hg_cache b)" using inv(3) by (simp add: map_of_eq_None_iff)
  have new: "subs w current = [] \<longrightarrow> cache = hg_cache b" using loops(1) by auto
  have "(\<exists>e \<in> set (hg_cache b). subs w current = [] \<or> subs w (fst e) = []) \<longleftrightarrow> kept \<noteq> arrange cache"
  proof (cases "subs w current = []")
    case True
    with kept new arranges_set [OF assms(7), of cache] show ?thesis by (cases "hg_cache b") auto
  next
    case False
    with kept have "kept \<noteq> arrange cache \<longleftrightarrow> (\<exists>e \<in> set cache. subs w (fst e) = [])"
      using ar(1) by (auto simp: filter_id_conv)
    also have "\<dots> \<longleftrightarrow> (\<exists>x \<in> fst ` set cache. subs w x = [])" by blast
    also have "\<dots> \<longleftrightarrow> (\<exists>e \<in> set (hg_cache b). subs w (fst e) = [])" using names False by auto
    finally show ?thesis using False by simp
  qed
  moreover have "fst ` set kept = {x \<in> fst ` set cache. subs w current \<noteq> [] \<and> subs w x \<noteq> []}"
    using kept ar(1) by auto
  with names fresh have "fst ` set kept =
      {x \<in> fst ` (set cluster \<union> set (hg_cache b)). subs w current \<noteq> [] \<and> x \<noteq> current \<and> subs w x \<noteq> []}"
    by (cases "subs w current = []") auto
  moreover from hostgw_del_formatted [OF loops(2)] del
  have "if info_formatted lvl \<and> kept \<noteq> arrange cache then r = Inl Undefined_behaviour
    else r = Inr () \<and> hg_cache b' = kept \<and> w' = w4" by (auto split: if_splits)
  ultimately show ?thesis using gone mid(3) by (auto split: if_splits)
qed

theorem hostgw_handler_converges_witness:
  "fst ` set (hg_cache (snd (fst (hostgw_eventHandler Info (\<lambda>m. m) ''n1'' demo_gw no_routes)))) = {''n2''} \<and>
   fst ` set (hg_cache (snd (fst (hostgw_eventHandler Warn (\<lambda>m. m) ''n1'' demo_lost_gw lost_routes)))) = {''n2''} \<and>
   fst (fst (hostgw_eventHandler Info (\<lambda>m. m) ''n1'' demo_lost_gw lost_routes)) = Inl Undefined_behaviour"
proof -
  obtain r b' w' where h: "hostgw_eventHandler Info (\<lambda>m. m) ''n1'' demo_gw no_routes = ((r, b'), w')"
    by (metis prod.collapse)
  have c: "hg_cache demo_gw = []" by (simp add: demo_gw_def new_host_gw_def new_backend_def backend.defs)
  from hostgw_handler_converges [where t = "\<lambda>t. t" and subs = "\<lambda>t. demo_subnet" and w = no_routes, OF demo_ip_documented demo_ip_able demo_gw_facts(1-3,5,4,6) refl refl
      demo_gw_nodes demo_gw_facts(7,8) h]
  have "fst ` set (hg_cache b') = {x \<in> {''n1'', ''n2''}. x \<noteq> ''n1'' \<and> demo_subnet x \<noteq> []}"
    by (simp add: c demo_cluster_def demo_subnet_def)
  also have "\<dots> = {''n2''}" by (auto simp: demo_subnet_def)
  finally have 1: "fst ` set (hg_cache b') = {''n2''}" .
  note lost = hostgw_handler_converges [where t = "\<lambda>t. t" and subs = "\<lambda>t. demo_subnet" and w = lost_routes,
    OF demo_ip_documented demo_ip_able demo_lost_facts(1,2) demo_gw_facts(3,5,4) demo_lost_facts(3) refl refl
      demo_lost_facts(4) demo_gw_facts(7) demo_lost_facts(5)]
  obtain r2 b2 w2 where h2: "hostgw_eventHandler Warn (\<lambda>m. m) ''n1'' demo_lost_gw lost_routes = ((r2, b2), w2)"
    by (metis prod.collapse)
  from lost [OF h2] have "fst ` set (hg_cache b2) = {x \<in> {''n1'', ''n2'', ''n3''}. x \<noteq> ''n1'' \<and> demo_subnet x \<noteq> []}"
    by (simp add: warn_unformatted demo_lost_gw_def demo_cluster_def demo_subnet_def)
  also have "\<dots> = {''n2''}" by (auto simp: demo_subnet_def)
  finally have 2: "fst ` set (hg_cache b2) = {''n2''}" .
  obtain r3 b3 w3 where h3: "hostgw_eventHandler Info (\<lambda>m. m) ''n1'' demo_lost_gw lost_routes = ((r3, b3), w3)"
    by (metis prod.collapse)
  from lost [OF h3] have 3: "r3 = Inl Undefined_behaviour"
    by (simp add: info_formats demo_lost_gw_def demo_subnet_def)
  show ?thesis by (simp add: h h2 h3 1 2 3)
qed

end
