(* ===== verification/Center.thy ===== *)
theory Center
  imports Json Shell Ipam
begin

text \<open>
  \<open>src/net/http_client\<close> and \<open>src/backend/center.cc\<close>: what the plugin learns from the Kubernetes API
  server and from the node it runs on.

  Outside the repository, and so parameters: libcurl (\<open>curl\<close>: a request ends with the text of an
  error or with a code and a body), the file system (\<open>files\<close>) and the JSON library.
\<close>

subsection \<open>HttpClient (\<open>http_client.cc\<close>)\<close>

datatype http_method = GET | POST | DELETE | PATCH

record http_request =
  hr_url :: string
  hr_follow :: bool
  hr_headers :: "string list"
  hr_verify_peer :: bool
  hr_ca_info :: "string option"
  hr_custom :: "string option"
  hr_post :: "string option"

type_synonym 'w curl = "http_request \<Rightarrow> ('w, string + (int \<times> string)) op"

definition Ok :: int where "Ok = 200"

definition Bad_Request :: int where "Bad_Request = 400"

definition httpRequest :: "'w curl \<Rightarrow> http_method \<Rightarrow> string \<Rightarrow> string \<Rightarrow> string \<Rightarrow> string \<Rightarrow> ('w, int \<times> string) op" where
  "httpRequest curl method uri req_body token ca_path w =
     (case curl \<lparr>hr_url = uri, hr_follow = True,
          hr_headers = (if token = [] then [] else [''Authorization: Bearer '' @ token])
            @ [''Content-Type: application/json''],
          hr_verify_peer = (ca_path \<noteq> []),
          hr_ca_info = (if ca_path = [] then None else Some ca_path),
          hr_custom = (case method of DELETE \<Rightarrow> Some ''DELETE'' | PATCH \<Rightarrow> Some ''PATCH'' | _ \<Rightarrow> None),
          hr_post = (if req_body = [] then None else Some req_body)\<rparr> w of
        (Inl what, w') \<Rightarrow> ((Bad_Request, what), w')
      | (Inr (code, body), w') \<Rightarrow> ((code, body), w'))"

subsection \<open>Center (\<open>center.cc\<close>)\<close>

datatype center_type = On_host | In_pod

record 'w files =
  read_contents :: "string \<Rightarrow> ('w, string option) op"
  write_contents :: "string \<Rightarrow> string \<Rightarrow> 'w \<Rightarrow> 'w"
  file_exists :: "string \<Rightarrow> ('w, bool) throwing"

record center =
  api_server :: string
  ce_ssl :: bool
  ce_type :: center_type
  ce_token :: string
  ca_path :: string

definition PATH_CA_POD :: string where "PATH_CA_POD = ''/var/run/secrets/kubernetes.io/serviceaccount''"

definition PATH_CA_HOST :: string where "PATH_CA_HOST = ''/etc/kubernetes/pki''"

definition PATH_TOKEN_HOST :: string where "PATH_TOKEN_HOST = ''/var/run/ohno''"

definition HOST_FILE :: string where "HOST_FILE = ''/etc/kubernetes/kubelet.conf''"

definition getSslDir :: "center_type \<Rightarrow> bool \<Rightarrow> string" where
  "getSslDir ty host_ca =
     (if ty = In_pod then PATH_CA_POD else if host_ca then PATH_CA_HOST else PATH_TOKEN_HOST)"

definition readFile :: "'w files \<Rightarrow> string \<Rightarrow> ('w, string) throwing" where
  "readFile F filename w =
     (case read_contents F filename w of
        (None, w') \<Rightarrow> (Inl (Ohno_exception (''File:\"'' @ filename @ ''\" is not exist'')), w')
      | (Some content, w') \<Rightarrow> (Inr (filter (\<lambda>c. c \<noteq> CHR 0x0A) content), w'))"

definition getToken :: "'w files \<Rightarrow> center_type \<Rightarrow> ('w, string) op" where
  "getToken F ty w =
     (case readFile F (getSslDir ty False @ ''/token'') w of
        (Inl e, w') \<Rightarrow> ([], w')
      | (Inr token, w') \<Rightarrow>
          (token, if ty = In_pod then write_contents F (getSslDir On_host False @ ''/token'') token w' else w'))"

definition getCa :: "'w files \<Rightarrow> center_type \<Rightarrow> ('w, string) throwing" where
  "getCa F ty w =
     (let pathname = getSslDir ty True @ ''/ca.crt'' in
      case file_exists F pathname w of
        (Inl e, w') \<Rightarrow> (Inl e, w')
      | (Inr b, w') \<Rightarrow> (Inr (if b then pathname else []), w'))"

definition new_center :: "'w files \<Rightarrow> string \<Rightarrow> bool \<Rightarrow> center_type \<Rightarrow> ('w, center) throwing" where
  "new_center F server ssl ty w =
     (if ssl
      then (case getCa F ty w of
              (Inl e, w1) \<Rightarrow> (Inl e, w1)
            | (Inr ca, w1) \<Rightarrow>
                (case getToken F ty w1 of
                   (token, w2) \<Rightarrow>
                     (Inr \<lparr>api_server = server, ce_ssl = ssl, ce_type = ty, ce_token = token, ca_path = ca\<rparr>, w2)))
      else (Inr \<lparr>api_server = server, ce_ssl = ssl, ce_type = ty, ce_token = [], ca_path = []\<rparr>, w))"

definition getHttpResponse :: "'w curl \<Rightarrow> center \<Rightarrow> string \<Rightarrow> ('w, int \<times> string) op" where
  "getHttpResponse curl c uri w =
     httpRequest curl GET uri [] (ce_token c) (if ce_ssl c then ca_path c else []) w"

definition center_test :: "'w curl \<Rightarrow> center \<Rightarrow> ('w, bool) op" where
  "center_test curl c w =
     (if ce_ssl c \<and> (ca_path c = [] \<or> ce_token c = []) then (False, w)
      else (case getHttpResponse curl c (api_server c @ ''/'' @ ''healthz'') w of
              ((code, response), w') \<Rightarrow> (code = Ok, w')))"

definition node_of_item :: "kube_item \<Rightarrow> node_info" where
  "node_of_item item = \<lparr>info_name = ki_name item,
     internal_ip = (case find (\<lambda>a. ka_type a = InternalIP) (ki_addresses item) of
                      None \<Rightarrow> [] | Some a \<Rightarrow> ka_address a),
     pod_cidr = ki_pod_cidr item\<rparr>"

text \<open>The items, when the request, the parsing and the conversion all succeed.\<close>

definition fetch_items :: "'j json_lib \<Rightarrow> 'w curl \<Rightarrow> center \<Rightarrow> ('w, kube_item list option) op" where
  "fetch_items J curl c w =
     (case getHttpResponse curl c (api_server c @ ''/'' @ ''api/v1/nodes'') w of
        ((code, response), w') \<Rightarrow>
          (if code \<noteq> Ok then None
           else (case and_then (j_parse J response) (nodes_from_json J) of
                   Inl e \<Rightarrow> None | Inr items \<Rightarrow> Some items), w'))"

definition getNodes_single :: "'j json_lib \<Rightarrow> 'w curl \<Rightarrow> center \<Rightarrow> string \<Rightarrow> ('w, node_info) op" where
  "getNodes_single J curl c name w =
     (let unknown = \<lparr>info_name = name, internal_ip = [], pod_cidr = []\<rparr> in
      case fetch_items J curl c w of
        (None, w') \<Rightarrow> (unknown, w')
      | (Some items, w') \<Rightarrow>
          (case find (\<lambda>i. ki_name i = name) items of None \<Rightarrow> unknown | Some i \<Rightarrow> node_of_item i, w'))"

definition all_nodes :: "kube_item list \<Rightarrow> (string \<rightharpoonup> node_info)" where
  "all_nodes items = fold (\<lambda>i m. m(ki_name i \<mapsto> node_of_item i)) items Map.empty"

definition getNodes_all :: "'j json_lib \<Rightarrow> 'w curl \<Rightarrow> center \<Rightarrow> ('w, string \<rightharpoonup> node_info) op" where
  "getNodes_all J curl c w =
     (case fetch_items J curl c w of
        (None, w') \<Rightarrow> (Map.empty, w') | (Some items, w') \<Rightarrow> (all_nodes items, w'))"

text \<open>\<open>enum\<close> is the iteration order of the \<open>std::unordered_map\<close>.\<close>

definition center_ops :: "((string \<rightharpoonup> node_info) \<Rightarrow> (string \<times> node_info) list) \<Rightarrow> 'j json_lib \<Rightarrow> 'w curl
    \<Rightarrow> center \<Rightarrow> 'w center_if" where
  "center_ops enum J curl c = \<lparr>ct_test = center_test curl c, ct_node = getNodes_single J curl c,
     ct_all = (\<lambda>w. case getNodes_all J curl c w of (m, w') \<Rightarrow> (enum m, w'))\<rparr>"

subsection \<open>Static functions\<close>

text \<open>\<open>find(pat, pos)\<close> and \<open>substr(pos, n)\<close> on strings.\<close>

definition find_from :: "string \<Rightarrow> string \<Rightarrow> nat \<Rightarrow> nat option" where
  "find_from pat s pos =
     (if pos \<le> length s then map_option (\<lambda>i. pos + i) (find_sub pat (drop pos s)) else None)"

definition substr :: "string \<Rightarrow> nat \<Rightarrow> nat \<Rightarrow> string result" where
  "substr s pos n = (if pos \<le> length s then Inr (take n (drop pos s)) else Inl Std_exception)"

definition server_of_yaml :: "string \<Rightarrow> string result" where
  "server_of_yaml yaml =
     (if yaml = [] then Inr []
      else (case find_sub ''clusters:'' yaml of
              None \<Rightarrow> Inr []
            | Some clusters_pos \<Rightarrow>
                (case find_from ''server:'' yaml clusters_pos of
                   None \<Rightarrow> Inr []
                 | Some pos \<Rightarrow>
                     (let server_pos = pos + length ''server:'' + 1;
                          end_pos = (case find_from '' '' yaml server_pos of
                                       None \<Rightarrow> length yaml | Some e \<Rightarrow> e)
                      in substr yaml server_pos (end_pos - server_pos)))))"

definition getServerUrl :: "'w files \<Rightarrow> string \<Rightarrow> ('w, string) throwing" where
  "getServerUrl F conf_path w =
     (case readFile F conf_path w of
        (Inl e, w') \<Rightarrow> (Inl e, w') | (Inr yaml, w') \<Rightarrow> (server_of_yaml yaml, w'))"

text \<open>
  \<open>find\<close> giving \<open>npos\<close> (the assertion only prints) and \<open>startPos += 3\<close> wraps around to 2.
\<close>

definition cluster_of_uri :: "string \<Rightarrow> string result" where
  "cluster_of_uri uri =
     (let startPos = (case find_sub ''://'' uri of None \<Rightarrow> 2 | Some i \<Rightarrow> i + 3);
          endPos = (case find_from '':'' uri startPos of None \<Rightarrow> length uri | Some e \<Rightarrow> e)
      in case substr uri startPos (endPos - startPos) of
           Inl e \<Rightarrow> Inl e | Inr h \<Rightarrow> Inr (''https://'' @ h @ '':2379''))"

definition getEtcdClusters :: "'w files \<Rightarrow> ('w, string) op" where
  "getEtcdClusters F w =
     (case getServerUrl F HOST_FILE w of
        (Inl e, w') \<Rightarrow> ([], w')
      | (Inr uri, w') \<Rightarrow> (case cluster_of_uri uri of Inl e \<Rightarrow> [] | Inr s \<Rightarrow> s, w'))"

definition getApiServer :: "'w files \<Rightarrow> environ \<Rightarrow> center_type \<Rightarrow> ('w, string) op" where
  "getApiServer F env ty w =
     (if ty = On_host
      then (case getServerUrl F HOST_FILE w of (Inl e, w') \<Rightarrow> ([], w') | (Inr s, w') \<Rightarrow> (s, w'))
      else (let host = env_get env ''KUBERNETES_SERVICE_HOST''; port = env_get env ''KUBERNETES_SERVICE_PORT''
            in (if host \<noteq> [] then ''https://'' @ host @ '':'' @ (if port = [] then ''443'' else port)
                else ''https://kubernetes.default.svc.cluster.local'', w)))"

definition quoted :: "string \<Rightarrow> string" where
  "quoted s = [CHR 0x27] @ s @ [CHR 0x27]"

text \<open>The three out-parameters keep what was read before a failure.\<close>

definition getNodeInfo :: "'w host \<Rightarrow> string \<Rightarrow> string \<Rightarrow> string \<Rightarrow> ('w, bool \<times> string \<times> string \<times> string) op" where
  "getNodeInfo sh node dev underlay w =
     (case execute sh ''hostname'' node w of
        ((ret, node'), w1) \<Rightarrow>
          if \<not> ret \<or> node' = [] then ((False, node', dev, underlay), w1)
          else (case execute sh (''ip route show default | awk '' @ quoted ''/default/ {print $5}'') dev w1 of
                  ((ret, dev'), w2) \<Rightarrow>
                    if \<not> ret \<or> dev' = [] then ((False, node', dev', underlay), w2)
                    else (case execute sh (''ip addr show '' @ dev' @ '' | grep '' @ quoted ''inet '' @ '' | awk '' @ quoted ''{print $2}'') underlay w2 of
                            ((ret, underlay'), w3) \<Rightarrow>
                              ((ret \<and> underlay' \<noteq> [], node', dev', underlay'), w3))))"

end
