(* ===== verification/Cni_Monad.thy ===== *)
theory Cni_Monad
  imports Cluster Storage Json Center
begin

text \<open>
  The state of the plugin object (\<open>src/cni/cni.h\<close>), the platform it runs on, the MAC address of a
  device (\<open>src/net/mac.cc\<close>), and the small vocabulary in which \<open>cni.cc\<close> is modelled: actions that
  change the object and the world and may throw.
\<close>

subsection \<open>Mac (\<open>mac.cc\<close>)\<close>

text \<open>
  The \<open>SIOCGIFHWADDR\<close> request is a parameter: the hardware address family and the address bytes of
  a device, or \<open>None\<close> when the request (or the socket before it) fails.
\<close>

type_synonym 'w hwaddr = "string \<Rightarrow> ('w, (nat \<times> nat list) option) op"

definition ARPHRD_ETHER :: nat where "ARPHRD_ETHER = 1"

definition hex2 :: "nat \<Rightarrow> string" where
  "hex2 b = [hex_digit (b div 16 mod 16), hex_digit (b mod 16)]"

definition setMacStr :: "nat list \<Rightarrow> string" where
  "setMacStr mac = concat (map (\<lambda>i. (if i = 0 then [] else '':'') @ hex2 (mac ! i)) [0 ..< 6])"

definition setMacNative :: "'w hwaddr \<Rightarrow> string \<Rightarrow> ('w, nat list option) op" where
  "setMacNative hw name w =
     (case hw (take (IFNAMSIZ - 1) name) w of
        (None, w') \<Rightarrow> (None, w')
      | (Some (family, mac), w') \<Rightarrow> (if family = ARPHRD_ETHER then Some mac else None, w'))"

text \<open>The constructor and \<open>getMac\<close>: empty when the address could not be read.\<close>

definition getMac :: "'w hwaddr \<Rightarrow> string \<Rightarrow> ('w, string) op" where
  "getMac hw name w =
     (case setMacNative hw name w of (None, w') \<Rightarrow> ([], w') | (Some mac, w') \<Rightarrow> (setMacStr mac, w'))"

subsection \<open>Platform and state\<close>

text \<open>
  \<open>draw\<close> is the random engine of \<open>getUniqueId\<close>, \<open>pf_shell\<close> what \<open>ShellSync\<close> runs commands on.
\<close>

record ('w, 'j) platform =
  pf_shell :: "'w host"
  pf_asio :: asio
  pf_json :: "'j json_lib"
  pf_hwaddr :: "'w hwaddr"
  pf_draw :: "('w, nat \<Rightarrow> 64 word) op"

text \<open>
  A null \<open>std::unique_ptr\<close> is \<open>None\<close>. \<open>cni_netlink\<close> is the result of the cast to \<open>NetlinkIpCmd\<close>.
  \<open>cni_mode = None\<close>: the member \<open>ipam_mode_\<close> has no initialiser and was never set.
\<close>

record 'w cni =
  cni_netlink :: "'w netlink_if option"
  cni_conf :: config
  cni_cluster :: "'w cluster option"
  cni_ipam :: "'w ipam_if option"
  cni_storage :: "'w storage_if option"
  cni_node_name :: string
  cni_underlay_dev :: string
  cni_underlay_addr :: string
  cni_gateway :: "addr option"
  cni_mode :: "ipam_mode option"
  cni_center :: "'w center_if option"

definition new_cni :: "'w netlink_if option \<Rightarrow> 'w cni" where
  "new_cni netlink = \<lparr>cni_netlink = netlink, cni_conf = default_config, cni_cluster = None, cni_ipam = None,
     cni_storage = None, cni_node_name = [], cni_underlay_dev = [], cni_underlay_addr = [],
     cni_gateway = None, cni_mode = None, cni_center = None\<rparr>"

subsection \<open>Actions\<close>

type_synonym ('w, 'a) action = "'w cni \<Rightarrow> 'w \<Rightarrow> ('a result \<times> 'w cni) \<times> 'w"

definition ret :: "'a \<Rightarrow> ('w, 'a) action" where
  "ret a s w = ((Inr a, s), w)"

definition throw :: "exn \<Rightarrow> ('w, 'a) action" where
  "throw e s w = ((Inl e, s), w)"

definition seq :: "('w, 'a) action \<Rightarrow> ('a \<Rightarrow> ('w, 'b) action) \<Rightarrow> ('w, 'b) action" where
  "seq m f s w = (case m s w of ((Inl e, s'), w') \<Rightarrow> ((Inl e, s'), w') | ((Inr a, s'), w') \<Rightarrow> f a s' w')"

definition state :: "('w cni \<Rightarrow> 'a) \<Rightarrow> ('w, 'a) action" where
  "state f s w = ((Inr (f s), s), w)"

definition change :: "('w cni \<Rightarrow> 'w cni) \<Rightarrow> ('w, unit) action" where
  "change f s w = ((Inr (), f s), w)"

text \<open>An operation of an interface, one that may throw, and a pure result.\<close>

definition call :: "('w, 'a) op \<Rightarrow> ('w, 'a) action" where
  "call m s w = (case m w of (a, w') \<Rightarrow> ((Inr a, s), w'))"

definition call_throwing :: "('w, 'a) throwing \<Rightarrow> ('w, 'a) action" where
  "call_throwing m s w = (case m w of (r, w') \<Rightarrow> ((r, s), w'))"

definition lift :: "'a result \<Rightarrow> ('w, 'a) action" where
  "lift r s w = ((r, s), w)"

text \<open>An operation that returns its changed object and may throw; a throw discards the object.\<close>

definition call_object :: "('w, 'a result \<times> 'o) op \<Rightarrow> ('w, 'a \<times> 'o) action" where
  "call_object m s w =
     (case m w of ((Inl e, obj), w') \<Rightarrow> ((Inl e, s), w') | ((Inr a, obj), w') \<Rightarrow> ((Inr (a, obj), s), w'))"

text \<open>Dereferencing a null pointer is undefined.\<close>

definition deref :: "('w cni \<Rightarrow> 'a option) \<Rightarrow> ('w, 'a) action" where
  "deref f s w = (case f s of None \<Rightarrow> ((Inl Undefined_behaviour, s), w) | Some a \<Rightarrow> ((Inr a, s), w))"

definition require :: "bool \<Rightarrow> exn \<Rightarrow> ('w, unit) action" where
  "require b e = (if b then ret () else throw e)"

definition stored :: "('w storage_if \<Rightarrow> ('w, 'a) op) \<Rightarrow> ('w, 'a) action" where
  "stored f = seq (deref cni_storage) (\<lambda>S. call (f S))"

definition stored_throwing :: "('w storage_if \<Rightarrow> ('w, 'a) throwing) \<Rightarrow> ('w, 'a) action" where
  "stored_throwing f = seq (deref cni_storage) (\<lambda>S. call_throwing (f S))"

lemma action_simps [simp]:
  "seq (ret a) f s w = f a s w" "seq (throw e) f s w = ((Inl e, s), w)"
  "seq (state g) f s w = f (g s) s w" "seq (change h) f s w = f () (h s) w"
  "seq (require True e) f s w = f () s w" "seq (require False e) f s w = ((Inl e, s), w)"
  by (simp_all add: seq_def ret_def throw_def state_def change_def require_def)

end
