(* ===== verification/Cni.thy ===== *)
theory Cni
  imports Cni_Monad
begin

text \<open>
  \<open>src/cni/cni.cc\<close>: the plugin. \<open>add\<close> and \<open>del\<close> rebuild the picture of the node from ETCD, change
  the kernel's network configuration and the picture, and record the change in ETCD.

  The node object always is the entry of \<open>cluster_\<close> under \<open>node_name_\<close>, a pod the entry of that node
  under its name, an interface the entry of that pod under its name; what changes one of them
  through a shared pointer is an update of the cluster here.
\<close>

subsection \<open>Configuration\<close>

definition cni_parseConfig :: "config \<Rightarrow> ('w, unit) action" where
  "cni_parseConfig conf =
     seq (change (\<lambda>s. s\<lparr>cni_conf := conf\<rparr>)) (\<lambda>_.
     if cc_type conf = DEFAULT_CONF_PLUGINS_NAME
     then seq (require (cc_bridge conf \<noteq> []) (Cni_error 7 ''Bridge name is empty'')) (\<lambda>_.
          seq (require (SEPARATOR \<notin> set (cc_bridge conf))
            (Cni_error 7 (''Bridge name can'' @ [CHR 0x27] @ ''t contain '' @ quoted [SEPARATOR]))) (\<lambda>_.
          seq (change (\<lambda>s. s\<lparr>cni_mode := Some (cci_mode (cc_ipam conf))\<rparr>)) (\<lambda>_.
          require (cci_mode (cc_ipam conf) \<noteq> Mode_RESERVED) (Cni_error 7 ''Invalid IPAM mode''))))
     else ret ())"

definition cni_parseConfig_json :: "'j json_lib \<Rightarrow> 'j \<Rightarrow> ('w, bool) action" where
  "cni_parseConfig_json J j s w =
     (case config_from_json J default_config j of
        Inl e \<Rightarrow> ((Inr False, s), w)
      | Inr conf \<Rightarrow>
          (case cni_parseConfig conf s w of
             ((Inl e, s'), w') \<Rightarrow> ((Inr False, s'), w') | ((Inr _, s'), w') \<Rightarrow> ((Inr True, s'), w')))"

definition cni_setCluster :: "'w cluster option \<Rightarrow> ('w, bool) action" where
  "cni_setCluster c = seq (change (\<lambda>s. s\<lparr>cni_cluster := c\<rparr>)) (\<lambda>_. ret (\<not> Option.is_none c))"

definition cni_setIpam :: "'w ipam_if option \<Rightarrow> ('w, bool) action" where
  "cni_setIpam I = seq (change (\<lambda>s. s\<lparr>cni_ipam := I\<rparr>)) (\<lambda>_. ret (\<not> Option.is_none I))"

definition cni_setStorage :: "'w storage_if option \<Rightarrow> ('w, bool) action" where
  "cni_setStorage S = seq (change (\<lambda>s. s\<lparr>cni_storage := S\<rparr>)) (\<lambda>_. ret (\<not> Option.is_none S))"

definition cni_setCenter :: "'w center_if option \<Rightarrow> ('w, bool) action" where
  "cni_setCenter C = seq (change (\<lambda>s. s\<lparr>cni_center := C\<rparr>)) (\<lambda>_. ret (\<not> Option.is_none C))"

subsection \<open>Access to the cluster\<close>

definition get_node :: "('w, 'w node option) action" where
  "get_node = seq (deref cni_cluster) (\<lambda>c. seq (state cni_node_name) (\<lambda>name. ret (cluster_getNode name c)))"

definition on_node :: "('w node \<Rightarrow> 'w node) \<Rightarrow> 'w cni \<Rightarrow> 'w cni" where
  "on_node f s = s\<lparr>cni_cluster := map_option
     (map (\<lambda>(name, n). (name, if name = cni_node_name s then f n else n))) (cni_cluster s)\<rparr>"

definition on_pod :: "string \<Rightarrow> ('w netns \<Rightarrow> 'w netns) \<Rightarrow> 'w cni \<Rightarrow> 'w cni" where
  "on_pod pod_name f = on_node (\<lambda>n. n\<lparr>node_netns :=
     map (\<lambda>(name, p). (name, if name = pod_name then f p else p)) (node_netns n)\<rparr>)"

definition on_nic :: "string \<Rightarrow> string \<Rightarrow> ('w nic \<Rightarrow> 'w nic) \<Rightarrow> 'w cni \<Rightarrow> 'w cni" where
  "on_nic pod_name name f = on_pod pod_name (\<lambda>p. p\<lparr>netns_nics :=
     map (\<lambda>(key, n). (key, if key = name then f n else n)) (netns_nics p)\<rparr>)"

definition mode_is_vxlan :: "('w, bool) action" where
  "mode_is_vxlan = seq (deref cni_mode) (\<lambda>m. ret (m = Mode_vxlan))"

subsection \<open>From ETCD to the cluster\<close>

definition getStorageNic :: "string \<Rightarrow> string \<Rightarrow> 'w netlink_if option \<Rightarrow> ('w, 'w nic option) action" where
  "getStorageNic pod nic netlink =
     seq (state (\<lambda>s. (cni_underlay_dev s, cc_bridge (cni_conf s)))) (\<lambda>(underlay_dev, bridge).
     let nic_obj = (if pod = HOST \<and> nic = underlay_dev then Underlay
                    else if nic = bridge then new_bridge else new_plain)
     in seq (call (nic_setup netlink (nic_setName nic nic_obj))) (\<lambda>(ok, nic_obj').
        ret (if ok then Some nic_obj' else None)))"

definition initKubernetesNode :: "asio \<Rightarrow> string \<Rightarrow> 'w node \<Rightarrow> ('w, 'w node) action" where
  "initKubernetesNode A subnet n =
     seq (state (\<lambda>s. (cni_node_name s, cni_underlay_addr s, cni_underlay_dev s))) (\<lambda>(name, addr, dev).
     case node_setSubnet A subnet (node_setName name n) of
       (Inl e, n') \<Rightarrow> throw e
     | (Inr _, n') \<Rightarrow> ret (node_setUnderlayDev dev (node_setUnderlayAddr A addr n')))"

fun load_addrs :: "asio \<Rightarrow> string \<Rightarrow> string list \<Rightarrow> 'w nic \<Rightarrow> ('w, 'w nic) action" where
  "load_addrs A nic [] nic_obj = ret nic_obj"
| "load_addrs A nic (a # as) nic_obj =
     seq (change (\<lambda>s. if cni_gateway s = None \<and> nic = cc_bridge (cni_conf s)
                      then s\<lparr>cni_gateway := Some (Addr A a)\<rparr> else s)) (\<lambda>_.
     seq (call_object (nic_addAddr A (Addr A a) nic_obj)) (\<lambda>(ok, nic_obj'). load_addrs A nic as nic_obj'))"

fun load_routes :: "route list \<Rightarrow> 'w nic \<Rightarrow> ('w, 'w nic) action" where
  "load_routes [] nic_obj = ret nic_obj"
| "load_routes (r # rs) nic_obj =
     seq (call (nic_addRoute (Route (rt_dest r) (rt_via r) (rt_dev r)) NH_NONE nic_obj)) (\<lambda>(ok, nic_obj').
     load_routes rs nic_obj')"

fun load_nics :: "asio \<Rightarrow> 'w netlink_if option \<Rightarrow> string \<Rightarrow> string list \<Rightarrow> 'w netns \<Rightarrow> ('w, 'w netns) action" where
  "load_nics A netlink pod [] pod_obj = ret pod_obj"
| "load_nics A netlink pod (nic # nics) pod_obj =
     seq (getStorageNic pod nic netlink) (\<lambda>found.
     case found of
       None \<Rightarrow> load_nics A netlink pod nics pod_obj
     | Some nic_obj \<Rightarrow>
         seq (state cni_node_name) (\<lambda>node.
         seq (if pod \<noteq> HOST
              then seq (stored (\<lambda>S. st_getNetns S node pod)) (\<lambda>netns.
                   seq (call_object (nic_setNetns netns nic_obj)) (\<lambda>(ok, nic_obj'). ret nic_obj'))
              else ret nic_obj) (\<lambda>nic1.
         seq (stored (\<lambda>S. st_getAllAddrs S node pod nic)) (\<lambda>addrs.
         seq (load_addrs A nic addrs nic1) (\<lambda>nic2.
         seq (stored_throwing (\<lambda>S. st_getAllRoutes S node pod nic)) (\<lambda>routes.
         seq (load_routes routes nic2) (\<lambda>nic3.
         load_nics A netlink pod nics (netns_addNic nic3 pod_obj)))))))) "

fun load_pods :: "asio \<Rightarrow> 'w netlink_if option \<Rightarrow> string list \<Rightarrow> 'w node \<Rightarrow> ('w, 'w node) action" where
  "load_pods A netlink [] node = ret node"
| "load_pods A netlink (pod # pods) node =
     seq (state cni_node_name) (\<lambda>name.
     seq (stored (\<lambda>S. st_getAllNic S name pod)) (\<lambda>nics.
     seq (load_nics A netlink pod nics (netns_setName pod new_netns)) (\<lambda>pod_obj.
     load_pods A netlink pods (node_addNetns pod pod_obj node))))"

definition getKubernetesCluster :: "asio \<Rightarrow> 'w netlink_if option \<Rightarrow> ('w, 'w cluster) action" where
  "getKubernetesCluster A netlink =
     seq (deref cni_ipam) (\<lambda>I.
     seq (state cni_node_name) (\<lambda>name.
     seq (call (ip_getSubnet I name)) (\<lambda>(ok, subnet).
     if \<not> ok then ret []
     else seq (initKubernetesNode A subnet new_node) (\<lambda>node.
          seq (stored (\<lambda>S. st_getAllPods S name)) (\<lambda>pod_names.
          seq (load_pods A netlink pod_names node) (\<lambda>node'.
          ret (cluster_addNode name node' [])))))))"

subsection \<open>The node\<close>

definition getBridge :: "asio \<Rightarrow> 'w netlink_if option \<Rightarrow> string \<Rightarrow> ('w, 'w nic) action" where
  "getBridge A netlink bridge_addr =
     seq (state (\<lambda>s. (cni_node_name s, cc_bridge (cni_conf s)))) (\<lambda>(node, br).
     seq (stored (\<lambda>S. st_addNic S node HOST br)) (\<lambda>ok.
     seq (require ok (Cni_error CNI_ERRCODE_OHNO (''Failed to store bridge:'' @ br @ '' on node:'' @ node))) (\<lambda>_.
     seq (call (nic_setup netlink (nic_setName br new_bridge))) (\<lambda>(ok, bridge1).
     seq (require ok (Cni_error 7 (''Failed to create Kubernetes node:'' @ node @ '' bridge object''))) (\<lambda>_.
     seq (call_object (nic_addAddr A (Addr A bridge_addr) bridge1)) (\<lambda>(added, bridge2).
     seq (if added
          then seq (stored_throwing (\<lambda>S. st_addAddr S node HOST br (Addr A bridge_addr))) (\<lambda>ok.
               require ok (Cni_error CNI_ERRCODE_OHNO (''Failed to store bridge:'' @ br @ '' gateway:''
                 @ bridge_addr @ '' on node:'' @ node)))
          else ret ()) (\<lambda>_.
     seq (call (nic_setStatus UP bridge2)) (\<lambda>(ok, bridge3). ret bridge3))))))))"

definition getVxlan :: "('w, 'j) platform \<Rightarrow> 'w netlink_if option \<Rightarrow> string \<Rightarrow> ('w, 'w nic) action" where
  "getVxlan P netlink node_subnet_text =
     (let A = pf_asio P in
     seq (state (\<lambda>s. (cni_node_name s, cni_underlay_addr s, cni_underlay_dev s))) (\<lambda>(node, addr, dev).
     seq (stored (\<lambda>S. st_addNic S node HOST NAME_VXLAN)) (\<lambda>ok.
     seq (require ok (Cni_error CNI_ERRCODE_OHNO (''Failed to store vxlan:'' @ NAME_VXLAN @ '' on node:'' @ node))) (\<lambda>_.
     seq (call (nic_setup netlink (nic_setName NAME_VXLAN (new_vxlan A addr dev)))) (\<lambda>(ok, vxlan1).
     seq (require ok (Cni_error 7 (''Failed to create Kubernetes node:'' @ node @ '' vxlan object''))) (\<lambda>_.
     seq (lift (case subnet_init A node_subnet_text new_subnet of (Inl e, _) \<Rightarrow> Inl e | (Inr _, sub) \<Rightarrow> Inr sub)) (\<lambda>sub.
     seq (lift (extractAddr A sub)) (\<lambda>vxlan_addr.
     seq (call_object (nic_addAddr A (Addr A vxlan_addr) vxlan1)) (\<lambda>(added, vxlan2).
     seq (if added
          then seq (stored_throwing (\<lambda>S. st_addAddr S node HOST NAME_VXLAN (Addr A vxlan_addr))) (\<lambda>ok.
               require ok (Cni_error CNI_ERRCODE_OHNO (''Failed to store vxlan:'' @ vxlan_addr @ '' on node:'' @ node)))
          else ret ()) (\<lambda>_.
     seq (call (nic_setStatus UP vxlan2)) (\<lambda>(ok, vxlan3).
     seq (call (getMac (pf_hwaddr P) NAME_VXLAN)) (\<lambda>vxlan_mac.
     seq (require (vxlan_mac \<noteq> []) (Cni_error 7 (''Failed to get vxlan:'' @ NAME_VXLAN @ '' mac on node:'' @ node))) (\<lambda>_.
     seq (stored (\<lambda>S. st_addVtep S node vxlan_addr vxlan_mac)) (\<lambda>ok.
     seq (require ok (Cni_error CNI_ERRCODE_OHNO (''Failed to store vxlan:'' @ NAME_VXLAN @ '' addr:'' @ vxlan_addr
       @ '' mac:'' @ vxlan_mac @ '' on node:'' @ node))) (\<lambda>_.
     ret vxlan3)))))))))))))))"

text \<open>The vxlan interface is \<open>None\<close> unless the mode is vxlan.\<close>

definition getRootPod :: "'w node \<Rightarrow> 'w nic \<Rightarrow> 'w nic option \<Rightarrow> 'w nic \<Rightarrow> ('w, 'w node) action" where
  "getRootPod node bridge vxlan underlay_nic =
     seq mode_is_vxlan (\<lambda>is_vxlan.
     seq (if is_vxlan
          then (case vxlan of None \<Rightarrow> throw Undefined_behaviour
                | Some vx \<Rightarrow> ret (netns_addNic vx (netns_addNic bridge new_netns)))
          else ret (netns_addNic bridge new_netns)) (\<lambda>host.
     let node' = node_addNetns HOST (netns_setName HOST (netns_addNic underlay_nic host)) node in
     seq (state cni_node_name) (\<lambda>name.
     seq (stored (\<lambda>S. st_addNetns S name HOST HOST)) (\<lambda>ok.
     seq (require ok (Cni_error CNI_ERRCODE_OHNO (''Failed to add root namespace:'' @ HOST))) (\<lambda>_.
     seq (stored_throwing (\<lambda>S. st_addPod S name HOST HOST)) (\<lambda>ok.
     seq (require ok (Cni_error CNI_ERRCODE_OHNO ''Failed to store root namespace'')) (\<lambda>_.
     ret node')))))))"

definition create_node :: "('w, 'j) platform \<Rightarrow> 'w netlink_if option \<Rightarrow> ('w, 'w node) action" where
  "create_node P netlink =
     (let A = pf_asio P in
     seq (deref cni_ipam) (\<lambda>I.
     seq (state (\<lambda>s. (cni_node_name s, cni_underlay_dev s))) (\<lambda>(name, dev).
     seq (deref cni_center) (\<lambda>center.
     seq (call (ip_allocateSubnet I name center)) (\<lambda>(ok, subnet).
     seq (require ok (Cni_error 7 (''Failed to allocate subnet for node:'' @ name))) (\<lambda>_.
     seq (call_throwing (ip_allocateIp I name [])) (\<lambda>(ok, gateway).
     seq (require ok (Cni_error 7 (''Failed to reserve gateway:'' @ gateway @ '' for node:'' @ name
       @ '', the gateway had been used''))) (\<lambda>_.
     seq (change (\<lambda>s. s\<lparr>cni_gateway := Some (Addr A gateway)\<rparr>)) (\<lambda>_.
     seq (getBridge A netlink gateway) (\<lambda>bridge.
     seq mode_is_vxlan (\<lambda>is_vxlan.
     seq (if is_vxlan then seq (getVxlan P netlink subnet) (\<lambda>vx. ret (Some vx)) else ret None) (\<lambda>vxlan.
     seq (stored (\<lambda>S. st_addNic S name HOST dev)) (\<lambda>ok.
     seq (require ok (Cni_error CNI_ERRCODE_OHNO (''Failed to store underlay dev:'' @ dev @ '' on node:'' @ name))) (\<lambda>_.
     seq (getRootPod new_node bridge vxlan (nic_setName dev Underlay)) (\<lambda>node1.
     seq (initKubernetesNode A subnet node1) (\<lambda>node2.
     seq (change (\<lambda>s. s\<lparr>cni_cluster := map_option (cluster_addNode name node2) (cni_cluster s)\<rparr>)) (\<lambda>_.
     ret node2)))))))))))))))))"

definition getKubernetesNode :: "('w, 'j) platform \<Rightarrow> bool \<Rightarrow> 'w netlink_if option \<Rightarrow> ('w, 'w node option) action" where
  "getKubernetesNode P get_and_create netlink =
     seq get_node (\<lambda>found.
     if Option.is_none found \<and> get_and_create
     then (if Option.is_none netlink
           then seq (state cni_node_name) (\<lambda>name.
             throw (Cni_error CNI_ERRCODE_OHNO (''No this node:'' @ name @ '', but you do not to create?'')))
           else seq (create_node P netlink) (\<lambda>node. ret (Some node)))
     else ret found)"

subsection \<open>The pods of the node\<close>

definition getKubernetesPod :: "'w node \<Rightarrow> string \<Rightarrow> bool \<Rightarrow> ('w, 'w netns) action" where
  "getKubernetesPod node pod_name create =
     (case node_getNetns pod_name node of
        Some pod \<Rightarrow> ret pod
      | None \<Rightarrow>
          if create
          then (let pod = netns_setName pod_name new_netns in
                seq (change (on_node (node_addNetns pod_name pod))) (\<lambda>_. ret pod))
          else throw (Cni_error 7 (''No this pod:'' @ pod_name @ '', but you do not to create?'')))"

definition delKubernetesPod :: "string \<Rightarrow> ('w, unit) action" where
  "delKubernetesPod pod_name =
     seq (state cni_node_name) (\<lambda>name.
     seq (stored (\<lambda>S. st_getNetns S name pod_name)) (\<lambda>netns.
     seq (stored (\<lambda>S. st_delNetns S name pod_name)) (\<lambda>ok.
     seq (require ok (Cni_error CNI_ERRCODE_OHNO (''Failed to add namespace of pod:'' @ pod_name))) (\<lambda>_.
     seq (if netns \<noteq> []
          then seq (stored_throwing (\<lambda>S. st_delPod S name netns)) (\<lambda>ok.
               require ok (Cni_error CNI_ERRCODE_OHNO (''Failed to add container id:'' @ netns)))
          else ret ()) (\<lambda>_.
     change (on_node (node_delNetns pod_name)))))))"

subsection \<open>The interfaces of a pod\<close>

text \<open>
  The two assertions on the root namespace and its bridge only print; a missing bridge then fails
  the cast. \<open>getKubernetesNode(false)\<close> needs no platform.
\<close>

definition nicPluginBridge :: "string \<Rightarrow> ('w, unit) action" where
  "nicPluginBridge name =
     seq (state (\<lambda>s. (cni_node_name s, cc_bridge (cni_conf s)))) (\<lambda>(node_name, br).
     seq get_node (\<lambda>found.
     case found of
       None \<Rightarrow> throw (Cni_error CNI_ERRCODE_OHNO (''Failed to get Kubernetes node '' @ node_name))
     | Some node \<Rightarrow>
         seq (getKubernetesPod node HOST False) (\<lambda>host.
         case netns_getNic br host of
           None \<Rightarrow> throw (Cni_error 7 (''Failed to get bridge in host netns on node:'' @ node_name))
         | Some bridge_if \<Rightarrow>
             seq (require (is_bridge bridge_if)
               (Cni_error 7 (''Failed to get bridge in host netns on node:'' @ node_name))) (\<lambda>_.
             seq (call (setMaster name mode_reserved bridge_if)) (\<lambda>ok.
             require ok (Cni_error 7 (''Failed to set bridge master of veth on node:'' @ node_name)))))))"

text \<open>
  The format strings of the two errors about the route name an argument that is not passed, so
  formatting them throws \<open>fmt::format_error\<close> in place of the \<open>CniError\<close>.
\<close>

definition configPodNetwork :: "asio \<Rightarrow> 'w nic \<Rightarrow> string \<Rightarrow> string \<Rightarrow> ('w, 'w nic) action" where
  "configPodNetwork A n name container_id =
     seq (state cni_node_name) (\<lambda>node.
     seq (deref cni_ipam) (\<lambda>I.
     seq (call_throwing (ip_allocateIp I node [])) (\<lambda>(ok, pod_addr).
     seq (require ok (Cni_error 7 (''Failed to allocate IP address on node:'' @ node))) (\<lambda>_.
     seq (call_object (nic_addAddr A (Addr A pod_addr) n)) (\<lambda>(ok, n1).
     seq (require ok (Cni_error 7 (''Failed to add IP address:'' @ pod_addr @ '' to veth on node:'' @ node))) (\<lambda>_.
     seq (stored_throwing (\<lambda>S. st_addAddr S node container_id name (Addr A pod_addr))) (\<lambda>ok.
     seq (require ok (Cni_error CNI_ERRCODE_OHNO (''Failed to store nic:'' @ name @ '' addr:'' @ pod_addr
       @ '' on node:'' @ node))) (\<lambda>_.
     seq (deref cni_gateway) (\<lambda>gw.
     seq (lift (addr_getAddr A gw)) (\<lambda>route_via.
     seq (call (nic_addRoute (Route [] route_via name) NH_NONE n1)) (\<lambda>(ok, n2).
     seq (require ok Std_exception) (\<lambda>_.
     seq (stored (\<lambda>S. st_addRoute S node container_id name (Route [] route_via name))) (\<lambda>ok.
     seq (require ok Std_exception) (\<lambda>_.
     ret n2))))))))))))))"

definition create_nic :: "('w, 'j) platform \<Rightarrow> 'w netns \<Rightarrow> string \<Rightarrow> 'w netlink_if option \<Rightarrow> string \<Rightarrow> string
    \<Rightarrow> ('w, 'w nic) action" where
  "create_nic P pod name netlink veth_peer netns =
     (let container_id = netns_name pod in
     seq (state cni_node_name) (\<lambda>node.
     seq (stored_throwing (\<lambda>S. st_getPod S node netns)) (\<lambda>cid.
     seq (require (cid = [] \<or> cid = container_id) (Cni_error 7 (''CRI error: Pod:'' @ cid @ '' and Pod:''
       @ container_id @ '' belongs to one namespace:'' @ netns))) (\<lambda>_.
     seq (stored_throwing (\<lambda>S. st_addPod S node netns container_id)) (\<lambda>ok.
     seq (require ok (Cni_error CNI_ERRCODE_OHNO (''Failed to add container:'' @ container_id
       @ '' to namespace:'' @ netns))) (\<lambda>_.
     seq (stored (\<lambda>S. st_addNetns S node container_id netns)) (\<lambda>ok.
     seq (require ok (Cni_error CNI_ERRCODE_OHNO (''Failed to add namespace:'' @ netns @ '' to pod:''
       @ container_id))) (\<lambda>_.
     seq (stored (\<lambda>S. st_addNic S node container_id name)) (\<lambda>ok.
     seq (require ok (Cni_error CNI_ERRCODE_OHNO (''Failed to store nic:'' @ name @ '' on node:'' @ node))) (\<lambda>_.
     seq (call (pf_draw P)) (\<lambda>dist.
     let iface = nic_setName (''ohno_'' @ getShortHash (getUniqueId dist IFNAMSIZ False)) (new_veth veth_peer) in
     seq (call (nic_setup netlink iface)) (\<lambda>(ok, iface1).
     seq (require ok (Cni_error 7 (''Failed to create iface pair '' @ name @ ''--'' @ veth_peer))) (\<lambda>_.
     seq (call_object (nic_setNetns netns iface1)) (\<lambda>(ok, iface2).
     seq (require ok (Cni_error 7 (''Failed to set iface '' @ name @ '' netns''))) (\<lambda>_.
     seq (call (nic_rename name iface2)) (\<lambda>(ok, iface3).
     seq (call (nic_setStatus UP iface3)) (\<lambda>(ok, iface4).
     seq (nicPluginBridge veth_peer) (\<lambda>_.
     seq (configPodNetwork (pf_asio P) iface4 name container_id) (\<lambda>iface5.
     seq (change (on_pod container_id (netns_addNic iface5))) (\<lambda>_.
     ret iface5))))))))))))))))))))"

definition getKubernetesNic :: "('w, 'j) platform \<Rightarrow> 'w netns \<Rightarrow> string \<Rightarrow> bool \<Rightarrow> 'w netlink_if option
    \<Rightarrow> string \<Rightarrow> string \<Rightarrow> ('w, 'w nic option) action" where
  "getKubernetesNic P pod name get_and_create netlink veth_peer netns =
     (case netns_getNic name pod of
        Some iface \<Rightarrow> ret (Some iface)
      | None \<Rightarrow>
          if get_and_create
          then (if Option.is_none netlink
                then throw (Cni_error 7 (''No this iface:'' @ name @ '', but you do not to create?''))
                else seq (create_nic P pod name netlink veth_peer netns) (\<lambda>iface. ret (Some iface)))
          else ret None)"

definition delKubernetesNic :: "asio \<Rightarrow> 'w netns \<Rightarrow> string \<Rightarrow> ('w, unit) action" where
  "delKubernetesNic A pod name =
     (case netns_getNic name pod of
        None \<Rightarrow> ret ()
      | Some iface \<Rightarrow>
          seq (state (\<lambda>s. (cni_node_name s, cni_underlay_dev s))) (\<lambda>(node, underlay_dev).
          seq (lift (nic_getAddr A [] iface)) (\<lambda>addr_obj.
          seq (lift (case addr_obj of None \<Rightarrow> Inr [] | Some a \<Rightarrow> addr_getAddrCidr A a)) (\<lambda>pod_addr.
          seq (call_throwing (nic_cleanup A iface)) (\<lambda>_.
          let pod_name = netns_name pod in
          seq (if \<not> (pod_name = HOST \<and> nic_name iface = underlay_dev)
               then seq (deref cni_ipam) (\<lambda>I. seq (call (ip_releaseIp I node pod_addr)) (\<lambda>ok. ret ()))
               else ret ()) (\<lambda>_.
          seq (stored (\<lambda>S. st_delAddr S node pod_name name)) (\<lambda>ok.
          seq (require ok (Cni_error CNI_ERRCODE_OHNO (''Failed to delete addr of nic:'' @ name @ '' on node:'' @ node))) (\<lambda>_.
          seq (stored (\<lambda>S. st_delRoute S node pod_name name)) (\<lambda>ok.
          seq (require ok (Cni_error CNI_ERRCODE_OHNO (''Failed to delete route of nic:'' @ name @ '' on node:'' @ node))) (\<lambda>_.
          seq (stored (\<lambda>S. st_delNic S node pod_name name)) (\<lambda>ok.
          seq (require ok (Cni_error CNI_ERRCODE_OHNO (''Failed to delete nic:'' @ name @ '' on node:'' @ node))) (\<lambda>_.
          seq mode_is_vxlan (\<lambda>is_vxlan.
          seq (if is_vxlan
               then seq (stored (\<lambda>S. st_delVtep S node)) (\<lambda>ok.
                    require ok (Cni_error CNI_ERRCODE_OHNO (''Failed to delete vtep on node:'' @ node)))
               else ret ()) (\<lambda>_.
          change (on_pod pod_name (netns_delNic name))))))))))))))))"

subsection \<open>The CNI commands\<close>

definition UNKNOWN_ADDR_V4 :: string where "UNKNOWN_ADDR_V4 = ''0.0.0.0/32''"

definition read_node_info :: "'w host \<Rightarrow> ('w, bool) action" where
  "read_node_info sh =
     seq (state (\<lambda>s. (cni_node_name s, cni_underlay_dev s, cni_underlay_addr s))) (\<lambda>(name, dev, addr).
     seq (call (getNodeInfo sh name dev addr)) (\<lambda>(ok, name', dev', addr').
     seq (change (\<lambda>s. s\<lparr>cni_node_name := name', cni_underlay_dev := dev', cni_underlay_addr := addr'\<rparr>)) (\<lambda>_.
     ret ok)))"

text \<open>The pod already has an interface of that name.\<close>

definition reuse_nic :: "asio \<Rightarrow> string \<Rightarrow> string \<Rightarrow> 'w nic \<Rightarrow> ('w, 'w nic) action" where
  "reuse_nic A container_id veth_pod n =
     seq (lift (nic_getAddr A [] n)) (\<lambda>addr_obj.
     case addr_obj of
       None \<Rightarrow> throw (Cni_error 7 (''Failed to get veth address:'' @ veth_pod))
     | Some a \<Rightarrow>
         seq (lift (addr_getAddrCidr A a)) (\<lambda>cidr.
         seq (lift (case subnet_init A cidr new_subnet of (Inl e, _) \<Rightarrow> Inl e | (Inr _, sub) \<Rightarrow> Inr sub)) (\<lambda>subnet_veth.
         seq (state (\<lambda>s. cci_subnet (cc_ipam (cni_conf s)))) (\<lambda>conf_subnet.
         seq (lift (isSubnetOf A subnet_veth conf_subnet)) (\<lambda>ok.
         seq (require ok (Cni_error 7 (''CNI interfaces subnet:'' @ cidr
           @ '' is not CNI configuration subnet of '' @ conf_subnet))) (\<lambda>_.
         seq (call (nic_isExist n)) (\<lambda>exists.
         if exists then ret n
         else seq (call (nic_rename veth_pod n)) (\<lambda>(ok, n').
              seq (require ok (Cni_error 7 (''Failed to rename veth:'' @ nic_name n @ '' to veth:'' @ veth_pod))) (\<lambda>_.
              seq (change (on_nic container_id veth_pod (\<lambda>_. n'))) (\<lambda>_. ret n')))))))))) "

definition cni_add :: "('w, 'j) platform \<Rightarrow> string \<Rightarrow> string \<Rightarrow> string \<Rightarrow> ('w, string) action" where
  "cni_add P container_id netns nic =
     (let A = pf_asio P; J = pf_json P in
     seq (deref cni_ipam) (\<lambda>I.
     seq (call_throwing (ip_dump I)) (\<lambda>ipam_start.
     seq (state cni_netlink) (\<lambda>netlink.
     seq (require (\<not> Option.is_none netlink) (Cni_error 7 ''Failed to create netlink interface'')) (\<lambda>_.
     seq (read_node_info (pf_shell P)) (\<lambda>ok.
     seq (require ok (Cni_error CNI_ERRCODE_OHNO ''Failed to get current node info'')) (\<lambda>_.
     seq (getKubernetesCluster A netlink) (\<lambda>cluster.
     seq (change (\<lambda>s. s\<lparr>cni_cluster := Some cluster\<rparr>)) (\<lambda>_.
     seq (state cni_node_name) (\<lambda>name.
     seq (getKubernetesNode P True netlink) (\<lambda>found.
     case found of
       None \<Rightarrow> throw (Cni_error CNI_ERRCODE_OHNO (''Failed to get Kubernetes node:'' @ name))
     | Some node \<Rightarrow>
     seq (getKubernetesPod node container_id True) (\<lambda>pod.
     let veth_host = ''veth_'' @ getShortHash container_id in
     seq (getKubernetesNic P pod nic False None [] []) (\<lambda>iface.
     seq (case iface of
            Some n \<Rightarrow> seq (reuse_nic A container_id nic n) (\<lambda>n'. ret (Some n'))
          | None \<Rightarrow> getKubernetesNic P pod nic True netlink veth_host netns) (\<lambda>iface'.
     case iface' of
       None \<Rightarrow> throw (Cni_error 7 (''Failed to get Kubernetes veth pair on pod:'' @ container_id @ '' of node:'' @ name))
     | Some n \<Rightarrow>
     seq (call_throwing (ip_dump I)) (\<lambda>ipam_end.
     seq (lift (nic_getAddr A [] n)) (\<lambda>addr_obj.
     seq (lift (case addr_obj of None \<Rightarrow> Inr UNKNOWN_ADDR_V4 | Some a \<Rightarrow> addr_getAddrCidr A a)) (\<lambda>pod_addr.
     seq (state (\<lambda>s. cc_version (cni_conf s))) (\<lambda>version.
     seq (deref cni_gateway) (\<lambda>gw.
     seq (lift (addr_getAddr A gw)) (\<lambda>gateway.
     ret (j_dump J 4 (result_to_json J
       \<lparr>cr_cniversion = version, cr_ips = [\<lparr>cri_address = pod_addr, cri_gateway = gateway\<rparr>],
        cr_interfaces = [\<lparr>ri_name = nic, ri_sandbox = netns\<rparr>]\<rparr>))))))))))))))))))))))"

definition del_body :: "('w, 'j) platform \<Rightarrow> string \<Rightarrow> string \<Rightarrow> ('w, unit) action" where
  "del_body P container_id nic =
     (let A = pf_asio P in
     seq (state cni_netlink) (\<lambda>netlink.
     seq (require (\<not> Option.is_none netlink) (Cni_error 7 ''Failed to create netlink interface'')) (\<lambda>_.
     seq (read_node_info (pf_shell P)) (\<lambda>ok.
     seq (require ok (Cni_error CNI_ERRCODE_OHNO ''Failed to get current node info'')) (\<lambda>_.
     seq (getKubernetesCluster A netlink) (\<lambda>cluster.
     seq (change (\<lambda>s. s\<lparr>cni_cluster := Some cluster\<rparr>)) (\<lambda>_.
     seq (state (\<lambda>s. (cni_node_name s, cni_underlay_dev s, cc_bridge (cni_conf s)))) (\<lambda>(name, underlay_dev, br).
     seq (getKubernetesNode P False None) (\<lambda>found.
     case found of
       None \<Rightarrow> throw (Cni_error CNI_ERRCODE_OHNO (''Failed to get Kubernetes node:'' @ name))
     | Some node \<Rightarrow>
     seq (getKubernetesPod node container_id False) (\<lambda>pod.
     seq (delKubernetesNic A pod nic) (\<lambda>_.
     seq (delKubernetesPod container_id) (\<lambda>_.
     seq get_node (\<lambda>found'.
     case found' of
       None \<Rightarrow> throw Undefined_behaviour
     | Some node' \<Rightarrow>
     if node_getNetnsSize node' = 1
     then seq (getKubernetesPod node' HOST False) (\<lambda>host.
          seq (delKubernetesNic A host br) (\<lambda>_.
          seq (delKubernetesNic A host NAME_VXLAN) (\<lambda>_.
          seq (delKubernetesNic A host underlay_dev) (\<lambda>_.
          seq (delKubernetesPod HOST) (\<lambda>_.
          seq (lift (node_getSubnet A node')) (\<lambda>node_sub.
          if node_sub \<noteq> []
          then seq (deref cni_ipam) (\<lambda>I. seq (call (ip_releaseSubnet I name node_sub)) (\<lambda>ok. ret ()))
          else ret ()))))))
     else ret ())))))))))))))"

text \<open>\<open>del\<close> is \<open>noexcept\<close>: whatever its body throws is logged and ends there.\<close>

definition cni_del :: "('w, 'j) platform \<Rightarrow> string \<Rightarrow> string \<Rightarrow> ('w, unit) action" where
  "cni_del P container_id nic s w =
     (case del_body P container_id nic s w of
        ((Inl e, s'), w') \<Rightarrow> ((swallow e, s'), w') | ((Inr _, s'), w') \<Rightarrow> ((Inr (), s'), w'))"

definition cni_version_text :: "'j json_lib \<Rightarrow> 'w cni \<Rightarrow> string" where
  "cni_version_text J s =
     j_dump J 4 (version_to_json J (default_version\<lparr>cv_version := cc_version (cni_conf s)\<rparr>))"

end
