(* ===== verification/Storage_Facts.thy ===== *)
theory Storage_Facts
  imports Storage Ipam_Facts
begin

text \<open>
  What the plugin gets back from what it stored: the keys of all records are different, the texts
  of routes and VTEPs read back, and over any ETCD client that fulfils the contract of \<open>Etcd_Spec\<close>
  the pods and the routes of a node can be written, read and removed.
\<close>

subsection \<open>The keys of all records\<close>

text \<open>Every key this program writes, those of \<open>Ipam\<close> included.\<close>

datatype entry = Subnets | Subnet_of string | Addresses_of string | Netns_of string string
  | Pod_of string string | Pods_of string | Nics_of string string | Addrs_of string string string
  | Routes_of string string string | Vtep_of string

fun entry_key :: "entry \<Rightarrow> string" where
  "entry_key Subnets = ETCD_KEY_SUBNET"
| "entry_key (Subnet_of node) = subnet_key node"
| "entry_key (Addresses_of node) = address_key node"
| "entry_key (Netns_of node pod) = getNetnsKey node pod"
| "entry_key (Pod_of node netns) = (case getSinglePodKey node netns of Inl e \<Rightarrow> [] | Inr k \<Rightarrow> k)"
| "entry_key (Pods_of node) = getAllPodsKey node"
| "entry_key (Nics_of node pod) = getNicKey node pod"
| "entry_key (Addrs_of node pod nic) = getAddrKey node pod nic"
| "entry_key (Routes_of node pod nic) = getRouteKey node pod nic"
| "entry_key (Vtep_of node) = getVtepKey node"

text \<open>The names in a key: not empty, and without the separator of the key's parts.\<close>

definition name_ok :: "string \<Rightarrow> bool" where
  "name_ok s \<longleftrightarrow> s \<noteq> [] \<and> CHR ''/'' \<notin> set s"

fun entry_names :: "entry \<Rightarrow> string list" where
  "entry_names Subnets = []"
| "entry_names (Subnet_of node) = [node]"
| "entry_names (Addresses_of node) = [node]"
| "entry_names (Netns_of node pod) = [node, pod]"
| "entry_names (Pod_of node netns) = [node, netns]"
| "entry_names (Pods_of node) = [node]"
| "entry_names (Nics_of node pod) = [node, pod]"
| "entry_names (Addrs_of node pod nic) = [node, pod, nic]"
| "entry_names (Routes_of node pod nic) = [node, pod, nic]"
| "entry_names (Vtep_of node) = [node]"

fun entry_parts :: "entry \<Rightarrow> string list" where
  "entry_parts Subnets = [''subnets'']"
| "entry_parts (Subnet_of node) = [''subnets'', node]"
| "entry_parts (Addresses_of node) = [''addresses'', node]"
| "entry_parts (Netns_of node pod) = [''node'', node, ''pod'', pod, ''netns'']"
| "entry_parts (Pod_of node netns) = [''node'', node, ''netns'', netns, ''pod'']"
| "entry_parts (Pods_of node) = [''node'', node, ''pod'']"
| "entry_parts (Nics_of node pod) = [''node'', node, ''pod'', pod, ''nic'']"
| "entry_parts (Addrs_of node pod nic) = [''node'', node, ''pod'', pod, ''nic'', nic, ''addr'']"
| "entry_parts (Routes_of node pod nic) = [''node'', node, ''pod'', pod, ''nic'', nic, ''route'']"
| "entry_parts (Vtep_of node) = [''node'', node, ''vtep'']"

fun path_text :: "string list \<Rightarrow> string" where
  "path_text [] = []"
| "path_text (p # ps) = ''/'' @ p @ path_text ps"

lemma split_path_text:
  "\<forall>p \<in> set ps. name_ok p \<Longrightarrow> ps \<noteq> [] \<Longrightarrow> split (path_text ps) (CHR ''/'') = [] # ps"
proof (induction ps)
  case (Cons p ps)
  have s: "split (path_text (p # ps)) (CHR ''/'') = [] # split (p @ path_text ps) (CHR ''/'')"
    using split_sep [of "CHR ''/''" "[]" "p @ path_text ps"] by simp
  show ?case
  proof (cases ps)
    case Nil
    with Cons.prems s show ?thesis by (simp add: split_single name_ok_def)
  next
    case (Cons q qs)
    then have "split (p @ path_text ps) (CHR ''/'') = p # split (q @ path_text qs) (CHR ''/'')"
      using Cons.prems split_sep [of "CHR ''/''" p "q @ path_text qs"] by (simp add: name_ok_def)
    moreover have "split (path_text ps) (CHR ''/'') = [] # split (q @ path_text qs) (CHR ''/'')"
      using Cons split_sep [of "CHR ''/''" "[]" "q @ path_text qs"] by simp
    ultimately show ?thesis using s Cons.IH Cons.prems Cons by simp
  qed
qed simp

lemma path_text_inject:
  assumes "\<forall>p \<in> set ps. name_ok p" "\<forall>p \<in> set qs. name_ok p" "ps \<noteq> []" "qs \<noteq> []"
  shows "path_text ps = path_text qs \<longleftrightarrow> ps = qs"
  using split_path_text [OF assms(1,3)] split_path_text [OF assms(2,4)] by (metis list.inject)

lemma simpleNetns_name: "name_ok netns \<Longrightarrow> simpleNetns netns = Inr netns"
proof -
  assume "name_ok netns"
  then have "\<not> contains_sub netns PATH_NAMESPACE"
    by (auto simp: contains_sub_iff name_ok_def PATH_NAMESPACE_def)
  then show ?thesis by (simp add: simpleNetns_def)
qed

lemma entry_key_text:
  assumes "\<forall>n \<in> set (entry_names r). name_ok n"
  shows "entry_key r = path_text (''ohno'' # entry_parts r)"
  using assms
  by (cases r) (simp_all add: ETCD_KEY_SUBNET_def ETCD_KEY_ADDRESS_def subnet_key_def address_key_def
      getNetnsKey_def getSinglePodKey_def getAllPodsKey_def getNicKey_def getAddrKey_def getRouteKey_def
      getVtepKey_def ETCD_KEY_PREFIX_NODE_def simpleNetns_name)

lemma entry_parts_ok: "\<forall>n \<in> set (entry_names r). name_ok n \<Longrightarrow> \<forall>p \<in> set (entry_parts r). name_ok p"
  by (cases r) (simp_all add: name_ok_def)

lemma entry_parts_inject:
  assumes "\<forall>n \<in> set (entry_names r). name_ok n" "\<forall>n \<in> set (entry_names s). name_ok n"
  shows "entry_parts r = entry_parts s \<longleftrightarrow> r = s"
  by (cases r; cases s) auto

lemma entry_key_inject:
  assumes "\<forall>n \<in> set (entry_names r). name_ok n" "\<forall>n \<in> set (entry_names s). name_ok n"
  shows "entry_key r = entry_key s \<longleftrightarrow> r = s"
proof -
  have o: "name_ok ''ohno''" by (simp add: name_ok_def)
  have "entry_key r = entry_key s \<longleftrightarrow> ''ohno'' # entry_parts r = ''ohno'' # entry_parts s"
    unfolding entry_key_text [OF assms(1)] entry_key_text [OF assms(2)]
    using entry_parts_ok [OF assms(1)] entry_parts_ok [OF assms(2)] o by (intro path_text_inject) auto
  also have "\<dots> \<longleftrightarrow> r = s" using entry_parts_inject [OF assms] by simp
  finally show ?thesis .
qed

subsection \<open>The texts of routes and VTEPs\<close>

definition route_text :: "route \<Rightarrow> string" where
  "route_text r = getRouteValue (rt_dest r) (rt_via r) (rt_dev r)"

text \<open>A route whose text is one list element and reads back: no separator in a part, and a device.\<close>

definition part_ok :: "string \<Rightarrow> bool" where
  "part_ok s \<longleftrightarrow> (\<forall>c \<in> set s. word_char c \<and> c \<noteq> CHR '','' \<and> c \<noteq> SEPARATOR)"

definition route_ok :: "route \<Rightarrow> bool" where
  "route_ok r \<longleftrightarrow> part_ok (rt_dest r) \<and> part_ok (rt_via r) \<and> part_ok (rt_dev r) \<and> rt_dev r \<noteq> []"

lemma part_ok_sep: "part_ok s \<Longrightarrow> SEPARATOR \<notin> set s"
  by (auto simp: part_ok_def)

lemma split_first: "s \<noteq> [] \<Longrightarrow> \<exists>ts. split s d = takeWhile (\<lambda>c. c \<noteq> d) s # ts"
  by (simp add: split.simps [of s d] getline_def)

lemma route_of_value:
  assumes "SEPARATOR \<notin> set dest" "SEPARATOR \<notin> set via"
  shows "route_of (getRouteValue dest via dev) =
    (if dev = [] then Inl Undefined_behaviour else Inr (Route dest via (takeWhile (\<lambda>c. c \<noteq> SEPARATOR) dev)))"
proof -
  have "split (getRouteValue dest via dev) SEPARATOR = dest # via # split dev SEPARATOR"
    using split_sep [OF assms(1), of "via @ SEPARATOR # dev"] split_sep [OF assms(2), of dev]
    by (simp add: getRouteValue_def)
  then show ?thesis
    using split_first [of dev SEPARATOR] by (auto simp: route_of_def)
qed

text \<open>
  A comma in a route cuts its text into two entries of the list; one without a separator cannot be read.
\<close>

lemma split_tail: "set (split y d) \<subseteq> set (split (x @ d # y) d)"
proof (induction "length x" arbitrary: x rule: less_induct)
  case less
  show ?case
  proof (cases "d \<in> set x")
    case True
    then obtain x1 x2 where x: "x = x1 @ d # x2" "d \<notin> set x1" by (meson split_list_first)
    then have "split (x @ d # y) d = x1 # split (x2 @ d # y) d" using split_sep [of d x1 "x2 @ d # y"] by simp
    with less [of x2] x(1) show ?thesis by auto
  qed (auto simp: split_sep)
qed

lemma route_of_error: "route_of item = Inl e \<Longrightarrow> e = Undefined_behaviour"
  by (auto simp: route_of_def split: list.splits)

lemma routes_of_error: "item \<in> set items \<Longrightarrow> route_of item = Inl e \<Longrightarrow> routes_of items = Inl Undefined_behaviour"
  by (induction items) (auto split: sum.splits dest: route_of_error)

lemma routes_of_cut:
  assumes "y \<noteq> []" "SEPARATOR \<notin> set y"
  shows "routes_of (split (x @ CHR '','' # y) (CHR '','')) = Inl Undefined_behaviour"
proof -
  obtain ts where ts: "split y (CHR '','') = takeWhile (\<lambda>c. c \<noteq> CHR '','') y # ts" using split_first [OF assms(1)] by blast
  let ?t = "takeWhile (\<lambda>c. c \<noteq> CHR '','') y"
  have "SEPARATOR \<notin> set ?t" using assms(2) by (meson set_takeWhileD)
  then have "route_of ?t = Inl Undefined_behaviour" by (cases "?t = []") (simp_all add: route_of_def split_single)
  moreover have "?t \<in> set (split (x @ CHR '','' # y) (CHR '',''))" using split_tail [of y "CHR '',''" x] ts by auto
  ultimately show ?thesis by (rule routes_of_error [rotated])
qed

lemma Route_fields [simp]: "Route (rt_dest r) (rt_via r) (rt_dev r) = r"
  by (simp add: Route_def)

lemma route_of_text: "route_ok r \<Longrightarrow> route_of (route_text r) = Inr r"
  by (simp add: route_text_def route_of_value part_ok_sep route_ok_def)

lemma routes_of_texts: "\<forall>r \<in> set rs. route_ok r \<Longrightarrow> routes_of (map route_text rs) = Inr rs"
  by (induction rs) (simp_all add: route_of_text)

lemma route_text_elem: "route_ok r \<Longrightarrow> list_elem (route_text r)"
  by (auto simp: list_elem_def shell_word_def route_text_def getRouteValue_def route_ok_def part_ok_def
      SEPARATOR_def)

lemma vtep_of_value:
  assumes "SEPARATOR \<notin> set vtep_addr"
  shows "vtep_of (getVtepValue vtep_addr vtep_mac) =
    (if vtep_mac = [] then Inl Undefined_behaviour
     else Inr (vtep_addr, takeWhile (\<lambda>c. c \<noteq> SEPARATOR) vtep_mac))"
proof -
  have "split (getVtepValue vtep_addr vtep_mac) SEPARATOR = vtep_addr # split vtep_mac SEPARATOR"
    using split_sep [OF assms, of vtep_mac] by (simp add: getVtepValue_def)
  then show ?thesis
    using split_first [of vtep_mac SEPARATOR] by (auto simp: vtep_of_def)
qed

subsection \<open>Under the contract of the store\<close>

lemma entry_key_word:
  assumes "\<forall>n \<in> set (entry_names r). name_ok n \<and> shell_word n"
  shows "shell_word (entry_key r)"
proof -
  have "shell_word (path_text ps)" if "\<forall>p \<in> set ps. p \<noteq> [] \<and> shell_word p" "ps \<noteq> []" for ps
    using that
  proof (induction ps)
    case (Cons p ps)
    then show ?case by (cases ps) (auto simp: shell_word_def)
  qed simp
  moreover have "\<forall>p \<in> set (''ohno'' # entry_parts r). p \<noteq> [] \<and> shell_word p"
    using assms by (cases r) (auto simp: name_ok_def shell_word_def word_char_def Let_def)
  ultimately have "shell_word (path_text (''ohno'' # entry_parts r))" by blast
  then show ?thesis using assms by (subst entry_key_text) simp_all
qed

lemma pod_key: "name_ok netns \<Longrightarrow> getSinglePodKey node netns = Inr (entry_key (Pod_of node netns))"
  by (simp add: getSinglePodKey_def simpleNetns_name)

text \<open>What \<open>list\<close> reads.\<close>

definition stored_list :: "(string \<rightharpoonup> string) \<Rightarrow> string \<Rightarrow> string list" where
  "stored_list m k = split (stored_text m k) (CHR '','')"

lemma holds_stored_list: "holds m k vs \<Longrightarrow> stored_list m k = vs"
  by (simp add: stored_list_def holds_split)

lemma stored_cong: "m k = m' k \<Longrightarrow> stored_text m k = stored_text m' k \<and> stored_list m k = stored_list m' k"
  by (simp add: stored_list_def stored_text_def)

lemma stored_word: "m k = Some v \<Longrightarrow> shell_word v \<Longrightarrow> stored_text m k = v"
  by (simp add: stored_text_def strip_newlines_word)

context etcd_reliable
begin

lemma list_stored_up:
  assumes "serves E view" "reliable E" "shell_word k"
  shows "\<exists>w'. ec_list E k out w = ((True, stored_list (view w) k), w') \<and> view w' = view w"
proof -
  obtain ok vs w' where r: "ec_list E k out w = ((ok, vs), w')" by (metis prod.collapse)
  with list_law [OF assms(1,3) r] up_read [OF assms(2), of k w] show ?thesis by (auto simp: stored_list_def)
qed

text \<open>The getters give what is stored.\<close>

lemma getters_up:
  assumes "serves E view" "reliable E"
  shows "shell_word (getNetnsKey node pod) \<Longrightarrow> \<exists>w'. storage_getNetns E node pod w =
      (stored_text (view w) (getNetnsKey node pod), w') \<and> view w' = view w"
    and "shell_word (getAllPodsKey node) \<Longrightarrow> \<exists>w'. storage_getAllPods E node w =
      (stored_list (view w) (getAllPodsKey node), w') \<and> view w' = view w"
    and "shell_word (getNicKey node pod) \<Longrightarrow> \<exists>w'. storage_getAllNic E node pod w =
      (stored_list (view w) (getNicKey node pod), w') \<and> view w' = view w"
    and "shell_word (getAddrKey node pod nic) \<Longrightarrow> \<exists>w'. storage_getAllAddrs E node pod nic w =
      (stored_list (view w) (getAddrKey node pod nic), w') \<and> view w' = view w"
    and "shell_word (getRouteKey node pod nic) \<Longrightarrow> \<exists>w'. storage_getAllRoutes E node pod nic w =
      (routes_of (stored_list (view w) (getRouteKey node pod nic)), w') \<and> view w' = view w"
  using get_up [OF assms, of "getNetnsKey node pod" "[]" w] list_stored_up [OF assms, of "getAllPodsKey node" "[]" w]
    list_stored_up [OF assms, of "getNicKey node pod" "[]" w] list_stored_up [OF assms, of "getAddrKey node pod nic" "[]" w]
    list_stored_up [OF assms, of "getRouteKey node pod nic" "[]" w]
  by (auto simp: storage_getNetns_def storage_getAllPods_def storage_getAllNic_def storage_getAllAddrs_def
      storage_getAllRoutes_def)

lemma addPod_up:
  assumes "serves E view" "reliable E" "name_ok node" "shell_word node" "name_ok netns" "shell_word netns"
    and "list_elem pod" "holds (view w) (getAllPodsKey node) ps"
  shows "\<exists>w'. storage_addPod E node netns pod w = (Inr True, w') \<and>
    view w' (entry_key (Pod_of node netns)) = Some pod \<and> holds (view w') (getAllPodsKey node) (ps @ [pod]) \<and>
    (\<forall>j. j \<noteq> entry_key (Pod_of node netns) \<and> j \<noteq> getAllPodsKey node \<longrightarrow> view w' j = view w j)"
proof -
  let ?k = "entry_key (Pod_of node netns)" and ?l = "getAllPodsKey node"
  have kl: "?k \<noteq> ?l" using entry_key_inject [of "Pod_of node netns" "Pods_of node"] assms by simp
  have words: "shell_word ?k" "shell_word ?l"
    using entry_key_word [of "Pod_of node netns"] entry_key_word [of "Pods_of node"] assms by simp_all
  have "shell_word pod" using assms(7) by (simp add: list_elem_def)
  from put_up [OF assms(1,2) words(1) this] obtain w1 where
    p: "ec_put E ?k pod w = (True, w1)" "view w1 = (view w)(?k \<mapsto> pod)" by blast
  have "holds (view w1) ?l ps" using assms(8) kl p(2) holds_cong [of "view w1" ?l "view w"] by simp
  from append_up [OF assms(1,2) words(2) assms(7) this] obtain w2 where
    "ec_append E ?l pod w1 = (True, w2)" "holds (view w2) ?l (ps @ [pod])" "\<forall>j. j \<noteq> ?l \<longrightarrow> view w2 j = view w1 j"
    by blast
  with p kl show ?thesis
    by (simp add: storage_addPod_def pod_key [OF assms(5)] del: entry_key.simps)
qed

lemma delPod_up:
  assumes "serves E view" "reliable E" "name_ok node" "shell_word node" "name_ok netns" "shell_word netns"
    and "view w (entry_key (Pod_of node netns)) = Some pod" "shell_word pod"
    and "holds (view w) (getAllPodsKey node) ps"
  shows "\<exists>w'. storage_delPod E node netns w = (Inr True, w') \<and>
    view w' (entry_key (Pod_of node netns)) = None \<and> holds (view w') (getAllPodsKey node) (removeAll pod ps) \<and>
    (\<forall>j. j \<noteq> entry_key (Pod_of node netns) \<and> j \<noteq> getAllPodsKey node \<longrightarrow> view w' j = view w j)"
proof -
  let ?k = "entry_key (Pod_of node netns)" and ?l = "getAllPodsKey node"
  have kl: "?k \<noteq> ?l" using entry_key_inject [of "Pod_of node netns" "Pods_of node"] assms by simp
  have words: "shell_word ?k" "shell_word ?l"
    using entry_key_word [of "Pod_of node netns"] entry_key_word [of "Pods_of node"] assms by simp_all
  from get_up [OF assms(1,2) words(1), of "[]" w] obtain w1 where
    g: "ec_get E ?k [] w = ((True, pod), w1)" "view w1 = view w"
    unfolding stored_word [of "view w", OF assms(7,8)] by blast
  from del_up [OF assms(1,2) words(1), of w1] g(2) obtain w2 where
    d: "ec_del E ?k w1 = (True, w2)" "view w2 = (view w)(?k := None)" by auto
  have "holds (view w2) ?l ps" using assms(9) kl d(2) holds_cong [of "view w2" ?l "view w"] by simp
  from del_value_up [OF assms(1,2) words(2) this, of pod] obtain w3 where
    "ec_del_value E ?l pod w2 = (True, w3)" "holds (view w3) ?l (removeAll pod ps)"
    "\<forall>j. j \<noteq> ?l \<longrightarrow> view w3 j = view w2 j" by blast
  with g d kl show ?thesis
    by (simp add: storage_delPod_def pod_key [OF assms(5)] del: entry_key.simps)
qed

end

text \<open>The first value of a list is stored as it is, commas included.\<close>

lemma append_absent:
  assumes "shell_serves (etcd_shell_if order c) view" "shell_reliable (etcd_shell_if order c)"
    and "shell_word k" "shell_word v" "view w k = None"
  shows "\<exists>w'. ec_append (etcd_shell_if order c) k v w = (True, w') \<and> view w' = (view w)(k \<mapsto> v)"
proof -
  let ?E = "etcd_shell_if order c"
  have "stored_text (view w) k = []" using assms(5) by (simp add: stored_text_def)
  with etcd_shell_up.get_up [OF assms(1-3), of "[]" w] obtain w1 where g: "ec_get ?E k [] w = ((True, []), w1)" "view w1 = view w"
    by auto
  from etcd_shell_up.put_up [OF assms(1-4), of w1] obtain w2 where
    "ec_put ?E k v w1 = (True, w2)" "view w2 = (view w)(k \<mapsto> v)" using g(2) by auto
  with g(1) show ?thesis by (simp add: etcd_append_def)
qed

subsection \<open>Properties\<close>

text \<open>
  C14: No two records of this program share an ETCD key: on names that are not empty and have no
  slash, the keys of the subnet list, of the subnet and the addresses of a node, and of all the
  records of \<open>Storage\<close> are different for different records.
\<close>

theorem etcd_keys_never_clash:
  assumes "\<forall>n \<in> set (entry_names r). name_ok n" and "\<forall>n \<in> set (entry_names s). name_ok n"
  shows "entry_key r = entry_key s \<longleftrightarrow> r = s"
  using assms by (rule entry_key_inject)

theorem etcd_keys_never_clash_witness:
  "entry_key (Netns_of ''n1'' ''p1'') \<noteq> entry_key (Nics_of ''n1'' ''p1'')"
  using etcd_keys_never_clash [of "Netns_of ''n1'' ''p1''" "Nics_of ''n1'' ''p1''"]
  by (simp add: name_ok_def)

text \<open>
  C22: With a cluster that answers, \<open>addPod\<close> makes \<open>getPod\<close> return the pod and \<open>getAllPods\<close> list
  it last, and \<open>delPod\<close> takes both back, for a pod that was not listed before in a namespace that
  had none.
\<close>

theorem pod_record_roundtrip:
  fixes order :: map_order
  assumes "etcdctl_serves (shell c) (command_prefix c) view" and "etcdctl_reliable (shell c) (command_prefix c)"
    and "name_ok node" "shell_word node" "name_ok netns" "shell_word netns" "list_elem pod"
    and "holds (view w) (getAllPodsKey node) ps" and "pod \<notin> set ps"
    and "view w (entry_key (Pod_of node netns)) = None"
  defines "E \<equiv> etcd_shell_if order c"
  defines "w1 \<equiv> snd (storage_addPod E node netns pod w)"
  defines "w2 \<equiv> snd (storage_delPod E node netns w1)"
  shows "fst (storage_addPod E node netns pod w) = Inr True \<and>
    fst (storage_getPod E node netns w1) = Inr pod \<and> fst (storage_getAllPods E node w1) = ps @ [pod] \<and>
    fst (storage_delPod E node netns w1) = Inr True \<and> holds (view w2) (getAllPodsKey node) ps \<and>
    (\<forall>j. j \<noteq> getAllPodsKey node \<longrightarrow> view w2 j = view w j)"
proof -
  note srv = shell_serves_intro [OF assms(1), of order] shell_reliable_intro [OF assms(2), of order]
  let ?k = "entry_key (Pod_of node netns)" and ?l = "getAllPodsKey node"
  have words: "shell_word ?k" "shell_word ?l"
    using entry_key_word [of "Pod_of node netns"] entry_key_word [of "Pods_of node"] assms(3-6) by simp_all
  from etcd_shell_up.addPod_up [OF srv assms(3-8)] have
    add: "storage_addPod E node netns pod w = (Inr True, w1)" "view w1 ?k = Some pod"
      "holds (view w1) ?l (ps @ [pod])" "\<forall>j. j \<noteq> ?k \<and> j \<noteq> ?l \<longrightarrow> view w1 j = view w j"
    by (auto simp: w1_def E_def)
  have pod: "shell_word pod" using assms(7) by (simp add: list_elem_def)
  from etcd_shell_up.get_up [OF srv words(1), of "[]" w1]
  have "fst (storage_getPod E node netns w1) = Inr pod"
    unfolding stored_word [of "view w1", OF add(2) pod] E_def
    by (auto simp: storage_getPod_def pod_key [OF assms(5)] simp del: entry_key.simps etcd_shell_if_simps)
  moreover from etcd_shell_up.list_up [OF srv words(2) add(3), of "[]"]
  have "fst (storage_getAllPods E node w1) = ps @ [pod]"
    unfolding E_def by (auto simp: storage_getAllPods_def simp del: etcd_shell_if_simps)
  moreover from etcd_shell_up.delPod_up [OF srv assms(3-6) add(2) pod add(3)] assms(9)
  have "storage_delPod E node netns w1 = (Inr True, w2)" "view w2 ?k = None" "holds (view w2) ?l ps"
    "\<forall>j. j \<noteq> ?k \<and> j \<noteq> ?l \<longrightarrow> view w2 j = view w1 j"
    by (auto simp: w2_def E_def)
  ultimately show ?thesis using add assms(10) by (metis fst_conv)
qed

theorem pod_record_roundtrip_witness:
  "fst (storage_getAllPods (etcd_shell_if (\<lambda>_. []) demo_client) ''n1''
     (snd (storage_addPod (etcd_shell_if (\<lambda>_. []) demo_client) ''n1'' ''cni-1'' ''p1'' Map.empty))) = [''p1'']"
proof -
  have w: "name_ok ''n1''" "shell_word ''n1''" "name_ok ''cni-1''" "shell_word ''cni-1''" "list_elem ''p1''"
    "holds Map.empty (getAllPodsKey ''n1'') []" "''p1'' \<notin> set []"
    "Map.empty (entry_key (Pod_of ''n1'' ''cni-1'')) = None"
    by (simp_all add: holds_def name_ok_def list_elem_def shell_word_def word_char_def)
  from pod_record_roundtrip [where view = "\<lambda>m. m" and w = Map.empty,
      OF demo_client_serves demo_client_reliable w, of "\<lambda>_. []"]
  show ?thesis by simp
qed

text \<open>
  C36: With a cluster that answers, a route that was stored for an interface is read back, after
  the routes stored before it, when no part of it has a comma or the separator and it names a
  device.
\<close>

theorem stored_routes_read_back:
  fixes order :: map_order
  assumes "etcdctl_serves (shell c) (command_prefix c) view" and "etcdctl_reliable (shell c) (command_prefix c)"
    and "\<forall>n \<in> {node, pod, nic}. name_ok n \<and> shell_word n"
    and "\<forall>r \<in> set (rs @ [r]). route_ok r"
    and "holds (view w) (getRouteKey node pod nic) (map route_text rs)"
  defines "E \<equiv> etcd_shell_if order c"
  shows "fst (storage_addRoute E node pod nic r w) \<and>
    fst (storage_getAllRoutes E node pod nic (snd (storage_addRoute E node pod nic r w))) = Inr (rs @ [r])"
proof -
  note srv = shell_serves_intro [OF assms(1), of order] shell_reliable_intro [OF assms(2), of order]
  let ?k = "getRouteKey node pod nic"
  have word: "shell_word ?k" using entry_key_word [of "Routes_of node pod nic"] assms(3) by simp
  have "list_elem (route_text r)" using assms(4) by (simp add: route_text_elem)
  from etcd_shell_up.append_up [OF srv word this assms(5)] obtain w1 where
    a: "ec_append E ?k (route_text r) w = (True, w1)" "holds (view w1) ?k (map route_text (rs @ [r]))"
    unfolding E_def by auto
  from etcd_shell_up.list_up [OF srv word a(2), of "[]"] a(1) routes_of_texts [OF assms(4)]
  show ?thesis
    unfolding E_def
    by (auto simp: storage_getAllRoutes_def storage_addRoute_def route_text_def
        simp del: etcd_shell_if_simps map_append)
qed

theorem stored_routes_read_back_witness:
  "fst (storage_getAllRoutes (etcd_shell_if (\<lambda>_. []) demo_client) ''n1'' ''p1'' ''eth0''
     (snd (storage_addRoute (etcd_shell_if (\<lambda>_. []) demo_client) ''n1'' ''p1'' ''eth0''
        (Route [] ''10.244.1.1'' ''eth0'') Map.empty))) = Inr [Route [] ''10.244.1.1'' ''eth0'']"
proof -
  have w: "\<forall>n \<in> {''n1'', ''p1'', ''eth0''}. name_ok n \<and> shell_word n"
    "\<forall>r \<in> set ([] @ [Route [] ''10.244.1.1'' ''eth0'']). route_ok r"
    "holds Map.empty (getRouteKey ''n1'' ''p1'' ''eth0'') (map route_text [])"
    by (simp_all add: holds_def name_ok_def shell_word_def word_char_def route_ok_def part_ok_def
        Route_def SEPARATOR_def)
  from stored_routes_read_back [where view = "\<lambda>m. m" and w = Map.empty,
      OF demo_client_serves demo_client_reliable w, of "\<lambda>_. []"]
  show ?thesis by simp
qed

text \<open>
  C37: With a cluster that answers, what the first route of an interface reads back as when its device is any
  string \<open>s\<close> of the shell's plain characters: with an empty one the read goes past the end of the vector, a
  separator in it cuts it off, and a comma in it, with more text but no separator after it, makes the read go
  past the end too, since the value is cut there into two entries of the list. And what a VTEP reads back as whose MAC is
  such a text: the same for an empty one and for a separator, while a comma does no harm.
\<close>

theorem stored_text_reads_back:
  fixes order :: map_order
  assumes "etcdctl_serves (shell c) (command_prefix c) view" and "etcdctl_reliable (shell c) (command_prefix c)"
    and "\<forall>n \<in> {node, pod, nic}. name_ok n \<and> shell_word n"
    and "SEPARATOR \<notin> set a" "SEPARATOR \<notin> set b" "CHR '','' \<notin> set a" "CHR '','' \<notin> set b"
    and "\<forall>x \<in> set a \<union> set b \<union> set s. word_char x"
    and "view w (getRouteKey node pod nic) = None"
  defines "E \<equiv> etcd_shell_if order c"
  defines "w1 \<equiv> snd (storage_addRoute E node pod nic (Route a b s) w)"
  defines "w2 \<equiv> snd (storage_addVtep E node a s w)"
  shows "fst (storage_addRoute E node pod nic (Route a b s) w) \<and>
    (s = [] \<longrightarrow> fst (storage_getAllRoutes E node pod nic w1) = Inl Undefined_behaviour) \<and>
    (s \<noteq> [] \<and> CHR '','' \<notin> set s \<longrightarrow>
       fst (storage_getAllRoutes E node pod nic w1) = Inr [Route a b (takeWhile (\<lambda>c. c \<noteq> SEPARATOR) s)]) \<and>
    (\<forall>x y. s = x @ CHR '','' # y \<and> y \<noteq> [] \<and> SEPARATOR \<notin> set y \<longrightarrow>
       fst (storage_getAllRoutes E node pod nic w1) = Inl Undefined_behaviour) \<and>
    fst (storage_addVtep E node a s w) \<and>
    fst (storage_getVtep E node w2) =
      (if s = [] then Inl Undefined_behaviour else Inr (a, takeWhile (\<lambda>c. c \<noteq> SEPARATOR) s))"
proof -
  note srv = shell_serves_intro [OF assms(1), of order] shell_reliable_intro [OF assms(2), of order]
  let ?k = "getRouteKey node pod nic" and ?v = "getRouteValue a b s" and ?l = "getVtepKey node" and ?u = "getVtepValue a s"
  have keys: "shell_word ?k" "shell_word ?l"
    using entry_key_word [of "Routes_of node pod nic"] entry_key_word [of "Vtep_of node"] assms(3) by simp_all
  have "word_char SEPARATOR" by (simp add: SEPARATOR_def word_char_def)
  with assms(8) have vals: "shell_word ?v" "shell_word ?u"
    by (auto simp: shell_word_def getRouteValue_def getVtepValue_def)
  from append_absent [OF srv keys(1) vals(1) assms(9)] have
    add: "storage_addRoute E node pod nic (Route a b s) w = (True, w1)" and at: "view w1 ?k = Some ?v"
    by (auto simp: storage_addRoute_def w1_def E_def Route_def simp del: etcd_shell_if_simps)
  from etcd_shell_up.list_stored_up [OF srv keys(1), of "[]" w1] have
    routes: "fst (storage_getAllRoutes E node pod nic w1) = routes_of (split ?v (CHR '',''))"
    unfolding stored_list_def stored_word [of "view w1", OF at vals(1)]
    by (auto simp: storage_getAllRoutes_def E_def simp del: etcd_shell_if_simps)
  from etcd_shell_up.put_up [OF srv keys(2) vals(2), of w] have
    addv: "storage_addVtep E node a s w = (True, w2)" and atv: "view w2 ?l = Some ?u"
    by (auto simp: storage_addVtep_def w2_def E_def simp del: etcd_shell_if_simps)
  from etcd_shell_up.get_up [OF srv keys(2), of "[]" w2] have "fst (storage_getVtep E node w2) = vtep_of ?u"
    unfolding stored_word [of "view w2", OF atv vals(2)]
    by (auto simp: storage_getVtep_def E_def simp del: etcd_shell_if_simps)
  then have vtep: "fst (storage_getVtep E node w2) =
      (if s = [] then Inl Undefined_behaviour else Inr (a, takeWhile (\<lambda>c. c \<noteq> SEPARATOR) s))"
    by (simp add: vtep_of_value [OF assms(4)])
  have whole: "routes_of (split ?v (CHR '','')) = (case route_of ?v of Inl e \<Rightarrow> Inl e | Inr r \<Rightarrow> Inr [r])" if "CHR '','' \<notin> set s"
  proof -
    have "?v \<noteq> []" "CHR '','' \<notin> set ?v" using that assms(6,7) by (simp_all add: getRouteValue_def SEPARATOR_def)
    then show ?thesis by (simp add: split_single split: sum.split)
  qed
  have cut: "routes_of (split ?v (CHR '','')) = Inl Undefined_behaviour"
    if "s = x @ CHR '','' # y" "y \<noteq> []" "SEPARATOR \<notin> set y" for x y
    using routes_of_cut [OF that(2,3), of "a @ [SEPARATOR] @ b @ [SEPARATOR] @ x"] that(1) by (simp add: getRouteValue_def)
  show ?thesis
    unfolding routes using whole cut add addv vtep by (auto simp: route_of_value [OF assms(4,5)])
qed

theorem stored_text_reads_back_witness:
  "let E = etcd_shell_if (\<lambda>_. []) demo_client;
       back = (\<lambda>s. fst (storage_getAllRoutes E ''n1'' ''p1'' ''eth0''
         (snd (storage_addRoute E ''n1'' ''p1'' ''eth0'' (Route ''10.244.2.0/24'' ''10.0.0.2'' s) Map.empty)))) in
   back ''br-lan'' = Inr [Route ''10.244.2.0/24'' ''10.0.0.2'' ''br''] \<and>
   back [] = Inl Undefined_behaviour \<and> back ''a,b'' = Inl Undefined_behaviour"
proof -
  have w: "\<forall>n \<in> {''n1'', ''p1'', ''eth0''}. name_ok n \<and> shell_word n" "SEPARATOR \<notin> set ''10.244.2.0/24''"
    "SEPARATOR \<notin> set ''10.0.0.2''" "CHR '','' \<notin> set ''10.244.2.0/24''" "CHR '','' \<notin> set ''10.0.0.2''"
    by (simp_all add: name_ok_def shell_word_def word_char_def SEPARATOR_def)
  have chars: "\<forall>x \<in> set ''10.244.2.0/24'' \<union> set ''10.0.0.2'' \<union> set s. word_char x" if "s \<in> {''br-lan'', [], ''a,b''}" for s
    using that by (auto simp: word_char_def)
  have none: "Map.empty (getRouteKey ''n1'' ''p1'' ''eth0'') = (None :: string option)" by simp
  note res = stored_text_reads_back [where view = "\<lambda>m. m" and w = Map.empty and order = "\<lambda>_. []",
      OF demo_client_serves demo_client_reliable w chars none]
  have cut: "''a,b'' = ''a'' @ CHR '','' # ''b'' \<and> ''b'' \<noteq> [] \<and> SEPARATOR \<notin> set ''b''" by (simp add: SEPARATOR_def)
  have "''br-lan'' \<noteq> [] \<and> CHR '','' \<notin> set ''br-lan''" "takeWhile (\<lambda>c. c \<noteq> SEPARATOR) ''br-lan'' = ''br''"
    by (simp_all add: SEPARATOR_def)
  moreover note res [of "''br-lan''", THEN conjunct2, THEN conjunct2, THEN conjunct1, rule_format]
    res [of "[]", THEN conjunct2, THEN conjunct1, rule_format]
    res [of "''a,b''", THEN conjunct2, THEN conjunct2, THEN conjunct2, THEN conjunct1, rule_format, OF _ cut]
  ultimately show ?thesis unfolding Let_def by simp
qed

end
