(* ===== verification/Cni_Facts.thy ===== *)
theory Cni_Facts
  imports Cni Storage_Facts Host_Gw_Facts
begin

text \<open>
  What the plugin's operations leave behind: the address a pod gets, and what deleting an interface
  removes.
\<close>

subsection \<open>Runs of an action that do not throw\<close>

lemma seq_run [action_run]:
  "seq m f s w = ((Inr b, s2), w2) \<longleftrightarrow>
     (\<exists>a s1 w1. m s w = ((Inr a, s1), w1) \<and> f a s1 w1 = ((Inr b, s2), w2))"
  by (auto simp: seq_def split: prod.splits sum.splits)

lemma basic_run [action_run]:
  "ret a s w = ((Inr b, s2), w2) \<longleftrightarrow> b = a \<and> s2 = s \<and> w2 = w"
  "throw e s w = ((Inr c, s2), w2) \<longleftrightarrow> False"
  "state g s w = ((Inr d, s2), w2) \<longleftrightarrow> d = g s \<and> s2 = s \<and> w2 = w"
  "change h s w = ((Inr u, s2), w2) \<longleftrightarrow> s2 = h s \<and> w2 = w"
  by (auto simp: ret_def throw_def state_def change_def)

lemma call_run [action_run]:
  "call m s w = ((Inr a, s2), w2) \<longleftrightarrow> m w = (a, w2) \<and> s2 = s"
  "call_throwing t s w = ((Inr b, s2), w2) \<longleftrightarrow> t w = (Inr b, w2) \<and> s2 = s"
  "lift r s w = ((Inr c, s2), w2) \<longleftrightarrow> r = Inr c \<and> s2 = s \<and> w2 = w"
  "call_object x s w = ((Inr p, s2), w2) \<longleftrightarrow> x w = ((Inr (fst p), snd p), w2) \<and> s2 = s"
  by (auto simp: call_def call_throwing_def lift_def call_object_def split: prod.splits sum.splits)

lemma deref_run [action_run]:
  "deref f s w = ((Inr a, s2), w2) \<longleftrightarrow> f s = Some a \<and> s2 = s \<and> w2 = w"
  "require b e s w = ((Inr u, s2), w2) \<longleftrightarrow> b \<and> s2 = s \<and> w2 = w"
  "stored g s w = ((Inr c, s2), w2) \<longleftrightarrow> (\<exists>S. cni_storage s = Some S \<and> g S w = (c, w2)) \<and> s2 = s"
  "stored_throwing h s w = ((Inr d, s2), w2) \<longleftrightarrow> (\<exists>S. cni_storage s = Some S \<and> h S w = (Inr d, w2)) \<and> s2 = s"
  by (auto simp: deref_def require_def ret_def throw_def stored_def stored_throwing_def seq_run call_def
      call_throwing_def split: option.splits prod.splits)

lemma split_pair_run [action_run]: "(case p of (a, b) \<Rightarrow> f a b) s w = (case p of (a, b) \<Rightarrow> f a b s w)"
  by (cases p) simp

lemma if_run [action_run]: "(if b then m else m') s w = (if b then m s w else m' s w)"
  by simp

lemma if_result_run [action_run]:
  "(if b then x else y) = ((Inr a, s2), w2) \<longleftrightarrow> (if b then x = ((Inr a, s2), w2) else y = ((Inr a, s2), w2))"
  by simp

lemma option_run [action_run]: "(case x of None \<Rightarrow> m | Some a \<Rightarrow> f a) s w = (case x of None \<Rightarrow> m s w | Some a \<Rightarrow> f a s w)"
  by (cases x) simp_all

lemma storage_ops_sel [simp]:
  "st_delVtep (storage_ops E A) = storage_delVtep E" "st_addAddr (storage_ops E A) = storage_addAddr E A"
  "st_addRoute (storage_ops E A) = storage_addRoute E" "st_delAddr (storage_ops E A) = storage_delAddr E"
  "st_delRoute (storage_ops E A) = storage_delRoute E" "st_delNic (storage_ops E A) = storage_delNic E"
  by (simp_all add: storage_ops_def)

subsection \<open>The address of a pod\<close>

lemma configPodNetwork_alt:
  "configPodNetwork A n name cid s w =
     (case cni_ipam s of
        None \<Rightarrow> ((Inl Undefined_behaviour, s), w)
      | Some I \<Rightarrow>
          (case ip_allocateIp I (cni_node_name s) [] w of
             (Inl e, w1) \<Rightarrow> ((Inl e, s), w1)
           | (Inr (False, _), w1) \<Rightarrow>
               ((Inl (Cni_error 7 (''Failed to allocate IP address on node:'' @ cni_node_name s)), s), w1)
           | (Inr (True, pod_addr), w1) \<Rightarrow>
               (case nic_addAddr A (Addr A pod_addr) n w1 of
                  ((Inl e, _), w2) \<Rightarrow> ((Inl e, s), w2)
                | ((Inr False, _), w2) \<Rightarrow>
                    ((Inl (Cni_error 7 (''Failed to add IP address:'' @ pod_addr @ '' to veth on node:'' @ cni_node_name s)), s), w2)
                | ((Inr True, n1), w2) \<Rightarrow>
                    seq (stored_throwing (\<lambda>S. st_addAddr S (cni_node_name s) cid name (Addr A pod_addr))) (\<lambda>ok.
                    seq (require ok (Cni_error CNI_ERRCODE_OHNO (''Failed to store nic:'' @ name @ '' addr:'' @ pod_addr
                      @ '' on node:'' @ cni_node_name s))) (\<lambda>_.
                    seq (deref cni_gateway) (\<lambda>gw.
                    seq (lift (addr_getAddr A gw)) (\<lambda>route_via.
                    seq (call (nic_addRoute (Route [] route_via name) NH_NONE n1)) (\<lambda>(ok, n2).
                    seq (require ok Std_exception) (\<lambda>_.
                    seq (stored (\<lambda>S. st_addRoute S (cni_node_name s) cid name (Route [] route_via name))) (\<lambda>ok.
                    seq (require ok Std_exception) (\<lambda>_.
                    ret n2)))))))) s w2)))"
proof (cases "cni_ipam s")
  case (Some I)
  obtain r w1 where "ip_allocateIp I (cni_node_name s) [] w = (r, w1)" by fastforce
  moreover obtain q n1 w2 where "nic_addAddr A (Addr A (snd (projr r))) n w1 = ((q, n1), w2)"
    by (metis prod.collapse)
  ultimately show ?thesis
    using Some
    by (cases r; cases q) (auto simp: configPodNetwork_def seq_def [of "state _"] state_def seq_def [of "deref cni_ipam"]
        deref_def seq_def [of "call_throwing _"] call_throwing_def seq_def [of "require _ (Cni_error 7 _)"] require_def
        ret_def throw_def seq_def [of "call_object _"] call_object_def split: bool.split)
qed (simp add: configPodNetwork_def seq_def state_def deref_def)

text \<open>
  What the kernel does for the address and the default route of a pod: it leaves \<open>f\<close> of the world
  alone, takes a new address when \<open>b\<close> holds and refuses it otherwise, and takes the route.
\<close>

definition netlink_sets :: "'w netlink_if \<Rightarrow> ('w \<Rightarrow> 'v) \<Rightarrow> bool \<Rightarrow> bool" where
  "netlink_sets N f b \<longleftrightarrow> routes_keep N f \<and>
     (\<forall>name cidr ns w. f (snd (nl_addressIsExist N name cidr ns w)) = f w \<and>
        (\<not> b \<longrightarrow> \<not> fst (nl_addressIsExist N name cidr ns w))) \<and>
     (\<forall>name cidr ns w. f (snd (nl_addressSetEntry N name cidr True ns w)) = f w \<and>
        fst (nl_addressSetEntry N name cidr True ns w) = b) \<and>
     (\<forall>dst via dev ns nhflags w. fst (nl_routeSetEntry N dst via True dev ns nhflags w))"

lemma addAddr_sets:
  assumes "netlink_sets N f b" "nic_netlink n = Some N" "addr_getAddrCidr A a = Inr cidr"
  shows "\<exists>w'. nic_addAddr A a n w = ((Inr b, if b then n\<lparr>nic_addrs := nic_addrs n @ [a]\<rparr> else n), w') \<and> f w' = f w"
proof -
  obtain e w1 where x: "nl_addressIsExist N (nic_name n) cidr (nic_netns n) w = (e, w1)" by fastforce
  obtain o2 w2 where y: "nl_addressSetEntry N (nic_name n) cidr True (nic_netns n) w1 = (o2, w2)" by fastforce
  from assms(1) x y have "f w1 = f w" "f w2 = f w1" "o2 = b" "\<not> b \<longrightarrow> \<not> e"
    unfolding netlink_sets_def by (metis fst_conv snd_conv)+
  with x y assms(2,3) show ?thesis
    by (cases e; cases b) (simp_all add: nic_addAddr_def Let_def)
qed

lemma addRoute_sets:
  assumes "netlink_sets N f b" "nic_netlink n = Some N"
  shows "\<exists>w'. nic_addRoute r fl n w = ((True, n\<lparr>nic_routes := nic_routes n @ [r]\<rparr>), w') \<and> f w' = f w"
proof -
  have "f (snd (nic_addRoute r fl n w)) = f w"
    using assms by (intro addRoute_keeps) (auto simp: netlink_sets_def)
  moreover have "fst (nic_addRoute r fl n w) = (True, n\<lparr>nic_routes := nic_routes n @ [r]\<rparr>)"
    using assms by (simp add: nic_addRoute_def Let_def netlink_sets_def split_beta split: bool.split)
  ultimately show ?thesis by (metis prod.collapse)
qed

text \<open>The plugin object as \<open>getCniPlugin\<close> builds it: IPAM and storage on one ETCD cluster.\<close>

definition etcd_backed :: "'w etcd_client_shell \<Rightarrow> asio \<Rightarrow> 'w cni \<Rightarrow> bool" where
  "etcd_backed c A s \<longleftrightarrow> (\<exists>o1 o2. cni_ipam s = Some (ipam_ops (etcd_shell_if o1 c) A) \<and>
     cni_storage s = Some (storage_ops (etcd_shell_if o2 c) A))"

lemma default_route_elem:
  assumes "list_elem name"
  shows "list_elem (getRouteValue [] (dotted g) name)"
  using assms dotted_list_elem [of g]
  by (auto simp: getRouteValue_def list_elem_def shell_word_def SEPARATOR_def)

lemma ipam_ops_sel [simp]:
  "ip_allocateIp (ipam_ops E A) = ipam_allocateIp E A" "ip_releaseIp (ipam_ops E A) = ipam_releaseIp E"
  "ip_getSubnet (ipam_ops E A) = ipam_getSubnet E"
  by (simp_all add: ipam_ops_def)

text \<open>The two records of a pod's interface, written after its address and its route are set.\<close>

lemma store_pod_network:
  assumes "shell_serves E view" "shell_reliable E" "asio_documented A" "p \<le> 32"
    and "\<forall>x \<in> {node, cid, name}. name_ok x \<and> shell_word x" "list_elem name"
    and "holds (view w) (getAddrKey node cid name) ys"
  shows "\<exists>w'. storage_addAddr E A node cid name (Addr A (cidr_text a p)) w = (Inr True, w') \<and>
      holds (view w') (getAddrKey node cid name) (ys @ [cidr_text a p]) \<and>
      (\<forall>j. j \<noteq> getAddrKey node cid name \<longrightarrow> view w' j = view w j)"
    and "holds (view w) (getRouteKey node cid name) zs \<Longrightarrow>
     \<exists>w'. storage_addRoute E node cid name (Route [] (dotted g) name) w = (True, w') \<and>
      holds (view w') (getRouteKey node cid name) (zs @ [getRouteValue [] (dotted g) name]) \<and>
      (\<forall>j. j \<noteq> getRouteKey node cid name \<longrightarrow> view w' j = view w j)"
proof -
  have ka: "shell_word (getAddrKey node cid name)" and kr: "shell_word (getRouteKey node cid name)"
    using entry_key_word [of "Addrs_of node cid name"] entry_key_word [of "Routes_of node cid name"] assms(5)
    by simp_all
  from etcd_shell_up.append_up [OF assms(1,2) ka cidr_text_list_elem [of a p] assms(7)] obtain w1 where
    "ec_append E (getAddrKey node cid name) (cidr_text a p) w = (True, w1)"
    "holds (view w1) (getAddrKey node cid name) (ys @ [cidr_text a p])"
    "\<forall>j. j \<noteq> getAddrKey node cid name \<longrightarrow> view w1 j = view w j" by blast
  then show "\<exists>w'. storage_addAddr E A node cid name (Addr A (cidr_text a p)) w = (Inr True, w') \<and>
      holds (view w') (getAddrKey node cid name) (ys @ [cidr_text a p]) \<and>
      (\<forall>j. j \<noteq> getAddrKey node cid name \<longrightarrow> view w' j = view w j)"
    by (simp add: storage_addAddr_def addr_print [OF assms(3,4)])
  assume "holds (view w) (getRouteKey node cid name) zs"
  from etcd_shell_up.append_up [OF assms(1,2) kr default_route_elem [OF assms(6)] this]
  show "\<exists>w'. storage_addRoute E node cid name (Route [] (dotted g) name) w = (True, w') \<and>
      holds (view w') (getRouteKey node cid name) (zs @ [getRouteValue [] (dotted g) name]) \<and>
      (\<forall>j. j \<noteq> getRouteKey node cid name \<longrightarrow> view w' j = view w j)"
    by (simp add: storage_addRoute_def)
qed

lemma pod_keys_apart:
  assumes "\<forall>x \<in> {node, cid, name}. name_ok x"
  shows "getAddrKey node cid name \<noteq> subnet_key node" "getAddrKey node cid name \<noteq> address_key node"
    "getRouteKey node cid name \<noteq> subnet_key node" "getRouteKey node cid name \<noteq> address_key node"
    "getAddrKey node cid name \<noteq> getRouteKey node cid name"
  using entry_key_inject [of "Addrs_of node cid name" "Subnet_of node"]
    entry_key_inject [of "Addrs_of node cid name" "Addresses_of node"]
    entry_key_inject [of "Routes_of node cid name" "Subnet_of node"]
    entry_key_inject [of "Routes_of node cid name" "Addresses_of node"]
    entry_key_inject [of "Addrs_of node cid name" "Routes_of node cid name"] assms
  by simp_all

lemma lease_table_cong:
  "m (subnet_key node) = m' (subnet_key node) \<Longrightarrow> m (address_key node) = m' (address_key node) \<Longrightarrow>
   lease_table m node net p xs = lease_table m' node net p xs"
  by (simp add: lease_table_def holds_def)

lemma first_free_host:
  assumes "first_free (host_ips net p) xs = Some ip"
  shows "ip \<in> set (host_ips net p) \<and> ip \<notin> set xs \<and> (\<exists>a. ip = cidr_text a p)"
proof -
  from assms obtain i where "i < length (host_ips net p)" "ip = host_ips net p ! i" "ip \<notin> set xs"
    unfolding first_free_def find_Some_iff by blast
  then have "ip \<in> set (host_ips net p)" "ip \<notin> set xs" by simp_all
  moreover from this(1) have "\<exists>a. ip = cidr_text a p" by (auto simp: host_ips_def ip_at_def)
  ultimately show ?thesis by blast
qed

text \<open>What \<open>configPodNetwork\<close> does when an address is free.\<close>

lemma configPodNetwork_up:
  assumes "shell_serves E1 view" "shell_reliable E1" "shell_serves E2 view" "shell_reliable E2" "asio_documented A"
    and "cni_ipam s = Some (ipam_ops E1 A)" "cni_storage s = Some (storage_ops E2 A)"
    and "cni_gateway s = Some (Addr A (cidr_text g q))" "q \<le> 32"
    and "\<forall>x \<in> {cni_node_name s, cid, name}. name_ok x \<and> shell_word x" "list_elem name"
    and "0 < p" "p < 32" "lease_table (view w) (cni_node_name s) net p xs"
    and "holds (view w) (getAddrKey (cni_node_name s) cid name) ys"
    and "holds (view w) (getRouteKey (cni_node_name s) cid name) zs"
    and "nic_netlink n = Some N" "netlink_sets N view True" "first_free (host_ips net p) xs = Some ip"
  shows "\<exists>w'. configPodNetwork A n name cid s w =
      ((Inr (n\<lparr>nic_addrs := nic_addrs n @ [Addr A ip], nic_routes := nic_routes n @ [Route [] (dotted g) name]\<rparr>), s), w') \<and>
    lease_table (view w') (cni_node_name s) net p (xs @ [ip]) \<and>
    holds (view w') (getAddrKey (cni_node_name s) cid name) (ys @ [ip]) \<and>
    holds (view w') (getRouteKey (cni_node_name s) cid name) (zs @ [getRouteValue [] (dotted g) name]) \<and>
    (\<forall>j. j \<notin> {address_key (cni_node_name s), getAddrKey (cni_node_name s) cid name, getRouteKey (cni_node_name s) cid name} \<longrightarrow>
       view w' j = view w j)"
proof -
  let ?nd = "cni_node_name s"
  have nd: "shell_word ?nd" and p: "p \<le> 32" and ap: "\<forall>x \<in> {?nd, cid, name}. name_ok x" using assms(10,13) by simp_all
  note apart = pod_keys_apart [OF ap]
  from first_free_host [OF assms(19)] obtain a where ip: "ip = cidr_text a p" by blast
  obtain ra w1 where al: "ipam_allocateIp E1 A ?nd [] w = (ra, w1)" by fastforce
  from etcd_shell_up.allocateIp_first [OF assms(1,2,5) nd assms(12-14) al] assms(19)
  have ra: "ra = Inr (True, ip)" and h1: "holds (view w1) (address_key ?nd) (xs @ [ip])"
    and o1: "\<forall>j. j \<noteq> address_key ?nd \<longrightarrow> view w1 j = view w j" by (simp_all add: allocated_def)
  define n1 where "n1 = n\<lparr>nic_addrs := nic_addrs n @ [Addr A ip]\<rparr>"
  have "addr_getAddrCidr A (Addr A ip) = Inr ip" using addr_print [OF assms(5) p] ip by simp
  from addAddr_sets [OF assms(18,17) this, of w1] obtain w2 where
    ad: "nic_addAddr A (Addr A ip) n w1 = ((Inr True, n1), w2)" "view w2 = view w1"
    unfolding n1_def by auto
  have "holds (view w2) (getAddrKey ?nd cid name) ys"
    using assms(15) o1 apart ad(2) holds_cong [of "view w2" _ "view w"] by simp
  from store_pod_network(1) [OF assms(3,4,5) p assms(10,11) this, of a] obtain w3 where
    sa: "storage_addAddr E2 A ?nd cid name (Addr A ip) w2 = (Inr True, w3)"
      "holds (view w3) (getAddrKey ?nd cid name) (ys @ [ip])"
    and o3: "\<forall>j. j \<noteq> getAddrKey ?nd cid name \<longrightarrow> view w3 j = view w2 j"
    unfolding ip by blast
  have "nic_netlink n1 = Some N" using assms(17) by (simp add: n1_def)
  from addRoute_sets [OF assms(18) this, of "Route [] (dotted g) name" NH_NONE w3] obtain w4 where
    ro: "nic_addRoute (Route [] (dotted g) name) NH_NONE n1 w3 =
      ((True, n1\<lparr>nic_routes := nic_routes n1 @ [Route [] (dotted g) name]\<rparr>), w4)" "view w4 = view w3" by blast
  have "holds (view w4) (getRouteKey ?nd cid name) zs"
    using assms(16) o1 o3 apart ad(2) ro(2) holds_cong [of "view w4" _ "view w"] by simp
  moreover have "holds (view w4) (getAddrKey ?nd cid name) (ys @ [ip])" using sa(2) ro(2) by simp
  ultimately obtain w5 where
    sr: "storage_addRoute E2 ?nd cid name (Route [] (dotted g) name) w4 = (True, w5)"
      "holds (view w5) (getRouteKey ?nd cid name) (zs @ [getRouteValue [] (dotted g) name])"
    and o5: "\<forall>j. j \<noteq> getRouteKey ?nd cid name \<longrightarrow> view w5 j = view w4 j"
    using store_pod_network(2) [OF assms(3,4,5) p assms(10,11), of w4 "ys @ [ip]" zs g] by blast
  have "configPodNetwork A n name cid s w =
      ((Inr (n1\<lparr>nic_routes := nic_routes n1 @ [Route [] (dotted g) name]\<rparr>), s), w5)"
    using assms(6,7,8) al ra ad(1) sa(1) ro(1) sr(1)
    by (auto simp: configPodNetwork_alt action_run addr_print [OF assms(5,9)])
  moreover have "lease_table (view w5) ?nd net p (xs @ [ip])"
    using assms(14) h1 o1 ad(2) o3 ro(2) o5 apart by (simp add: lease_table_def holds_def)
  moreover have "holds (view w5) (getAddrKey ?nd cid name) (ys @ [ip])"
    using sa(2) ro(2) o5 apart holds_cong [of "view w5" _ "view w4"] by simp
  ultimately show ?thesis using sr(2) o1 ad(2) o3 ro(2) o5
    by (intro exI [of _ w5]) (simp add: n1_def)
qed

text \<open>
  C5: When the cluster answers and the kernel does what it is told, configuring the network of a
  new interface gives it the first address of the node's subnet that nobody holds, together with a
  default route through the gateway, and records all three facts: the address in the node's list of
  IPAM, the address and the route under the interface in the storage. When no address is free it
  throws and the store is unchanged.
\<close>

theorem pod_gets_first_free_address:
  assumes "etcdctl_serves (shell c) (command_prefix c) view" and "etcdctl_reliable (shell c) (command_prefix c)"
    and "asio_documented A" and "etcd_backed c A s" and "cni_gateway s = Some (Addr A (cidr_text g q))" and "q \<le> 32"
    and "\<forall>x \<in> {cni_node_name s, cid, name}. name_ok x \<and> shell_word x" and "list_elem name"
    and "0 < p" and "p < 32" and "lease_table (view w) (cni_node_name s) net p xs"
    and "holds (view w) (getAddrKey (cni_node_name s) cid name) ys"
    and "holds (view w) (getRouteKey (cni_node_name s) cid name) zs"
    and "nic_netlink n = Some N" and "netlink_sets N view True"
    and "configPodNetwork A n name cid s w = ((r, s'), w')"
  shows "s' = s \<and> (case first_free (host_ips net p) xs of
      None \<Rightarrow> (\<exists>details. r = Inl (Cni_error 7 details)) \<and> view w' = view w
    | Some ip \<Rightarrow> ip \<in> set (host_ips net p) - set xs \<and>
        r = Inr (n\<lparr>nic_addrs := nic_addrs n @ [Addr A ip], nic_routes := nic_routes n @ [Route [] (dotted g) name]\<rparr>) \<and>
        lease_table (view w') (cni_node_name s) net p (xs @ [ip]) \<and>
        holds (view w') (getAddrKey (cni_node_name s) cid name) (ys @ [ip]) \<and>
        holds (view w') (getRouteKey (cni_node_name s) cid name) (zs @ [getRouteValue [] (dotted g) name]))"
proof -
  let ?nd = "cni_node_name s"
  from assms(4) obtain o1 o2 where cni: "cni_ipam s = Some (ipam_ops (etcd_shell_if o1 c) A)"
    "cni_storage s = Some (storage_ops (etcd_shell_if o2 c) A)" unfolding etcd_backed_def by blast
  note srv = shell_serves_intro [OF assms(1)] and rel = shell_reliable_intro [OF assms(2)]
  show ?thesis
  proof (cases "first_free (host_ips net p) xs")
    case None
    obtain ra w1 where al: "ipam_allocateIp (etcd_shell_if o1 c) A ?nd [] w = (ra, w1)" by fastforce
    have "shell_word ?nd" using assms(7) by simp
    from etcd_shell_up.allocateIp_first [OF srv rel assms(3) this assms(9-11) al] None
    have "ra = Inr (False, [])" "view w1 = view w" by (simp_all add: allocated_def)
    with None assms(16) cni al show ?thesis by (auto simp: configPodNetwork_alt)
  next
    case (Some ip)
    from configPodNetwork_up [OF srv rel srv rel assms(3) cni assms(5-15) Some] assms(16) Some first_free_host [OF Some]
    show ?thesis by auto
  qed
qed

subsection \<open>A plugin for the witnesses\<close>

text \<open>A kernel that does what it is told and does not touch the store; \<open>b\<close>: it takes new addresses.\<close>

definition demo_link :: "bool \<Rightarrow> 'w netlink_if" where
  "demo_link b = \<lparr>nl_linkDestory = \<lambda>name ns w. (True, w), nl_linkExist = \<lambda>name ns w. (True, w),
     nl_linkSetStatus = \<lambda>name st ns w. (True, w), nl_linkIsInNetns = \<lambda>name ns w. (True, w),
     nl_linkToNetns = \<lambda>name ns w. (True, w), nl_linkRename = \<lambda>name new ns w. (True, w),
     nl_vethCreate = \<lambda>a b w. (True, w), nl_bridgeCreate = \<lambda>name w. (True, w),
     nl_vxlanCreate = \<lambda>name a d w. (True, w), nl_vrfCreate = \<lambda>name tb w. (True, w),
     nl_bridgeSetStatus = \<lambda>name ma br mo ns w. (True, w), nl_vxlanSetSlave = \<lambda>name a l ns w. (True, w),
     nl_addressIsExist = \<lambda>name a ns w. (False, w), nl_addressSetEntry = \<lambda>name a add ns w. (b, w),
     nl_routeIsExist = \<lambda>dst via dev ns w. (False, w), nl_routeSetEntry = \<lambda>dst via add dev ns fl w. (True, w),
     nl_neighIsExist = \<lambda>a d ns w. (False, w), nl_neighSetEntry = \<lambda>a m add d ns w. (True, w),
     nl_fdbIsExist = \<lambda>m a d ns w. (False, w), nl_fdbSetEntry = \<lambda>m a d add ns w. (True, w)\<rparr>"

definition demo_plugin :: "(string \<rightharpoonup> string) cni" where
  "demo_plugin = (new_cni None)\<lparr>cni_node_name := ''n1'', cni_mode := Some Mode_vxlan,
     cni_ipam := Some (ipam_ops demo_etcd demo_asio), cni_storage := Some (storage_ops demo_etcd demo_asio),
     cni_gateway := Some (Addr demo_asio (cidr_text 0x0AF40101 29))\<rparr>"

definition demo_nic :: "bool \<Rightarrow> (string \<rightharpoonup> string) nic" where
  "demo_nic b = (new_nic (Veth ''veth_p1'') USER)\<lparr>nic_netlink := Some (demo_link b), nic_name := ''eth0''\<rparr>"

lemma demo_link_sets: "netlink_sets (demo_link b) f b"
  by (simp add: netlink_sets_def routes_keep_def demo_link_def)

lemma demo_plugin_facts [simp]:
  "etcd_backed demo_client demo_asio demo_plugin" "cni_node_name demo_plugin = ''n1''"
  "cni_gateway demo_plugin = Some (Addr demo_asio (cidr_text 0x0AF40101 29))"
  "cni_mode demo_plugin = Some Mode_vxlan" "cni_storage demo_plugin = Some (storage_ops demo_etcd demo_asio)"
  "nic_netlink (demo_nic b) = Some (demo_link b)" "nic_addrs (demo_nic b) = []"
  by (auto simp: etcd_backed_def demo_plugin_def demo_nic_def new_nic_def)

lemma demo_names: "\<forall>x \<in> {''n1'', ''p1'', ''eth0''}. name_ok x \<and> shell_word x" "list_elem ''eth0''"
  by (simp_all add: name_ok_def list_elem_def shell_word_def word_char_def)

lemma demo_store_other: "j \<noteq> subnet_key ''n1'' \<Longrightarrow> j \<noteq> address_key ''n1'' \<Longrightarrow> holds demo_store j []"
  by (simp add: holds_def demo_store_def)

lemma demo_pod_records:
  "holds demo_store (getAddrKey ''n1'' ''p1'' ''eth0'') []" "holds demo_store (getRouteKey ''n1'' ''p1'' ''eth0'') []"
  using demo_names(1) pod_keys_apart [of "''n1''" "''p1''" "''eth0''"] by (auto intro: demo_store_other)

theorem pod_gets_first_free_address_witness:
  "\<exists>n' w'. configPodNetwork demo_asio (demo_nic True) ''eth0'' ''p1'' demo_plugin demo_store =
     ((Inr n', demo_plugin), w') \<and> nic_addrs n' = [Addr demo_asio (ip_at 0x0AF40100 29 2)]"
proof -
  obtain r s' w' where run: "configPodNetwork demo_asio (demo_nic True) ''eth0'' ''p1'' demo_plugin demo_store =
      ((r, s'), w')" by (metis prod.collapse)
  have p: "(29 :: nat) \<le> 32" "(0 :: nat) < 29" "(29 :: nat) < 32" by simp_all
  from pod_gets_first_free_address [where view = "\<lambda>m. m" and s = demo_plugin and w = demo_store,
      OF demo_client_serves demo_client_reliable demo_asio_documented demo_plugin_facts(1,3) p(1)
        demo_names(1) [folded demo_plugin_facts(2)] demo_names(2) p(2,3)
        demo_store_table [folded demo_plugin_facts(2)] demo_pod_records [folded demo_plugin_facts(2)]
        demo_plugin_facts(6) demo_link_sets run]
  show ?thesis using run unfolding demo_first_free by auto
qed

text \<open>
  C34: When the kernel refuses the address, the configuration of the interface throws but the address
  stays in the node's list of IPAM and is recorded nowhere else: nothing in the store tells a later
  DEL to give it back.
\<close>

theorem refused_address_stays_allocated:
  assumes "etcdctl_serves (shell c) (command_prefix c) view" and "etcdctl_reliable (shell c) (command_prefix c)"
    and "asio_documented A" and "etcd_backed c A s" and "shell_word (cni_node_name s)"
    and "0 < p" and "p < 32" and "lease_table (view w) (cni_node_name s) net p xs"
    and "nic_netlink n = Some N" and "netlink_sets N view False"
    and "first_free (host_ips net p) xs = Some ip"
    and "configPodNetwork A n name cid s w = ((r, s'), w')"
  shows "(\<exists>details. r = Inl (Cni_error 7 details)) \<and> lease_table (view w') (cni_node_name s) net p (xs @ [ip]) \<and>
    (\<forall>j. j \<noteq> address_key (cni_node_name s) \<longrightarrow> view w' j = view w j)"
proof -
  let ?nd = "cni_node_name s"
  from assms(4) obtain o1 where cni: "cni_ipam s = Some (ipam_ops (etcd_shell_if o1 c) A)"
    unfolding etcd_backed_def by blast
  note srv = shell_serves_intro [OF assms(1)] and rel = shell_reliable_intro [OF assms(2)]
  have p: "p \<le> 32" using assms(7) by simp
  obtain ra w1 where al: "ipam_allocateIp (etcd_shell_if o1 c) A ?nd [] w = (ra, w1)" by fastforce
  from etcd_shell_up.allocateIp_first [OF srv rel assms(3,5-8) al] assms(11)
  have ra: "ra = Inr (True, ip)" and h1: "holds (view w1) (address_key ?nd) (xs @ [ip])"
    and o1: "\<forall>j. j \<noteq> address_key ?nd \<longrightarrow> view w1 j = view w j" by (simp_all add: allocated_def)
  from first_free_host [OF assms(11)] addr_print [OF assms(3) p]
  have "addr_getAddrCidr A (Addr A ip) = Inr ip" by auto
  from addAddr_sets [OF assms(10,9) this, of w1] obtain w2 where
    ad: "nic_addAddr A (Addr A ip) n w1 = ((Inr False, n), w2)" "view w2 = view w1" by auto
  with assms(12) cni al ra have "(\<exists>details. r = Inl (Cni_error 7 details))" "w' = w2"
    by (auto simp: configPodNetwork_alt)
  with ad(2) o1 h1 assms(8) show ?thesis by (simp add: lease_table_def holds_def)
qed

theorem refused_address_stays_allocated_witness:
  "\<exists>details w'. configPodNetwork demo_asio (demo_nic False) ''eth0'' ''p1'' demo_plugin demo_store =
     ((Inl (Cni_error 7 details), snd (fst (configPodNetwork demo_asio (demo_nic False) ''eth0'' ''p1'' demo_plugin demo_store))), w') \<and>
     lease_table w' ''n1'' 0x0AF40100 29 [ip_at 0x0AF40100 29 1, ip_at 0x0AF40100 29 2]"
proof -
  obtain r s' w' where run: "configPodNetwork demo_asio (demo_nic False) ''eth0'' ''p1'' demo_plugin demo_store =
      ((r, s'), w')" by (metis prod.collapse)
  have p: "(0 :: nat) < 29" "(29 :: nat) < 32" by simp_all
  from refused_address_stays_allocated [where view = "\<lambda>m. m" and s = demo_plugin and w = demo_store,
      OF demo_client_serves demo_client_reliable demo_asio_documented demo_plugin_facts(1)
        demo_node [folded demo_plugin_facts(2)] p demo_store_table [folded demo_plugin_facts(2)]
        demo_plugin_facts(6) demo_link_sets demo_first_free run]
  show ?thesis using run by auto
qed

subsection \<open>What a deletion gives back\<close>

definition nic_keys :: "string \<Rightarrow> string \<Rightarrow> string \<Rightarrow> string list" where
  "nic_keys node pod name = [subnet_key node, address_key node, getAddrKey node pod name,
     getRouteKey node pod name, getNicKey node pod, getVtepKey node]"

lemma distinct_nic_keys:
  assumes "\<forall>x \<in> {node, pod, name}. name_ok x"
  shows "distinct (nic_keys node pod name)"
proof -
  let ?es = "[Subnet_of node, Addresses_of node, Addrs_of node pod name, Routes_of node pod name,
    Nics_of node pod, Vtep_of node]"
  have ok: "\<forall>r \<in> set ?es. \<forall>n \<in> set (entry_names r). name_ok n" using assms by simp
  then have "inj_on entry_key (set ?es)" unfolding inj_on_def using entry_key_inject by blast
  moreover have "distinct ?es" by simp
  ultimately have "distinct (map entry_key ?es)" by (simp only: distinct_map)
  then show ?thesis by (simp add: nic_keys_def)
qed

lemma nic_keys_neq:
  assumes "\<forall>x \<in> {node, pod, name}. name_ok x"
  shows "distinct (nic_keys node pod name)" "distinct (rev (nic_keys node pod name))"
  using distinct_nic_keys [OF assms] by simp_all

lemma nic_key_words:
  assumes "\<forall>x \<in> {node, pod, name}. name_ok x \<and> shell_word x"
  shows "shell_word (getAddrKey node pod name)" "shell_word (getRouteKey node pod name)"
    "shell_word (getNicKey node pod)" "shell_word (getVtepKey node)"
  using entry_key_word [of "Addrs_of node pod name"] entry_key_word [of "Routes_of node pod name"]
    entry_key_word [of "Nics_of node pod"] entry_key_word [of "Vtep_of node"] assms by simp_all

text \<open>The records of an interface, deleted one after the other.\<close>

lemma delete_nic_records:
  assumes "shell_serves E view" "shell_reliable E" "\<forall>x \<in> {node, pod, name}. name_ok x \<and> shell_word x"
    and "holds (view w) (getNicKey node pod) nics"
  obtains w1 w2 w3 w4 where "storage_delAddr E node pod name w = (True, w1)"
    "storage_delRoute E node pod name w1 = (True, w2)" "storage_delNic E node pod name w2 = (True, w3)"
    "storage_delVtep E node w3 = (True, w4)" "holds (view w3) (getNicKey node pod) (removeAll name nics)"
    "view w3 (getAddrKey node pod name) = None" "view w3 (getRouteKey node pod name) = None"
    "\<forall>j. j \<notin> {getAddrKey node pod name, getRouteKey node pod name, getNicKey node pod} \<longrightarrow> view w3 j = view w j"
    "view w4 = (view w3)(getVtepKey node := None)"
proof -
  note k = nic_key_words [OF assms(3)] and up = etcd_shell_up.del_up [OF assms(1,2)]
  have ok: "\<forall>x \<in> {node, pod, name}. name_ok x" using assms(3) by blast
  note d = nic_keys_neq [OF ok, unfolded nic_keys_def rev.simps append.simps]
  from up [OF k(1), of w] obtain w1 where
    1: "ec_del E (getAddrKey node pod name) w = (True, w1)" "view w1 = (view w)(getAddrKey node pod name := None)"
    by blast
  from up [OF k(2), of w1] obtain w2 where
    2: "ec_del E (getRouteKey node pod name) w1 = (True, w2)" "view w2 = (view w1)(getRouteKey node pod name := None)"
    by blast
  have "holds (view w2) (getNicKey node pod) nics"
    using assms(4) 1(2) 2(2) d by (simp add: holds_def)
  from etcd_shell_up.del_value_up [OF assms(1,2) k(3) this] obtain w3 where
    3: "ec_del_value E (getNicKey node pod) name w2 = (True, w3)" "holds (view w3) (getNicKey node pod) (removeAll name nics)"
      "\<forall>j. j \<noteq> getNicKey node pod \<longrightarrow> view w3 j = view w2 j" by blast
  from up [OF k(4), of w3] obtain w4 where
    4: "ec_del E (getVtepKey node) w3 = (True, w4)" "view w4 = (view w3)(getVtepKey node := None)" by blast
  from 1 2 3 4 d show thesis
    by (intro that [of w1 w2 w3 w4])
      (simp_all add: storage_delAddr_def storage_delRoute_def storage_delNic_def storage_delVtep_def)
qed

text \<open>What \<open>delKubernetesNic\<close> does to an interface whose clean-up leaves the store alone.\<close>

lemma delKubernetesNic_up:
  assumes "shell_serves E1 view" "shell_reliable E1" "shell_serves E2 view" "shell_reliable E2"
    and "cni_ipam s = Some (ipam_ops E1 B)" "cni_storage s = Some (storage_ops E2 B)" "cni_mode s = Some m"
    and "\<forall>x \<in> {cni_node_name s, netns_name pod, name}. name_ok x \<and> shell_word x"
    and "netns_getNic name pod = Some iface"
    and "nic_getAddr A [] iface = Inr found" "(case found of None \<Rightarrow> Inr [] | Some a \<Rightarrow> addr_getAddrCidr A a) = Inr ip"
    and "nic_cleanup A iface w = (Inr (), w1)" "view w1 = view w"
    and "lease_table (view w) (cni_node_name s) net p xs"
    and "holds (view w) (getNicKey (cni_node_name s) (netns_name pod)) nics"
  defines "node \<equiv> cni_node_name s" and "pn \<equiv> netns_name pod"
    and "left \<equiv> if netns_name pod = HOST \<and> nic_name iface = cni_underlay_dev s then xs else removeAll ip xs"
  shows "\<exists>w'. delKubernetesNic A pod name s w = ((Inr (), on_pod pn (netns_delNic name) s), w') \<and>
    lease_table (view w') node net p left \<and>
    view w' (getAddrKey node pn name) = None \<and> view w' (getRouteKey node pn name) = None \<and>
    holds (view w') (getNicKey node pn) (removeAll name nics) \<and>
    view w' (getVtepKey node) = (if m = Mode_vxlan then None else view w (getVtepKey node)) \<and>
    (\<forall>j. j \<notin> set (nic_keys node pn name) \<longrightarrow> view w' j = view w j) \<and>
    view w' (subnet_key node) = view w (subnet_key node)"
proof -
  note nm = assms(8) [folded node_def pn_def] and cni = assms(5,6)
  have ok': "\<forall>x \<in> {node, pn, name}. name_ok x" using nm by blast
  note d = nic_keys_neq [OF ok', unfolded nic_keys_def rev.simps append.simps]
  define keep where "keep \<longleftrightarrow> netns_name pod = HOST \<and> nic_name iface = cni_underlay_dev s"
  obtain ok w2' where rl: "ipam_releaseIp E1 node ip w1 = (ok, w2')" by fastforce
  define w2 where "w2 = (if keep then w1 else w2')"
  have "lease_table (view w1) node net p xs" using assms(13,14) by (simp add: node_def)
  from etcd_shell_up.releaseIp_removes [OF assms(1,2) _ this rl] nm this
  have lt: "lease_table (view w2) node net p left"
    and o2: "\<forall>j. j \<noteq> address_key node \<longrightarrow> view w2 j = view w j"
    using assms(13) by (auto simp: w2_def left_def keep_def)
  have "holds (view w2) (getNicKey node pn) nics"
    using assms(15) [folded node_def pn_def] o2 d by (simp add: holds_def)
  from assms(3,4) nm this obtain w3 w4 w5 w6 where
    st: "storage_delAddr E2 node pn name w2 = (True, w3)" "storage_delRoute E2 node pn name w3 = (True, w4)"
      "storage_delNic E2 node pn name w4 = (True, w5)" "storage_delVtep E2 node w5 = (True, w6)"
    and v5: "holds (view w5) (getNicKey node pn) (removeAll name nics)"
      "view w5 (getAddrKey node pn name) = None" "view w5 (getRouteKey node pn name) = None"
      "\<forall>j. j \<notin> {getAddrKey node pn name, getRouteKey node pn name, getNicKey node pn} \<longrightarrow> view w5 j = view w2 j"
    and v6: "view w6 = (view w5)(getVtepKey node := None)"
    by (rule delete_nic_records)
  define wz where "wz = (if m = Mode_vxlan then w6 else w5)"
  have "delKubernetesNic A pod name s w = ((Inr (), on_pod pn (netns_delNic name) s), wz)"
    using assms(7,9-12) cni rl st unfolding node_def pn_def wz_def w2_def keep_def
    by (cases "netns_name pod = HOST \<and> nic_name iface = cni_underlay_dev s")
      (auto simp: delKubernetesNic_def action_run Let_def mode_is_vxlan_def)
  moreover have vz: "view wz j = (if m = Mode_vxlan \<and> j = getVtepKey node then None else view w5 j)" for j
    using v6 by (simp add: wz_def)
  moreover have "lease_table (view wz) node net p left"
    using lt v5(4) d by (simp add: lease_table_def holds_def vz)
  moreover have "holds (view wz) (getNicKey node pn) (removeAll name nics)"
    using v5(1) d by (simp add: vz holds_def)
  moreover have "view wz (getVtepKey node) = (if m = Mode_vxlan then None else view w (getVtepKey node))"
    using v5(4) o2 d by (simp add: vz)
  moreover have "\<forall>j. j \<notin> set (nic_keys node pn name) \<longrightarrow> view wz j = view w j"
    using v5(4) o2 by (simp add: vz nic_keys_def)
  moreover have "view wz (getAddrKey node pn name) = None" "view wz (getRouteKey node pn name) = None"
    using v5(2,3) by (simp_all add: vz)
  moreover have "view wz (subnet_key node) = view w (subnet_key node)" using v5(4) o2 d by (simp add: vz)
  ultimately show ?thesis by blast
qed

text \<open>
  C6: When the cluster answers and the interface's clean-up leaves the store alone, deleting an
  interface of a pod gives back its address (every entry of it in the node's list of IPAM) and deletes
  its records: the address, the route and its entry among the pod's interfaces. Nothing else in
  the store changes, except that in the vxlan mode the node's VTEP record goes too; and the pod's object
  no longer has the interface.
\<close>

theorem nic_deletion_gives_everything_back:
  assumes "etcdctl_serves (shell c) (command_prefix c) view" and "etcdctl_reliable (shell c) (command_prefix c)"
    and "etcd_backed c B s" and "cni_mode s = Some m"
    and "\<forall>x \<in> {cni_node_name s, netns_name pod, name}. name_ok x \<and> shell_word x" and "netns_name pod \<noteq> HOST"
    and "netns_getNic name pod = Some iface" and "nic_addrs iface = a # as" and "addr_getAddrCidr A a = Inr ip"
    and "nic_cleanup A iface w = (Inr (), w1)" and "view w1 = view w"
    and "lease_table (view w) (cni_node_name s) net p xs"
    and "holds (view w) (getNicKey (cni_node_name s) (netns_name pod)) nics"
    and "delKubernetesNic A pod name s w = ((r, s'), w')"
  defines "node \<equiv> cni_node_name s" and "pn \<equiv> netns_name pod"
  shows "r = Inr () \<and> s' = on_pod pn (netns_delNic name) s \<and>
    lease_table (view w') node net p (removeAll ip xs) \<and>
    view w' (getAddrKey node pn name) = None \<and> view w' (getRouteKey node pn name) = None \<and>
    holds (view w') (getNicKey node pn) (removeAll name nics) \<and>
    view w' (getVtepKey node) = (if m = Mode_vxlan then None else view w (getVtepKey node)) \<and>
    (\<forall>j. j \<notin> set (nic_keys node pn name) \<longrightarrow> view w' j = view w j)"
proof -
  from assms(3) obtain o1 o2 where cni: "cni_ipam s = Some (ipam_ops (etcd_shell_if o1 c) B)"
    "cni_storage s = Some (storage_ops (etcd_shell_if o2 c) B)" unfolding etcd_backed_def by blast
  note srv = shell_serves_intro [OF assms(1)] and rel = shell_reliable_intro [OF assms(2)]
  have "nic_getAddr A [] iface = Inr (Some a)" using assms(8) by (simp add: nic_getAddr_def)
  from delKubernetesNic_up [OF srv rel srv rel cni assms(4,5,7) this _ assms(10-13), of ip] assms(6,9,14) show ?thesis
    unfolding node_def pn_def by auto
qed

text \<open>The witness: the interface of the pod p1 holds the one address in use; the node has a VTEP record.\<close>

definition demo_iface :: "(string \<rightharpoonup> string) nic" where
  "demo_iface = (demo_nic True)\<lparr>nic_addrs := [Addr demo_asio (cidr_text 0x0AF40101 29)]\<rparr>"

definition demo_pod :: "(string \<rightharpoonup> string) netns" where
  "demo_pod = \<lparr>netns_name = ''p1'', netns_nics = [(''eth0'', demo_iface)]\<rparr>"

definition demo_vtep_store :: "string \<rightharpoonup> string" where
  "demo_vtep_store = demo_store(getVtepKey ''n1'' \<mapsto> getVtepValue ''10.244.1.0'' ''02:00:00:00:00:01'')"

lemma demo_vtep_store_facts:
  "lease_table demo_vtep_store ''n1'' 0x0AF40100 29 [ip_at 0x0AF40100 29 1]"
  "holds demo_vtep_store (getNicKey ''n1'' ''p1'') []" "demo_vtep_store (getVtepKey ''n1'') \<noteq> None"
proof -
  have "\<forall>x \<in> {''n1'', ''p1'', ''eth0''}. name_ok x" using demo_names(1) by blast
  from nic_keys_neq [OF this, unfolded nic_keys_def rev.simps append.simps] demo_store_table
  show "lease_table demo_vtep_store ''n1'' 0x0AF40100 29 [ip_at 0x0AF40100 29 1]"
    "holds demo_vtep_store (getNicKey ''n1'' ''p1'') []" "demo_vtep_store (getVtepKey ''n1'') \<noteq> None"
    by (simp_all add: demo_vtep_store_def lease_table_def holds_def demo_store_def)
qed

lemma demo_iface_facts:
  "netns_getNic ''eth0'' demo_pod = Some demo_iface"
  "nic_addrs demo_iface = [Addr demo_asio (cidr_text 0x0AF40101 29)]"
  "nic_cleanup demo_asio demo_iface w = (Inr (), w)" "netns_name demo_pod = ''p1''"
  using addr_print(1) [OF demo_asio_documented, of 29 "0x0AF40101"]
  by (simp_all add: netns_getNic_def demo_pod_def demo_iface_def demo_nic_def new_nic_def nic_cleanup_def
      demo_link_def Let_def)

theorem nic_deletion_gives_everything_back_witness:
  "let w' = snd (delKubernetesNic demo_asio demo_pod ''eth0'' demo_plugin demo_vtep_store)
   in demo_vtep_store (getVtepKey ''n1'') \<noteq> None \<and> w' (getVtepKey ''n1'') = None \<and>
      lease_table w' ''n1'' 0x0AF40100 29 []"
proof -
  obtain r s' w' where run: "delKubernetesNic demo_asio demo_pod ''eth0'' demo_plugin demo_vtep_store =
      ((r, s'), w')" by (metis prod.collapse)
  have "netns_name demo_pod \<noteq> HOST" by (simp add: demo_iface_facts HOST_def)
  from nic_deletion_gives_everything_back [where view = "\<lambda>m. m" and s = demo_plugin and w = demo_vtep_store,
      OF demo_client_serves demo_client_reliable demo_plugin_facts(1,4)
        demo_names(1) [folded demo_plugin_facts(2) demo_iface_facts(4)] this demo_iface_facts(1,2)
        addr_print(1) [OF demo_asio_documented] demo_iface_facts(3) refl
        demo_vtep_store_facts(1,2) [folded demo_plugin_facts(2) demo_iface_facts(4)] run]
  show ?thesis using run demo_vtep_store_facts(3) by (simp add: ip_at_def)
qed

end
