(* ===== verification/Json_Facts.thy ===== *)
theory Json_Facts
  imports Json
begin

text \<open>
  What is written as JSON is read back, for every record with a JSON form; what a configuration that
  names only some of the fields, or an unknown enumerator, is read as; and a concrete JSON library.
\<close>

subsection \<open>A concrete library\<close>

datatype jvalue = JString string | JBool bool | JInt int | JArray "jvalue list" | JObject "(string \<times> jvalue) list"

definition demo_json :: "jvalue json_lib" where
  "demo_json = \<lparr>
     j_contains = (\<lambda>j k. case j of JObject kvs \<Rightarrow> map_of kvs k \<noteq> None | _ \<Rightarrow> False),
     j_at = (\<lambda>j k. case j of JObject kvs \<Rightarrow> (case map_of kvs k of None \<Rightarrow> Inl Std_exception | Some v \<Rightarrow> Inr v)
                    | _ \<Rightarrow> Inl Std_exception),
     j_string = (\<lambda>j. case j of JString s \<Rightarrow> Inr s | _ \<Rightarrow> Inl Std_exception),
     j_bool = (\<lambda>j. case j of JBool b \<Rightarrow> Inr b | _ \<Rightarrow> Inl Std_exception),
     j_int = (\<lambda>j. case j of JInt i \<Rightarrow> Inr i | _ \<Rightarrow> Inl Std_exception),
     j_array = (\<lambda>j. case j of JArray vs \<Rightarrow> Inr vs | _ \<Rightarrow> Inl Std_exception),
     j_object = JObject, j_of_string = JString, j_of_bool = JBool, j_of_int = JInt, j_of_array = JArray,
     j_parse = (\<lambda>s. if s = ''{}'' then Inr (JObject []) else Inl Std_exception),
     j_dump = (\<lambda>indent j. ''{}'')\<rparr>"

lemma demo_json_documented: "json_documented demo_json"
  by (simp add: json_documented_def demo_json_def)

subsection \<open>Round trips\<close>

text \<open>A field that is there, a field that is not.\<close>

lemma field_absent:
  "json_documented J \<Longrightarrow> map_of kvs k = None \<Longrightarrow> field J (j_object J kvs) k get dflt = Inr dflt"
  by (simp add: json_documented_def field_def)

lemma get_vector_map:
  assumes "json_documented J" and "\<And>x. get (put x) = Inr x"
  shows "get_vector J get (j_of_array J (map put xs)) = Inr xs"
  by (simp add: get_vector_def json_simps [OF assms(1)] get_all_map assms(2))

lemma config_ipam_roundtrip:
  "json_documented J \<Longrightarrow> config_ipam_from_json J d (config_ipam_to_json J c) = Inr c"
  by (simp add: config_ipam_from_json_def config_ipam_to_json_def json_simps)

lemma config_roundtrip:
  "json_documented J \<Longrightarrow> config_from_json J d (config_to_json J c) = Inr c"
  by (simp add: config_from_json_def config_to_json_def json_simps config_ipam_roundtrip)

lemma env_roundtrip: "json_documented J \<Longrightarrow> env_from_json J d (env_to_json J e) = Inr e"
  by (simp add: env_from_json_def env_to_json_def json_simps)

lemma error_roundtrip: "json_documented J \<Longrightarrow> error_from_json J d (error_to_json J e) = Inr e"
  by (simp add: error_from_json_def error_to_json_def json_simps)

lemma ips_roundtrip: "json_documented J \<Longrightarrow> ips_from_json J (ips_to_json J r) = Inr r"
  by (simp add: ips_from_json_def ips_to_json_def json_simps)

lemma interfaces_roundtrip: "json_documented J \<Longrightarrow> interfaces_from_json J (interfaces_to_json J r) = Inr r"
  by (simp add: interfaces_from_json_def interfaces_to_json_def json_simps)

lemma result_roundtrip: "json_documented J \<Longrightarrow> result_from_json J d (result_to_json J r) = Inr r"
  by (simp add: result_from_json_def result_to_json_def json_simps get_vector_map ips_roundtrip interfaces_roundtrip)

lemma version_roundtrip: "json_documented J \<Longrightarrow> version_from_json J d (version_to_json J v) = Inr v"
  by (simp add: version_from_json_def version_to_json_def json_simps get_vector_map)

lemma address_roundtrip: "json_documented J \<Longrightarrow> address_from_json J (address_to_json J a) = Inr a"
  by (simp add: address_from_json_def address_to_json_def json_simps)

lemma status_roundtrip: "json_documented J \<Longrightarrow> status_from_json J (status_to_json J as) = Inr as"
  by (simp add: status_from_json_def status_to_json_def json_simps get_vector_map address_roundtrip)

lemma item_roundtrip: "json_documented J \<Longrightarrow> item_from_json J (item_to_json J i) = Inr i"
  by (simp add: item_from_json_def item_to_json_def metadata_from_json_def metadata_to_json_def
      spec_from_json_def spec_to_json_def json_simps status_roundtrip)

lemma nodes_roundtrip: "json_documented J \<Longrightarrow> nodes_from_json J (nodes_to_json J is) = Inr is"
  by (simp add: nodes_from_json_def nodes_to_json_def json_simps get_vector_map item_roundtrip)

text \<open>
  C21: Every record of the program that has a JSON form is read back unchanged from it, whatever the
  record held before: the configuration, the environment, the result, the version, the error and the
  list of nodes.
\<close>

theorem json_forms_read_back:
  assumes "json_documented J"
  shows "config_from_json J c0 (config_to_json J c) = Inr c \<and> env_from_json J e0 (env_to_json J e) = Inr e \<and>
    result_from_json J r0 (result_to_json J r) = Inr r \<and> version_from_json J v0 (version_to_json J v) = Inr v \<and>
    error_from_json J er0 (error_to_json J er) = Inr er \<and> nodes_from_json J (nodes_to_json J ns) = Inr ns"
  using assms by (simp add: config_roundtrip env_roundtrip result_roundtrip version_roundtrip error_roundtrip
      nodes_roundtrip)

lemma json_forms_read_back_witness:
  "config_from_json demo_json default_config (config_to_json demo_json (default_config\<lparr>cc_name := ''net1''\<rparr>)) =
     Inr (default_config\<lparr>cc_name := ''net1''\<rparr>) \<and>
   nodes_from_json demo_json (nodes_to_json demo_json
     [\<lparr>ki_name = ''n1'', ki_addresses = [\<lparr>ka_type = InternalIP, ka_address = ''10.0.0.1''\<rparr>], ki_pod_cidr = ''10.244.1.0/24''\<rparr>]) =
     Inr [\<lparr>ki_name = ''n1'', ki_addresses = [\<lparr>ka_type = InternalIP, ka_address = ''10.0.0.1''\<rparr>], ki_pod_cidr = ''10.244.1.0/24''\<rparr>]"
  using json_forms_read_back [OF demo_json_documented] by blast

subsection \<open>Partial configurations\<close>

lemma empty_config:
  "json_documented J \<Longrightarrow> config_from_json J default_config (j_object J []) = Inr default_config"
  by (simp add: config_from_json_def field_absent)

lemma demo_json_simps [simp]: "j_object demo_json = JObject" "j_of_string demo_json = JString"
  "j_parse demo_json s = (if s = ''{}'' then Inr (JObject []) else Inl Std_exception)"
  by (simp_all add: demo_json_def)

text \<open>
  A configuration that gives only the \<open>ipam\<close> part keeps the defaults of all the other fields, and
  inside \<open>ipam\<close> those of the parts that are not given; the mode then is evpn, but a mode that is no
  enumerator is read as host-gw, and a log level that is no enumerator as info although the default
  level is debug.
\<close>

lemma partial_config_defaults:
  assumes "json_documented J"
  shows "config_from_json J default_config (j_object J []) = Inr default_config \<and>
    config_from_json J default_config (j_object J [(''ipam'', j_object J [(''subnet'', j_of_string J s)])]) =
      Inr (default_config\<lparr>cc_ipam := \<lparr>cci_subnet = s, cci_mode = Mode_evpn\<rparr>\<rparr>) \<and>
    (stringEnum mode_names m = None \<longrightarrow>
      config_from_json J default_config (j_object J [(''ipam'', j_object J [(''mode'', j_of_string J m)])]) =
      Inr (default_config\<lparr>cc_ipam := \<lparr>cci_subnet = ''10.244.0.0/16'', cci_mode = Mode_host_gw\<rparr>\<rparr>)) \<and>
    (stringEnum level_names l = None \<longrightarrow>
      config_from_json J default_config (j_object J [(''logLevel'', j_of_string J l)]) =
      Inr (default_config\<lparr>cc_loglevel := Info\<rparr>))"
  using assms by (simp add: config_from_json_def config_ipam_from_json_def json_simps field_absent
      default_config_def default_config_ipam_def enum_or_def)

end
