(* ===== verification/Cni_Types.thy ===== *)
theory Cni_Types
  imports Cni Subnet_Facts Json_Facts
begin

text \<open>
  The picture of the cluster is well formed: every node, pod and interface stands once in its table,
  under its own name. Each action of the plugin keeps it so, whatever the outside answers and wherever
  an exception cuts the action short.
\<close>

subsection \<open>Well-formed clusters\<close>

text \<open>A table under whose keys stand the values that belong there, each key once.\<close>

definition table_ok :: "('k \<Rightarrow> 'v \<Rightarrow> bool) \<Rightarrow> ('k \<times> 'v) list \<Rightarrow> bool" where
  "table_ok V m \<longleftrightarrow> distinct_keys m \<and> (\<forall>(k, v) \<in> set m. V k v)"

definition pod_ok :: "string \<Rightarrow> 'w netns \<Rightarrow> bool" where
  "pod_ok k p \<longleftrightarrow> netns_name p = k \<and> table_ok (\<lambda>k n. nic_name n = k) (netns_nics p)"

definition node_ok :: "string \<Rightarrow> 'w node \<Rightarrow> bool" where
  "node_ok k n \<longleftrightarrow> node_name n = k \<and> table_ok pod_ok (node_netns n)"

definition cluster_ok :: "'w cluster \<Rightarrow> bool" where
  "cluster_ok c = table_ok node_ok c"

definition cni_ok :: "'w cni \<Rightarrow> bool" where
  "cni_ok s \<longleftrightarrow> (\<forall>c. cni_cluster s = Some c \<longrightarrow> cluster_ok c)"

lemma table_ok_Nil [simp]: "table_ok V []"
  by (simp add: table_ok_def distinct_keys_def)

lemma table_ok_emplace: "table_ok V m \<Longrightarrow> V k v \<Longrightarrow> table_ok V (emplace k v m)"
  by (auto simp: table_ok_def distinct_keys_emplace) (auto simp: emplace_def split: if_splits)

lemma table_ok_erase: "table_ok V m \<Longrightarrow> table_ok V (erase k m)"
  by (auto simp: table_ok_def distinct_keys_erase) (auto simp: erase_def)

lemma table_ok_map:
  "table_ok V m \<Longrightarrow> (\<And>k v. V k v \<Longrightarrow> V k (f k v)) \<Longrightarrow> table_ok V (map (\<lambda>(k, v). (k, f k v)) m)"
  by (auto simp: table_ok_def distinct_keys_def split_beta comp_def)

lemma table_ok_lookup: "table_ok V m \<Longrightarrow> map_of m k = Some v \<Longrightarrow> V k v"
  by (auto simp: table_ok_def dest: map_of_SomeD)

subsection \<open>The operations of the three classes\<close>

lemma new_netns_ok: "pod_ok k (netns_setName k new_netns)"
  by (simp add: pod_ok_def netns_setName_def new_netns_def)

lemma netns_addNic_ok: "pod_ok k p \<Longrightarrow> pod_ok k (netns_addNic n p)"
  by (simp add: pod_ok_def netns_addNic_def table_ok_emplace)

lemma netns_delNic_ok: "pod_ok k p \<Longrightarrow> pod_ok k (netns_delNic name p)"
  by (simp add: pod_ok_def netns_delNic_def table_ok_erase)

lemma netns_getNic_ok: "pod_ok k p \<Longrightarrow> netns_getNic name p = Some n \<Longrightarrow> nic_name n = name"
  by (auto simp: pod_ok_def netns_getNic_def dest: table_ok_lookup)

lemma node_addNetns_ok: "node_ok k n \<Longrightarrow> pod_ok pod p \<Longrightarrow> node_ok k (node_addNetns pod p n)"
  by (simp add: node_ok_def node_addNetns_def table_ok_emplace)

lemma node_delNetns_ok: "node_ok k n \<Longrightarrow> node_ok k (node_delNetns pod n)"
  by (simp add: node_ok_def node_delNetns_def table_ok_erase)

lemma node_getNetns_ok: "node_ok k n \<Longrightarrow> node_getNetns pod n = Some p \<Longrightarrow> pod_ok pod p"
  by (auto simp: node_ok_def node_getNetns_def dest: table_ok_lookup)

lemma cluster_addNode_ok: "cluster_ok c \<Longrightarrow> node_ok k n \<Longrightarrow> cluster_ok (cluster_addNode k n c)"
  by (simp add: cluster_addNode_def cluster_ok_def table_ok_emplace)

lemma cluster_getNode_ok: "cluster_ok c \<Longrightarrow> cluster_getNode k c = Some n \<Longrightarrow> node_ok k n"
  by (auto simp: cluster_getNode_def cluster_ok_def dest: table_ok_lookup)

lemma on_node_ok:
  assumes "cni_ok s" and "\<And>k n. node_ok k n \<Longrightarrow> node_ok k (f n)"
  shows "cni_ok (on_node f s)"
proof -
  have "table_ok node_ok (map (\<lambda>(k, n). (k, if k = cni_node_name s then f n else n)) c)" if "table_ok node_ok c" for c
    by (rule table_ok_map [OF that]) (use assms(2) in auto)
  with assms(1) show ?thesis by (auto simp: cni_ok_def on_node_def cluster_ok_def)
qed

lemma on_pod_ok:
  assumes "cni_ok s" and "\<And>k p. k = pod \<Longrightarrow> pod_ok k p \<Longrightarrow> pod_ok k (f p)"
  shows "cni_ok (on_pod pod f s)"
  unfolding on_pod_def
proof (rule on_node_ok [OF assms(1)])
  fix k and n :: "'a node" assume "node_ok k n"
  moreover have "table_ok pod_ok (map (\<lambda>(k, p). (k, if k = pod then f p else p)) m)" if "table_ok pod_ok m" for m
    by (rule table_ok_map [OF that]) (use assms(2) in auto)
  ultimately show "node_ok k (n\<lparr>node_netns := map (\<lambda>(k, p). (k, if k = pod then f p else p)) (node_netns n)\<rparr>)"
    by (simp add: node_ok_def)
qed

lemma on_nic_ok:
  assumes "cni_ok s" and "nic_name n' = name"
  shows "cni_ok (on_nic pod name (\<lambda>_. n') s)"
  unfolding on_nic_def
proof (rule on_pod_ok [OF assms(1)])
  fix k and p :: "'a netns" assume "pod_ok k p"
  moreover have "table_ok (\<lambda>k n. nic_name n = k) (map (\<lambda>(k, n). (k, if k = name then n' else n)) m)"
    if "table_ok (\<lambda>k n. nic_name n = k) m" for m
    by (rule table_ok_map [OF that]) (use assms(2) in auto)
  ultimately show "pod_ok k (p\<lparr>netns_nics := map (\<lambda>(k, n). (k, if k = name then n' else n)) (netns_nics p)\<rparr>)"
    by (simp add: pod_ok_def)
qed


subsection \<open>Actions that keep an invariant\<close>

text \<open>
  \<open>keeps I m R\<close>: started where \<open>I\<close> holds, the action ends where \<open>I\<close> holds, thrown or not, and a value it
  returns satisfies \<open>R\<close>.
\<close>

definition keeps :: "('w cni \<Rightarrow> bool) \<Rightarrow> ('w, 'a) action \<Rightarrow> ('a \<Rightarrow> bool) \<Rightarrow> bool" where
  "keeps I m R \<longleftrightarrow> (\<forall>s w r s' w'. I s \<and> m s w = ((r, s'), w') \<longrightarrow> I s' \<and> (\<forall>a. r = Inr a \<longrightarrow> R a))"

lemma keepsI: "(\<And>s w r s' w'. I s \<Longrightarrow> m s w = ((r, s'), w') \<Longrightarrow> I s' \<and> (\<forall>a. r = Inr a \<longrightarrow> R a)) \<Longrightarrow> keeps I m R"
  unfolding keeps_def by blast

lemma keepsD: "keeps I m R \<Longrightarrow> I s \<Longrightarrow> I (snd (fst (m s w)))"
  unfolding keeps_def by (metis prod.collapse)

lemma keeps_weaken: "keeps I m R \<Longrightarrow> (\<And>a. R a \<Longrightarrow> Q a) \<Longrightarrow> keeps I m Q"
  unfolding keeps_def by blast

lemma keeps_seq:
  assumes "keeps I m R" and "\<And>a. R a \<Longrightarrow> keeps I (f a) Q"
  shows "keeps I (seq m f) Q"
proof (rule keepsI)
  fix s w r s' w' assume s: "I s" and run: "seq m f s w = ((r, s'), w')"
  obtain r1 s1 w1 where m: "m s w = ((r1, s1), w1)" by (metis prod.collapse)
  with assms(1) s have s1: "I s1" "\<forall>a. r1 = Inr a \<longrightarrow> R a" unfolding keeps_def by blast+
  show "I s' \<and> (\<forall>a. r = Inr a \<longrightarrow> Q a)"
  proof (cases r1)
    case (Inl e)
    with run m s1 show ?thesis by (auto simp: seq_def)
  next
    case (Inr a)
    with run m have "f a s1 w1 = ((r, s'), w')" by (simp add: seq_def)
    with assms(2) s1 Inr show ?thesis unfolding keeps_def by blast
  qed
qed

lemma keeps_ret: "R a \<Longrightarrow> keeps I (ret a) R"
  by (simp add: keeps_def ret_def)

lemma keeps_throw: "keeps I (throw e) R"
  by (simp add: keeps_def throw_def)

lemma keeps_state: "(\<And>s. I s \<Longrightarrow> R (f s)) \<Longrightarrow> keeps I (state f) R"
  by (simp add: keeps_def state_def)

lemma keeps_change: "(\<And>s. I s \<Longrightarrow> I (h s)) \<Longrightarrow> R () \<Longrightarrow> keeps I (change h) R"
  by (simp add: keeps_def change_def)

lemma keeps_deref: "(\<And>s a. I s \<Longrightarrow> f s = Some a \<Longrightarrow> R a) \<Longrightarrow> keeps I (deref f) R"
  by (simp add: keeps_def deref_def split: option.splits)

lemma keeps_call: "(\<And>w. R (fst (m w))) \<Longrightarrow> keeps I (call m) R"
  by (auto simp: keeps_def call_def split_beta)

text \<open>Actions that only ask the outside: nothing is known of their results.\<close>

lemma keeps_ask [intro]:
  "keeps I (call m) (\<lambda>_. True)" "keeps I (call_throwing t) (\<lambda>_. True)" "keeps I (lift r) (\<lambda>_. True)"
  "keeps I (call_object x) (\<lambda>_. True)" "keeps I (deref f) (\<lambda>_. True)" "keeps I (require b e) (\<lambda>_. True)"
  "keeps I (stored g) (\<lambda>_. True)" "keeps I (stored_throwing h) (\<lambda>_. True)" "keeps I (state k) (\<lambda>_. True)"
  "keeps I (ret a) (\<lambda>_. True)" "keeps I mode_is_vxlan (\<lambda>_. True)"
  by (auto simp: keeps_def call_def call_throwing_def lift_def call_object_def deref_def require_def ret_def
      throw_def stored_def stored_throwing_def seq_def state_def mode_is_vxlan_def
      split: prod.splits sum.splits option.splits if_splits)


lemma keeps_then: "keeps I m (\<lambda>_. True) \<Longrightarrow> (\<And>a. keeps I (f a) Q) \<Longrightarrow> keeps I (seq m f) Q"
  by (rule keeps_seq)

lemma keeps_if: "(b \<Longrightarrow> keeps I m R) \<Longrightarrow> (\<not> b \<Longrightarrow> keeps I m' R) \<Longrightarrow> keeps I (if b then m else m') R"
  by simp

lemma keeps_option:
  "(x = None \<Longrightarrow> keeps I m R) \<Longrightarrow> (\<And>a. x = Some a \<Longrightarrow> keeps I (f a) R) \<Longrightarrow>
   keeps I (case x of None \<Rightarrow> m | Some a \<Rightarrow> f a) R"
  by (cases x) simp_all

lemma keeps_prod: "(\<And>a b. p = (a, b) \<Longrightarrow> keeps I (f a b) R) \<Longrightarrow> keeps I (case p of (a, b) \<Rightarrow> f a b) R"
  by (cases p) simp

lemma keeps_let: "keeps I (f x) R \<Longrightarrow> keeps I (let a = x in f a) R"
  by simp

lemmas keeps_steps = keeps_then keeps_ask keeps_throw keeps_if keeps_option keeps_prod keeps_let

text \<open>The invariant while a command runs: the tables are well formed and the node is \<open>N\<close>.\<close>

definition at_node :: "string \<Rightarrow> 'w cni \<Rightarrow> bool" where
  "at_node N s \<longleftrightarrow> cni_ok s \<and> cni_node_name s = N"

lemma at_node_gateway: "at_node N s \<Longrightarrow> at_node N (s\<lparr>cni_gateway := g\<rparr>)"
  by (simp add: at_node_def cni_ok_def)

lemma at_node_cluster: "at_node N s \<Longrightarrow> cluster_ok c \<Longrightarrow> at_node N (s\<lparr>cni_cluster := Some c\<rparr>)"
  by (simp add: at_node_def cni_ok_def)

lemma on_names [simp]:
  "cni_node_name (on_node f s) = cni_node_name s" "cni_node_name (on_pod pod g s) = cni_node_name s"
  "cni_node_name (on_nic pod name h s) = cni_node_name s"
  by (simp_all add: on_node_def on_pod_def on_nic_def)

lemma at_node_on_node: "at_node N s \<Longrightarrow> (\<And>k n. node_ok k n \<Longrightarrow> node_ok k (f n)) \<Longrightarrow> at_node N (on_node f s)"
  unfolding at_node_def by (auto intro: on_node_ok)

lemma at_node_on_pod:
  "at_node N s \<Longrightarrow> (\<And>k p. k = pod \<Longrightarrow> pod_ok k p \<Longrightarrow> pod_ok k (f p)) \<Longrightarrow> at_node N (on_pod pod f s)"
  unfolding at_node_def by (auto intro: on_pod_ok)

lemma at_node_on_nic: "at_node N s \<Longrightarrow> nic_name n' = name \<Longrightarrow> at_node N (on_nic pod name (\<lambda>_. n') s)"
  unfolding at_node_def by (auto intro: on_nic_ok)

lemma keeps_node_name: "keeps (at_node N) (state cni_node_name) (\<lambda>name. name = N)"
  by (rule keeps_state) (simp add: at_node_def)

subsection \<open>Loading the cluster\<close>

lemma keeps_getStorageNic: "keeps I (getStorageNic pod nic netlink) (\<lambda>_. True)"
  unfolding getStorageNic_def by (intro keeps_steps)

lemma keeps_load_addrs: "keeps (at_node N) (load_addrs A nic as n) (\<lambda>_. True)"
proof (induction as arbitrary: n)
  case (Cons a as)
  have gw: "keeps (at_node N) (change (\<lambda>s. if cni_gateway s = None \<and> nic = cc_bridge (cni_conf s)
          then s\<lparr>cni_gateway := Some (Addr A a)\<rparr> else s)) (\<lambda>_. True)"
    by (rule keeps_change) (auto intro: at_node_gateway)
  show ?case unfolding load_addrs.simps by (intro keeps_steps gw Cons.IH)
qed (auto intro: keeps_ret)

lemma keeps_load_routes: "keeps I (load_routes rs n) (\<lambda>_. True)"
proof (induction rs arbitrary: n)
  case (Cons r rs)
  show ?case unfolding load_routes.simps by (intro keeps_steps Cons.IH)
qed (auto intro: keeps_ret)

lemma keeps_load_nics: "pod_ok pod p \<Longrightarrow> keeps (at_node N) (load_nics A netlink pod nics p) (pod_ok pod)"
proof (induction nics arbitrary: p)
  case (Cons nic nics)
  note IH = Cons.IH [OF Cons.prems] Cons.IH [OF netns_addNic_ok [OF Cons.prems]]
  show ?case
    unfolding load_nics.simps by (intro keeps_steps keeps_getStorageNic keeps_load_addrs keeps_load_routes IH)
qed (auto intro: keeps_ret)

lemma keeps_load_pods: "node_ok N n \<Longrightarrow> keeps (at_node N) (load_pods A netlink pods n) (node_ok N)"
proof (induction pods arbitrary: n)
  case (Cons pod pods)
  note step = keeps_seq [OF keeps_load_nics [OF new_netns_ok], OF Cons.IH [OF node_addNetns_ok [OF Cons.prems]]]
  show ?case
    unfolding load_pods.simps by (intro keeps_then [OF keeps_ask(9)] keeps_then [OF keeps_ask(7)] step)
qed (auto intro: keeps_ret)

lemma keeps_initKubernetesNode:
  "table_ok pod_ok (node_netns n) \<Longrightarrow> keeps (at_node N) (initKubernetesNode A subnet n) (node_ok N)"
proof (rule keepsI)
  fix s w r s' w' assume "table_ok pod_ok (node_netns n)" "at_node N s"
    "initKubernetesNode A subnet n s w = ((r, s'), w')"
  then show "at_node N s' \<and> (\<forall>a. r = Inr a \<longrightarrow> node_ok N a)"
    by (auto simp: initKubernetesNode_def at_node_def node_setSubnet_def node_setName_def node_setUnderlayDev_def
        node_setUnderlayAddr_def node_ok_def throw_def ret_def seq_def state_def split: prod.splits sum.splits)
qed

lemma keeps_getKubernetesCluster: "keeps (at_node N) (getKubernetesCluster A netlink) cluster_ok"
proof -
  have init: "keeps (at_node N) (initKubernetesNode A subnet new_node) (node_ok N)" for subnet
    by (rule keeps_initKubernetesNode) (simp add: new_node_def)
  have rest: "keeps (at_node N) (seq (load_pods A netlink pods node) (\<lambda>node'. ret (cluster_addNode N node' []))) cluster_ok"
    if "node_ok N node" for pods node
    by (rule keeps_seq [OF keeps_load_pods [OF that]], intro keeps_ret cluster_addNode_ok) (simp_all add: cluster_ok_def)
  have body: "keeps (at_node N) (if \<not> ok then ret [] else
      seq (initKubernetesNode A subnet new_node) (\<lambda>node. seq (stored (\<lambda>S. st_getAllPods S N)) (\<lambda>pods.
      seq (load_pods A netlink pods node) (\<lambda>node'. ret (cluster_addNode N node' []))))) cluster_ok" for ok subnet
    by (intro keeps_if keeps_ret keeps_seq [OF init] keeps_then [OF keeps_ask(7)] rest) (simp_all add: cluster_ok_def)
  show ?thesis
    unfolding getKubernetesCluster_def
    by (rule keeps_then [OF keeps_ask(5)], rule keeps_seq [OF keeps_node_name], simp only:,
        rule keeps_then [OF keeps_ask(1)], rule keeps_prod, rule body)
qed

subsection \<open>The node, its pods and their interfaces\<close>

lemma keeps_get_node: "keeps (at_node N) get_node (\<lambda>found. \<forall>n. found = Some n \<longrightarrow> node_ok N n)"
  unfolding get_node_def
proof (rule keeps_seq [where R = cluster_ok])
  show "keeps (at_node N) (deref cni_cluster) cluster_ok"
    by (rule keeps_deref) (simp add: at_node_def cni_ok_def)
  show "keeps (at_node N) (seq (state cni_node_name) (\<lambda>name. ret (cluster_getNode name c)))
      (\<lambda>found. \<forall>n. found = Some n \<longrightarrow> node_ok N n)" if "cluster_ok c" for c
    by (rule keeps_seq [OF keeps_node_name], rule keeps_ret) (use that cluster_getNode_ok in blast)
qed

lemma keeps_getBridge: "keeps I (getBridge A netlink addr) (\<lambda>_. True)"
  unfolding getBridge_def by (intro keeps_steps)

lemma keeps_getVxlan: "keeps I (getVxlan P netlink subnet) (\<lambda>_. True)"
  unfolding getVxlan_def by (intro keeps_steps)

lemma keeps_getRootPod:
  assumes "table_ok pod_ok (node_netns node)"
  shows "keeps I (getRootPod node bridge vxlan underlay) (\<lambda>n. table_ok pod_ok (node_netns n))"
proof -
  have nics: "keeps I (if is_vxlan
       then (case vxlan of None \<Rightarrow> throw Undefined_behaviour
             | Some vx \<Rightarrow> ret (netns_addNic vx (netns_addNic bridge new_netns)))
       else ret (netns_addNic bridge new_netns)) (\<lambda>p. pod_ok HOST (netns_setName HOST p))" for is_vxlan
    by (intro keeps_if keeps_option keeps_throw keeps_ret)
      (simp_all add: pod_ok_def netns_setName_def netns_addNic_def new_netns_def table_ok_emplace)
  have "pod_ok HOST (netns_setName HOST (netns_addNic underlay p))" if "pod_ok HOST (netns_setName HOST p)" for p
    using that by (simp add: pod_ok_def netns_setName_def netns_addNic_def table_ok_emplace)
  with assms have "table_ok pod_ok (node_netns (node_addNetns HOST (netns_setName HOST (netns_addNic underlay p)) node))"
    if "pod_ok HOST (netns_setName HOST p)" for p
    using that by (simp add: node_addNetns_def table_ok_emplace)
  then show ?thesis
    unfolding getRootPod_def
    by (intro keeps_then [OF keeps_ask(11)] keeps_seq [OF nics] keeps_steps keeps_ret)
qed

lemma keeps_create_node: "keeps (at_node N) (create_node P netlink) (node_ok N)"
proof -
  have gw: "keeps (at_node N) (change (\<lambda>s. s\<lparr>cni_gateway := g\<rparr>)) (\<lambda>_. True)" for g
    by (rule keeps_change) (auto intro: at_node_gateway)
  have add: "keeps (at_node N) (change (\<lambda>s. s\<lparr>cni_cluster := map_option (cluster_addNode N n) (cni_cluster s)\<rparr>))
      (\<lambda>_. True)" if "node_ok N n" for n
    by (rule keeps_change) (use that in \<open>auto simp: at_node_def cni_ok_def intro: cluster_addNode_ok\<close>)
  have name: "keeps (at_node N) (state (\<lambda>s. (cni_node_name s, cni_underlay_dev s))) (\<lambda>p. fst p = N)"
    by (rule keeps_state) (simp add: at_node_def)
  have tail: "keeps (at_node N)
      (seq (getRootPod new_node bridge vxlan (nic_setName dev Underlay)) (\<lambda>node1.
       seq (initKubernetesNode A subnet node1) (\<lambda>node2.
       seq (change (\<lambda>s. s\<lparr>cni_cluster := map_option (cluster_addNode N node2) (cni_cluster s)\<rparr>)) (\<lambda>_.
       ret node2)))) (node_ok N)" for bridge vxlan dev A subnet
    by (rule keeps_seq [OF keeps_getRootPod], simp add: new_node_def, rule keeps_seq [OF keeps_initKubernetesNode],
        assumption, rule keeps_then [OF add], assumption, rule keeps_ret)
  have body: "keeps (at_node N)
     (seq (deref cni_center) (\<lambda>center.
      seq (call (ip_allocateSubnet I N center)) (\<lambda>(ok, subnet).
      seq (require ok (Cni_error 7 (''Failed to allocate subnet for node:'' @ N))) (\<lambda>_.
      seq (call_throwing (ip_allocateIp I N [])) (\<lambda>(ok, gateway).
      seq (require ok (Cni_error 7 (''Failed to reserve gateway:'' @ gateway @ '' for node:'' @ N
        @ '', the gateway had been used''))) (\<lambda>_.
      seq (change (\<lambda>s. s\<lparr>cni_gateway := Some (Addr (pf_asio P) gateway)\<rparr>)) (\<lambda>_.
      seq (getBridge (pf_asio P) netlink gateway) (\<lambda>bridge.
      seq mode_is_vxlan (\<lambda>is_vxlan.
      seq (if is_vxlan then seq (getVxlan P netlink subnet) (\<lambda>vx. ret (Some vx)) else ret None) (\<lambda>vxlan.
      seq (stored (\<lambda>S. st_addNic S N HOST dev)) (\<lambda>ok.
      seq (require ok (Cni_error CNI_ERRCODE_OHNO (''Failed to store underlay dev:'' @ dev @ '' on node:'' @ N))) (\<lambda>_.
      seq (getRootPod new_node bridge vxlan (nic_setName dev Underlay)) (\<lambda>node1.
      seq (initKubernetesNode (pf_asio P) subnet node1) (\<lambda>node2.
      seq (change (\<lambda>s. s\<lparr>cni_cluster := map_option (cluster_addNode N node2) (cni_cluster s)\<rparr>)) (\<lambda>_.
      ret node2))))))))))))))) (node_ok N)" for I dev
    by (intro tail keeps_steps keeps_getBridge keeps_getVxlan gw)
  show ?thesis
    unfolding create_node_def Let_def
    by (rule keeps_then [OF keeps_ask(5)], rule keeps_seq [OF name], rule keeps_prod, simp only: fst_conv, rule body)
qed

lemma keeps_getKubernetesNode:
  "keeps (at_node N) (getKubernetesNode P create netlink) (\<lambda>found. \<forall>n. found = Some n \<longrightarrow> node_ok N n)"
proof -
  have new: "keeps (at_node N) (seq (create_node P netlink) (\<lambda>node. ret (Some node)))
      (\<lambda>found. \<forall>n. found = Some n \<longrightarrow> node_ok N n)"
    by (rule keeps_seq [OF keeps_create_node], rule keeps_ret) simp
  show ?thesis
    unfolding getKubernetesNode_def
    by (rule keeps_seq [OF keeps_get_node], intro keeps_if keeps_ret new keeps_then [OF keeps_ask(9)] keeps_throw)
qed

lemma keeps_getKubernetesPod:
  assumes "node_ok k node"
  shows "keeps (at_node N) (getKubernetesPod node pod create) (pod_ok pod)"
proof -
  have "keeps (at_node N) (change (on_node (node_addNetns pod (netns_setName pod new_netns)))) (\<lambda>_. True)"
    by (rule keeps_change) (auto intro: at_node_on_node node_addNetns_ok new_netns_ok)
  then show ?thesis
    unfolding getKubernetesPod_def Let_def
    by (intro keeps_option keeps_if keeps_throw keeps_then keeps_ret new_netns_ok)
      (use assms node_getNetns_ok in blast)+
qed

lemma keeps_delKubernetesPod: "keeps (at_node N) (delKubernetesPod pod) (\<lambda>_. True)"
proof -
  have "keeps (at_node N) (change (on_node (node_delNetns pod))) (\<lambda>_. True)"
    by (rule keeps_change) (auto intro: at_node_on_node node_delNetns_ok)
  then show ?thesis unfolding delKubernetesPod_def by (intro keeps_steps)
qed

lemma keeps_nicPluginBridge: "keeps (at_node N) (nicPluginBridge name) (\<lambda>_. True)"
proof -
  have host: "keeps (at_node N) (seq (getKubernetesPod node HOST False) f) (\<lambda>_. True)"
    if "node_ok N node" and "\<And>p. keeps (at_node N) (f p) (\<lambda>_. True)" for node f
    by (rule keeps_seq [OF keeps_getKubernetesPod]) (rule that)+
  show ?thesis
    unfolding nicPluginBridge_def
    by (rule keeps_then [OF keeps_ask(9)], rule keeps_prod, rule keeps_seq [OF keeps_get_node], rule keeps_option,
        rule keeps_throw, rule host, blast, intro keeps_steps)
qed

lemma keeps_configPodNetwork: "keeps I (configPodNetwork A n name container_id) (\<lambda>_. True)"
  unfolding configPodNetwork_def by (intro keeps_steps)

lemma keeps_create_nic: "keeps (at_node N) (create_nic P pod name netlink veth_peer netns) (\<lambda>_. True)"
proof -
  have "keeps (at_node N) (change (on_pod p (netns_addNic n))) (\<lambda>_. True)" for p n
    by (rule keeps_change) (auto intro: at_node_on_pod netns_addNic_ok)
  then show ?thesis
    unfolding create_nic_def Let_def by (intro keeps_steps keeps_nicPluginBridge keeps_configPodNetwork)
qed

lemma keeps_getKubernetesNic:
  "keeps (at_node N) (getKubernetesNic P pod name create netlink veth_peer netns) (\<lambda>_. True)"
  unfolding getKubernetesNic_def by (intro keeps_steps keeps_create_nic)

lemma keeps_delKubernetesNic: "keeps (at_node N) (delKubernetesNic A pod name) (\<lambda>_. True)"
proof -
  have "keeps (at_node N) (change (on_pod p (netns_delNic name))) (\<lambda>_. True)" for p
    by (rule keeps_change) (auto intro: at_node_on_pod netns_delNic_ok)
  then show ?thesis unfolding delKubernetesNic_def by (intro keeps_steps)
qed

text \<open>The interface that is renamed is the one stored under the name it gets.\<close>

lemma keeps_reuse_nic:
  assumes "nic_name n = name"
  shows "keeps (at_node N) (reuse_nic A container_id name n) (\<lambda>_. True)"
proof -
  have rename: "keeps (at_node N) (call (nic_rename name n)) (\<lambda>(ok, n'). ok \<longrightarrow> nic_name n' = name)"
    by (rule keeps_call) (use assms in \<open>auto simp: nic_rename_def nic_setName_def split: option.split prod.split bool.split\<close>)
  have put: "keeps (at_node N) (seq (require ok e) (\<lambda>_. seq (change (on_nic container_id name (\<lambda>_. n'))) (\<lambda>_. ret n')))
      (\<lambda>_. True)" if "ok \<longrightarrow> nic_name n' = name" for ok e n'
  proof (cases ok)
    case True
    then have "keeps (at_node N) (change (on_nic container_id name (\<lambda>_. n'))) (\<lambda>_. True)"
      using that by (intro keeps_change) (auto intro: at_node_on_nic)
    then show ?thesis by (intro keeps_steps)
  qed (simp add: keeps_def)
  show ?thesis
    unfolding reuse_nic_def
    by (rule keeps_then [OF keeps_ask(3)], rule keeps_option, rule keeps_throw, rule keeps_then [OF keeps_ask(3)],
        rule keeps_then [OF keeps_ask(3)], rule keeps_then [OF keeps_ask(9)], rule keeps_then [OF keeps_ask(3)],
        rule keeps_then [OF keeps_ask(6)], rule keeps_then [OF keeps_ask(1)], rule keeps_if, rule keeps_ask(10),
        rule keeps_seq [OF rename], rule keeps_prod, rule put, simp)
qed

subsection \<open>The commands\<close>

lemma keeps_any_node:
  assumes "\<And>N. keeps (at_node N) m R"
  shows "keeps cni_ok m R"
proof (rule keepsI)
  fix s w r s' w' assume "cni_ok s" "m s w = ((r, s'), w')"
  with assms [of "cni_node_name s"] show "cni_ok s' \<and> (\<forall>a. r = Inr a \<longrightarrow> R a)"
    unfolding keeps_def at_node_def by blast
qed

lemma keeps_read_node_info: "keeps cni_ok (read_node_info sh) (\<lambda>_. True)"
proof -
  have "keeps cni_ok (change (\<lambda>s. s\<lparr>cni_node_name := n, cni_underlay_dev := d, cni_underlay_addr := a\<rparr>)) (\<lambda>_. True)"
    for n d a
    by (rule keeps_change) (simp_all add: cni_ok_def)
  then show ?thesis unfolding read_node_info_def by (intro keeps_steps)
qed

lemma keeps_load: "keeps (at_node N) m Q \<Longrightarrow>
  keeps (at_node N) (seq (getKubernetesCluster A netlink) (\<lambda>c. seq (change (\<lambda>s. s\<lparr>cni_cluster := Some c\<rparr>)) (\<lambda>_. m))) Q"
  by (rule keeps_seq [OF keeps_getKubernetesCluster], rule keeps_then, rule keeps_change)
    (auto intro: at_node_cluster)

lemma keeps_cni_add: "keeps cni_ok (cni_add P container_id netns nic) (\<lambda>_. True)"
proof -
  have reuse: "keeps (at_node N) (case iface of
            Some n \<Rightarrow> seq (reuse_nic A container_id nic n) (\<lambda>n'. ret (Some n'))
          | None \<Rightarrow> getKubernetesNic P pod nic True netlink veth_host netns) (\<lambda>_. True)"
    if "\<forall>n. iface = Some n \<longrightarrow> nic_name n = nic" for N iface A pod netlink veth_host
    using that by (intro keeps_option keeps_getKubernetesNic keeps_then keeps_ask keeps_reuse_nic) simp_all
  have found: "keeps (at_node N) (getKubernetesNic P pod nic False None [] []) (\<lambda>iface. \<forall>n. iface = Some n \<longrightarrow> nic_name n = nic)"
    if "pod_ok k pod" for N pod k
    unfolding getKubernetesNic_def
    by (intro keeps_option keeps_if keeps_ret keeps_throw) (use netns_getNic_ok [OF that] in auto)
  show ?thesis
    unfolding cni_add_def Let_def
    by (rule keeps_then [OF keeps_ask(5)], rule keeps_then [OF keeps_ask(2)], rule keeps_then [OF keeps_ask(9)],
        rule keeps_then [OF keeps_ask(6)], rule keeps_then [OF keeps_read_node_info], rule keeps_then [OF keeps_ask(6)],
        rule keeps_any_node, rule keeps_load, rule keeps_then [OF keeps_ask(9)],
        rule keeps_seq [OF keeps_getKubernetesNode], rule keeps_option, rule keeps_throw,
        rule keeps_seq [OF keeps_getKubernetesPod], blast, rule keeps_seq [OF found], assumption,
        rule keeps_then [OF reuse], assumption, intro keeps_steps)
qed

lemma keeps_del_body: "keeps cni_ok (del_body P container_id nic) (\<lambda>_. True)"
proof -
  have last: "keeps (at_node N)
     (seq (getKubernetesPod node' HOST False) (\<lambda>host.
          seq (delKubernetesNic A host br) (\<lambda>_.
          seq (delKubernetesNic A host NAME_VXLAN) (\<lambda>_.
          seq (delKubernetesNic A host underlay_dev) (\<lambda>_.
          seq (delKubernetesPod HOST) (\<lambda>_. f)))))) (\<lambda>_. True)"
    if "node_ok N node'" and "keeps (at_node N) f (\<lambda>_. True)" for N node' A br underlay_dev f
    by (rule keeps_seq [OF keeps_getKubernetesPod [OF that(1)]])
      (intro keeps_then keeps_delKubernetesNic keeps_delKubernetesPod that(2))
  show ?thesis
    unfolding del_body_def Let_def
    by (rule keeps_then [OF keeps_ask(9)], rule keeps_then [OF keeps_ask(6)],
        rule keeps_then [OF keeps_read_node_info], rule keeps_then [OF keeps_ask(6)],
        rule keeps_any_node, rule keeps_load, rule keeps_then [OF keeps_ask(9)], rule keeps_prod, rule keeps_prod,
        rule keeps_seq [OF keeps_getKubernetesNode], rule keeps_option, rule keeps_throw,
        rule keeps_seq [OF keeps_getKubernetesPod], blast, rule keeps_then [OF keeps_delKubernetesNic],
        rule keeps_then [OF keeps_delKubernetesPod], rule keeps_seq [OF keeps_get_node], rule keeps_option,
        rule keeps_throw, rule keeps_if, rule last, blast, (intro keeps_steps)+)
qed

text \<open>
  C13: Whatever the command line tools, ETCD and the API server answer, and wherever an exception ends
  a command, ADD and DEL keep the picture of the cluster well formed: in every table each key stands
  once, and each node, pod and interface carries the name it is stored under. A new plugin is well
  formed.
\<close>

theorem cluster_stays_well_formed:
  "cni_ok (new_cni netlink) \<and>
   (cni_ok s \<longrightarrow> cni_ok (snd (fst (cni_add P container_id netns nic s w)))) \<and>
   (cni_ok s \<longrightarrow> cni_ok (snd (fst (cni_del P container_id nic s w))))"
proof (intro conjI impI)
  show "cni_ok (new_cni netlink)" by (simp add: cni_ok_def new_cni_def cluster_ok_def)
next
  show "cni_ok (snd (fst (cni_add P container_id netns nic s w)))" if "cni_ok s"
    using keepsD [OF keeps_cni_add that] .
  have "snd (fst (cni_del P container_id nic s w)) = snd (fst (del_body P container_id nic s w))"
    by (simp add: cni_del_def split: prod.split sum.split)
  then show "cni_ok (snd (fst (cni_del P container_id nic s w)))" if "cni_ok s"
    using keepsD [OF keeps_del_body that] by simp
qed

text \<open>A platform on which no command exists.\<close>

definition demo_platform :: "(unit, jvalue) platform" where
  "demo_platform = \<lparr>pf_shell = (\<lambda>cmd w. (Exited 127 [] ''not found'', w)), pf_asio = demo_asio, pf_json = demo_json,
     pf_hwaddr = (\<lambda>name w. (None, w)), pf_draw = (\<lambda>w. (\<lambda>i. 0, w))\<rparr>"

lemma cluster_stays_well_formed_witness:
  "cni_ok (snd (fst (cni_add demo_platform ''c1'' ''/var/run/netns/c1'' ''eth0'' (new_cni None) ())))"
  using cluster_stays_well_formed [of None "new_cni None" demo_platform "''c1''" "''/var/run/netns/c1''" "''eth0''" "()"]
  by blast

end
