(* ===== verification/Cni_Load.thy ===== *)
theory Cni_Load
  imports Cni_Facts
begin

text \<open>
  What a command rebuilds from ETCD before it does anything: \<open>getKubernetesCluster\<close> is a function of
  the stored records. The weakest-precondition equations of the actions of \<open>Cni_Monad\<close> come first.
\<close>

subsection \<open>Runs that succeed\<close>

text \<open>\<open>succeeds m Q s w\<close>: the action returns, and \<open>Q\<close> holds of what it returns and leaves behind.\<close>

definition succeeds :: "('w, 'a) action \<Rightarrow> ('a \<Rightarrow> 'w cni \<Rightarrow> 'w \<Rightarrow> bool) \<Rightarrow> 'w cni \<Rightarrow> 'w \<Rightarrow> bool" where
  "succeeds m Q s w \<longleftrightarrow> (\<exists>a s' w'. m s w = ((Inr a, s'), w') \<and> Q a s' w')"

lemma succeedsI: "m s w = ((Inr a, s'), w') \<Longrightarrow> Q a s' w' \<Longrightarrow> succeeds m Q s w"
  unfolding succeeds_def by blast

lemma succeeds_run: "succeeds m Q s w \<Longrightarrow> m s w = ((r, s'), w') \<Longrightarrow> \<exists>a. r = Inr a \<and> Q a s' w'"
  unfolding succeeds_def by auto

lemma succeeds_eq: "m s w = ((Inr a, s'), w') \<Longrightarrow> succeeds m Q s w \<longleftrightarrow> Q a s' w'"
  unfolding succeeds_def by simp

lemma succeeds_mono: "succeeds m Q s w \<Longrightarrow> (\<And>a s' w'. Q a s' w' \<Longrightarrow> R a s' w') \<Longrightarrow> succeeds m R s w"
  unfolding succeeds_def by blast

lemma succeeds_then:
  "succeeds m R s w \<Longrightarrow> (\<And>a s' w'. R a s' w' \<Longrightarrow> succeeds (f a) Q s' w') \<Longrightarrow> succeeds (seq m f) Q s w"
  unfolding succeeds_def seq_run by blast

lemma succeeds_seq [action_wp]: "succeeds (seq m f) Q = succeeds m (\<lambda>a. succeeds (f a) Q)"
  by (intro ext) (auto simp: succeeds_def seq_run)

lemma succeeds_basic [action_wp]:
  "succeeds (ret a) Q s w \<longleftrightarrow> Q a s w" "succeeds (throw e) Q s w \<longleftrightarrow> False"
  "succeeds (state g) R s w \<longleftrightarrow> R (g s) s w" "succeeds (change h) U s w \<longleftrightarrow> U () (h s) w"
  "succeeds (require b e) U s w \<longleftrightarrow> b \<and> U () s w"
  by (auto simp: succeeds_def action_run)

lemma succeeds_ret [action_wp]: "succeeds (ret a) Q = Q a"
  by (intro ext) (rule succeeds_basic)

lemma succeeds_call [action_wp]:
  "succeeds (call m) Q s w \<longleftrightarrow> Q (fst (m w)) s (snd (m w))"
  "succeeds (call_throwing t) Q s w \<longleftrightarrow> (\<exists>a. fst (t w) = Inr a \<and> Q a s (snd (t w)))"
  "succeeds (lift r) Q s w \<longleftrightarrow> (\<exists>a. r = Inr a \<and> Q a s w)"
  "succeeds (call_object x) R s w \<longleftrightarrow> (\<exists>b. fst (fst (x w)) = Inr b \<and> R (b, snd (fst (x w))) s (snd (x w)))"
  by (auto simp: succeeds_def call_def call_throwing_def lift_def call_object_def split_beta split: sum.splits prod.splits)

lemma succeeds_deref [action_wp]:
  "succeeds (deref g) Q s w \<longleftrightarrow> (\<exists>a. g s = Some a \<and> Q a s w)"
  "succeeds (stored h) R s w \<longleftrightarrow> (\<exists>S. cni_storage s = Some S \<and> R (fst (h S w)) s (snd (h S w)))"
  "succeeds (stored_throwing k) U s w \<longleftrightarrow>
     (\<exists>S b. cni_storage s = Some S \<and> fst (k S w) = Inr b \<and> U b s (snd (k S w)))"
  by (auto simp: succeeds_def deref_def stored_def stored_throwing_def seq_def call_def call_throwing_def split_beta
      split: option.splits sum.splits)

lemma some_True [simp]: "\<exists>b. b"
  by blast

lemma succeeds_if [action_wp]:
  "succeeds (if b then m else m') Q s w \<longleftrightarrow> (if b then succeeds m Q s w else succeeds m' Q s w)"
  by simp

lemma succeeds_case [action_wp]:
  "succeeds (case x of None \<Rightarrow> m | Some a \<Rightarrow> f a) Q s w \<longleftrightarrow>
     (case x of None \<Rightarrow> succeeds m Q s w | Some a \<Rightarrow> succeeds (f a) Q s w)"
  "succeeds (case p of (a, b) \<Rightarrow> g a b) R s w \<longleftrightarrow> (case p of (a, b) \<Rightarrow> succeeds (g a b) R s w)"
  by (simp_all split: option.split prod.split)

subsection \<open>A kernel that obeys\<close>

text \<open>Link, address and route commands do what they are told and leave \<open>f\<close> of the world alone.\<close>

definition link_obeys :: "'w netlink_if \<Rightarrow> ('w \<Rightarrow> 'v) \<Rightarrow> bool" where
  "link_obeys N f \<longleftrightarrow> netlink_sets N f True \<and>
     (\<forall>name ns w. f (snd (nl_linkExist N name ns w)) = f w) \<and>
     (\<forall>a b w. f (snd (nl_vethCreate N a b w)) = f w \<and> fst (nl_vethCreate N a b w)) \<and>
     (\<forall>name w. f (snd (nl_bridgeCreate N name w)) = f w \<and> fst (nl_bridgeCreate N name w)) \<and>
     (\<forall>name ns w. f (snd (nl_linkIsInNetns N name ns w)) = f w) \<and>
     (\<forall>name ns w. f (snd (nl_linkToNetns N name ns w)) = f w \<and> fst (nl_linkToNetns N name ns w)) \<and>
     (\<forall>name new ns w. f (snd (nl_linkRename N name new ns w)) = f w \<and> fst (nl_linkRename N name new ns w)) \<and>
     (\<forall>name st ns w. f (snd (nl_linkSetStatus N name st ns w)) = f w) \<and>
     (\<forall>name ma br mo ns w. f (snd (nl_bridgeSetStatus N name ma br mo ns w)) = f w \<and>
        fst (nl_bridgeSetStatus N name ma br mo ns w)) \<and>
     (\<forall>name cidr ns w. f (snd (nl_addressSetEntry N name cidr False ns w)) = f w) \<and>
     (\<forall>name ns w. f (snd (nl_linkDestory N name ns w)) = f w) \<and>
     (\<forall>name a d w. f (snd (nl_vxlanCreate N name a d w)) = f w \<and> fst (nl_vxlanCreate N name a d w))"

lemma link_obeysD:
  assumes "link_obeys N f"
  shows "netlink_sets N f True" "routes_keep N f"
    "f (snd (nl_linkExist N name ns w)) = f w"
    "f (snd (nl_vethCreate N a b w)) = f w" "fst (nl_vethCreate N a b w)"
    "f (snd (nl_bridgeCreate N name w)) = f w" "fst (nl_bridgeCreate N name w)"
    "f (snd (nl_linkIsInNetns N name ns w)) = f w"
    "f (snd (nl_linkToNetns N name ns w)) = f w" "fst (nl_linkToNetns N name ns w)"
    "f (snd (nl_linkRename N name new ns w)) = f w" "fst (nl_linkRename N name new ns w)"
    "f (snd (nl_linkSetStatus N name st ns w)) = f w"
    "f (snd (nl_bridgeSetStatus N name ma br mo ns w)) = f w" "fst (nl_bridgeSetStatus N name ma br mo ns w)"
    "f (snd (nl_addressSetEntry N name cidr False ns w)) = f w"
    "f (snd (nl_linkDestory N name ns w)) = f w"
    "f (snd (nl_vxlanCreate N name a d w)) = f w" "fst (nl_vxlanCreate N name a d w)"
  using assms by (simp_all add: link_obeys_def netlink_sets_def)

text \<open>Moving an interface into a namespace, and taking it down with its routes and addresses.\<close>

lemma setNetns_up:
  assumes "link_obeys N f" "nic_netlink n = Some N" "simpleNetns netns = Inr simple"
  shows "fst (nic_setNetns netns n w) = (Inr True, n\<lparr>nic_netns := simple\<rparr>) \<and> f (snd (nic_setNetns netns n w)) = f w"
  using assms(2,3) link_obeysD(8-10) [OF assms(1)]
  by (simp add: nic_setNetns_def split_beta split: bool.split)

lemma cleanup_routes_keep: "routes_keep N f \<Longrightarrow> f (cleanup_routes N ns rs w) = f w"
  by (induction rs arbitrary: w) (simp_all add: routes_keep_def split_beta split: bool.split)

lemma cleanup_addrs_keep:
  assumes "link_obeys N f" "\<forall>a \<in> set as. returns (addr_getAddrCidr A a)"
  shows "\<exists>w'. cleanup_addrs A N name ns as w = (Inr (), w') \<and> f w' = f w"
  using assms(2)
proof (induction as arbitrary: w)
  case (Cons a as)
  then obtain cidr where "addr_getAddrCidr A a = Inr cidr" by (auto simp: returns_def split: sum.splits)
  with Cons.IH [of "snd (nl_addressSetEntry N name cidr False ns w)"] Cons.prems link_obeysD(16) [OF assms(1)]
  show ?case by simp
qed simp

lemma cleanup_up:
  assumes "link_obeys N f" "nic_netlink n = Some N" "\<forall>a \<in> set (nic_addrs n). returns (addr_getAddrCidr A a)"
  shows "\<exists>w'. nic_cleanup A n w = (Inr (), w') \<and> f w' = f w"
  using cleanup_addrs_keep [OF assms(1,3), of "nic_name n" "nic_netns n" "cleanup_routes N (nic_netns n) (nic_routes n) w"]
    assms(2) cleanup_routes_keep [OF link_obeysD(2) [OF assms(1)]] link_obeysD(17) [OF assms(1)]
  by (auto simp: nic_cleanup_def Let_def)

subsection \<open>The picture that the records give\<close>

text \<open>The interface, the pod and the node that stand in the records \<open>m\<close> of the node of \<open>s\<close>.\<close>

definition picture_nic :: "asio \<Rightarrow> 'w netlink_if \<Rightarrow> 'w cni \<Rightarrow> (string \<rightharpoonup> string) \<Rightarrow> string \<Rightarrow> string \<Rightarrow> 'w nic" where
  "picture_nic A N s m pod nic =
     (if pod = HOST \<and> nic = cni_underlay_dev s then Underlay
      else if nic = cc_bridge (cni_conf s) then new_bridge else new_plain)
     \<lparr>nic_name := nic, nic_netlink := Some N,
      nic_netns := (if pod = HOST then []
        else projr (simpleNetns (stored_text m (getNetnsKey (cni_node_name s) pod)))),
      nic_addrs := map (Addr A) (stored_list m (getAddrKey (cni_node_name s) pod nic)),
      nic_routes := projr (routes_of (stored_list m (getRouteKey (cni_node_name s) pod nic)))\<rparr>"

text \<open>An \<open>unordered_map\<close> filled in this order: each key once, at its first place.\<close>

definition table_of :: "('k \<Rightarrow> 'v) \<Rightarrow> 'k list \<Rightarrow> ('k \<times> 'v) list" where
  "table_of f ks = foldl (\<lambda>m k. emplace k (f k) m) [] ks"

definition picture_pod :: "asio \<Rightarrow> 'w netlink_if \<Rightarrow> 'w cni \<Rightarrow> (string \<rightharpoonup> string) \<Rightarrow> string \<Rightarrow> 'w netns" where
  "picture_pod A N s m pod = \<lparr>netns_name = pod,
     netns_nics = table_of (picture_nic A N s m pod) (stored_list m (getNicKey (cni_node_name s) pod))\<rparr>"

definition picture_node :: "asio \<Rightarrow> 'w netlink_if \<Rightarrow> 'w cni \<Rightarrow> (string \<rightharpoonup> string) \<Rightarrow> 'w node" where
  "picture_node A N s m = \<lparr>node_name = cni_node_name s,
     node_netns = table_of (picture_pod A N s m) (stored_list m (getAllPodsKey (cni_node_name s))),
     node_subnet = Some (snd (subnet_init A (stored_text m (subnet_key (cni_node_name s))) new_subnet)),
     node_underlay_addr = Some (Addr A (cni_underlay_addr s)), node_underlay_dev = cni_underlay_dev s\<rparr>"

text \<open>
  \<open>cni_gateway_\<close> is set from the first address of an interface that has the bridge's name, in the
  order of the records, unless it was set before.
\<close>

definition bridge_addrs :: "'w cni \<Rightarrow> (string \<rightharpoonup> string) \<Rightarrow> string \<Rightarrow> string list \<Rightarrow> string list" where
  "bridge_addrs s m pod nics = concat (map (\<lambda>nic. if nic = cc_bridge (cni_conf s)
     then stored_list m (getAddrKey (cni_node_name s) pod nic) else []) nics)"

definition all_bridge_addrs :: "'w cni \<Rightarrow> (string \<rightharpoonup> string) \<Rightarrow> string list \<Rightarrow> string list" where
  "all_bridge_addrs s m pods =
     concat (map (\<lambda>pod. bridge_addrs s m pod (stored_list m (getNicKey (cni_node_name s) pod))) pods)"

definition set_gateway :: "asio \<Rightarrow> string list \<Rightarrow> 'w cni \<Rightarrow> 'w cni" where
  "set_gateway A as s = (case as of [] \<Rightarrow> s
     | a # _ \<Rightarrow> if cni_gateway s = None then s\<lparr>cni_gateway := Some (Addr A a)\<rparr> else s)"

text \<open>Records that can be read back without an exception.\<close>

definition nic_readable :: "asio \<Rightarrow> string \<Rightarrow> (string \<rightharpoonup> string) \<Rightarrow> string \<Rightarrow> string \<Rightarrow> bool" where
  "nic_readable A node m pod nic \<longleftrightarrow> name_ok nic \<and> shell_word nic \<and>
     (\<forall>a \<in> set (stored_list m (getAddrKey node pod nic)). returns (addr_getAddrCidr A (Addr A a))) \<and>
     returns (routes_of (stored_list m (getRouteKey node pod nic)))"

definition pod_readable :: "asio \<Rightarrow> string \<Rightarrow> (string \<rightharpoonup> string) \<Rightarrow> string \<Rightarrow> bool" where
  "pod_readable A node m pod \<longleftrightarrow> name_ok pod \<and> shell_word pod \<and>
     (pod \<noteq> HOST \<longrightarrow> returns (simpleNetns (stored_text m (getNetnsKey node pod)))) \<and>
     (\<forall>nic \<in> set (stored_list m (getNicKey node pod)). nic_readable A node m pod nic)"

definition node_readable :: "asio \<Rightarrow> string \<Rightarrow> (string \<rightharpoonup> string) \<Rightarrow> bool" where
  "node_readable A node m \<longleftrightarrow> name_ok node \<and> shell_word node \<and>
     (\<forall>pod \<in> set (stored_list m (getAllPodsKey node)). pod_readable A node m pod)"

lemma set_gateway_sel [simp]:
  "cni_netlink (set_gateway A as s) = cni_netlink s" "cni_conf (set_gateway A as s) = cni_conf s"
  "cni_cluster (set_gateway A as s) = cni_cluster s" "cni_ipam (set_gateway A as s) = cni_ipam s"
  "cni_storage (set_gateway A as s) = cni_storage s" "cni_node_name (set_gateway A as s) = cni_node_name s"
  "cni_underlay_dev (set_gateway A as s) = cni_underlay_dev s"
  "cni_underlay_addr (set_gateway A as s) = cni_underlay_addr s"
  "cni_mode (set_gateway A as s) = cni_mode s" "cni_center (set_gateway A as s) = cni_center s"
  by (simp_all add: set_gateway_def split: list.split)

lemma set_gateway_append [simp]: "set_gateway A bs (set_gateway A as s) = set_gateway A (as @ bs) s"
  by (cases as; cases bs; cases "cni_gateway s") (simp_all add: set_gateway_def)

lemma set_gateway_Nil [simp]: "set_gateway A [] s = s"
  by (simp add: set_gateway_def)

lemma picture_nic_gateway [simp]: "picture_nic A N (set_gateway A' as s) = picture_nic A N s"
  by (intro ext) (simp add: picture_nic_def)

lemma bridge_addrs_gateway [simp]: "bridge_addrs (set_gateway A as s) = bridge_addrs s"
  by (intro ext) (simp add: bridge_addrs_def cong: if_cong)

subsection \<open>The loops of \<open>getKubernetesCluster\<close>\<close>

lemma load_addrs_up:
  assumes "link_obeys N f" "nic_netlink n = Some N" "\<forall>a \<in> set as. returns (addr_getAddrCidr A (Addr A a))"
  shows "succeeds (load_addrs A nic as n)
    (\<lambda>n' s' w'. n' = n\<lparr>nic_addrs := nic_addrs n @ map (Addr A) as\<rparr> \<and>
       s' = set_gateway A (if nic = cc_bridge (cni_conf s) then as else []) s \<and> f w' = f w) s w"
  using assms(2,3)
proof (induction as arbitrary: n s w)
  case (Cons a as)
  then obtain cidr where c: "addr_getAddrCidr A (Addr A a) = Inr cidr" by (auto simp: returns_def split: sum.splits)
  let ?s = "set_gateway A (if nic = cc_bridge (cni_conf s) then [a] else []) s"
  from addAddr_sets [OF link_obeysD(1) [OF assms(1)] Cons.prems(1) c, of w] obtain w1 where
    ad: "nic_addAddr A (Addr A a) n w = ((Inr True, n\<lparr>nic_addrs := nic_addrs n @ [Addr A a]\<rparr>), w1)" "f w1 = f w"
    by auto
  have s: "(if cni_gateway s = None \<and> nic = cc_bridge (cni_conf s) then s\<lparr>cni_gateway := Some (Addr A a)\<rparr> else s) = ?s"
    by (simp add: set_gateway_def)
  have "succeeds (load_addrs A nic as (n\<lparr>nic_addrs := nic_addrs n @ [Addr A a]\<rparr>))
      (\<lambda>n' s' w'. n' = n\<lparr>nic_addrs := nic_addrs n @ map (Addr A) (a # as)\<rparr> \<and>
         s' = set_gateway A (if nic = cc_bridge (cni_conf s) then a # as else []) s \<and> f w' = f w) ?s w1"
    by (rule succeeds_mono [OF Cons.IH]) (use Cons.prems ad(2) in simp_all)
  then show ?case unfolding load_addrs.simps action_wp by (simp add: action_wp ad(1) s)
qed (simp add: action_wp)

lemma load_routes_up:
  assumes "link_obeys N f" "nic_netlink n = Some N"
  shows "succeeds (load_routes rs n)
    (\<lambda>n' s' w'. n' = n\<lparr>nic_routes := nic_routes n @ rs\<rparr> \<and> s' = s \<and> f w' = f w) s w"
  using assms(2)
proof (induction rs arbitrary: n w)
  case (Cons r rs)
  from addRoute_sets [OF link_obeysD(1) [OF assms(1)] Cons.prems, of r NH_NONE w] obtain w1 where
    ad: "nic_addRoute r NH_NONE n w = ((True, n\<lparr>nic_routes := nic_routes n @ [r]\<rparr>), w1)" "f w1 = f w" by blast
  have "succeeds (load_routes rs (n\<lparr>nic_routes := nic_routes n @ [r]\<rparr>))
      (\<lambda>n' s' w'. n' = n\<lparr>nic_routes := nic_routes n @ r # rs\<rparr> \<and> s' = s \<and> f w' = f w) s w1"
    by (rule succeeds_mono [OF Cons.IH]) (use Cons.prems ad(2) in simp_all)
  then show ?case unfolding load_routes.simps by (simp add: action_wp ad(1))
qed (simp add: action_wp)

lemma getStorageNic_up:
  assumes "link_obeys N f"
  shows "succeeds (getStorageNic pod nic (Some N))
    (\<lambda>found s' w'. found = Some ((if pod = HOST \<and> nic = cni_underlay_dev s then Underlay
         else if nic = cc_bridge (cni_conf s) then new_bridge else new_plain)
         \<lparr>nic_name := nic, nic_netlink := Some N\<rparr>) \<and> s' = s \<and> f w' = f w) s w"
  using link_obeysD(3,6,7) [OF assms]
  by (simp add: getStorageNic_def action_wp Let_def nic_setName_def nic_setup_def bridge_setup_def created_def
      base_setup_def Underlay_def new_bridge_def new_plain_def new_nic_def split_beta split: bool.split)

lemma readable_words:
  assumes "name_ok node" "shell_word node" "name_ok pod" "shell_word pod"
  shows "shell_word (getNetnsKey node pod)" "shell_word (getAllPodsKey node)" "shell_word (getNicKey node pod)"
    "name_ok nic \<Longrightarrow> shell_word nic \<Longrightarrow> shell_word (getAddrKey node pod nic)"
    "name_ok nic \<Longrightarrow> shell_word nic \<Longrightarrow> shell_word (getRouteKey node pod nic)"
  using entry_key_word [of "Netns_of node pod"] entry_key_word [of "Pods_of node"] entry_key_word [of "Nics_of node pod"]
    entry_key_word [of "Addrs_of node pod nic"] entry_key_word [of "Routes_of node pod nic"] assms by simp_all

lemma storage_getters_sel [simp]:
  "st_getNetns (storage_ops E A) = storage_getNetns E" "st_getAllPods (storage_ops E A) = storage_getAllPods E"
  "st_getAllNic (storage_ops E A) = storage_getAllNic E" "st_getAllAddrs (storage_ops E A) = storage_getAllAddrs E"
  "st_getAllRoutes (storage_ops E A) = storage_getAllRoutes E"
  by (simp_all add: storage_ops_def)

text \<open>One interface: the rounds of the loop over the interfaces of a pod.\<close>

lemma load_nics_up:
  assumes "shell_serves E view" "shell_reliable E" "cni_storage s = Some (storage_ops E A)" "link_obeys N view"
    and "name_ok (cni_node_name s)" "shell_word (cni_node_name s)" "name_ok pod" "shell_word pod"
    and "pod \<noteq> HOST \<longrightarrow> returns (simpleNetns (stored_text (view w) (getNetnsKey (cni_node_name s) pod)))"
    and "\<forall>nic \<in> set nics. nic_readable A (cni_node_name s) (view w) pod nic"
  shows "succeeds (load_nics A (Some N) pod nics p)
    (\<lambda>p' s' w'. p' = p\<lparr>netns_nics := foldl (\<lambda>m k. emplace k (picture_nic A N s (view w) pod k) m) (netns_nics p) nics\<rparr> \<and>
       s' = set_gateway A (bridge_addrs s (view w) pod nics) s \<and> view w' = view w) s w"
  using assms(3,5,6,9,10)
proof (induction nics arbitrary: p s w)
  case Nil
  show ?case by (simp add: action_wp bridge_addrs_def)
next
  case (Cons nic nics)
  let ?nd = "cni_node_name s" and ?m = "view w"
  let ?n0 = "(if pod = HOST \<and> nic = cni_underlay_dev s then Underlay
         else if nic = cc_bridge (cni_conf s) then new_bridge else new_plain)
         \<lparr>nic_name := nic, nic_netlink := Some N\<rparr>"
  let ?n1 = "?n0\<lparr>nic_netns := (if pod = HOST then [] else projr (simpleNetns (stored_text ?m (getNetnsKey ?nd pod))))\<rparr>"
  let ?as = "stored_list ?m (getAddrKey ?nd pod nic)" and ?rs = "stored_list ?m (getRouteKey ?nd pod nic)"
  let ?gw = "set_gateway A (if nic = cc_bridge (cni_conf s) then ?as else []) s"
  have rd: "name_ok nic" "shell_word nic" "\<forall>a \<in> set ?as. returns (addr_getAddrCidr A (Addr A a))" "returns (routes_of ?rs)"
    using Cons.prems(5) by (simp_all add: nic_readable_def)
  note k = readable_words [OF Cons.prems(2,3) assms(7,8)] and get = etcd_shell_up.getters_up [OF assms(1,2)]
  have fresh: "nic_addrs ?n0 = []" "nic_routes ?n0 = []" "nic_netns ?n0 = []" "nic_netlink ?n0 = Some N"
    by (simp_all add: Underlay_def new_bridge_def new_plain_def new_nic_def)
  have netns: "succeeds (if pod \<noteq> HOST
        then seq (stored (\<lambda>S. st_getNetns S ?nd pod)) (\<lambda>netns.
             seq (call_object (nic_setNetns netns ?n0)) (\<lambda>(ok, nic_obj'). ret nic_obj'))
        else ret ?n0) (\<lambda>n s' w'. n = ?n1 \<and> s' = s \<and> view w' = ?m) s w1" if v: "view w1 = ?m" for w1
  proof (cases "pod = HOST")
    case True
    with v fresh show ?thesis by (simp add: action_wp)
  next
    case False
    then obtain simple where si: "simpleNetns (stored_text ?m (getNetnsKey ?nd pod)) = Inr simple"
      using Cons.prems(4) by (auto simp: returns_def split: sum.splits)
    from get(1) [OF k(1), of w1] v obtain w2 where g: "storage_getNetns E ?nd pod w1 =
      (stored_text ?m (getNetnsKey ?nd pod), w2)" "view w2 = ?m" by auto
    from setNetns_up [OF assms(4) fresh(4) si, of w2] g False si Cons.prems(1) show ?thesis
      by (auto simp: action_wp split_beta)
  qed
  have addrs: "succeeds (load_addrs A nic ?as ?n1)
      (\<lambda>n s' w'. n = ?n1\<lparr>nic_addrs := map (Addr A) ?as\<rparr> \<and> s' = ?gw \<and> view w' = ?m) s w1" if "view w1 = ?m" for w1
    by (rule succeeds_mono [OF load_addrs_up [OF assms(4)]]) (use fresh rd that in simp_all)
  have routes: "succeeds (load_routes (projr (routes_of ?rs)) (?n1\<lparr>nic_addrs := map (Addr A) ?as\<rparr>))
      (\<lambda>n s' w'. n = picture_nic A N s ?m pod nic \<and> s' = ?gw \<and> view w' = ?m) ?gw w1" if "view w1 = ?m" for w1
    by (rule succeeds_mono [OF load_routes_up [OF assms(4)]]) (use fresh that in \<open>simp_all add: picture_nic_def\<close>)
  let ?Q = "\<lambda>p' s' w'. p' = p\<lparr>netns_nics := foldl (\<lambda>m k. emplace k (picture_nic A N s ?m pod k) m) (netns_nics p) (nic # nics)\<rparr> \<and>
       s' = set_gateway A (bridge_addrs s ?m pod (nic # nics)) s \<and> view w' = ?m"
  let ?last = "\<lambda>n. succeeds (load_nics A (Some N) pod nics (netns_addNic n p)) ?Q"
  let ?routes = "\<lambda>n. succeeds (stored_throwing (\<lambda>S. st_getAllRoutes S ?nd pod nic)) (\<lambda>rs. succeeds (load_routes rs n) ?last)"
  let ?addrs = "succeeds (stored (\<lambda>S. st_getAllAddrs S ?nd pod nic)) (\<lambda>as. succeeds (load_addrs A nic as ?n1) ?routes)"
  have last: "?last (picture_nic A N s ?m pod nic) ?gw w1" if v: "view w1 = ?m" for w1
    by (rule succeeds_mono [OF Cons.IH])
      (use Cons.prems v in \<open>simp_all add: netns_addNic_def picture_nic_def bridge_addrs_def\<close>)
  have then_routes: "?routes (?n1\<lparr>nic_addrs := map (Addr A) ?as\<rparr>) ?gw w1" if v: "view w1 = ?m" for w1
  proof -
    from get(5) [OF k(5) [OF rd(1,2)], of w1] v obtain w2 where
      b: "storage_getAllRoutes E ?nd pod nic w1 = (routes_of ?rs, w2)" "view w2 = ?m" by auto
    have "succeeds (load_routes (projr (routes_of ?rs)) (?n1\<lparr>nic_addrs := map (Addr A) ?as\<rparr>)) ?last ?gw w2"
      by (rule succeeds_mono [OF routes [OF b(2)]], elim conjE, hypsubst, erule last)
    with b(1) rd(4) Cons.prems(1) show ?thesis
      by (auto simp: succeeds_deref returns_def split: sum.splits)
  qed
  have then_addrs: "?addrs s w1" if v: "view w1 = ?m" for w1
  proof -
    from get(4) [OF k(4) [OF rd(1,2)], of w1] v obtain w2 where
      a: "storage_getAllAddrs E ?nd pod nic w1 = (?as, w2)" "view w2 = ?m" by auto
    have "succeeds (load_addrs A nic ?as ?n1) ?routes s w2"
      by (rule succeeds_mono [OF addrs [OF a(2)]], elim conjE, hypsubst, erule then_routes)
    with a(1) Cons.prems(1) show ?thesis by (simp add: succeeds_deref)
  qed
  show ?case
    unfolding load_nics.simps
    by (rule succeeds_then [OF getStorageNic_up [OF assms(4)]], elim conjE, hypsubst, simp only: option.case succeeds_seq
        succeeds_basic(3), rule succeeds_mono [OF netns], assumption, elim conjE, hypsubst, erule then_addrs)
qed

lemma picture_pod_gateway [simp]: "picture_pod A N (set_gateway A' as s) = picture_pod A N s"
  by (intro ext) (simp add: picture_pod_def)

lemma picture_node_gateway [simp]: "picture_node A N (set_gateway A' as s) = picture_node A N s"
  by (intro ext) (simp add: picture_node_def)

lemma all_bridge_addrs_simps [simp]:
  "all_bridge_addrs (set_gateway A as s) = all_bridge_addrs s" "all_bridge_addrs s m [] = []"
  "all_bridge_addrs s m (pod # pods) =
     bridge_addrs s m pod (stored_list m (getNicKey (cni_node_name s) pod)) @ all_bridge_addrs s m pods"
  by (intro ext, simp_all add: all_bridge_addrs_def)

lemma load_pods_up:
  assumes "shell_serves E view" "shell_reliable E" "cni_storage s = Some (storage_ops E A)" "link_obeys N view"
    and "name_ok (cni_node_name s)" "shell_word (cni_node_name s)"
    and "\<forall>pod \<in> set pods. pod_readable A (cni_node_name s) (view w) pod"
  shows "succeeds (load_pods A (Some N) pods n)
    (\<lambda>n' s' w'. n' = n\<lparr>node_netns := foldl (\<lambda>m k. emplace k (picture_pod A N s (view w) k) m) (node_netns n) pods\<rparr> \<and>
       s' = set_gateway A (all_bridge_addrs s (view w) pods) s \<and> view w' = view w) s w"
  using assms(3,5-7)
proof (induction pods arbitrary: n s w)
  case (Cons pod pods)
  let ?nd = "cni_node_name s" and ?m = "view w"
  let ?nics = "stored_list ?m (getNicKey ?nd pod)"
  let ?gw = "set_gateway A (bridge_addrs s ?m pod ?nics) s"
  let ?Q = "\<lambda>n' s' w'. n' = n\<lparr>node_netns := foldl (\<lambda>m k. emplace k (picture_pod A N s ?m k) m) (node_netns n) (pod # pods)\<rparr> \<and>
       s' = set_gateway A (all_bridge_addrs s ?m (pod # pods)) s \<and> view w' = ?m"
  have rd: "name_ok pod" "shell_word pod" "pod \<noteq> HOST \<longrightarrow> returns (simpleNetns (stored_text ?m (getNetnsKey ?nd pod)))"
    "\<forall>nic \<in> set ?nics. nic_readable A ?nd ?m pod nic"
    using Cons.prems(4) by (simp_all add: pod_readable_def)
  from etcd_shell_up.getters_up(3) [OF assms(1,2) readable_words(3) [OF Cons.prems(2,3) rd(1,2)], of w] obtain w1 where
    g: "storage_getAllNic E ?nd pod w = (?nics, w1)" "view w1 = ?m" by blast
  have nics: "succeeds (load_nics A (Some N) pod ?nics (netns_setName pod new_netns))
      (\<lambda>p s' w'. p = picture_pod A N s ?m pod \<and> s' = ?gw \<and> view w' = ?m) s w1"
    by (rule succeeds_mono [OF load_nics_up [OF assms(1,2) Cons.prems(1) assms(4) Cons.prems(2,3) rd(1,2)]])
      (use g(2) rd in \<open>simp_all add: netns_setName_def new_netns_def picture_pod_def table_of_def\<close>)
  have last: "succeeds (load_pods A (Some N) pods (node_addNetns pod (picture_pod A N s ?m pod) n)) ?Q ?gw w2"
    if v: "view w2 = ?m" for w2
    by (rule succeeds_mono [OF Cons.IH]) (use Cons.prems v in \<open>simp_all add: node_addNetns_def\<close>)
  have "succeeds (load_nics A (Some N) pod ?nics (netns_setName pod new_netns))
      (\<lambda>p. succeeds (load_pods A (Some N) pods (node_addNetns pod p n)) ?Q) s w1"
    by (rule succeeds_mono [OF nics], elim conjE, hypsubst, erule last)
  with g(1) Cons.prems(1) show ?case
    unfolding load_pods.simps by (simp add: succeeds_seq succeeds_basic succeeds_deref)
qed (simp add: action_wp)

text \<open>
  With a cluster that answers, a kernel that obeys and readable records, the cluster is rebuilt:
  it is the picture of the records.
\<close>

lemma getKubernetesCluster_up:
  assumes "shell_serves E1 view" "shell_reliable E1" "shell_serves E2 view" "shell_reliable E2"
    and "cni_ipam s = Some (ipam_ops E1 A)" "cni_storage s = Some (storage_ops E2 A)" "link_obeys N view"
    and "asio_documented A" "q \<le> 32" "view w (subnet_key (cni_node_name s)) = Some (cidr_text net q)"
    and "node_readable A (cni_node_name s) (view w)"
  shows "succeeds (getKubernetesCluster A (Some N))
    (\<lambda>c s' w'. c = [(cni_node_name s, picture_node A N s (view w))] \<and>
       s' = set_gateway A (all_bridge_addrs s (view w) (stored_list (view w) (getAllPodsKey (cni_node_name s)))) s \<and>
       view w' = view w) s w"
proof -
  let ?nd = "cni_node_name s" and ?m = "view w"
  let ?pods = "stored_list ?m (getAllPodsKey ?nd)"
  have nd: "name_ok ?nd" "shell_word ?nd" "\<forall>pod \<in> set ?pods. pod_readable A ?nd ?m pod"
    using assms(11) by (simp_all add: node_readable_def)
  obtain ok sub w1 where sn: "ipam_getSubnet E1 ?nd w = ((ok, sub), w1)" by (metis prod.collapse)
  from etcd_shell.getSubnet_law [OF assms(1) nd(2) assms(10) sn] etcd_shell_up.up_read [OF assms(2)]
  have sub: ok "sub = cidr_text net q" and v1: "view w1 = ?m" by simp_all
  let ?node = "new_node\<lparr>node_name := ?nd, node_subnet := Some (v4_subnet net q),
      node_underlay_addr := Some (Addr A (cni_underlay_addr s)), node_underlay_dev := cni_underlay_dev s\<rparr>"
  have init: "succeeds (initKubernetesNode A sub new_node) (\<lambda>n s' w'. n = ?node \<and> s' = s \<and> w' = w1) s w1"
    unfolding sub(2) by (simp add: initKubernetesNode_def action_wp node_setSubnet_def node_setName_def
        v4_subnet_init [OF assms(8,9)] node_setUnderlayDev_def node_setUnderlayAddr_def)
  from etcd_shell_up.getters_up(2) [OF assms(3,4) readable_words(2) [OF nd(1,2) nd(1,2)], of w1] v1 obtain w2 where
    g: "storage_getAllPods E2 ?nd w1 = (?pods, w2)" "view w2 = ?m" by auto
  have st: "stored_text ?m (subnet_key ?nd) = cidr_text net q" by (rule stored_cidr_text [of "view w", OF assms(10)])
  have pods: "succeeds (load_pods A (Some N) ?pods ?node)
      (\<lambda>n s' w'. cluster_addNode ?nd n [] = [(?nd, picture_node A N s ?m)] \<and>
        s' = set_gateway A (all_bridge_addrs s ?m ?pods) s \<and> view w' = ?m) s w2"
    by (rule succeeds_mono [OF load_pods_up [OF assms(3,4,6,7) nd(1,2)]])
      (use g(2) nd(3) in \<open>simp_all add: picture_node_def cluster_addNode_def emplace_def st v4_subnet_init [OF assms(8,9)]
        table_of_def new_node_def\<close>)
  show ?thesis
    using assms(5,6) sn sub(1) g(1) pods
    by (auto simp: getKubernetesCluster_def action_wp intro!: succeeds_mono [OF init])
qed

lemma map_of_fill:
  "map_of (foldl (\<lambda>m k. emplace k (f k) m) m ks) x =
     (case map_of m x of Some v \<Rightarrow> Some v | None \<Rightarrow> if x \<in> set ks then Some (f x) else None)"
  by (induction ks arbitrary: m) (auto split: option.split)

lemma map_of_table_of [simp]: "map_of (table_of f ks) x = (if x \<in> set ks then Some (f x) else None)"
  by (simp add: table_of_def map_of_fill)

lemma distinct_keys_table_of: "distinct_keys (table_of f ks)"
proof -
  have "distinct_keys (foldl (\<lambda>m k. emplace k (f k) m) m ks)" if "distinct_keys m" for m
    using that by (induction ks arbitrary: m) (simp_all add: distinct_keys_emplace)
  from this [of "[]"] show ?thesis by (simp add: table_of_def distinct_keys_def)
qed

lemma keys_table_of: "fst ` set (table_of f ks) = set ks"
proof -
  have "x \<in> fst ` set (table_of f ks) \<longleftrightarrow> map_of (table_of f ks) x \<noteq> None" for x
    by (simp only: map_of_eq_None_iff not_not)
  then have "x \<in> fst ` set (table_of f ks) \<longleftrightarrow> x \<in> set ks" for x by (simp split: if_splits)
  then show ?thesis unfolding set_eq_iff by blast
qed

lemma length_table_of: "length (table_of f ks) = card (set ks)"
  using distinct_keys_table_of [of f ks] distinct_card [of "map fst (table_of f ks)"]
  by (simp add: distinct_keys_def keys_table_of)

lemma picture_lookups [simp]:
  "node_getNetns pod (picture_node A N s m) =
     (if pod \<in> set (stored_list m (getAllPodsKey (cni_node_name s))) then Some (picture_pod A N s m pod) else None)"
  "netns_getNic nic (picture_pod A N s m pod) =
     (if nic \<in> set (stored_list m (getNicKey (cni_node_name s) pod)) then Some (picture_nic A N s m pod nic) else None)"
  "netns_name (picture_pod A N s m pod) = pod"
  by (simp_all add: node_getNetns_def netns_getNic_def picture_node_def picture_pod_def)

subsection \<open>Around the loading\<close>

text \<open>What a command prints, without a trace in \<open>f\<close> of the world.\<close>

definition host_prints :: "'w host \<Rightarrow> ('w \<Rightarrow> 'v) \<Rightarrow> string \<Rightarrow> string \<Rightarrow> bool" where
  "host_prints sh f cmd text \<longleftrightarrow> text \<noteq> [] \<and>
     (\<forall>w. \<exists>err w'. sh cmd w = (Exited 0 (text @ [CHR 0x0A]) err, w') \<and> f w' = f w)"

text \<open>The name of the node, its default device and the address of that device.\<close>

definition node_described :: "'w host \<Rightarrow> ('w \<Rightarrow> 'v) \<Rightarrow> string \<Rightarrow> string \<Rightarrow> string \<Rightarrow> bool" where
  "node_described sh f node dev addr \<longleftrightarrow> host_prints sh f ''hostname'' node \<and>
     host_prints sh f (''ip route show default | awk '' @ quoted ''/default/ {print $5}'') dev \<and>
     host_prints sh f (''ip addr show '' @ dev @ '' | grep '' @ quoted ''inet '' @ '' | awk '' @ quoted ''{print $2}'') addr"

lemma host_prints_execute:
  assumes "host_prints sh f cmd text"
  shows "\<exists>w'. execute sh cmd out w = ((True, text), w') \<and> f w' = f w"
proof -
  from assms obtain err w' where "sh cmd w = (Exited 0 (text @ [CHR 0x0A]) err, w')" "f w' = f w"
    unfolding host_prints_def by blast
  then show ?thesis by (simp add: execute_Exited)
qed

lemma getNodeInfo_up:
  assumes "node_described sh f node dev addr"
  shows "\<exists>w'. getNodeInfo sh n d a w = ((True, node, dev, addr), w') \<and> f w' = f w"
proof -
  note d = assms [unfolded node_described_def]
  from host_prints_execute [OF conjunct1 [OF d]] obtain w1 where
    1: "execute sh ''hostname'' n w = ((True, node), w1)" "f w1 = f w" by blast
  from host_prints_execute [OF conjunct1 [OF conjunct2 [OF d]]] obtain w2 where
    2: "execute sh (''ip route show default | awk '' @ quoted ''/default/ {print $5}'') d w1 =
      ((True, dev), w2)" "f w2 = f w1" by blast
  from host_prints_execute [OF conjunct2 [OF conjunct2 [OF d]]] obtain w3 where
    3: "execute sh (''ip addr show '' @ dev @ '' | grep '' @ quoted ''inet '' @ '' | awk '' @ quoted ''{print $2}'')
      a w2 = ((True, addr), w3)" "f w3 = f w2" by blast
  have "node \<noteq> []" "dev \<noteq> []" "addr \<noteq> []" using d by (simp_all add: host_prints_def)
  with 1 2 3 have "getNodeInfo sh n d a w = ((True, node, dev, addr), w3)"
    by (simp add: getNodeInfo_def)
  with 1 2 3 show ?thesis by simp
qed

lemma read_node_info_up:
  assumes "node_described sh f node dev addr"
  shows "succeeds (read_node_info sh) (\<lambda>ok s' w'. ok \<and>
    s' = s\<lparr>cni_node_name := node, cni_underlay_dev := dev, cni_underlay_addr := addr\<rparr> \<and> f w' = f w) s w"
  using getNodeInfo_up [OF assms, of "cni_node_name s" "cni_underlay_dev s" "cni_underlay_addr s" w]
  by (auto simp: read_node_info_def action_wp)

text \<open>\<open>etcdctl get --prefix\<close> prints keys and values on lines of their own and changes nothing.\<close>

definition pair_lines :: "(string \<times> string) list \<Rightarrow> string" where
  "pair_lines kvs = concat (map (\<lambda>(k, v). k @ CHR 0x0A # v @ [CHR 0x0A]) kvs)"

definition etcdctl_lists :: "'w host \<Rightarrow> string \<Rightarrow> ('w \<Rightarrow> 'v) \<Rightarrow> bool" where
  "etcdctl_lists run prefix f \<longleftrightarrow>
     (\<forall>k w ch w'. shell_word k \<longrightarrow> run (prefix @ '' get '' @ k @ '' --prefix'') w = (ch, w') \<longrightarrow> f w' = f w \<and>
        (exit_ok ch \<longrightarrow> (\<exists>kvs. child_stdout ch = pair_lines kvs \<and> (\<forall>(k, v) \<in> set kvs. shell_word k \<and> shell_word v))))"

lemma pair_lines_split:
  assumes "\<forall>(k, v) \<in> set kvs. shell_word k \<and> shell_word v" "kvs \<noteq> []"
  shows "\<exists>t. pair_lines kvs = t @ [CHR 0x0A] \<and> split t (CHR 0x0A) = concat (map (\<lambda>(k, v). [k, v]) kvs)"
  using assms
proof (induction kvs)
  case (Cons e kvs)
  obtain k v where e: "e = (k, v)" by fastforce
  with Cons.prems have kv: "CHR 0x0A \<notin> set k" "CHR 0x0A \<notin> set v" "v \<noteq> []"
    using shell_word_chars by auto
  show ?case
  proof (cases "kvs = []")
    case True
    with kv e show ?thesis
      by (intro exI [of _ "k @ CHR 0x0A # v"]) (simp add: pair_lines_def split_sep split_single)
  next
    case False
    with Cons obtain t where t: "pair_lines kvs = t @ [CHR 0x0A]" "split t (CHR 0x0A) = concat (map (\<lambda>(k, v). [k, v]) kvs)"
      by auto
    with kv e show ?thesis
      by (intro exI [of _ "k @ CHR 0x0A # v @ CHR 0x0A # t"]) (simp add: pair_lines_def split_sep)
  qed
qed simp

lemma store_pairs_returns: "\<exists>m'. store_pairs m (concat (map (\<lambda>(k, v). [k, v]) kvs)) = Inr m'"
  by (induction kvs arbitrary: m) auto

lemma dump_up:
  assumes "etcdctl_lists (shell c) (command_prefix c) view" "shell_word k"
  shows "\<exists>t w'. etcd_dump order c k w = (Inr t, w') \<and> view w' = view w"
proof -
  obtain ch w1 where r: "shell c (command_prefix c @ '' get '' @ k @ '' --prefix'') w = (ch, w1)" by fastforce
  with assms have v: "view w1 = view w"
    and o: "exit_ok ch \<Longrightarrow> \<exists>kvs. child_stdout ch = pair_lines kvs \<and> (\<forall>(k, v) \<in> set kvs. shell_word k \<and> shell_word v)"
    by (auto simp: etcdctl_lists_def)
  have "\<exists>m. store_pairs Map.empty (split (pop_newline (child_stdout ch)) (CHR 0x0A)) = Inr m" if "exit_ok ch"
  proof -
    from o [OF that] obtain kvs where k: "child_stdout ch = pair_lines kvs" "\<forall>(k, v) \<in> set kvs. shell_word k \<and> shell_word v"
      by blast
    show ?thesis
    proof (cases "kvs = []")
      case False
      from pair_lines_split [OF k(2) False] k(1) store_pairs_returns [of Map.empty kvs] show ?thesis by auto
    qed (use k(1) in \<open>simp add: pair_lines_def\<close>)
  qed
  then show ?thesis
    using v execute_exit [of "shell c", OF r]
    by (auto simp: etcd_dump_def etcd_get_all_def exit_ok_def split: child.splits)
qed

subsection \<open>A node\<close>

text \<open>The node n1, whatever its world.\<close>

definition demo_describe :: "'w host" where
  "demo_describe cmd m = (Exited 0 ((if cmd = ''hostname'' then ''n1''
     else if cmd = ''ip route show default | awk '' @ quoted ''/default/ {print $5}'' then ''eth0''
     else cidr_text 0x0A000001 24) @ [CHR 0x0A]) [], m)"

lemma demo_described: "node_described demo_describe f ''n1'' ''eth0'' (cidr_text 0x0A000001 24)"
  by (simp add: node_described_def host_prints_def demo_describe_def quoted_def cidr_text_def)

end
