(* ===== verification/Cni_Add.thy ===== *)
theory Cni_Add
  imports Cni_Load Cni_Types
begin

text \<open>
  ADD and DEL of one pod, from the records they find to the records they leave, on a cluster that
  answers and a kernel that obeys.
\<close>

subsection \<open>The records of a pod\<close>

text \<open>The ten records that ADD and DEL of one interface of one pod may touch.\<close>

definition pod_entries :: "string \<Rightarrow> string \<Rightarrow> string \<Rightarrow> string \<Rightarrow> entry list" where
  "pod_entries node ns cid name = [Subnet_of node, Addresses_of node, Netns_of node cid, Pod_of node ns, Pods_of node,
     Nics_of node cid, Addrs_of node cid name, Routes_of node cid name, Vtep_of node]"

declare entry_key.simps(5) [simp del]

lemma pod_entries_distinct:
  assumes "\<forall>x \<in> {node, ns, cid, name}. name_ok x"
  shows "distinct (map entry_key (pod_entries node ns cid name))"
proof -
  have "\<forall>r \<in> set (pod_entries node ns cid name). \<forall>n \<in> set (entry_names r). name_ok n"
    using assms by (simp add: pod_entries_def)
  then have "inj_on entry_key (set (pod_entries node ns cid name))"
    unfolding inj_on_def using entry_key_inject by blast
  moreover have "distinct (pod_entries node ns cid name)" by (simp add: pod_entries_def)
  ultimately show ?thesis by (simp only: distinct_map)
qed

lemma pod_entries_neq:
  assumes "\<forall>x \<in> {node, ns, cid, name}. name_ok x"
  shows "distinct (map entry_key (pod_entries node ns cid name))"
    "distinct (rev (map entry_key (pod_entries node ns cid name)))"
  using pod_entries_distinct [OF assms] by simp_all

text \<open>A pod without any record, and the records of one interface with the address \<open>ip\<close> and the route \<open>rt\<close>.\<close>

definition pod_unknown :: "(string \<rightharpoonup> string) \<Rightarrow> string \<Rightarrow> string \<Rightarrow> string \<Rightarrow> string \<Rightarrow> bool" where
  "pod_unknown m node ns cid name \<longleftrightarrow>
     (\<forall>e \<in> {Netns_of node cid, Pod_of node ns, Nics_of node cid, Addrs_of node cid name, Routes_of node cid name}.
        m (entry_key e) = None)"

definition pod_recorded :: "(string \<rightharpoonup> string) \<Rightarrow> string \<Rightarrow> string \<Rightarrow> string \<Rightarrow> string \<Rightarrow> string \<Rightarrow> string \<Rightarrow> string \<Rightarrow> bool" where
  "pod_recorded m node netns ns cid name ip rt \<longleftrightarrow>
     m (entry_key (Pod_of node ns)) = Some cid \<and> m (getNetnsKey node cid) = Some netns \<and>
     holds m (getNicKey node cid) [name] \<and> holds m (getAddrKey node cid name) [ip] \<and>
     holds m (getRouteKey node cid name) [rt]"

text \<open>A namespace may be given by its path.\<close>

lemma netns_path:
  assumes "simpleNetns netns = Inr ns" "name_ok ns"
  shows "storage_getPod E node netns = storage_getPod E node ns" "storage_addPod E node netns = storage_addPod E node ns"
    "storage_delPod E node netns = storage_delPod E node ns"
  using assms by (auto simp: storage_getPod_def storage_addPod_def storage_delPod_def getSinglePodKey_def simpleNetns_name
      intro!: ext)

lemma storage_pod_sel [simp]:
  "st_getPod (storage_ops E A) = storage_getPod E" "st_addPod (storage_ops E A) = storage_addPod E"
  "st_delPod (storage_ops E A) = storage_delPod E" "st_addNetns (storage_ops E A) = storage_addNetns E"
  "st_delNetns (storage_ops E A) = storage_delNetns E" "st_addNic (storage_ops E A) = storage_addNic E"
  by (simp_all add: storage_ops_def)

lemma part_ok_list_elem: "part_ok s \<Longrightarrow> s \<noteq> [] \<Longrightarrow> list_elem s"
  by (auto simp: part_ok_def list_elem_def shell_word_def)

text \<open>What \<open>create_nic\<close> records before it creates the interface.\<close>

lemma record_pod:
  assumes "shell_serves E view" "shell_reliable E"
    and "\<forall>x \<in> {node, ns, cid, name}. name_ok x \<and> shell_word x" "list_elem cid" "list_elem name"
    and "simpleNetns netns = Inr ns" "shell_word netns" "pod_unknown (view w) node ns cid name"
    and "holds (view w) (getAllPodsKey node) ps"
  obtains w1 w2 w3 w4 where "storage_getPod E node netns w = (Inr [], w1)"
    "storage_addPod E node netns cid w1 = (Inr True, w2)" "storage_addNetns E node cid netns w2 = (True, w3)"
    "storage_addNic E node cid name w3 = (True, w4)"
    "view w4 (entry_key (Pod_of node ns)) = Some cid" "holds (view w4) (getAllPodsKey node) (ps @ [cid])"
    "view w4 (getNetnsKey node cid) = Some netns" "holds (view w4) (getNicKey node cid) [name]"
    "\<forall>j. j \<notin> entry_key ` {Pod_of node ns, Pods_of node, Netns_of node cid, Nics_of node cid} \<longrightarrow> view w4 j = view w j"
proof -
  have nm: "\<forall>x \<in> {node, ns, cid, name}. name_ok x" using assms(3) by blast
  note d = pod_entries_neq [OF nm, unfolded pod_entries_def list.map rev.simps append.simps entry_key.simps(1-4,6-10)]
  have nsok: "name_ok ns" using nm by blast
  note path = netns_path [OF assms(6) nsok]
  have kp: "shell_word (entry_key (Pod_of node ns))" using entry_key_word [of "Pod_of node ns"] assms(3) by simp
  note k = readable_words [of node cid] 
  from etcd_shell_up.get_up [OF assms(1,2) kp, of "[]" w] assms(8) obtain w1 where
    1: "storage_getPod E node netns w = (Inr [], w1)" "view w1 = view w"
    by (auto simp: path(1) storage_getPod_def pod_key [OF nsok] pod_unknown_def stored_text_def)
  have "holds (view w1) (getAllPodsKey node) ps" using assms(9) 1(2) by simp
  from etcd_shell_up.addPod_up [OF assms(1,2) _ _ _ _ assms(4) this] assms(3) obtain w2 where
    2: "storage_addPod E node netns cid w1 = (Inr True, w2)" "view w2 (entry_key (Pod_of node ns)) = Some cid"
      "holds (view w2) (getAllPodsKey node) (ps @ [cid])"
      "\<forall>j. j \<noteq> entry_key (Pod_of node ns) \<and> j \<noteq> getAllPodsKey node \<longrightarrow> view w2 j = view w1 j"
    unfolding path(2) by blast
  from etcd_shell_up.put_up [OF assms(1,2) k(1) assms(7), of w2] assms(3) obtain w3 where
    3: "storage_addNetns E node cid netns w2 = (True, w3)" "view w3 = (view w2)(getNetnsKey node cid \<mapsto> netns)"
    by (auto simp: storage_addNetns_def)
  have "holds (view w3) (getNicKey node cid) []"
    using assms(8) 3(2) 2(4) 1(2) d by (simp add: holds_def pod_unknown_def)
  from etcd_shell_up.append_up [OF assms(1,2) k(3) assms(5) this] assms(3) obtain w4 where
    4: "storage_addNic E node cid name w3 = (True, w4)" "holds (view w4) (getNicKey node cid) [name]"
      "\<forall>j. j \<noteq> getNicKey node cid \<longrightarrow> view w4 j = view w3 j"
    by (auto simp: storage_addNic_def)
  from d 1 2 3 4 show thesis
    by (intro that [of w1 w2 w3 w4]) (simp_all add: holds_def)
qed

subsection \<open>A new interface\<close>

lemma setStatus_keeps:
  assumes "link_obeys N f" "nic_kind n = Veth peer" "nic_netlink n = Some N" "nic_setStatus st n w = ((ok, n'), w')"
  shows "f w' = f w \<and> (n' = n \<or> n' = n\<lparr>nic_status := Some st\<rparr>)"
proof -
  obtain b w1 where 1: "nl_linkSetStatus N peer st [] w = (b, w1)" by fastforce
  obtain b' w2 where 2: "nl_linkSetStatus N (nic_name n) st (nic_netns n) w1 = (b', w2)" by fastforce
  have "f w1 = f w" "f w2 = f w1"
    using link_obeysD(13) [OF assms(1), of peer st "[]" w] link_obeysD(13) [OF assms(1), of "nic_name n" st "nic_netns n" w1] 1 2
    by simp_all
  moreover have "w' = (if b then w2 else w1)" "n' = (if b \<and> b' then n\<lparr>nic_status := Some st\<rparr> else n)"
    using 1 2 assms(4) by (simp_all add: nic_setStatus_def base_setStatus_def assms(2,3) split: bool.splits)
  ultimately show ?thesis by simp
qed

lemma new_veth_up:
  assumes "link_obeys N f" "simpleNetns netns = Inr ns" "name \<noteq> []"
  obtains n1 n2 n3 n4 w1 w2 w3 w4 ok where
    "nic_setup (Some N) (nic_setName tmp (new_veth peer)) w = ((True, n1), w1)"
    "nic_setNetns netns n1 w1 = ((Inr True, n2), w2)" "nic_rename name n2 w2 = ((True, n3), w3)"
    "nic_setStatus UP n3 w3 = ((ok, n4), w4)" "f w4 = f w"
    "nic_name n4 = name" "nic_netlink n4 = Some N" "nic_addrs n4 = []" "nic_routes n4 = []"
proof -
  note o = link_obeysD [OF assms(1)]
  define n1 where "n1 = (nic_setName tmp (new_veth peer))\<lparr>nic_netlink := Some N\<rparr>"
  obtain w1 where 1: "nic_setup (Some N) (nic_setName tmp (new_veth peer)) w = ((True, n1), w1)" "f w1 = f w"
    using o(4,5) by (simp add: n1_def nic_setup_def nic_setName_def new_veth_def new_nic_def veth_setup_def base_setup_def
        split_beta)
  have nl: "nic_netlink n1 = Some N" by (simp add: n1_def)
  define n2 where "n2 = n1\<lparr>nic_netns := ns\<rparr>"
  obtain w2 where 2: "nic_setNetns netns n1 w1 = ((Inr True, n2), w2)" "f w2 = f w1"
    using setNetns_up [OF assms(1) nl assms(2), of w1] unfolding n2_def by (metis prod.collapse)
  define n3 where "n3 = nic_setName name n2"
  obtain w3 where 3: "nic_rename name n2 w2 = ((True, n3), w3)" "f w3 = f w2"
    using o(11,12) nl assms(3) by (simp add: nic_rename_def n2_def n3_def split_beta split: bool.split)
  have n3: "nic_name n3 = name" "nic_netlink n3 = Some N" "nic_addrs n3 = []" "nic_routes n3 = []" "nic_kind n3 = Veth peer"
    by (simp_all add: n3_def n2_def n1_def nic_setName_def new_veth_def new_nic_def)
  obtain ok n4 w4 where 4: "nic_setStatus UP n3 w3 = ((ok, n4), w4)" by (metis prod.collapse)
  note st = setStatus_keeps [OF assms(1) n3(5,2) 4]
  have "f w4 = f w3" and n4: "n4 = n3 \<or> n4 = n3\<lparr>nic_status := Some UP\<rparr>"
    by (rule conjunct1 [OF st], rule conjunct2 [OF st])
  have f: "nic_name n4 = name" "nic_netlink n4 = Some N" "nic_addrs n4 = []" "nic_routes n4 = []"
    by (rule disjE [OF n4], simp only: n3, simp add: n3)+
  show thesis by (rule that [OF 1(1) 2(1) 3(1) 4 _ f]) (simp add: \<open>f w4 = f w3\<close> 1(2) 2(2) 3(2))
qed

lemma nicPluginBridge_up:
  assumes "link_obeys N f" "cni_cluster s = Some c" "cluster_getNode (cni_node_name s) c = Some nd"
    and "node_getNetns HOST nd = Some host" "netns_getNic (cc_bridge (cni_conf s)) host = Some bridge"
    and "is_bridge bridge" "nic_netlink bridge = Some N"
  shows "succeeds (nicPluginBridge name) (\<lambda>_ s' w'. s' = s \<and> f w' = f w) s w"
  using assms(2-) link_obeysD(14,15) [OF assms(1)]
  by (simp add: nicPluginBridge_def action_wp get_node_def getKubernetesPod_def setMaster_def bridge_setImpl_def)

lemma create_nic_up:
  assumes "shell_serves E1 view" "shell_reliable E1" "shell_serves E2 view" "shell_reliable E2"
    and "asio_documented (pf_asio P)" "\<And>w. view (snd (pf_draw P w)) = view w" "link_obeys N view"
    and "cni_ipam s = Some (ipam_ops E1 (pf_asio P))" "cni_storage s = Some (storage_ops E2 (pf_asio P))"
    and "cni_gateway s = Some (Addr (pf_asio P) (cidr_text g q))" "q \<le> 32"
    and "cni_cluster s = Some c" "cluster_getNode (cni_node_name s) c = Some nd"
      "node_getNetns HOST nd = Some host" "netns_getNic (cc_bridge (cni_conf s)) host = Some bridge"
      "is_bridge bridge" "nic_netlink bridge = Some N"
    and "\<forall>x \<in> {cni_node_name s, ns, cid, name}. name_ok x \<and> shell_word x" "list_elem cid" "list_elem name"
    and "simpleNetns netns = Inr ns" "shell_word netns" "netns_name pod = cid"
    and "0 < p" "p < 32" "lease_table (view w) (cni_node_name s) net p xs"
    and "pod_unknown (view w) (cni_node_name s) ns cid name" "holds (view w) (getAllPodsKey (cni_node_name s)) ps"
    and "first_free (host_ips net p) xs = Some ip"
  defines "node \<equiv> cni_node_name s" and "rt \<equiv> getRouteValue [] (dotted g) name"
  shows "succeeds (create_nic P pod name (Some N) peer netns)
    (\<lambda>n s' w'. nic_name n = name \<and> nic_addrs n = [Addr (pf_asio P) ip] \<and> s' = on_pod cid (netns_addNic n) s \<and>
       lease_table (view w') node net p (xs @ [ip]) \<and> pod_recorded (view w') node netns ns cid name ip rt \<and>
       holds (view w') (getAllPodsKey node) (ps @ [cid]) \<and>
       (\<forall>j. j \<notin> entry_key ` (set (pod_entries node ns cid name) - {Subnet_of node, Vtep_of node}) \<longrightarrow>
          view w' j = view w j)) s w"
proof -
  let ?A = "pf_asio P"
  have nm: "\<forall>x \<in> {node, ns, cid, name}. name_ok x \<and> shell_word x" using assms(18) by (simp add: node_def)
  then have nm': "\<forall>x \<in> {node, ns, cid, name}. name_ok x" by blast
  note d = pod_entries_neq [OF nm', unfolded pod_entries_def list.map rev.simps append.simps entry_key.simps(1-4,6-10)]
  note up = assms(3,4)
  from record_pod [OF up nm assms(19,20,21,22) assms(27,28) [folded node_def]] obtain w1 w2 w3 w4 where
    st: "storage_getPod E2 node netns w = (Inr [], w1)" "storage_addPod E2 node netns cid w1 = (Inr True, w2)"
      "storage_addNetns E2 node cid netns w2 = (True, w3)" "storage_addNic E2 node cid name w3 = (True, w4)"
    and v4: "view w4 (entry_key (Pod_of node ns)) = Some cid" "holds (view w4) (getAllPodsKey node) (ps @ [cid])"
      "view w4 (getNetnsKey node cid) = Some netns" "holds (view w4) (getNicKey node cid) [name]"
      "\<forall>j. j \<notin> entry_key ` {Pod_of node ns, Pods_of node, Netns_of node cid, Nics_of node cid} \<longrightarrow> view w4 j = view w j"
    by blast
  obtain dist w5 where dr: "pf_draw P w4 = (dist, w5)" by fastforce
  with assms(6) [of w4] have v5: "view w5 = view w4" by simp
  have "name \<noteq> []" using nm by (simp add: name_ok_def)
  from new_veth_up [OF assms(7) assms(21) this, of "''ohno_'' @ getShortHash (getUniqueId dist IFNAMSIZ False)" peer w5]
  obtain n1 n2 n3 n4 w6 w7 w8 w9 ok where
    ln: "nic_setup (Some N) (nic_setName (''ohno_'' @ getShortHash (getUniqueId dist IFNAMSIZ False)) (new_veth peer)) w5 =
        ((True, n1), w6)"
      "nic_setNetns netns n1 w6 = ((Inr True, n2), w7)" "nic_rename name n2 w7 = ((True, n3), w8)"
      "nic_setStatus UP n3 w8 = ((ok, n4), w9)"
    and n4: "view w9 = view w5" "nic_name n4 = name" "nic_netlink n4 = Some N" "nic_addrs n4 = []" "nic_routes n4 = []"
    by metis
  have br: "succeeds (nicPluginBridge peer) (\<lambda>_ s' w'. s' = s \<and> view w' = view w4) s w9"
    by (rule succeeds_mono [OF nicPluginBridge_up [OF assms(7,12-17)]]) (use n4(1) v5 in simp)
  have h: "lease_table (view w4) node net p xs" "holds (view w4) (getAddrKey node cid name) []"
    "holds (view w4) (getRouteKey node cid name) []"
    using assms(26,27) v4(5) d by (simp_all add: node_def lease_table_def holds_def pod_unknown_def)
  have nm3: "\<forall>x \<in> {cni_node_name s, cid, name}. name_ok x \<and> shell_word x" using nm by (simp add: node_def)
  have cfg: "succeeds (configPodNetwork ?A n4 name cid)
      (\<lambda>n s' w'. s' = s \<and> nic_name n = name \<and> nic_addrs n = [Addr ?A ip] \<and>
         lease_table (view w') node net p (xs @ [ip]) \<and> holds (view w') (getAddrKey node cid name) [ip] \<and>
         holds (view w') (getRouteKey node cid name) [rt] \<and>
         (\<forall>j. j \<notin> {address_key node, getAddrKey node cid name, getRouteKey node cid name} \<longrightarrow>
            view w' j = view w4 j)) s w10" if v: "view w10 = view w4" for w10
    using configPodNetwork_up [OF assms(1-5,8-11) nm3 assms(20,24,25) h [folded v, unfolded node_def] n4(3)
        link_obeysD(1) [OF assms(7)] assms(29)] n4 v
    by (auto simp: node_def rt_def intro!: succeedsI)
  let ?Q = "\<lambda>n s' w'. nic_name n = name \<and> nic_addrs n = [Addr ?A ip] \<and> s' = on_pod cid (netns_addNic n) s \<and>
       lease_table (view w') node net p (xs @ [ip]) \<and> pod_recorded (view w') node netns ns cid name ip rt \<and>
       holds (view w') (getAllPodsKey node) (ps @ [cid]) \<and>
       (\<forall>j. j \<notin> entry_key ` (set (pod_entries node ns cid name) - {Subnet_of node, Vtep_of node}) \<longrightarrow>
          view w' j = view w j)"
  have last: "succeeds (configPodNetwork ?A n4 name cid)
      (\<lambda>n. succeeds (seq (change (on_pod cid (netns_addNic n))) (\<lambda>_. ret n)) ?Q) s w10" if v: "view w10 = view w4" for w10
  proof (rule succeeds_mono [OF cfg [OF v]])
    fix n :: "'a nic" and s' w' assume r: "s' = s \<and> nic_name n = name \<and> nic_addrs n = [Addr ?A ip] \<and>
         lease_table (view w') node net p (xs @ [ip]) \<and> holds (view w') (getAddrKey node cid name) [ip] \<and>
         holds (view w') (getRouteKey node cid name) [rt] \<and>
         (\<forall>j. j \<notin> {address_key node, getAddrKey node cid name, getRouteKey node cid name} \<longrightarrow> view w' j = view w4 j)"
    then have "\<forall>j. j \<notin> {address_key node, getAddrKey node cid name, getRouteKey node cid name} \<longrightarrow> view w' j = view w4 j"
      by blast
    then have "pod_recorded (view w') node netns ns cid name ip rt" "holds (view w') (getAllPodsKey node) (ps @ [cid])"
      "\<forall>j. j \<notin> entry_key ` (set (pod_entries node ns cid name) - {Subnet_of node, Vtep_of node}) \<longrightarrow> view w' j = view w j"
      using r v4 d by (simp_all add: pod_recorded_def holds_def pod_entries_def insert_Diff_if)
    with r show "succeeds (seq (change (on_pod cid (netns_addNic n))) (\<lambda>_. ret n)) ?Q s' w'"
      by (simp add: action_wp)
  qed
  have "succeeds (nicPluginBridge peer) (\<lambda>_. succeeds (configPodNetwork ?A n4 name cid)
      (\<lambda>n. succeeds (seq (change (on_pod cid (netns_addNic n))) (\<lambda>_. ret n)) ?Q)) s w9"
    by (rule succeeds_mono [OF br], elim conjE, hypsubst, erule last)
  with st dr ln assms(9,23) show ?thesis
    by (simp add: create_nic_def Let_def action_wp node_def)
qed

subsection \<open>ADD\<close>

text \<open>
  The records of a node that is set up: they can be read, the root namespace is among its pods \<open>ps\<close>,
  and its bridge \<open>br\<close> has the gateway \<open>gw\<close>.
\<close>

definition node_set_up :: "asio \<Rightarrow> (string \<rightharpoonup> string) \<Rightarrow> string \<Rightarrow> string \<Rightarrow> string list \<Rightarrow> string \<Rightarrow> bool" where
  "node_set_up A m node br ps gw \<longleftrightarrow> node_readable A node m \<and> holds m (getAllPodsKey node) ps \<and>
     HOST \<in> set ps \<and> br \<in> set (stored_list m (getNicKey node HOST)) \<and>
     (\<forall>pod \<in> set ps. br \<in> set (stored_list m (getNicKey node pod)) \<longrightarrow> stored_list m (getAddrKey node pod br) = [gw])"

text \<open>A platform that names the node, its device and its address and leaves \<open>f\<close> of the world alone.\<close>

definition platform_of :: "('w, 'j) platform \<Rightarrow> ('w \<Rightarrow> 'v) \<Rightarrow> string \<Rightarrow> string \<Rightarrow> string \<Rightarrow> bool" where
  "platform_of P f node dev addr \<longleftrightarrow> asio_documented (pf_asio P) \<and>
     node_described (pf_shell P) f node dev addr \<and> (\<forall>w. f (snd (pf_draw P w)) = f w)"

lemma set_gateway_to:
  assumes "set as \<subseteq> {gw}" "as \<noteq> []" "cni_gateway s = None"
  shows "set_gateway A as s = s\<lparr>cni_gateway := Some (Addr A gw)\<rparr>"
  using assms by (cases as) (simp_all add: set_gateway_def)

lemma node_set_up_gateway:
  assumes "node_set_up A m (cni_node_name s) (cc_bridge (cni_conf s)) ps gw" "cni_gateway s = None"
  shows "set_gateway A (all_bridge_addrs s m (stored_list m (getAllPodsKey (cni_node_name s)))) s =
    s\<lparr>cni_gateway := Some (Addr A gw)\<rparr>"
proof (rule set_gateway_to [OF _ _ assms(2)])
  have ps: "stored_list m (getAllPodsKey (cni_node_name s)) = ps"
    using assms(1) by (simp add: node_set_up_def holds_stored_list)
  show "set (all_bridge_addrs s m (stored_list m (getAllPodsKey (cni_node_name s)))) \<subseteq> {gw}"
    unfolding ps using assms(1) by (auto simp: all_bridge_addrs_def bridge_addrs_def node_set_up_def split: if_splits)
  have "gw \<in> set (all_bridge_addrs s m ps)"
    using assms(1) by (force simp: all_bridge_addrs_def bridge_addrs_def node_set_up_def)
  then show "all_bridge_addrs s m (stored_list m (getAllPodsKey (cni_node_name s))) \<noteq> []" unfolding ps by auto
qed

lemma on_pod_sel [simp]:
  "cni_conf (on_node g s) = cni_conf s" "cni_gateway (on_node g s) = cni_gateway s"
  "cni_ipam (on_node g s) = cni_ipam s" "cni_storage (on_node g s) = cni_storage s"
  "cni_mode (on_node g s) = cni_mode s" "cni_conf (on_pod pod h s) = cni_conf s"
  "cni_gateway (on_pod pod h s) = cni_gateway s" "cni_ipam (on_pod pod h s) = cni_ipam s"
  "cni_storage (on_pod pod h s) = cni_storage s" "cni_mode (on_pod pod h s) = cni_mode s"
  "cni_node_name (on_pod pod h s) = cni_node_name s" "cni_underlay_dev (on_pod pod h s) = cni_underlay_dev s"
  by (simp_all add: on_node_def on_pod_def)

text \<open>Loading the picture of a node that is set up, from the object as the command finds it.\<close>

lemma load_node_up:
  assumes "shell_serves E1 view" "shell_reliable E1" "shell_serves E2 view" "shell_reliable E2"
    and "cni_ipam s = Some (ipam_ops E1 A)" "cni_storage s = Some (storage_ops E2 A)" "link_obeys N view"
    and "asio_documented A" "p \<le> 32" "lease_table (view w) (cni_node_name s) net p xs"
    and "node_set_up A (view w) (cni_node_name s) (cc_bridge (cni_conf s)) ps gw" "cni_gateway s = None"
  shows "succeeds (getKubernetesCluster A (Some N))
    (\<lambda>c s' w'. c = [(cni_node_name s, picture_node A N s (view w))] \<and>
       s' = s\<lparr>cni_gateway := Some (Addr A gw)\<rparr> \<and> view w' = view w) s w"
proof -
  have "view w (subnet_key (cni_node_name s)) = Some (cidr_text net p)" "node_readable A (cni_node_name s) (view w)"
    using assms(10,11) by (simp_all add: lease_table_def node_set_up_def)
  from getKubernetesCluster_up [OF assms(1-9) this] node_set_up_gateway [OF assms(11,12)] show ?thesis by simp
qed

text \<open>What ADD does once it has the node.\<close>

definition add_rest :: "('w, 'j) platform \<Rightarrow> string \<Rightarrow> string \<Rightarrow> string \<Rightarrow> 'w netlink_if option \<Rightarrow> 'w ipam_if
    \<Rightarrow> string \<Rightarrow> 'w node \<Rightarrow> ('w, string) action" where
  "add_rest P cid netns nic netlink I name node =
     (let A = pf_asio P; J = pf_json P in
     seq (getKubernetesPod node cid True) (\<lambda>pod.
     seq (getKubernetesNic P pod nic False None [] []) (\<lambda>iface.
     seq (case iface of
            Some n \<Rightarrow> seq (reuse_nic A cid nic n) (\<lambda>n'. ret (Some n'))
          | None \<Rightarrow> getKubernetesNic P pod nic True netlink (''veth_'' @ getShortHash cid) netns) (\<lambda>iface'.
     case iface' of
       None \<Rightarrow> throw (Cni_error 7 (''Failed to get Kubernetes veth pair on pod:'' @ cid @ '' of node:'' @ name))
     | Some n \<Rightarrow>
     seq (call_throwing (ip_dump I)) (\<lambda>ipam_end.
     seq (lift (nic_getAddr A [] n)) (\<lambda>addr_obj.
     seq (lift (case addr_obj of None \<Rightarrow> Inr UNKNOWN_ADDR_V4 | Some a \<Rightarrow> addr_getAddrCidr A a)) (\<lambda>pod_addr.
     seq (state (\<lambda>s. cc_version (cni_conf s))) (\<lambda>version.
     seq (deref cni_gateway) (\<lambda>gw.
     seq (lift (addr_getAddr A gw)) (\<lambda>gateway.
     ret (j_dump J 4 (result_to_json J
       \<lparr>cr_cniversion = version, cr_ips = [\<lparr>cri_address = pod_addr, cri_gateway = gateway\<rparr>],
        cr_interfaces = [\<lparr>ri_name = nic, ri_sandbox = netns\<rparr>]\<rparr>)))))))))))) "

lemma cni_add_rest:
  "cni_add P cid netns nic =
     seq (deref cni_ipam) (\<lambda>I.
     seq (call_throwing (ip_dump I)) (\<lambda>ipam_start.
     seq (state cni_netlink) (\<lambda>netlink.
     seq (require (\<not> Option.is_none netlink) (Cni_error 7 ''Failed to create netlink interface'')) (\<lambda>_.
     seq (read_node_info (pf_shell P)) (\<lambda>ok.
     seq (require ok (Cni_error CNI_ERRCODE_OHNO ''Failed to get current node info'')) (\<lambda>_.
     seq (getKubernetesCluster (pf_asio P) netlink) (\<lambda>cluster.
     seq (change (\<lambda>s. s\<lparr>cni_cluster := Some cluster\<rparr>)) (\<lambda>_.
     seq (state cni_node_name) (\<lambda>name.
     seq (getKubernetesNode P True netlink) (\<lambda>found.
     case found of
       None \<Rightarrow> throw (Cni_error CNI_ERRCODE_OHNO (''Failed to get Kubernetes node:'' @ name))
     | Some node \<Rightarrow> add_rest P cid netns nic netlink I name node))))))))))"
  unfolding cni_add_def add_rest_def Let_def by (rule refl)

text \<open>The records an ADD leaves, with the address \<open>ip\<close>, seen from those it found.\<close>

definition pod_added :: "(string \<rightharpoonup> string) \<Rightarrow> (string \<rightharpoonup> string) \<Rightarrow> string \<Rightarrow> string \<Rightarrow> string \<Rightarrow> string \<Rightarrow> string
    \<Rightarrow> 32 word \<Rightarrow> nat \<Rightarrow> string list \<Rightarrow> string list \<Rightarrow> string \<Rightarrow> string \<Rightarrow> bool" where
  "pod_added m m' node netns ns cid name net p xs ps ip rt \<longleftrightarrow>
     lease_table m' node net p (xs @ [ip]) \<and> pod_recorded m' node netns ns cid name ip rt \<and>
     holds m' (getAllPodsKey node) (ps @ [cid]) \<and>
     (\<forall>j. j \<notin> entry_key ` (set (pod_entries node ns cid name) - {Subnet_of node, Vtep_of node}) \<longrightarrow> m' j = m j)"

definition add_output :: "('w, 'j) platform \<Rightarrow> string \<Rightarrow> string \<Rightarrow> string \<Rightarrow> string \<Rightarrow> string \<Rightarrow> string" where
  "add_output P version ip gw name netns = j_dump (pf_json P) 4 (result_to_json (pf_json P)
     \<lparr>cr_cniversion = version, cr_ips = [\<lparr>cri_address = ip, cri_gateway = gw\<rparr>],
      cr_interfaces = [\<lparr>ri_name = name, ri_sandbox = netns\<rparr>]\<rparr>)"

lemma add_rest_up:
  assumes "shell_serves E1 view" "shell_reliable E1" "shell_serves E2 view" "shell_reliable E2"
    and "\<And>w. \<exists>t w'. ec_dump E1 ETCD_KEY_PREFIX w = (Inr t, w') \<and> view w' = view w"
    and "platform_of P view node' dev addr" "link_obeys N view"
    and "cni_ipam s = Some (ipam_ops E1 (pf_asio P))" "cni_storage s = Some (storage_ops E2 (pf_asio P))"
    and "cni_gateway s = Some (Addr (pf_asio P) (cidr_text g q))" "q \<le> 32"
    and "cni_cluster s = Some [(cni_node_name s, nd)]" "node_getNetns cid nd = None" "node_getNetns HOST nd = Some host"
      "netns_getNic (cc_bridge (cni_conf s)) host = Some bridge" "is_bridge bridge" "nic_netlink bridge = Some N"
    and "\<forall>x \<in> {cni_node_name s, ns, cid, name}. name_ok x \<and> shell_word x" "list_elem cid" "list_elem name"
    and "simpleNetns netns = Inr ns" "shell_word netns"
    and "0 < p" "p < 32" "lease_table (view w) (cni_node_name s) net p xs"
    and "pod_unknown (view w) (cni_node_name s) ns cid name" "holds (view w) (getAllPodsKey (cni_node_name s)) ps"
    and "first_free (host_ips net p) xs = Some ip"
  shows "succeeds (add_rest P cid netns name (Some N) (ipam_ops E1 (pf_asio P)) title nd)
    (\<lambda>out s' w'. out = add_output P (cc_version (cni_conf s)) ip (dotted g) name netns \<and>
       pod_added (view w) (view w') (cni_node_name s) netns ns cid name net p xs ps ip (getRouteValue [] (dotted g) name)) s w"
proof -
  let ?A = "pf_asio P" and ?pod = "netns_setName cid new_netns"
  have P: "asio_documented ?A" "\<And>w. view (snd (pf_draw P w)) = view w"
    using assms(6) by (simp_all add: platform_of_def)
  define s3 where "s3 = on_node (node_addNetns cid ?pod) s"
  have "cid \<noteq> HOST" using assms(13,14) by auto
  have s3: "cni_node_name s3 = cni_node_name s" "cni_ipam s3 = Some (ipam_ops E1 ?A)" "cni_storage s3 = Some (storage_ops E2 ?A)"
    "cni_gateway s3 = Some (Addr ?A (cidr_text g q))" "cni_conf s3 = cni_conf s"
    using assms(8-10) by (simp_all add: s3_def)
  have c3: "cni_cluster s3 = Some [(cni_node_name s, node_addNetns cid ?pod nd)]"
    "cluster_getNode (cni_node_name s3) [(cni_node_name s, node_addNetns cid ?pod nd)] = Some (node_addNetns cid ?pod nd)"
    "node_getNetns HOST (node_addNetns cid ?pod nd) = Some host"
    using assms(12,14) \<open>cid \<noteq> HOST\<close> by (simp_all add: s3_def on_node_def cluster_getNode_def node_getNetns_def node_addNetns_def)
  have pod: "netns_name ?pod = cid" by (simp add: netns_setName_def)
  from first_free_host [OF assms(28)] obtain a where "ip = cidr_text a p" by blast
  with addr_print(1) [OF P(1)] assms(24) have ip: "addr_getAddrCidr ?A (Addr ?A ip) = Inr ip" by simp
  have dump: "\<exists>t. fst (ip_dump (ipam_ops E1 ?A) v) = Inr t" "view (snd (ip_dump (ipam_ops E1 ?A) v)) = view v" for v
    using assms(5) [of v] by (auto simp: ipam_ops_def ipam_dump_def)
  let ?goal = "\<lambda>w'. pod_added (view w) (view w') (cni_node_name s) netns ns cid name net p xs ps ip
       (getRouteValue [] (dotted g) name)"
  have new: "succeeds (create_nic P ?pod name (Some N) peer netns)
      (\<lambda>n s' w'. nic_addrs n = [Addr ?A ip] \<and> cni_gateway s' = Some (Addr ?A (cidr_text g q)) \<and>
         cni_conf s' = cni_conf s \<and> ?goal w') s3 w" for peer
    by (rule succeeds_mono [OF create_nic_up [OF assms(1-4) P assms(7) s3(2-4) assms(11) c3
          assms(15) [folded s3(5)] assms(16,17) assms(18) [folded s3(1)] assms(19-22) pod assms(23,24)
          assms(25-27) [folded s3(1)] assms(28)]])
      (simp_all add: s3 pod_added_def)
  have none: "netns_getNic name ?pod = None"
    by (simp add: netns_getNic_def netns_setName_def new_netns_def)
  show ?thesis
    unfolding add_rest_def Let_def
    by (simp add: action_wp getKubernetesPod_def assms(13) Let_def s3_def [symmetric] getKubernetesNic_def none,
      rule succeeds_mono [OF new], elim conjE,
      simp add: dump nic_getAddr_def ip addr_print(2) [OF P(1) assms(11)] add_output_def pod_added_def)
qed

lemma cni_add_up:
  assumes "shell_serves E1 view" "shell_reliable E1" "shell_serves E2 view" "shell_reliable E2"
    and "\<And>w. \<exists>t w'. ec_dump E1 ETCD_KEY_PREFIX w = (Inr t, w') \<and> view w' = view w"
    and "platform_of P view node dev addr" "link_obeys N view"
    and "cni_ipam s = Some (ipam_ops E1 (pf_asio P))" "cni_storage s = Some (storage_ops E2 (pf_asio P))"
    and "cni_netlink s = Some N" "cni_gateway s = None" "cc_bridge (cni_conf s) \<noteq> dev"
    and "node_set_up (pf_asio P) (view w) node (cc_bridge (cni_conf s)) ps (cidr_text g q)" "q \<le> 32"
    and "\<forall>x \<in> {node, ns, cid, name}. name_ok x \<and> shell_word x" "list_elem cid" "list_elem name" "cid \<notin> set ps"
    and "simpleNetns netns = Inr ns" "shell_word netns"
    and "0 < p" "p < 32" "lease_table (view w) node net p xs"
    and "pod_unknown (view w) node ns cid name" "first_free (host_ips net p) xs = Some ip"
  shows "succeeds (cni_add P cid netns name)
    (\<lambda>out s' w'. out = add_output P (cc_version (cni_conf s)) ip (dotted g) name netns \<and>
       pod_added (view w) (view w') node netns ns cid name net p xs ps ip (getRouteValue [] (dotted g) name)) s w"
proof -
  let ?A = "pf_asio P" and ?m = "view w" and ?br = "cc_bridge (cni_conf s)"
  have P: "asio_documented ?A" "node_described (pf_shell P) view node dev addr"
    using assms(6) by (simp_all add: platform_of_def)
  have nup: "holds ?m (getAllPodsKey node) ps" "HOST \<in> set ps" "?br \<in> set (stored_list ?m (getNicKey node HOST))"
    using assms(13) by (simp_all add: node_set_up_def)
  have pl: "stored_list ?m (getAllPodsKey node) = ps" by (rule holds_stored_list [OF nup(1)])
  define s0 where "s0 = s\<lparr>cni_node_name := node, cni_underlay_dev := dev, cni_underlay_addr := addr\<rparr>"
  define pic where "pic = picture_node ?A N s0 ?m"
  define s2 where "s2 = s0\<lparr>cni_gateway := Some (Addr ?A (cidr_text g q)), cni_cluster := Some [(node, pic)]\<rparr>"
  have s0: "cni_node_name s0 = node" "cni_ipam s0 = Some (ipam_ops E1 ?A)" "cni_storage s0 = Some (storage_ops E2 ?A)"
    "cni_conf s0 = cni_conf s" "cni_gateway s0 = None" "cni_netlink s0 = Some N" "cni_underlay_dev s0 = dev"
    using assms(8-11) by (simp_all add: s0_def)
  have s2: "cni_node_name s2 = node" "cni_ipam s2 = Some (ipam_ops E1 ?A)" "cni_storage s2 = Some (storage_ops E2 ?A)"
    "cni_gateway s2 = Some (Addr ?A (cidr_text g q))" "cni_conf s2 = cni_conf s" "cni_cluster s2 = Some [(node, pic)]"
    by (simp_all add: s2_def s0)
  have pic: "node_getNetns cid pic = None" "node_getNetns HOST pic = Some (picture_pod ?A N s0 ?m HOST)"
    "netns_getNic ?br (picture_pod ?A N s0 ?m HOST) = Some (picture_nic ?A N s0 ?m HOST ?br)"
    "is_bridge (picture_nic ?A N s0 ?m HOST ?br)" "nic_netlink (picture_nic ?A N s0 ?m HOST ?br) = Some N"
    using nup(2,3) assms(12,18) picture_lookups(1) [of HOST ?A N s0 ?m] picture_lookups(1) [of cid ?A N s0 ?m]
    by (simp_all add: pic_def s0 pl picture_nic_def is_bridge_def new_bridge_def new_nic_def)
  obtain t1 w1 where d1: "ip_dump (ipam_ops E1 ?A) w = (Inr t1, w1)" "view w1 = ?m"
    using assms(5) [of w] by (auto simp: ipam_ops_def ipam_dump_def)
  have info: "succeeds (read_node_info (pf_shell P)) (\<lambda>ok s' w'. ok \<and> s' = s0 \<and> view w' = ?m) s w1"
    using read_node_info_up [OF P(2), of s w1] d1(2) by (simp add: s0_def)
  have load: "succeeds (getKubernetesCluster ?A (Some N))
      (\<lambda>c s' w'. c = [(node, pic)] \<and> s' = s0\<lparr>cni_gateway := Some (Addr ?A (cidr_text g q))\<rparr> \<and> view w' = ?m) s0 w1"
    if v: "view w1 = ?m" for w1
    using load_node_up [OF assms(1-4) s0(2,3) assms(7) P(1), of p w1 net xs ps "cidr_text g q"] v assms(13,22,23) s0
    by (simp add: pic_def)
  have rest: "succeeds (add_rest P cid netns name (Some N) (ipam_ops E1 ?A) node pic)
    (\<lambda>out s' w'. out = add_output P (cc_version (cni_conf s)) ip (dotted g) name netns \<and>
       pod_added ?m (view w') node netns ns cid name net p xs ps ip (getRouteValue [] (dotted g) name)) s2 w1"
    if v: "view w1 = ?m" for w1
    using add_rest_up [OF assms(1-7) s2(2-4) assms(14) s2(6) [folded s2(1)] pic(1,2) pic(3-5) [folded s2(5)]
        assms(15) [folded s2(1)] assms(16,17,19-22), of w1 net xs ps ip node] v assms(23-25) nup(1) s2
    by simp
  show ?thesis
    unfolding cni_add_rest
    by (simp add: action_wp assms(8,10) d1, rule succeeds_mono [OF info], elim conjE, hypsubst, simp add: action_wp,
      rule succeeds_mono [OF load], assumption, elim conjE, hypsubst,
      simp add: action_wp s0(1) s2_def [symmetric] getKubernetesNode_def get_node_def s2(1,6) cluster_getNode_def assms(10) rest)
qed

subsection \<open>DEL\<close>

lemma map_of_map_values: "map_of (map (\<lambda>(k, v). (k, g k v)) m) x = map_option (g x) (map_of m x)"
  by (induction m) auto

text \<open>A pod leaves the picture of the node.\<close>

lemma pod_leaves:
  assumes "cni_cluster s = Some [(cni_node_name s, n)]" "distinct_keys (node_netns n)" "node_getNetns cid n \<noteq> None"
  shows "\<exists>n'. cni_cluster (on_node (node_delNetns cid) (on_pod cid h s)) = Some [(cni_node_name s, n')] \<and>
    Suc (node_getNetnsSize n') = length (node_netns n) \<and> node_subnet n' = node_subnet n \<and>
    (\<forall>pod. pod \<noteq> cid \<longrightarrow> node_getNetns pod n' = node_getNetns pod n)"
proof -
  let ?g = "\<lambda>name p. if name = cid then h p else p"
  let ?m = "map (\<lambda>(name, p). (name, ?g name p)) (node_netns n)"
  obtain v where "map_of ?m cid = Some v"
    using assms(3) map_of_map_values [of ?g "node_netns n" cid] by (auto simp: node_getNetns_def)
  moreover have "distinct_keys ?m"
    using assms(2) by (simp add: distinct_keys_def split_beta comp_def)
  ultimately have "length ?m = Suc (length (erase cid ?m))" by (intro length_erase)
  moreover have "map_of (erase cid ?m) pod = map_of (node_netns n) pod" if "pod \<noteq> cid" for pod
    using that by (simp add: map_of_map_values [of ?g] option.map_ident)
  ultimately show ?thesis using assms(1)
    by (simp add: on_pod_def on_node_def node_delNetns_def node_getNetnsSize_def node_getNetns_def)
qed

lemma delKubernetesPod_up:
  assumes "shell_serves E view" "shell_reliable E" "cni_storage s = Some (storage_ops E A)"
    and "\<forall>x \<in> {cni_node_name s, ns, cid}. name_ok x \<and> shell_word x" "simpleNetns netns = Inr ns" "shell_word netns"
    and "view w (entry_key (Pod_of (cni_node_name s) ns)) = Some cid" "view w (getNetnsKey (cni_node_name s) cid) = Some netns"
    and "holds (view w) (getAllPodsKey (cni_node_name s)) ps"
  defines "node \<equiv> cni_node_name s"
  shows "succeeds (delKubernetesPod cid) (\<lambda>_ s' w'. s' = on_node (node_delNetns cid) s \<and>
      view w' (getNetnsKey node cid) = None \<and> view w' (entry_key (Pod_of node ns)) = None \<and>
      holds (view w') (getAllPodsKey node) (removeAll cid ps) \<and>
      (\<forall>j. j \<notin> entry_key ` {Netns_of node cid, Pod_of node ns, Pods_of node} \<longrightarrow> view w' j = view w j)) s w"
proof -
  have nm: "\<forall>x \<in> {node, ns, cid}. name_ok x \<and> shell_word x" using assms(4) by (simp add: node_def)
  then have nm': "\<forall>x \<in> {node, ns, cid, cid}. name_ok x" by blast
  note d = pod_entries_neq [OF nm', unfolded pod_entries_def list.map rev.simps append.simps entry_key.simps(1-4,6-10)]
  have ok: "name_ok node" "shell_word node" "name_ok cid" "shell_word cid" "name_ok ns" "shell_word ns" using nm by simp_all
  note k = readable_words [OF ok(1-4)]
  have t: "stored_text (view w) (getNetnsKey node cid) = netns"
    by (rule stored_word [of "view w", OF assms(8) [folded node_def] assms(6)])
  from etcd_shell_up.getters_up(1) [OF assms(1,2) k(1), of w] obtain w1 where
    1: "storage_getNetns E node cid w = (netns, w1)" "view w1 = view w" unfolding t by blast
  from etcd_shell_up.del_up [OF assms(1,2) k(1), of w1] obtain w2 where
    2: "storage_delNetns E node cid w1 = (True, w2)" "view w2 = (view w1)(getNetnsKey node cid := None)"
    by (auto simp: storage_delNetns_def)
  have h2: "view w2 (entry_key (Pod_of node ns)) = Some cid" "holds (view w2) (getAllPodsKey node) ps"
    using assms(7,9) 1(2) 2(2) d by (simp_all add: node_def holds_def)
  from etcd_shell_up.delPod_up [OF assms(1,2) ok(1,2,5,6) h2(1) ok(4) h2(2)] obtain w3 where
    3: "storage_delPod E node netns w2 = (Inr True, w3)" "view w3 (entry_key (Pod_of node ns)) = None"
      "holds (view w3) (getAllPodsKey node) (removeAll cid ps)"
      "\<forall>j. j \<noteq> entry_key (Pod_of node ns) \<and> j \<noteq> getAllPodsKey node \<longrightarrow> view w3 j = view w2 j"
    unfolding netns_path(3) [OF assms(5) ok(5)] by blast
  have "netns \<noteq> []" using assms(6) by (simp add: shell_word_def)
  with 1 2 3 d assms(3) show ?thesis
    by (simp add: delKubernetesPod_def action_wp node_def)
qed

text \<open>Deleting the one interface of a pod from the picture of the records.\<close>

lemma delete_pictured_nic:
  assumes "shell_serves E1 view" "shell_reliable E1" "shell_serves E2 view" "shell_reliable E2"
    and "asio_documented A" "link_obeys N view"
    and "cni_ipam s = Some (ipam_ops E1 A)" "cni_storage s = Some (storage_ops E2 A)" "cni_mode s = Some mode"
    and "cni_node_name s = cni_node_name s0" "cid \<noteq> HOST"
    and "\<forall>x \<in> {cni_node_name s0, ns, cid, name}. name_ok x \<and> shell_word x"
    and "pod_recorded m (cni_node_name s0) netns ns cid name (cidr_text a p) rt" "p \<le> 32"
    and "lease_table m (cni_node_name s0) net l xs" "view w = m"
  defines "node \<equiv> cni_node_name s0"
  shows "succeeds (delKubernetesNic A (picture_pod A N s0 m cid) name)
    (\<lambda>_ s' w'. s' = on_pod cid (netns_delNic name) s \<and> lease_table (view w') node net l (removeAll (cidr_text a p) xs) \<and>
       view w' (getAddrKey node cid name) = None \<and> view w' (getRouteKey node cid name) = None \<and>
       view w' (getNicKey node cid) = None \<and>
       view w' (getVtepKey node) = (if mode = Mode_vxlan then None else m (getVtepKey node)) \<and>
       (\<forall>j. j \<notin> set (nic_keys node cid name) \<longrightarrow> view w' j = m j) \<and>
       view w' (subnet_key node) = m (subnet_key node)) s w"
proof -
  let ?iface = "picture_nic A N s0 m cid name"
  have rec: "holds m (getNicKey node cid) [name]" "holds m (getAddrKey node cid name) [cidr_text a p]"
    using assms(13) by (simp_all add: pod_recorded_def node_def)
  have nics: "stored_list m (getNicKey node cid) = [name]" "stored_list m (getAddrKey node cid name) = [cidr_text a p]"
    by (rule holds_stored_list [OF rec(1)], rule holds_stored_list [OF rec(2)])
  have get: "netns_getNic name (picture_pod A N s0 m cid) = Some ?iface"
    using nics(1) by (simp add: node_def)
  have addrs: "nic_addrs ?iface = [Addr A (cidr_text a p)]" "nic_netlink ?iface = Some N"
    using nics(2) by (simp_all add: picture_nic_def node_def)
  note pr = addr_print(1) [OF assms(5,14), of a]
  from cleanup_up [OF assms(6) addrs(2), of A w] addrs(1) pr obtain w1 where
    cl: "nic_cleanup A ?iface w = (Inr (), w1)" "view w1 = view w" by auto
  have nm: "\<forall>x \<in> {cni_node_name s, netns_name (picture_pod A N s0 m cid), name}. name_ok x \<and> shell_word x"
    using assms(10,12) by simp
  have host: "netns_name (picture_pod A N s0 m cid) \<noteq> HOST" using assms(11) by simp
  have h: "lease_table (view w) (cni_node_name s) net l xs"
    "holds (view w) (getNicKey (cni_node_name s) (netns_name (picture_pod A N s0 m cid))) [name]"
    using assms(10,15,16) rec(1) by (simp_all add: node_def)
  have "nic_getAddr A [] ?iface = Inr (Some (Addr A (cidr_text a p)))" using addrs(1) by (simp add: nic_getAddr_def)
  from delKubernetesNic_up [OF assms(1-4,7-9) nm get this _ cl h, of "cidr_text a p"] pr host show ?thesis
    by (auto simp: assms(10,16) node_def holds_Nil intro!: succeedsI)
qed

text \<open>The end of DEL: when only the root namespace is left, the node is taken down.\<close>

definition take_down :: "asio \<Rightarrow> string \<Rightarrow> string \<Rightarrow> string \<Rightarrow> 'w node \<Rightarrow> ('w, unit) action" where
  "take_down A name underlay_dev br node =
     seq (getKubernetesPod node HOST False) (\<lambda>host.
     seq (delKubernetesNic A host br) (\<lambda>_.
     seq (delKubernetesNic A host NAME_VXLAN) (\<lambda>_.
     seq (delKubernetesNic A host underlay_dev) (\<lambda>_.
     seq (delKubernetesPod HOST) (\<lambda>_.
     seq (lift (node_getSubnet A node)) (\<lambda>node_sub.
     if node_sub \<noteq> []
     then seq (deref cni_ipam) (\<lambda>I. seq (call (ip_releaseSubnet I name node_sub)) (\<lambda>ok. ret ()))
     else ret ()))))))"

lemma del_body_rest:
  "del_body P container_id nic =
     seq (state cni_netlink) (\<lambda>netlink.
     seq (require (\<not> Option.is_none netlink) (Cni_error 7 ''Failed to create netlink interface'')) (\<lambda>_.
     seq (read_node_info (pf_shell P)) (\<lambda>ok.
     seq (require ok (Cni_error CNI_ERRCODE_OHNO ''Failed to get current node info'')) (\<lambda>_.
     seq (getKubernetesCluster (pf_asio P) netlink) (\<lambda>cluster.
     seq (change (\<lambda>s. s\<lparr>cni_cluster := Some cluster\<rparr>)) (\<lambda>_.
     seq (state (\<lambda>s. (cni_node_name s, cni_underlay_dev s, cc_bridge (cni_conf s)))) (\<lambda>(name, underlay_dev, br).
     seq (getKubernetesNode P False None) (\<lambda>found.
     case found of
       None \<Rightarrow> throw (Cni_error CNI_ERRCODE_OHNO (''Failed to get Kubernetes node:'' @ name))
     | Some node \<Rightarrow>
     seq (getKubernetesPod node container_id False) (\<lambda>pod.
     seq (delKubernetesNic (pf_asio P) pod nic) (\<lambda>_.
     seq (delKubernetesPod container_id) (\<lambda>_.
     seq get_node (\<lambda>found'.
     case found' of
       None \<Rightarrow> throw Undefined_behaviour
     | Some node' \<Rightarrow>
     if node_getNetnsSize node' = 1 then take_down (pf_asio P) name underlay_dev br node' else ret ()))))))))))))"
  unfolding del_body_def take_down_def Let_def by (rule refl)

text \<open>The records a DEL leaves, seen from those it found, but for what it does to the node.\<close>

definition pod_deleted :: "(string \<rightharpoonup> string) \<Rightarrow> (string \<rightharpoonup> string) \<Rightarrow> string \<Rightarrow> string \<Rightarrow> string \<Rightarrow> string
    \<Rightarrow> 32 word \<Rightarrow> nat \<Rightarrow> string list \<Rightarrow> string list \<Rightarrow> string \<Rightarrow> ipam_mode \<Rightarrow> bool" where
  "pod_deleted m m' node ns cid name net p xs ps ip mode \<longleftrightarrow>
     lease_table m' node net p (removeAll ip xs) \<and> pod_unknown m' node ns cid name \<and>
     holds m' (getAllPodsKey node) (removeAll cid ps) \<and>
     m' (getVtepKey node) = (if mode = Mode_vxlan then None else m (getVtepKey node)) \<and>
     (\<forall>j. j \<notin> entry_key ` set (pod_entries node ns cid name) \<longrightarrow> m' j = m j)"

lemma del_pod_up:
  assumes "shell_serves E1 view" "shell_reliable E1" "shell_serves E2 view" "shell_reliable E2"
    and "asio_documented A" "link_obeys N view"
    and "cni_ipam s = Some (ipam_ops E1 A)" "cni_storage s = Some (storage_ops E2 A)" "cni_mode s = Some mode"
    and "cni_node_name s0 = cni_node_name s" "holds (view w) (getAllPodsKey (cni_node_name s)) ps" "cid \<noteq> HOST"
    and "\<forall>x \<in> {cni_node_name s, ns, cid, name}. name_ok x \<and> shell_word x" "simpleNetns netns = Inr ns" "shell_word netns"
    and "pod_recorded (view w) (cni_node_name s) netns ns cid name (cidr_text a p) rt" "p \<le> 32"
    and "lease_table (view w) (cni_node_name s) net p xs"
  shows "succeeds (seq (delKubernetesNic A (picture_pod A N s0 (view w) cid) name) (\<lambda>_. delKubernetesPod cid))
    (\<lambda>_ s' w'. s' = on_node (node_delNetns cid) (on_pod cid (netns_delNic name) s) \<and>
       pod_deleted (view w) (view w') (cni_node_name s) ns cid name net p xs ps (cidr_text a p) mode) s w"
proof -
  let ?nd = "cni_node_name s" and ?m = "view w" and ?xs = "removeAll (cidr_text a p) xs"
  have nm': "\<forall>x \<in> {?nd, ns, cid, name}. name_ok x" using assms(13) by blast
  note d = pod_entries_neq [OF nm', unfolded pod_entries_def list.map rev.simps append.simps entry_key.simps(1-4,6-10)]
  define vt where "vt = (if mode = Mode_vxlan then None else ?m (getVtepKey ?nd))"
  define s3 where "s3 = on_pod cid (netns_delNic name) s"
  have s3: "cni_node_name s3 = ?nd" "cni_storage s3 = Some (storage_ops E2 A)" by (simp_all add: s3_def assms(8))
  have nic: "succeeds (delKubernetesNic A (picture_pod A N s0 ?m cid) name)
    (\<lambda>_ s' w'. s' = s3 \<and> lease_table (view w') ?nd net p ?xs \<and>
       view w' (getAddrKey ?nd cid name) = None \<and> view w' (getRouteKey ?nd cid name) = None \<and>
       view w' (getNicKey ?nd cid) = None \<and> view w' (getVtepKey ?nd) = vt \<and>
       (\<forall>j. j \<notin> set (nic_keys ?nd cid name) \<longrightarrow> view w' j = ?m j) \<and> view w' (subnet_key ?nd) = ?m (subnet_key ?nd)) s w"
    unfolding s3_def vt_def
    by (rule delete_pictured_nic [OF assms(1-9) _ assms(12), where ?s0.0 = s0 and m = ?m, unfolded assms(10)])
      (use assms(10,13,16-18) in simp_all)
  have pod: "succeeds (delKubernetesPod cid) (\<lambda>_ s' w'. s' = on_node (node_delNetns cid) s3 \<and>
      pod_deleted ?m (view w') ?nd ns cid name net p xs ps (cidr_text a p) mode) s3 w1"
    if h: "lease_table (view w1) ?nd net p ?xs" "view w1 (getAddrKey ?nd cid name) = None"
      "view w1 (getRouteKey ?nd cid name) = None" "view w1 (getNicKey ?nd cid) = None"
      "view w1 (getVtepKey ?nd) = vt" "\<forall>j. j \<notin> set (nic_keys ?nd cid name) \<longrightarrow> view w1 j = ?m j" for w1
  proof -
    have "view w1 (entry_key (Pod_of ?nd ns)) = Some cid" "view w1 (getNetnsKey ?nd cid) = Some netns"
      "holds (view w1) (getAllPodsKey ?nd) ps"
      using h(6) assms(11,16) d by (simp_all add: nic_keys_def pod_recorded_def holds_def)
    with delKubernetesPod_up [OF assms(3,4) s3(2), of ns cid netns w1 ps, unfolded s3(1)] assms(13-15)
    have "succeeds (delKubernetesPod cid) (\<lambda>_ s' w'. s' = on_node (node_delNetns cid) s3 \<and>
      view w' (getNetnsKey ?nd cid) = None \<and> view w' (entry_key (Pod_of ?nd ns)) = None \<and>
      holds (view w') (getAllPodsKey ?nd) (removeAll cid ps) \<and>
      (\<forall>j. j \<notin> entry_key ` {Netns_of ?nd cid, Pod_of ?nd ns, Pods_of ?nd} \<longrightarrow> view w' j = view w1 j)) s3 w1"
      by simp
    then show ?thesis
      by (rule succeeds_mono)
        (use h d in \<open>simp add: pod_deleted_def vt_def lease_table_def holds_def pod_unknown_def nic_keys_def pod_entries_def\<close>)
  qed
  show ?thesis unfolding s3_def [symmetric]
    by (rule succeeds_then [OF nic], elim conjE, simp only:, rule pod, assumption+)
qed

text \<open>The state in which DEL decides whether to take the node down, and what it does then.\<close>

lemma del_body_then:
  assumes "shell_serves E1 view" "shell_reliable E1" "shell_serves E2 view" "shell_reliable E2"
    and "platform_of P view node dev addr" "link_obeys N view"
    and "cni_ipam s = Some (ipam_ops E1 (pf_asio P))" "cni_storage s = Some (storage_ops E2 (pf_asio P))"
    and "cni_netlink s = Some N" "cni_mode s = Some mode"
    and "node_readable (pf_asio P) node (view w)" "holds (view w) (getAllPodsKey node) ps" "cid \<in> set ps" "cid \<noteq> HOST"
    and "\<forall>x \<in> {node, ns, cid, name}. name_ok x \<and> shell_word x" "simpleNetns netns = Inr ns" "shell_word netns"
    and "pod_recorded (view w) node netns ns cid name (cidr_text a p) rt" "p \<le> 32"
    and "lease_table (view w) node net p xs"
  defines "s0 \<equiv> s\<lparr>cni_node_name := node, cni_underlay_dev := dev, cni_underlay_addr := addr\<rparr>"
  assumes decide: "\<And>s' w' n. cni_node_name s' = node \<Longrightarrow> cni_ipam s' = cni_ipam s \<Longrightarrow> cni_storage s' = cni_storage s \<Longrightarrow>
      cni_mode s' = Some mode \<Longrightarrow> cni_underlay_dev s' = dev \<Longrightarrow> Suc (node_getNetnsSize n) = card (set ps) \<Longrightarrow>
      node_subnet n = Some (v4_subnet net p) \<Longrightarrow>
      node_getNetns HOST n = (if HOST \<in> set ps then Some (picture_pod (pf_asio P) N s0 (view w) HOST) else None) \<Longrightarrow>
      pod_deleted (view w) (view w') node ns cid name net p xs ps (cidr_text a p) mode \<Longrightarrow>
      succeeds (if node_getNetnsSize n = 1 then take_down (pf_asio P) node dev (cc_bridge (cni_conf s)) n else ret ()) Q s' w'"
  shows "succeeds (del_body P cid name) Q s w"
proof -
  let ?A = "pf_asio P" and ?m = "view w" and ?br = "cc_bridge (cni_conf s)"
  have P: "asio_documented ?A" "node_described (pf_shell P) view node dev addr"
    using assms(5) by (simp_all add: platform_of_def)
  define pic where "pic = picture_node ?A N s0 ?m"
  define s1 where "s1 = set_gateway ?A (all_bridge_addrs s0 ?m (stored_list ?m (getAllPodsKey node))) s0"
  define s2 where "s2 = s1\<lparr>cni_cluster := Some [(node, pic)]\<rparr>"
  define s4 where "s4 = on_node (node_delNetns cid) (on_pod cid (netns_delNic name) s2)"
  have s0: "cni_node_name s0 = node" "cni_ipam s0 = Some (ipam_ops E1 ?A)" "cni_storage s0 = Some (storage_ops E2 ?A)"
    "cni_conf s0 = cni_conf s" "cni_underlay_dev s0 = dev"
    using assms(7,8) by (simp_all add: s0_def)
  have s2: "cni_node_name s2 = node" "cni_ipam s2 = Some (ipam_ops E1 ?A)" "cni_storage s2 = Some (storage_ops E2 ?A)"
    "cni_cluster s2 = Some [(node, pic)]" "cni_mode s2 = Some mode" "cni_underlay_dev s2 = dev" "cni_conf s2 = cni_conf s"
    using assms(10) by (simp_all add: s2_def s1_def s0) (simp add: s0_def)
  have pl: "stored_list ?m (getAllPodsKey node) = ps" by (rule holds_stored_list [OF assms(12)])
  have sub: "?m (subnet_key node) = Some (cidr_text net p)" using assms(20) by (simp add: lease_table_def)
  have info: "succeeds (read_node_info (pf_shell P)) (\<lambda>ok s' w'. ok \<and> s' = s0 \<and> view w' = ?m) s w"
    using read_node_info_up [OF P(2), of s w] by (simp add: s0_def)
  have load: "succeeds (getKubernetesCluster ?A (Some N)) (\<lambda>c s' w'. c = [(node, pic)] \<and> s' = s1 \<and> view w' = ?m) s0 w1"
    if v: "view w1 = ?m" for w1
    using getKubernetesCluster_up [OF assms(1-4) s0(2,3) assms(6) P(1) assms(19), of w1 net] v assms(11) sub
    by (simp add: s0(1) pic_def s1_def)
  have found: "node_getNetns cid pic = Some (picture_pod ?A N s0 ?m cid)"
    "node_getNetns HOST pic = (if HOST \<in> set ps then Some (picture_pod ?A N s0 ?m HOST) else None)"
    using assms(13) picture_lookups(1) [of cid ?A N s0 ?m] picture_lookups(1) [of HOST ?A N s0 ?m]
    by (simp_all add: pic_def s0(1) pl)
  have psub: "node_subnet pic = Some (v4_subnet net p)"
    using stored_cidr_text [of "view w", OF sub] by (simp add: pic_def picture_node_def s0(1) v4_subnet_init [OF P(1) assms(19)])
  have dk: "distinct_keys (node_netns pic)" "length (node_netns pic) = card (set ps)"
    by (simp_all add: pic_def picture_node_def distinct_keys_table_of length_table_of s0(1) pl)
  from pod_leaves [of s2 pic cid "netns_delNic name", OF _ dk(1)] found(1) s2(1,4) obtain n where
    n: "cni_cluster s4 = Some [(node, n)]" "Suc (node_getNetnsSize n) = card (set ps)" "node_subnet n = Some (v4_subnet net p)"
      "node_getNetns HOST n = (if HOST \<in> set ps then Some (picture_pod ?A N s0 ?m HOST) else None)"
    using assms(14) found(2) psub by (auto simp: s4_def dk(2))
  have s4: "cni_node_name s4 = node" "cni_ipam s4 = cni_ipam s" "cni_storage s4 = cni_storage s" "cni_mode s4 = Some mode"
    "cni_underlay_dev s4 = dev"
    using s2 assms(7,8) by (simp_all add: s4_def) (simp add: on_node_def on_pod_def)
  have pod: "succeeds (seq (delKubernetesNic ?A (picture_pod ?A N s0 ?m cid) name) (\<lambda>_. delKubernetesPod cid))
    (\<lambda>_ s' w'. s' = s4 \<and> pod_deleted ?m (view w') node ns cid name net p xs ps (cidr_text a p) mode) s2 w1"
    if v: "view w1 = ?m" for w1
    using del_pod_up [OF assms(1-4) P(1) assms(6) s2(2,3,5), of s0 w1 ps cid ns name netns a p rt net xs] v assms(12,14-20) s2(1) s0(1)
    by (simp add: s4_def)
  have last: "succeeds (if node_getNetnsSize n = 1 then take_down ?A node dev ?br n else ret ()) Q s4 w1"
    if "pod_deleted ?m (view w1) node ns cid name net p xs ps (cidr_text a p) mode" for w1
    by (rule decide [OF s4 n(2-4) that])
  show ?thesis
    unfolding del_body_rest
    by (simp add: action_wp assms(9), rule succeeds_mono [OF info], elim conjE, hypsubst, simp add: action_wp,
      rule succeeds_mono [OF load], assumption, elim conjE, hypsubst,
      simp add: action_wp s2_def [symmetric],
      simp add: action_wp getKubernetesNode_def get_node_def s2(1,4,6,7) cluster_getNode_def getKubernetesPod_def found(1),
      rule succeeds_mono [OF pod [unfolded succeeds_seq]], assumption, erule succeeds_mono, erule conjE, hypsubst,
      drule last, simp add: action_wp get_node_def s2(1,6,7) s4(1) n(1) cluster_getNode_def split: if_splits)
qed

text \<open>With another pod left beside the root namespace, the node stays.\<close>

lemma del_body_up:
  assumes "shell_serves E1 view" "shell_reliable E1" "shell_serves E2 view" "shell_reliable E2"
    and "platform_of P view node dev addr" "link_obeys N view"
    and "cni_ipam s = Some (ipam_ops E1 (pf_asio P))" "cni_storage s = Some (storage_ops E2 (pf_asio P))"
    and "cni_netlink s = Some N" "cni_mode s = Some mode"
    and "node_readable (pf_asio P) node (view w)" "holds (view w) (getAllPodsKey node) ps" "cid \<in> set ps" "cid \<noteq> HOST"
    and "\<forall>x \<in> {node, ns, cid, name}. name_ok x \<and> shell_word x" "simpleNetns netns = Inr ns" "shell_word netns"
    and "pod_recorded (view w) node netns ns cid name (cidr_text a p) rt" "p \<le> 32"
    and "lease_table (view w) node net p xs" "2 < card (set ps)"
  shows "succeeds (del_body P cid name)
    (\<lambda>_ s' w'. pod_deleted (view w) (view w') node ns cid name net p xs ps (cidr_text a p) mode) s w"
  by (rule del_body_then [OF assms(1-20)]) (use assms(21) in \<open>auto simp: action_wp\<close>)

end
