(* ===== verification/Cni_Setup.thy ===== *)
theory Cni_Setup
  imports Cni_Add
begin

text \<open>
  The first ADD on a node that has no subnet yet, which sets the node up (\<open>create_node\<close>), and the last
  DEL, which takes it down: from the records they find to the records they leave.
\<close>

subsection \<open>The records of a node\<close>

text \<open>
  The records that setting up a node with the bridge \<open>br\<close> and the device \<open>dev\<close> may touch, but for the VTEP
  record, which only the vxlan mode writes.
\<close>

definition host_entries :: "string \<Rightarrow> string \<Rightarrow> string \<Rightarrow> entry list" where
  "host_entries node br dev = [Subnet_of node, Addresses_of node, Netns_of node HOST, Pod_of node HOST, Pods_of node,
     Nics_of node HOST, Addrs_of node HOST br, Routes_of node HOST br, Addrs_of node HOST NAME_VXLAN,
     Routes_of node HOST NAME_VXLAN, Addrs_of node HOST dev, Routes_of node HOST dev]"

lemma name_ok_HOST [simp]: "name_ok HOST" "shell_word HOST" "list_elem HOST" "simpleNetns HOST = Inr HOST"
  by (simp_all add: name_ok_def HOST_def shell_word_def word_char_def list_elem_def simpleNetns_def contains_sub_def
      PATH_NAMESPACE_def)

lemma name_ok_NAME_VXLAN [simp]: "name_ok NAME_VXLAN" "shell_word NAME_VXLAN" "list_elem NAME_VXLAN"
  by (simp_all add: name_ok_def NAME_VXLAN_def shell_word_def word_char_def list_elem_def)

lemma host_entries_neq:
  assumes "\<forall>x \<in> {node, br, dev}. name_ok x" "br \<noteq> dev" "NAME_VXLAN \<notin> {br, dev}"
  shows "distinct (map entry_key (Vtep_of node # Subnets # host_entries node br dev))"
    "distinct (rev (map entry_key (Vtep_of node # Subnets # host_entries node br dev)))"
proof -
  have "\<forall>r \<in> set (Vtep_of node # Subnets # host_entries node br dev). \<forall>n \<in> set (entry_names r). name_ok n"
    using assms(1) by (simp add: host_entries_def)
  then have "inj_on entry_key (set (Vtep_of node # Subnets # host_entries node br dev))"
    unfolding inj_on_def using entry_key_inject by blast
  moreover have "distinct (Vtep_of node # Subnets # host_entries node br dev)" using assms(2,3) by (auto simp: host_entries_def)
  ultimately show "distinct (map entry_key (Vtep_of node # Subnets # host_entries node br dev))"
    "distinct (rev (map entry_key (Vtep_of node # Subnets # host_entries node br dev)))"
    by (simp_all only: distinct_map distinct_rev)
qed

definition node_unknown :: "(string \<rightharpoonup> string) \<Rightarrow> string \<Rightarrow> string \<Rightarrow> string \<Rightarrow> bool" where
  "node_unknown m node br dev \<longleftrightarrow> (\<forall>e \<in> set (host_entries node br dev). m (entry_key e) = None)"

text \<open>The interfaces of the root namespace, in the vxlan mode (\<open>vx\<close>) and in the others.\<close>

definition host_nics :: "bool \<Rightarrow> string \<Rightarrow> string \<Rightarrow> string list" where
  "host_nics vx br dev = br # (if vx then [NAME_VXLAN] else []) @ [dev]"

definition node_recorded :: "bool \<Rightarrow> (string \<rightharpoonup> string) \<Rightarrow> string \<Rightarrow> string \<Rightarrow> string \<Rightarrow> 32 word \<Rightarrow> string \<Rightarrow> bool" where
  "node_recorded vx m node br dev net gw \<longleftrightarrow>
     m (getNetnsKey node HOST) = Some HOST \<and> m (entry_key (Pod_of node HOST)) = Some HOST \<and>
     holds m (getNicKey node HOST) (host_nics vx br dev) \<and> holds m (getAddrKey node HOST br) [gw] \<and>
     holds m (getAddrKey node HOST NAME_VXLAN) (if vx then [cidr_text net 32] else []) \<and>
     m (getAddrKey node HOST dev) = None \<and> m (getRouteKey node HOST br) = None \<and>
     m (getRouteKey node HOST NAME_VXLAN) = None \<and> m (getRouteKey node HOST dev) = None"

definition node_created :: "bool \<Rightarrow> (string \<rightharpoonup> string) \<Rightarrow> (string \<rightharpoonup> string) \<Rightarrow> string \<Rightarrow> string \<Rightarrow> string \<Rightarrow> 32 word
    \<Rightarrow> nat \<Rightarrow> string list \<Rightarrow> string \<Rightarrow> string \<Rightarrow> bool" where
  "node_created vx m m' node br dev net p subs gw mac \<longleftrightarrow>
     lease_table m' node net p [gw] \<and> holds m' ETCD_KEY_SUBNET (subs @ [cidr_text net p]) \<and>
     holds m' (getAllPodsKey node) [HOST] \<and> node_recorded vx m' node br dev net gw \<and>
     m' (getVtepKey node) = (if vx then Some (getVtepValue (dotted net) mac) else m (getVtepKey node)) \<and>
     (\<forall>j. j \<notin> entry_key ` set (Vtep_of node # Subnets # host_entries node br dev) \<longrightarrow> m' j = m j)"

text \<open>A node that was just created is set up.\<close>

lemma created_is_set_up:
  assumes "node_created vx m m' node br dev net p subs gw mac" "\<forall>x \<in> {node, br, dev}. name_ok x \<and> shell_word x"
    and "br \<noteq> dev" "NAME_VXLAN \<notin> {br, dev}" "asio_documented A" "gw = cidr_text g q" "q \<le> 32"
  shows "node_set_up A m' node br [HOST] gw"
proof -
  have r: "stored_list m' (getNicKey node HOST) = host_nics vx br dev" "stored_list m' (getAddrKey node HOST br) = [gw]"
    "stored_list m' (getAllPodsKey node) = [HOST]"
    "stored_list m' (getAddrKey node HOST NAME_VXLAN) = (if vx then [cidr_text net 32] else [])"
    using assms(1) by (simp_all add: node_created_def node_recorded_def holds_stored_list)
  have n: "stored_list m' (getRouteKey node HOST br) = []" "stored_list m' (getAddrKey node HOST dev) = []"
    "stored_list m' (getRouteKey node HOST dev) = []" "stored_list m' (getRouteKey node HOST NAME_VXLAN) = []"
    using assms(1) by (simp_all add: node_created_def node_recorded_def stored_list_def stored_text_def)
  have "node_readable A node m'"
    using assms(2,6) addr_print(1) [OF assms(5,7), of g] addr_print(1) [OF assms(5), of 32 net]
    by (auto simp: node_readable_def pod_readable_def nic_readable_def r n returns_def host_nics_def)
  with assms(1) r show ?thesis by (simp add: node_set_up_def node_created_def host_nics_def)
qed

subsection \<open>Setting up\<close>

lemma no_cluster_yet:
  assumes "shell_serves E view" "shell_reliable E" "cni_ipam s = Some (ipam_ops E A)"
    and "shell_word (cni_node_name s)" "view w (subnet_key (cni_node_name s)) = None"
  shows "succeeds (getKubernetesCluster A N) (\<lambda>c s' w'. c = [] \<and> s' = s \<and> view w' = view w) s w"
proof -
  from etcd_shell_up.get_up [OF assms(1,2) key_shell_word(1) [OF assms(4)], of "[]" w] assms(5) obtain w1 where
    "ec_get E (subnet_key (cni_node_name s)) [] w = ((True, []), w1)" "view w1 = view w" by (auto simp: stored_text_def)
  then show ?thesis
    by (simp add: getKubernetesCluster_def action_wp assms(3) ipam_ops_def ipam_getSubnet_def)
qed

lemma device_setStatus:
  assumes "link_obeys N f" "\<forall>p. nic_kind n \<noteq> Veth p" "nic_netlink n = Some N"
  shows "f (snd (nic_setStatus st n w)) = f w" "nic_name (snd (fst (nic_setStatus st n w))) = nic_name n"
    "nic_netlink (snd (fst (nic_setStatus st n w))) = Some N" "nic_kind (snd (fst (nic_setStatus st n w))) = nic_kind n"
  using assms(2,3) link_obeysD(13) [OF assms(1)]
  by (cases "nic_kind n"; simp add: nic_setStatus_def base_setStatus_def split_beta split: bool.split)+

lemma getBridge_up:
  assumes "shell_serves E view" "shell_reliable E" "asio_documented A" "link_obeys N view" "p \<le> 32"
    and "cni_storage s = Some (storage_ops E A)" "br = cc_bridge (cni_conf s)"
    and "\<forall>x \<in> {cni_node_name s, br}. name_ok x \<and> shell_word x" "list_elem br"
    and "view w (getNicKey (cni_node_name s) HOST) = None" "view w (getAddrKey (cni_node_name s) HOST br) = None"
  defines "node \<equiv> cni_node_name s"
  shows "succeeds (getBridge A (Some N) (cidr_text g p)) (\<lambda>b s' w'. s' = s \<and>
      nic_name b = br \<and> is_bridge b \<and> nic_netlink b = Some N \<and>
      holds (view w') (getNicKey node HOST) [br] \<and> holds (view w') (getAddrKey node HOST br) [cidr_text g p] \<and>
      (\<forall>j. j \<notin> {getNicKey node HOST, getAddrKey node HOST br} \<longrightarrow> view w' j = view w j)) s w"
proof -
  let ?gw = "cidr_text g p"
  have nm: "\<forall>x \<in> {node, HOST, br}. name_ok x \<and> shell_word x" using assms(8) by (simp add: node_def)
  then have nm': "\<forall>x \<in> {node, HOST, br}. name_ok x" by blast
  note d = nic_keys_neq [OF nm', unfolded nic_keys_def rev.simps append.simps]
  have "holds (view w) (getNicKey node HOST) []" using assms(10) by (simp add: holds_def node_def)
  from etcd_shell_up.append_up [OF assms(1,2) nic_key_words(3) [OF nm] assms(9) this] obtain w1 where
    1: "storage_addNic E node HOST br w = (True, w1)" "holds (view w1) (getNicKey node HOST) [br]"
      "\<forall>j. j \<noteq> getNicKey node HOST \<longrightarrow> view w1 j = view w j"
    by (auto simp: storage_addNic_def)
  define n1 where "n1 = (nic_setName br new_bridge)\<lparr>nic_netlink := Some N\<rparr>"
  obtain w2 where 2: "nic_setup (Some N) (nic_setName br new_bridge) w1 = ((True, n1), w2)" "view w2 = view w1"
    using link_obeysD(3,6,7) [OF assms(4)]
    by (simp add: n1_def nic_setup_def nic_setName_def new_bridge_def new_nic_def bridge_setup_def base_setup_def
        created_def Let_def split_beta split: bool.split)
  have nl: "nic_netlink n1 = Some N" by (simp add: n1_def)
  define n2 where "n2 = n1\<lparr>nic_addrs := nic_addrs n1 @ [Addr A ?gw]\<rparr>"
  from addAddr_sets [OF link_obeysD(1) [OF assms(4)] nl addr_print(1) [OF assms(3,5)], of g w2] obtain w3 where
    3: "nic_addAddr A (Addr A ?gw) n1 w2 = ((Inr True, n2), w3)" "view w3 = view w2" by (auto simp: n2_def)
  have "holds (view w3) (getAddrKey node HOST br) []"
    using assms(11) 1(3) 2(2) 3(2) d by (simp add: holds_def node_def)
  from store_pod_network(1) [OF assms(1-3,5) nm assms(9) this] obtain w4 where
    4: "storage_addAddr E A node HOST br (Addr A ?gw) w3 = (Inr True, w4)" "holds (view w4) (getAddrKey node HOST br) [?gw]"
      "\<forall>j. j \<noteq> getAddrKey node HOST br \<longrightarrow> view w4 j = view w3 j" by auto
  have n2: "nic_kind n2 = Bridge" "nic_netlink n2 = Some N" "nic_name n2 = br"
    by (simp_all add: n2_def n1_def nic_setName_def new_bridge_def new_nic_def)
  obtain ok b w5 where 5: "nic_setStatus UP n2 w4 = ((ok, b), w5)" by (metis prod.collapse)
  with device_setStatus [OF assms(4) _ n2(2), of UP w4] n2(1,3)
  have b: "view w5 = view w4" "nic_name b = br" "nic_netlink b = Some N" "is_bridge b" by (simp_all add: is_bridge_def)
  have "holds (view w4) (getNicKey node HOST) [br]" using 1(2) 2(2) 3(2) 4(3) d by (simp add: holds_def)
  with 1 2 3 4 5 b assms(6,7) show ?thesis
    by (simp add: getBridge_def action_wp node_def storage_ops_def)
qed

text \<open>A centre that knows the node, without a trace in \<open>f\<close> of the world.\<close>

definition center_knows :: "'w center_if \<Rightarrow> ('w \<Rightarrow> 'v) \<Rightarrow> string \<Rightarrow> string \<Rightarrow> bool" where
  "center_knows center f node cidr \<longleftrightarrow>
     (\<exists>info. pod_cidr info = cidr \<and> (\<forall>w. f (snd (ct_node center node w)) = f w \<and> fst (ct_node center node w) = info))"

text \<open>A device whose hardware address can be read, without a trace in \<open>f\<close> of the world.\<close>

definition mac_known :: "'w hwaddr \<Rightarrow> ('w \<Rightarrow> 'v) \<Rightarrow> string \<Rightarrow> nat list \<Rightarrow> bool" where
  "mac_known hw f name mac \<longleftrightarrow>
     (\<forall>w. fst (hw name w) = Some (ARPHRD_ETHER, mac) \<and> f (snd (hw name w)) = f w)"

lemma getMac_up:
  assumes "mac_known hw f name mac" "length name < IFNAMSIZ"
  shows "\<exists>w'. getMac hw name w = (setMacStr mac, w') \<and> f w' = f w"
proof -
  obtain r w' where r: "hw name w = (r, w')" by fastforce
  with assms show ?thesis by (auto simp: mac_known_def getMac_def setMacNative_def dest!: spec [of _ w])
qed

lemma setMacStr_word: "shell_word (setMacStr mac)"
proof -
  have "word_char (hex_digit n)" if "n < 16" for n using that by (simp add: hex_digit_def word_char_def)
  then have "\<forall>c \<in> set (hex2 b). word_char c" for b by (simp add: hex2_def)
  then have "\<forall>c \<in> set (setMacStr mac). word_char c" by (auto simp: setMacStr_def word_char_def)
  moreover have "setMacStr mac \<noteq> []" by (auto simp: setMacStr_def hex2_def intro!: exI [of _ 0])
  ultimately show ?thesis by (simp add: shell_word_def)
qed

lemma getVxlan_up:
  assumes "shell_serves E view" "shell_reliable E" "asio_documented (pf_asio P)" "link_obeys N view" "p \<le> 32"
    and "cni_storage s = Some (storage_ops E (pf_asio P))" "name_ok (cni_node_name s)" "shell_word (cni_node_name s)"
    and "mac_known (pf_hwaddr P) view NAME_VXLAN mac"
    and "holds (view w) (getNicKey (cni_node_name s) HOST) nics"
    and "view w (getAddrKey (cni_node_name s) HOST NAME_VXLAN) = None"
  defines "node \<equiv> cni_node_name s"
  shows "succeeds (getVxlan P (Some N) (cidr_text net p)) (\<lambda>v s' w'. s' = s \<and> nic_name v = NAME_VXLAN \<and>
      holds (view w') (getNicKey node HOST) (nics @ [NAME_VXLAN]) \<and>
      holds (view w') (getAddrKey node HOST NAME_VXLAN) [cidr_text net 32] \<and>
      view w' (getVtepKey node) = Some (getVtepValue (dotted net) (setMacStr mac)) \<and>
      (\<forall>j. j \<notin> {getNicKey node HOST, getAddrKey node HOST NAME_VXLAN, getVtepKey node} \<longrightarrow> view w' j = view w j)) s w"
proof -
  let ?A = "pf_asio P"
  have nm: "\<forall>x \<in> {node, HOST, NAME_VXLAN}. name_ok x \<and> shell_word x" using assms(7,8) by (simp add: node_def)
  then have nm': "\<forall>x \<in> {node, HOST, NAME_VXLAN}. name_ok x" by blast
  note d = nic_keys_neq [OF nm', unfolded nic_keys_def rev.simps append.simps]
  have addr: "Addr ?A (dotted net) = Addr ?A (cidr_text net 32)"
    using Addr_cidr_text [OF assms(3), of 32 net] by (simp add: Addr_dotted [OF assms(3)])
  have ext: "extractAddr ?A (v4_subnet net p) = Inr (dotted net)"
    using assms(3) by (simp add: extractAddr_def getSubnet_def asio_documented_def cidr_text_def)
  from etcd_shell_up.append_up [OF assms(1,2) nic_key_words(3) [OF nm] name_ok_NAME_VXLAN(3)] assms(10) obtain w1 where
    1: "storage_addNic E node HOST NAME_VXLAN w = (True, w1)" "holds (view w1) (getNicKey node HOST) (nics @ [NAME_VXLAN])"
      "\<forall>j. j \<noteq> getNicKey node HOST \<longrightarrow> view w1 j = view w j"
    unfolding node_def storage_addNic_def by blast
  define v0 :: "'a nic" where "v0 = nic_setName NAME_VXLAN (new_vxlan ?A (cni_underlay_addr s) (cni_underlay_dev s))"
  define v1 where "v1 = v0\<lparr>nic_netlink := Some N\<rparr>"
  obtain w2 where 2: "nic_setup (Some N) v0 w1 = ((True, v1), w2)" "view w2 = view w1"
    using link_obeysD(3,18,19) [OF assms(4)]
    by (simp add: v0_def v1_def nic_setup_def nic_setName_def new_vxlan_def new_nic_def vxlan_setup_def base_setup_def
        created_def Let_def split_beta split: bool.split)
  have nl: "nic_netlink v1 = Some N" by (simp add: v1_def)
  define v2 where "v2 = v1\<lparr>nic_addrs := nic_addrs v1 @ [Addr ?A (cidr_text net 32)]\<rparr>"
  from addAddr_sets [OF link_obeysD(1) [OF assms(4)] nl addr_print(1) [OF assms(3)], of 32 net w2] obtain w3 where
    3: "nic_addAddr ?A (Addr ?A (cidr_text net 32)) v1 w2 = ((Inr True, v2), w3)" "view w3 = view w2" by (auto simp: v2_def)
  have "holds (view w3) (getAddrKey node HOST NAME_VXLAN) []"
    using assms(11) 1(3) 2(2) 3(2) d by (simp add: holds_def node_def)
  from store_pod_network(1) [OF assms(1-3) _ nm name_ok_NAME_VXLAN(3) this, of 32 net] obtain w4 where
    4: "storage_addAddr E ?A node HOST NAME_VXLAN (Addr ?A (cidr_text net 32)) w3 = (Inr True, w4)"
      "holds (view w4) (getAddrKey node HOST NAME_VXLAN) [cidr_text net 32]"
      "\<forall>j. j \<noteq> getAddrKey node HOST NAME_VXLAN \<longrightarrow> view w4 j = view w3 j" by auto
  have v2: "\<forall>p. nic_kind v2 \<noteq> Veth p" "nic_netlink v2 = Some N" "nic_name v2 = NAME_VXLAN"
    by (simp_all add: v2_def v1_def v0_def nic_setName_def new_vxlan_def new_nic_def)
  obtain ok v w5 where 5: "nic_setStatus UP v2 w4 = ((ok, v), w5)" by (metis prod.collapse)
  with device_setStatus [OF assms(4) v2(1,2), of UP w4] v2(3) have v: "view w5 = view w4" "nic_name v = NAME_VXLAN" by simp_all
  have "length NAME_VXLAN < IFNAMSIZ" by (simp add: NAME_VXLAN_def IFNAMSIZ_def)
  from getMac_up [OF assms(9) this] obtain w6 where 6: "getMac (pf_hwaddr P) NAME_VXLAN w5 = (setMacStr mac, w6)" "view w6 = view w5"
    by blast
  have "shell_word (getVtepValue (dotted net) (setMacStr mac))"
    using setMacStr_word [of mac] dotted_list_elem [of net]
    by (auto simp: getVtepValue_def list_elem_def shell_word_def SEPARATOR_def word_char_def)
  from etcd_shell_up.put_up [OF assms(1,2) nic_key_words(4) [OF nm] this, of w6] obtain w7 where
    7: "storage_addVtep E node (dotted net) (setMacStr mac) w6 = (True, w7)"
      "view w7 = (view w6)(getVtepKey node \<mapsto> getVtepValue (dotted net) (setMacStr mac))"
    unfolding storage_addVtep_def by blast
  have mac: "setMacStr mac \<noteq> []" using setMacStr_word [of mac] by (simp add: shell_word_def)
  show ?thesis
    using 1 2 3 4 5 6 7 v d mac assms(6)
    by (simp add: getVxlan_def Let_def action_wp node_def [symmetric] storage_ops_def v0_def [symmetric] addr ext
        v4_subnet_init [OF assms(3,5)] holds_def)
qed

lemma getRootPod_up:
  assumes "shell_serves E view" "shell_reliable E" "cni_storage s = Some (storage_ops E A)"
    and "cni_mode s = Some mode" "mode = Mode_vxlan \<Longrightarrow> \<exists>v. vxlan = Some v \<and> nic_name v = NAME_VXLAN"
    and "name_ok (cni_node_name s)" "shell_word (cni_node_name s)"
    and "nic_name bridge = br" "nic_name dev = dv" "br \<noteq> dv" "NAME_VXLAN \<notin> {br, dv}"
    and "view w (getAllPodsKey (cni_node_name s)) = None"
  defines "node \<equiv> cni_node_name s"
  shows "succeeds (getRootPod new_node bridge vxlan dev) (\<lambda>n s' w'. s' = s \<and>
      (\<exists>host. n = new_node\<lparr>node_netns := [(HOST, host)]\<rparr> \<and> netns_name host = HOST \<and> netns_getNic br host = Some bridge) \<and>
      view w' (getNetnsKey node HOST) = Some HOST \<and> view w' (entry_key (Pod_of node HOST)) = Some HOST \<and>
      holds (view w') (getAllPodsKey node) [HOST] \<and>
      (\<forall>j. j \<notin> {getNetnsKey node HOST, entry_key (Pod_of node HOST), getAllPodsKey node} \<longrightarrow> view w' j = view w j)) s w"
proof -
  have nm: "\<forall>x \<in> {node, HOST, HOST, HOST}. name_ok x" using assms(6) by (simp add: node_def)
  note d = pod_entries_neq [OF nm, unfolded pod_entries_def list.map rev.simps append.simps entry_key.simps(1-4,6-10)]
  have k: "shell_word (getNetnsKey node HOST)"
    using entry_key_word [of "Netns_of node HOST"] assms(6,7) by (simp add: node_def)
  from etcd_shell_up.put_up [OF assms(1,2) k name_ok_HOST(2), of w] obtain w1 where
    1: "storage_addNetns E node HOST HOST w = (True, w1)" "view w1 = (view w)(getNetnsKey node HOST \<mapsto> HOST)"
    by (auto simp: storage_addNetns_def)
  have "holds (view w1) (getAllPodsKey node) []" using assms(12) 1(2) d by (simp add: holds_def node_def)
  from etcd_shell_up.addPod_up [OF assms(1,2) assms(6,7) [folded node_def] name_ok_HOST(1-3) this] obtain w2 where
    2: "storage_addPod E node HOST HOST w1 = (Inr True, w2)" "view w2 (entry_key (Pod_of node HOST)) = Some HOST"
      "holds (view w2) (getAllPodsKey node) [HOST]"
      "\<forall>j. j \<noteq> entry_key (Pod_of node HOST) \<and> j \<noteq> getAllPodsKey node \<longrightarrow> view w2 j = view w1 j" by auto
  obtain v where "mode = Mode_vxlan \<Longrightarrow> vxlan = Some v \<and> nic_name v = NAME_VXLAN" using assms(5) by blast
  with 1 2 d assms(3,4,8-11) show ?thesis
    by (cases "mode = Mode_vxlan") (simp_all add: getRootPod_def action_wp mode_is_vxlan_def Let_def node_def netns_addNic_def
        netns_setName_def new_netns_def node_addNetns_def new_node_def emplace_def netns_getNic_def)
qed

text \<open>Every mode but vxlan goes without the device.\<close>

lemma maybe_vxlan_up:
  assumes "shell_serves E view" "shell_reliable E" "asio_documented (pf_asio P)" "link_obeys N view" "p \<le> 32"
    and "cni_storage s = Some (storage_ops E (pf_asio P))" "name_ok (cni_node_name s)" "shell_word (cni_node_name s)"
    and "vx \<Longrightarrow> mac_known (pf_hwaddr P) view NAME_VXLAN mac"
    and "holds (view w) (getNicKey (cni_node_name s) HOST) [br]"
    and "view w (getAddrKey (cni_node_name s) HOST NAME_VXLAN) = None"
  defines "node \<equiv> cni_node_name s"
  shows "succeeds (if vx then seq (getVxlan P (Some N) (cidr_text net p)) (\<lambda>v. ret (Some v)) else ret None)
    (\<lambda>v s' w'. s' = s \<and> (vx \<longrightarrow> (\<exists>n. v = Some n \<and> nic_name n = NAME_VXLAN)) \<and>
      holds (view w') (getNicKey node HOST) (br # (if vx then [NAME_VXLAN] else [])) \<and>
      holds (view w') (getAddrKey node HOST NAME_VXLAN) (if vx then [cidr_text net 32] else []) \<and>
      view w' (getVtepKey node) = (if vx then Some (getVtepValue (dotted net) (setMacStr mac)) else view w (getVtepKey node)) \<and>
      (\<forall>j. j \<notin> {getNicKey node HOST, getAddrKey node HOST NAME_VXLAN, getVtepKey node} \<longrightarrow> view w' j = view w j)) s w"
proof (cases vx)
  case True
  show ?thesis
    using getVxlan_up [OF assms(1-8) assms(9) [OF True] assms(10,11), of net] True
    by (auto simp: node_def action_wp intro: succeeds_mono)
next
  case False
  with assms(10,11) show ?thesis by (simp add: action_wp node_def holds_def)
qed

text \<open>Setting up a node, after its bridge.\<close>

definition node_devices :: "('w, 'j) platform \<Rightarrow> 'w netlink_if option \<Rightarrow> string \<Rightarrow> string \<Rightarrow> string \<Rightarrow> 'w nic
    \<Rightarrow> ('w, 'w node) action" where
  "node_devices P netlink name dev subnet bridge =
     seq mode_is_vxlan (\<lambda>is_vxlan.
     seq (if is_vxlan then seq (getVxlan P netlink subnet) (\<lambda>vx. ret (Some vx)) else ret None) (\<lambda>vxlan.
     seq (stored (\<lambda>S. st_addNic S name HOST dev)) (\<lambda>ok.
     seq (require ok (Cni_error CNI_ERRCODE_OHNO (''Failed to store underlay dev:'' @ dev @ '' on node:'' @ name))) (\<lambda>_.
     seq (getRootPod new_node bridge vxlan (nic_setName dev Underlay)) (\<lambda>node1.
     seq (initKubernetesNode (pf_asio P) subnet node1) (\<lambda>node2.
     seq (change (\<lambda>s. s\<lparr>cni_cluster := map_option (cluster_addNode name node2) (cni_cluster s)\<rparr>)) (\<lambda>_.
     ret node2)))))))"

lemma create_node_devices:
  "create_node P netlink =
     seq (deref cni_ipam) (\<lambda>I.
     seq (state (\<lambda>s. (cni_node_name s, cni_underlay_dev s))) (\<lambda>(name, dev).
     seq (deref cni_center) (\<lambda>center.
     seq (call (ip_allocateSubnet I name center)) (\<lambda>(ok, subnet).
     seq (require ok (Cni_error 7 (''Failed to allocate subnet for node:'' @ name))) (\<lambda>_.
     seq (call_throwing (ip_allocateIp I name [])) (\<lambda>(ok, gateway).
     seq (require ok (Cni_error 7 (''Failed to reserve gateway:'' @ gateway @ '' for node:'' @ name
       @ '', the gateway had been used''))) (\<lambda>_.
     seq (change (\<lambda>s. s\<lparr>cni_gateway := Some (Addr (pf_asio P) gateway)\<rparr>)) (\<lambda>_.
     seq (getBridge (pf_asio P) netlink gateway) (node_devices P netlink name dev subnet)))))))))"
  unfolding create_node_def node_devices_def Let_def by (rule refl)

lemma create_node_up:
  assumes "shell_serves E1 view" "shell_reliable E1" "shell_serves E2 view" "shell_reliable E2"
    and "asio_documented (pf_asio P)" "link_obeys N view"
    and "cni_ipam s = Some (ipam_ops E1 (pf_asio P))" "cni_storage s = Some (storage_ops E2 (pf_asio P))"
    and "cni_center s = Some center" "center_knows center view (cni_node_name s) (cidr_text net p)"
    and "cni_mode s = Some mode" "mode = Mode_vxlan \<Longrightarrow> mac_known (pf_hwaddr P) view NAME_VXLAN mac" "cni_cluster s = Some []"
    and "br = cc_bridge (cni_conf s)" "dev = cni_underlay_dev s" "br \<noteq> dev" "NAME_VXLAN \<notin> {br, dev}"
    and "\<forall>x \<in> {cni_node_name s, br, dev}. name_ok x \<and> shell_word x" "list_elem br" "list_elem dev"
    and "0 < p" "p < 32" "first_free (host_ips net p) [] = Some (cidr_text g p)"
    and "holds (view w) ETCD_KEY_SUBNET subs" "node_unknown (view w) (cni_node_name s) br dev"
  defines "node \<equiv> cni_node_name s" and "vx \<equiv> mode = Mode_vxlan"
  shows "succeeds (create_node P (Some N)) (\<lambda>n s' w'.
      s' = s\<lparr>cni_gateway := Some (Addr (pf_asio P) (cidr_text g p)), cni_cluster := Some [(node, n)]\<rparr> \<and>
      (\<exists>host bridge. node_netns n = [(HOST, host)] \<and> netns_getNic br host = Some bridge \<and>
         is_bridge bridge \<and> nic_netlink bridge = Some N) \<and>
      node_created vx (view w) (view w') node br dev net p subs (cidr_text g p) (setMacStr mac)) s w"
proof -
  let ?A = "pf_asio P" and ?gw = "cidr_text g p" and ?vt = "getVtepValue (dotted net) (setMacStr mac)"
  have nd: "name_ok node" "shell_word node" and p: "p \<le> 32"
    and nm: "\<forall>x \<in> {node, br, dev}. name_ok x" using assms(18,22) by (simp_all add: node_def)
  note d = host_entries_neq [OF nm assms(16,17), unfolded host_entries_def list.map rev.simps append.simps entry_key.simps(1-4,6-10)]
  have un: "view w (subnet_key node) = None" "view w (address_key node) = None" "view w (getAllPodsKey node) = None"
    "view w (getNicKey node HOST) = None" "view w (getAddrKey node HOST br) = None" "view w (getRouteKey node HOST br) = None"
    "view w (getAddrKey node HOST dev) = None" "view w (getRouteKey node HOST dev) = None"
    "view w (getAddrKey node HOST NAME_VXLAN) = None" "view w (getRouteKey node HOST NAME_VXLAN) = None"
    using assms(25) by (simp_all add: node_unknown_def host_entries_def node_def)
  from assms(10) obtain info where info: "pod_cidr info = cidr_text net p"
    "\<And>w. view (snd (ct_node center node w)) = view w \<and> fst (ct_node center node w) = info"
    by (auto simp: center_knows_def node_def)
  from etcd_shell_up.allocateSubnet_up [OF assms(1,2) nd(2) info(2) _ assms(24) un(1), unfolded info(1), OF cidr_text_list_elem]
  obtain w1 where
    1: "ipam_allocateSubnet E1 center node w = ((True, cidr_text net p), w1)"
      "holds (view w1) ETCD_KEY_SUBNET (subs @ [cidr_text net p])" "view w1 (subnet_key node) = Some (cidr_text net p)"
      "\<forall>j. j \<notin> {ETCD_KEY_SUBNET, subnet_key node} \<longrightarrow> view w1 j = view w j"
    by blast
  have "lease_table (view w1) node net p []" using 1(3,4) un(2) d by (simp add: lease_table_def holds_def)
  note lease = this
  obtain ra w2 where al: "ipam_allocateIp E1 ?A node [] w1 = (ra, w2)" by fastforce
  from etcd_shell_up.allocateIp_first [OF assms(1,2,5) nd(2) assms(21,22) lease al] assms(23) al
  have 2: "ipam_allocateIp E1 ?A node [] w1 = (Inr (True, ?gw), w2)" "holds (view w2) (address_key node) [?gw]"
      "\<forall>j. j \<noteq> address_key node \<longrightarrow> view w2 j = view w1 j"
    by (simp_all add: allocated_def)
  define s1 where "s1 = s\<lparr>cni_gateway := Some (Addr ?A ?gw)\<rparr>"
  have s1: "cni_node_name s1 = node" "cni_storage s1 = Some (storage_ops E2 ?A)" "br = cc_bridge (cni_conf s1)"
    "cni_mode s1 = Some mode" "cni_cluster s1 = Some []"
    using assms(8,11,13,14) by (simp_all add: s1_def node_def)
  let ?F3 = "\<lambda>w'. holds (view w') (getNicKey node HOST) [br] \<and> holds (view w') (getAddrKey node HOST br) [?gw] \<and>
      (\<forall>j. j \<notin> {getNicKey node HOST, getAddrKey node HOST br} \<longrightarrow> view w' j = view w2 j)"
  have "view w2 (getNicKey node HOST) = None" "view w2 (getAddrKey node HOST br) = None"
    using un 1(4) 2(3) d by simp_all
  note n2 = this
  from n2 getBridge_up [OF assms(3-6) p s1(2,3), of w2 g, unfolded s1(1)] assms(18,19)
  have bridge: "succeeds (getBridge ?A (Some N) ?gw) (\<lambda>b s' w'. s' = s1 \<and>
      nic_name b = br \<and> is_bridge b \<and> nic_netlink b = Some N \<and> ?F3 w') s1 w2"
    by (simp add: node_def)
  let ?F4 = "\<lambda>v w3 w'. (vx \<longrightarrow> (\<exists>n. v = Some n \<and> nic_name n = NAME_VXLAN)) \<and>
      holds (view w') (getNicKey node HOST) (br # (if vx then [NAME_VXLAN] else [])) \<and>
      holds (view w') (getAddrKey node HOST NAME_VXLAN) (if vx then [cidr_text net 32] else []) \<and>
      view w' (getVtepKey node) = (if vx then Some ?vt else view w3 (getVtepKey node)) \<and>
      (\<forall>j. j \<notin> {getNicKey node HOST, getAddrKey node HOST NAME_VXLAN, getVtepKey node} \<longrightarrow> view w' j = view w3 j)"
  have vxlan: "succeeds (if vx then seq (getVxlan P (Some N) (cidr_text net p)) (\<lambda>v. ret (Some v)) else ret None)
      (\<lambda>v s' w'. s' = s1 \<and> ?F4 v w3 w') s1 w3" if 3: "?F3 w3" for w3
  proof -
    have "view w3 (getAddrKey node HOST NAME_VXLAN) = None" using un 1(4) 2(3) 3 d by simp
    from maybe_vxlan_up [OF assms(3-6) p s1(2), of vx mac w3 br net, unfolded s1(1)] this nd assms(12) 3
    show ?thesis by (simp add: vx_def)
  qed
  have nic: "\<exists>w5. storage_addNic E2 node HOST dev w4 = (True, w5) \<and> holds (view w5) (getNicKey node HOST) (host_nics vx br dev) \<and>
      (\<forall>j. j \<noteq> getNicKey node HOST \<longrightarrow> view w5 j = view w4 j)" if "?F4 v w3 w4" for v w3 w4
  proof -
    have "shell_word (getNicKey node HOST)" using entry_key_word [of "Nics_of node HOST"] nd by simp
    from etcd_shell_up.append_up [OF assms(3,4) this assms(20)] that show ?thesis
      unfolding host_nics_def storage_addNic_def by fastforce
  qed
  let ?Q = "\<lambda>n s' w'. s' = s1\<lparr>cni_cluster := Some [(node, n)]\<rparr> \<and>
      (\<exists>host bridge. node_netns n = [(HOST, host)] \<and> netns_getNic br host = Some bridge \<and>
         is_bridge bridge \<and> nic_netlink bridge = Some N) \<and>
      node_created vx (view w) (view w') node br dev net p subs ?gw (setMacStr mac)"
  let ?finish = "\<lambda>n. seq (initKubernetesNode ?A (cidr_text net p) n) (\<lambda>n'.
      seq (change (\<lambda>s. s\<lparr>cni_cluster := map_option (cluster_addNode node n') (cni_cluster s)\<rparr>)) (\<lambda>_. ret n'))"
  have root: "succeeds (getRootPod new_node b v (nic_setName dev Underlay)) (\<lambda>n. succeeds (?finish n) ?Q) s1 w5"
    if b: "nic_name b = br" "is_bridge b" "nic_netlink b = Some N" and 3: "?F3 w3" and 4: "?F4 v w3 w4"
      and 5: "holds (view w5) (getNicKey node HOST) (host_nics vx br dev)" "\<forall>j. j \<noteq> getNicKey node HOST \<longrightarrow> view w5 j = view w4 j"
    for b :: "'a nic" and v w3 w4 w5
  proof (rule succeeds_mono [OF getRootPod_up [OF assms(3,4) s1(2,4)]])
    show "\<exists>n. v = Some n \<and> nic_name n = NAME_VXLAN" if "mode = Mode_vxlan" using 4 that by (simp add: vx_def)
    show "nic_name (nic_setName dev Underlay) = dev" by (simp add: nic_setName_def)
    show "view w5 (getAllPodsKey (cni_node_name s1)) = None" using un 1(4) 2(3) 3 4 5(2) d s1(1) by simp
    show "name_ok (cni_node_name s1)" "shell_word (cni_node_name s1)" using nd s1(1) by simp_all
    show "nic_name b = br" "br \<noteq> dev" "NAME_VXLAN \<notin> {br, dev}" by (fact b(1) assms(16,17))+
    fix n :: "'a node" and s' w6
    assume n: "s' = s1 \<and> (\<exists>host. n = new_node\<lparr>node_netns := [(HOST, host)]\<rparr> \<and> netns_name host = HOST \<and> netns_getNic br host = Some b) \<and>
      view w6 (getNetnsKey (cni_node_name s1) HOST) = Some HOST \<and> view w6 (entry_key (Pod_of (cni_node_name s1) HOST)) = Some HOST \<and>
      holds (view w6) (getAllPodsKey (cni_node_name s1)) [HOST] \<and>
      (\<forall>j. j \<notin> {getNetnsKey (cni_node_name s1) HOST, entry_key (Pod_of (cni_node_name s1) HOST), getAllPodsKey (cni_node_name s1)} \<longrightarrow>
        view w6 j = view w5 j)"
    note n = this [unfolded s1(1)]
    then have 6: "\<forall>j. j \<notin> {getNetnsKey node HOST, entry_key (Pod_of node HOST), getAllPodsKey node} \<longrightarrow> view w6 j = view w5 j"
      by blast
    have "lease_table (view w6) node net p [?gw]" "holds (view w6) ETCD_KEY_SUBNET (subs @ [cidr_text net p])"
      using 1(2-4) 2(2,3) 3 4 5(2) 6 d by (simp_all add: lease_table_def holds_def)
    moreover have "node_recorded vx (view w6) node br dev net ?gw"
      using n un 1(4) 2(3) 3 4 5 6 d by (simp add: node_recorded_def holds_def)
    moreover have "view w6 (getVtepKey node) = (if vx then Some ?vt else view w (getVtepKey node))"
      using 1(4) 2(3) 3 4 5(2) 6 d by simp
    moreover have "\<forall>j. j \<notin> entry_key ` set (Vtep_of node # Subnets # host_entries node br dev) \<longrightarrow> view w6 j = view w j"
      using 1(4) 2(3) 3 4 5(2) 6 by (simp add: host_entries_def)
    ultimately have "node_created vx (view w) (view w6) node br dev net p subs ?gw (setMacStr mac)"
      using n by (simp add: node_created_def)
    with n b(2,3) show "succeeds (?finish n) ?Q s' w6"
      by (auto simp: action_wp initKubernetesNode_def node_setSubnet_def node_setName_def v4_subnet_init [OF assms(5) p]
          node_setUnderlayDev_def node_setUnderlayAddr_def s1 cluster_addNode_def emplace_def)
  qed
  have rest: "succeeds (seq (stored (\<lambda>S. st_addNic S node HOST dev)) (\<lambda>ok. seq (require ok e) (\<lambda>_.
      seq (getRootPod new_node b v (nic_setName dev Underlay)) ?finish))) ?Q s1 w4"
    if b: "nic_name b = br" "is_bridge b" "nic_netlink b = Some N" and 3: "?F3 w3" and 4: "?F4 v w3 w4" for b :: "'a nic" and v w3 w4 e
  proof -
    from nic [OF 4] obtain w5 where
      5: "storage_addNic E2 node HOST dev w4 = (True, w5)" "holds (view w5) (getNicKey node HOST) (host_nics vx br dev)"
        "\<forall>j. j \<noteq> getNicKey node HOST \<longrightarrow> view w5 j = view w4 j" by blast
    from root [OF b 3 4 5(2,3)] show ?thesis
      by (simp only: succeeds_seq succeeds_deref succeeds_basic s1(2) option.inject storage_pod_sel ex_simps simp_thms 5(1)
          fst_conv snd_conv)
  qed
  have devices: "succeeds (seq (if vx then seq (getVxlan P (Some N) (cidr_text net p)) (\<lambda>v. ret (Some v)) else ret None) (\<lambda>v.
      seq (stored (\<lambda>S. st_addNic S node HOST dev)) (\<lambda>ok. seq (require ok e) (\<lambda>_.
      seq (getRootPod new_node b v (nic_setName dev Underlay)) ?finish)))) ?Q s1 w3"
    if b: "nic_name b = br" "is_bridge b" "nic_netlink b = Some N" and 3: "?F3 w3" for b :: "'a nic" and w3 e
    unfolding succeeds_seq [of "if vx then _ else _"]
    by (rule succeeds_mono [OF vxlan [OF 3]]) (elim conjE, hypsubst, rule rest [OF b 3], intro conjI)
  have tail: "succeeds (node_devices P (Some N) node dev (cidr_text net p) b) ?Q s1 w3"
    if b: "nic_name b = br" "is_bridge b" "nic_netlink b = Some N" and 3: "?F3 w3" for b :: "'a nic" and w3
    unfolding node_devices_def succeeds_seq [of mode_is_vxlan]
    by (rule succeedsI [of _ _ _ vx s1 w3]) (use devices [OF b 3] s1(4) in \<open>simp_all add: mode_is_vxlan_def vx_def action_run\<close>)
  show ?thesis
    unfolding create_node_devices
    by (simp add: action_wp assms(7-9) node_def [symmetric] assms(15) [symmetric] ipam_ops_def 1(1) 2(1) s1_def [symmetric],
      rule succeeds_mono [OF bridge], elim conjE, erule ssubst, rule succeeds_mono [OF tail], assumption+,
      intro conjI, assumption+, simp add: s1_def)
qed

text \<open>Records of a pod are none of the records of its node.\<close>

lemma pod_key_not_host:
  assumes "\<forall>x \<in> {node, br, dev, ns, cid, name}. name_ok x" "cid \<noteq> HOST" "ns \<noteq> HOST"
    and "e \<in> {Netns_of node cid, Pod_of node ns, Nics_of node cid, Addrs_of node cid name, Routes_of node cid name}"
  shows "entry_key e \<notin> entry_key ` set (Vtep_of node # Subnets # host_entries node br dev)"
proof
  have ok: "\<forall>n \<in> set (entry_names e). name_ok n" using assms(1,4) by auto
  assume "entry_key e \<in> entry_key ` set (Vtep_of node # Subnets # host_entries node br dev)"
  then obtain h where h: "h \<in> set (Vtep_of node # Subnets # host_entries node br dev)" "entry_key e = entry_key h" by blast
  then have "\<forall>n \<in> set (entry_names h). name_ok n" using assms(1) by (auto simp: host_entries_def)
  from entry_key_inject [OF ok this] h(2) have "e = h" by blast
  with h(1) assms(2-4) show False by (auto simp: host_entries_def)
qed

lemma created_keeps_pod_unknown:
  assumes "node_created vx m m' node br dev net p subs gw mac" "pod_unknown m node ns cid name"
    and "\<forall>x \<in> {node, br, dev, ns, cid, name}. name_ok x" "cid \<noteq> HOST" "ns \<noteq> HOST"
  shows "pod_unknown m' node ns cid name"
  unfolding pod_unknown_def
proof
  fix e assume e: "e \<in> {Netns_of node cid, Pod_of node ns, Nics_of node cid, Addrs_of node cid name, Routes_of node cid name}"
  from pod_key_not_host [OF assms(3-5) e] assms(1) have "m' (entry_key e) = m (entry_key e)"
    unfolding node_created_def by blast
  with assms(2) e show "m' (entry_key e) = None" by (simp only: pod_unknown_def)
qed

lemma first_add_up:
  assumes "shell_serves E1 view" "shell_reliable E1" "shell_serves E2 view" "shell_reliable E2"
    and "\<And>w. \<exists>t w'. ec_dump E1 ETCD_KEY_PREFIX w = (Inr t, w') \<and> view w' = view w"
    and "platform_of P view node dev addr" "link_obeys N view"
    and "cni_ipam s = Some (ipam_ops E1 (pf_asio P))" "cni_storage s = Some (storage_ops E2 (pf_asio P))"
    and "cni_netlink s = Some N" "cni_mode s = Some mode" "mode = Mode_vxlan \<Longrightarrow> mac_known (pf_hwaddr P) view NAME_VXLAN mac"
    and "cni_center s = Some center" "center_knows center view node (cidr_text net p)"
    and "br = cc_bridge (cni_conf s)" "br \<noteq> dev" "list_elem br" "list_elem dev"
    and "\<forall>x \<in> {node, br, dev, ns, cid, name}. name_ok x \<and> shell_word x" "list_elem cid" "list_elem name"
    and "cid \<noteq> HOST" "ns \<noteq> HOST" "simpleNetns netns = Inr ns" "shell_word netns"
    and "0 < p" "p < 32" "first_free (host_ips net p) [] = Some (cidr_text g p)"
    and "first_free (host_ips net p) [cidr_text g p] = Some ip"
    and "holds (view w) ETCD_KEY_SUBNET subs" "node_unknown (view w) node br dev" "pod_unknown (view w) node ns cid name"
    and "NAME_VXLAN \<notin> {br, dev}"
  defines "vx \<equiv> mode = Mode_vxlan"
  shows "succeeds (cni_add P cid netns name)
    (\<lambda>out s' w'. out = add_output P (cc_version (cni_conf s)) ip (dotted g) name netns \<and>
       (\<exists>m. node_created vx (view w) m node br dev net p subs (cidr_text g p) (setMacStr mac) \<and>
          pod_added m (view w') node netns ns cid name net p [cidr_text g p] [HOST] ip (getRouteValue [] (dotted g) name))) s w"
proof -
  let ?A = "pf_asio P" and ?gw = "cidr_text g p"
  have P: "asio_documented ?A" "node_described (pf_shell P) view node dev addr"
    using assms(6) by (simp_all add: platform_of_def)
  define s0 where "s0 = s\<lparr>cni_node_name := node, cni_underlay_dev := dev, cni_underlay_addr := addr\<rparr>"
  define s1 where "s1 = s0\<lparr>cni_cluster := Some []\<rparr>"
  define s2 where "s2 n = s1\<lparr>cni_gateway := Some (Addr ?A ?gw), cni_cluster := Some [(node, n)]\<rparr>" for n
  have s0: "cni_node_name s0 = node" "cni_ipam s0 = Some (ipam_ops E1 ?A)" using assms(8) by (simp_all add: s0_def)
  have s1: "cni_node_name s1 = node" "cni_ipam s1 = Some (ipam_ops E1 ?A)" "cni_storage s1 = Some (storage_ops E2 ?A)"
    "cni_center s1 = Some center" "cni_mode s1 = Some mode" "cni_cluster s1 = Some []" "br = cc_bridge (cni_conf s1)"
    "dev = cni_underlay_dev s1"
    using assms(8,9,11,13,15) by (simp_all add: s1_def s0_def)
  have s2: "cni_node_name (s2 n) = node" "cni_ipam (s2 n) = Some (ipam_ops E1 ?A)" "cni_storage (s2 n) = Some (storage_ops E2 ?A)"
    "cni_gateway (s2 n) = Some (Addr ?A ?gw)" "cni_cluster (s2 n) = Some [(node, n)]" "cni_conf (s2 n) = cni_conf s" for n
    by (simp_all add: s2_def s1) (simp add: s1_def s0_def)
  have nm: "\<forall>x \<in> {node, br, dev}. name_ok x \<and> shell_word x" "\<forall>x \<in> {node, ns, cid, name}. name_ok x \<and> shell_word x"
    "\<forall>x \<in> {node, br, dev, ns, cid, name}. name_ok x" "shell_word node" and p: "p \<le> 32"
    using assms(19,27) by simp_all
  have sub: "view w (subnet_key node) = None" using assms(31) by (simp add: node_unknown_def host_entries_def)
  obtain t1 w1 where d1: "ip_dump (ipam_ops E1 ?A) w = (Inr t1, w1)" "view w1 = view w"
    using assms(5) [of w] by (auto simp: ipam_ops_def ipam_dump_def)
  have info: "succeeds (read_node_info (pf_shell P)) (\<lambda>ok s' w'. ok \<and> s' = s0 \<and> view w' = view w) s w1"
    using read_node_info_up [OF P(2), of s w1] d1(2) by (simp add: s0_def)
  have load: "succeeds (getKubernetesCluster ?A (Some N)) (\<lambda>c s' w'. c = [] \<and> s' = s0 \<and> view w' = view w) s0 w1"
    if v: "view w1 = view w" for w1
    using no_cluster_yet [OF assms(1,2) s0(2), of w1 "Some N"] v nm(4) sub s0(1) by simp
  have new: "succeeds (create_node P (Some N)) (\<lambda>n s' w'. s' = s2 n \<and>
      (\<exists>host bridge. node_netns n = [(HOST, host)] \<and> netns_getNic br host = Some bridge \<and>
         is_bridge bridge \<and> nic_netlink bridge = Some N) \<and>
      node_created vx (view w) (view w') node br dev net p subs ?gw (setMacStr mac)) s1 w1"
    if v: "view w1 = view w" for w1
    using create_node_up [OF assms(1-4) P(1) assms(7) s1(2-4) _ s1(5) assms(12) s1(6-8) assms(16,33) _ assms(17,18,26-28), of w1 subs]
      v assms(14,30,31) nm(1) unfolding s1(1) s2_def vx_def by simp
  let ?Q = "\<lambda>out s' w'. out = add_output P (cc_version (cni_conf s)) ip (dotted g) name netns \<and>
       (\<exists>m. node_created vx (view w) m node br dev net p subs ?gw (setMacStr mac) \<and>
          pod_added m (view w') node netns ns cid name net p [?gw] [HOST] ip (getRouteValue [] (dotted g) name))"
  have rest: "succeeds (add_rest P cid netns name (Some N) (ipam_ops E1 ?A) node n) ?Q (s2 n) w2"
    if n: "\<exists>host bridge. node_netns n = [(HOST, host)] \<and> netns_getNic br host = Some bridge \<and>
         is_bridge bridge \<and> nic_netlink bridge = Some N"
      and c: "node_created vx (view w) (view w2) node br dev net p subs ?gw (setMacStr mac)" for n w2
  proof -
    from n obtain host bridge where b: "node_netns n = [(HOST, host)]" "is_bridge bridge" "nic_netlink bridge = Some N"
      "netns_getNic br host = Some bridge" by blast
    have h: "node_getNetns cid n = None" "node_getNetns HOST n = Some host"
      using assms(22) by (simp_all add: node_getNetns_def b(1))
    note pu = created_keeps_pod_unknown [OF c assms(32) nm(3) assms(22,23)]
    have c': "lease_table (view w2) node net p [?gw]" "holds (view w2) (getAllPodsKey node) [HOST]"
      using c by (simp_all add: node_created_def)
    from add_rest_up [where s = "s2 n" and nd = n and cid = cid and bridge = bridge and ns = ns and netns = netns and w = w2
        and net = net and xs = "[?gw]" and ps = "[HOST]" and ip = ip and title = node and p = p and name = name,
        OF assms(1-7) s2(2-4) p _ h(1,2)]
      b(2-4) assms(15,20,21,24-27,29) nm(2) pu c' s2(1,5,6)
    have "succeeds (add_rest P cid netns name (Some N) (ipam_ops E1 ?A) node n)
      (\<lambda>out s' w'. out = add_output P (cc_version (cni_conf s)) ip (dotted g) name netns \<and>
         pod_added (view w2) (view w') node netns ns cid name net p [?gw] [HOST] ip (getRouteValue [] (dotted g) name)) (s2 n) w2"
      by simp
    then show ?thesis by (rule succeeds_mono) (use c in blast)
  qed
  show ?thesis
    unfolding cni_add_rest
    by (simp add: action_wp assms(8,10) d1, rule succeeds_mono [OF info], elim conjE, hypsubst, simp add: action_wp,
      rule succeeds_mono [OF load], assumption, elim conjE, hypsubst,
      simp add: action_wp s0(1) s1_def [symmetric] getKubernetesNode_def get_node_def s1(1,6) cluster_getNode_def assms(10),
      rule succeeds_mono [OF new], assumption, elim conjE, hypsubst, rule rest, assumption+)
qed

subsection \<open>Taking down\<close>

text \<open>Deleting an interface of the root namespace that has one address or none.\<close>

lemma host_nic_up:
  assumes "shell_serves E1 view" "shell_reliable E1" "shell_serves E2 view" "shell_reliable E2"
    and "asio_documented A" "link_obeys N view"
    and "cni_ipam s = Some (ipam_ops E1 A)" "cni_storage s = Some (storage_ops E2 A)" "cni_mode s = Some mode"
    and "netns_name host = HOST" "netns_getNic nic host = Some iface" "nic_netlink iface = Some N" "nic_name iface = nic"
    and "nic_addrs iface = map (Addr A) as" "as = [] \<or> (\<exists>a q. as = [cidr_text a q] \<and> q \<le> 32)"
    and "\<forall>x \<in> {cni_node_name s, nic}. name_ok x \<and> shell_word x" "nic \<noteq> cni_underlay_dev s \<or> xs = []"
    and "lease_table (view w) (cni_node_name s) net p xs" "holds (view w) (getNicKey (cni_node_name s) HOST) nics"
  defines "node \<equiv> cni_node_name s"
  obtains w' where "delKubernetesNic A host nic s w = ((Inr (), on_pod HOST (netns_delNic nic) s), w')"
    "lease_table (view w') node net p (removeAll (concat as) xs)"
    "view w' (getAddrKey node HOST nic) = None" "view w' (getRouteKey node HOST nic) = None"
    "holds (view w') (getNicKey node HOST) (removeAll nic nics)"
    "view w' (getVtepKey node) = (if mode = Mode_vxlan then None else view w (getVtepKey node))"
    "\<forall>j. j \<notin> {address_key node, getAddrKey node HOST nic, getRouteKey node HOST nic, getNicKey node HOST, getVtepKey node}
       \<longrightarrow> view w' j = view w j"
proof -
  define found where "found = (case as of [] \<Rightarrow> None | a # _ \<Rightarrow> Some (Addr A a))"
  have as: "nic_getAddr A [] iface = Inr found" "(case found of None \<Rightarrow> Inr [] | Some a \<Rightarrow> addr_getAddrCidr A a) = Inr (concat as)"
    "\<forall>a \<in> set (nic_addrs iface). returns (addr_getAddrCidr A a)"
    using assms(14,15) addr_print(1) [OF assms(5)] by (auto simp: found_def nic_getAddr_def returns_def)
  from cleanup_up [OF assms(6,12) as(3), of w] obtain w1 where 1: "nic_cleanup A iface w = (Inr (), w1)" "view w1 = view w" by blast
  have nm: "\<forall>x \<in> {cni_node_name s, netns_name host, nic}. name_ok x \<and> shell_word x" using assms(10,16) by simp
  have nics: "holds (view w) (getNicKey (cni_node_name s) (netns_name host)) nics" using assms(10,19) by simp
  have left: "(if netns_name host = HOST \<and> nic_name iface = cni_underlay_dev s then xs else removeAll (concat as) xs) =
      removeAll (concat as) xs" using assms(13,17) by auto
  from delKubernetesNic_up [OF assms(1-4,7-9) nm assms(11) as(1,2) 1 assms(18) nics, unfolded left, unfolded assms(10)]
  obtain w' where del: "delKubernetesNic A host nic s w = ((Inr (), on_pod HOST (netns_delNic nic) s), w')"
    "lease_table (view w') node net p (removeAll (concat as) xs)"
    "view w' (getAddrKey node HOST nic) = None" "view w' (getRouteKey node HOST nic) = None"
    "holds (view w') (getNicKey node HOST) (removeAll nic nics)"
    "view w' (getVtepKey node) = (if mode = Mode_vxlan then None else view w (getVtepKey node))"
    "\<forall>j. j \<notin> set (nic_keys node HOST nic) \<longrightarrow> view w' j = view w j" "view w' (subnet_key node) = view w (subnet_key node)"
    unfolding node_def by blast
  have "view w' j = view w j" if "j \<notin> {address_key node, getAddrKey node HOST nic, getRouteKey node HOST nic,
      getNicKey node HOST, getVtepKey node}" for j
    using that del(7,8) by (cases "j = subnet_key node") (simp_all add: nic_keys_def)
  with del(1-6) show thesis by (intro that) blast+
qed

lemma take_down_up:
  assumes "shell_serves E1 view" "shell_reliable E1" "shell_serves E2 view" "shell_reliable E2"
    and "asio_documented A" "link_obeys N view"
    and "cni_ipam s = Some (ipam_ops E1 A)" "cni_storage s = Some (storage_ops E2 A)"
    and "cni_mode s = Some mode" "cni_node_name s = node" "cni_underlay_dev s = dev"
    and "cni_node_name s0 = node" "node_getNetns HOST n = Some (picture_pod A N s0 m HOST)"
    and "node_subnet n = Some (v4_subnet net p)" "p \<le> 32"
    and "\<forall>x \<in> {node, br, dev}. name_ok x \<and> shell_word x" "br \<noteq> dev" "NAME_VXLAN \<notin> {br, dev}"
    and "node_recorded vx m node br dev net (cidr_text g p)" "node_recorded vx (view w) node br dev net (cidr_text g p)"
    and "lease_table (view w) node net p [cidr_text g p]" "holds (view w) (getAllPodsKey node) [HOST]"
    and "holds (view w) ETCD_KEY_SUBNET subs" "vx \<longleftrightarrow> mode = Mode_vxlan"
  shows "succeeds (take_down A node dev br n) (\<lambda>_ s' w'. node_unknown (view w') node br dev \<and>
      holds (view w') ETCD_KEY_SUBNET (removeAll (cidr_text net p) subs) \<and>
      view w' (getVtepKey node) = (if vx then None else view w (getVtepKey node)) \<and>
      (\<forall>j. j \<notin> entry_key ` set (Vtep_of node # Subnets # host_entries node br dev) \<longrightarrow> view w' j = view w j)) s w"
proof -
  let ?gw = "cidr_text g p" and ?host = "picture_pod A N s0 m HOST" and ?pic = "picture_nic A N s0 m HOST"
  have nm: "\<forall>x \<in> {node, br, dev}. name_ok x" and ok: "name_ok node" "shell_word node" using assms(16) by simp_all
  note d = host_entries_neq [OF nm assms(17,18), unfolded host_entries_def list.map rev.simps append.simps entry_key.simps(1-4,6-10)]
  have pic: "stored_list m (getNicKey node HOST) = host_nics vx br dev" "stored_list m (getAddrKey node HOST br) = [?gw]"
    "stored_list m (getAddrKey node HOST NAME_VXLAN) = (if vx then [cidr_text net 32] else [])"
    "stored_list m (getAddrKey node HOST dev) = []"
    using assms(19) by (simp_all add: node_recorded_def holds_stored_list) (simp add: stored_list_def stored_text_def)
  have get: "netns_getNic br ?host = Some (?pic br)" "netns_getNic dev ?host = Some (?pic dev)"
    "netns_getNic NAME_VXLAN ?host = (if vx then Some (?pic NAME_VXLAN) else None)" and host: "netns_name ?host = HOST"
    using assms(18) by (simp_all add: assms(12) pic host_nics_def)
  have ifs: "nic_netlink (?pic x) = Some N" "nic_name (?pic x) = x"
    "nic_addrs (?pic br) = map (Addr A) [?gw]" "nic_addrs (?pic dev) = map (Addr A) []"
    "vx \<Longrightarrow> nic_addrs (?pic NAME_VXLAN) = map (Addr A) [cidr_text net 32]" for x
    by (simp_all add: picture_nic_def assms(12) pic)
  define s1 where "s1 = on_pod HOST (netns_delNic br) s"
  define s1' where "s1' = (if vx then on_pod HOST (netns_delNic NAME_VXLAN) s1 else s1)"
  define s2 where "s2 = on_pod HOST (netns_delNic dev) s1'"
  have s: "cni_node_name x = node" "cni_ipam x = Some (ipam_ops E1 A)" "cni_storage x = Some (storage_ops E2 A)"
    "cni_mode x = Some mode" "cni_underlay_dev x = dev" if "x \<in> {s, s1, s1', s2}" for x
    using assms(7-11) that by (auto simp: s1_def s1'_def s2_def)
  have in_s: "s \<in> {s, s1, s1', s2}" "s1 \<in> {s, s1, s1', s2}" "s1' \<in> {s, s1, s1', s2}" "s2 \<in> {s, s1, s1', s2}" by simp_all
  note del = host_nic_up [OF assms(1-6)]
  have cond: "\<forall>x \<in> {node, br}. name_ok x \<and> shell_word x" "\<forall>x \<in> {node, dev}. name_ok x \<and> shell_word x"
    "\<forall>x \<in> {node, NAME_VXLAN}. name_ok x \<and> shell_word x" "br \<noteq> dev \<or> [?gw] = []" "dev \<noteq> dev \<or> [] = ([] :: string list)"
    "NAME_VXLAN \<noteq> dev \<or> [] = ([] :: string list)"
    "[?gw] = [] \<or> (\<exists>a q. [?gw] = [cidr_text a q] \<and> q \<le> 32)"
    "[cidr_text net 32] = [] \<or> (\<exists>a q. [cidr_text net 32] = [cidr_text a q] \<and> q \<le> 32)"
    "[] = ([] :: string list) \<or> (\<exists>a q. [] = [cidr_text a q] \<and> q \<le> 32)"
    using assms(15-17) by auto
  have nics: "holds (view w) (getNicKey node HOST) (host_nics vx br dev)" using assms(20) by (simp add: node_recorded_def)
  from del [OF s(2-4) [OF in_s(1)] host get(1) ifs(1,2,3), unfolded s(1,5) [OF in_s(1)], OF cond(7,1,4) assms(21) nics]
  obtain w1 where 1: "delKubernetesNic A ?host br s w = ((Inr (), s1), w1)" "lease_table (view w1) node net p []"
    "view w1 (getAddrKey node HOST br) = None" "view w1 (getRouteKey node HOST br) = None"
    "holds (view w1) (getNicKey node HOST) (removeAll br (host_nics vx br dev))"
    "view w1 (getVtepKey node) = (if mode = Mode_vxlan then None else view w (getVtepKey node))"
    "\<forall>j. j \<notin> {address_key node, getAddrKey node HOST br, getRouteKey node HOST br, getNicKey node HOST, getVtepKey node}
       \<longrightarrow> view w1 j = view w j"
    unfolding s1_def by auto
  let ?V = "\<lambda>w2. lease_table (view w2) node net p [] \<and>
    view w2 (getAddrKey node HOST NAME_VXLAN) = None \<and> view w2 (getRouteKey node HOST NAME_VXLAN) = None \<and>
    holds (view w2) (getNicKey node HOST) [dev] \<and> view w2 (getVtepKey node) = view w1 (getVtepKey node) \<and>
    (\<forall>j. j \<notin> {address_key node, getAddrKey node HOST NAME_VXLAN, getRouteKey node HOST NAME_VXLAN, getNicKey node HOST,
       getVtepKey node} \<longrightarrow> view w2 j = view w1 j)"
  have vxlan: "\<exists>w2. delKubernetesNic A ?host NAME_VXLAN s1 w1 = ((Inr (), s1'), w2) \<and> ?V w2"
  proof (cases vx)
    case True
    then have "netns_getNic NAME_VXLAN ?host = Some (?pic NAME_VXLAN)" using get(3) by simp
    from del [OF s(2-4) [OF in_s(2)] host this ifs(1,2) ifs(5) [OF True], unfolded s(1,5) [OF in_s(2)],
        OF cond(8,3,6) 1(2,5)] obtain w2 where
      2: "delKubernetesNic A ?host NAME_VXLAN s1 w1 = ((Inr (), s1'), w2)"
        "lease_table (view w2) node net p (removeAll (concat [cidr_text net 32]) [])"
        "view w2 (getAddrKey node HOST NAME_VXLAN) = None" "view w2 (getRouteKey node HOST NAME_VXLAN) = None"
        "holds (view w2) (getNicKey node HOST) (removeAll NAME_VXLAN (removeAll br (host_nics vx br dev)))"
        "view w2 (getVtepKey node) = (if mode = Mode_vxlan then None else view w1 (getVtepKey node))"
        "\<forall>j. j \<notin> {address_key node, getAddrKey node HOST NAME_VXLAN, getRouteKey node HOST NAME_VXLAN, getNicKey node HOST,
           getVtepKey node} \<longrightarrow> view w2 j = view w1 j"
      unfolding s1'_def if_P [OF True] by blast
    have "removeAll NAME_VXLAN (removeAll br (host_nics vx br dev)) = [dev]" using assms(17,18) by (auto simp: host_nics_def)
    with 2 1(6) True assms(24) show ?thesis by simp
  next
    case False
    have "delKubernetesNic A ?host NAME_VXLAN s1 w1 = ((Inr (), s1'), w1)"
      using get(3) False by (simp add: delKubernetesNic_def action_run s1'_def)
    moreover have "removeAll br (host_nics vx br dev) = [dev]" using assms(17) False by (auto simp: host_nics_def)
    moreover have "view w1 (getAddrKey node HOST NAME_VXLAN) = None" "view w1 (getRouteKey node HOST NAME_VXLAN) = None"
      using assms(20) False 1(7) d by (simp_all add: node_recorded_def holds_def)
    ultimately show ?thesis using 1(2,5) by simp
  qed
  then obtain w2 where 2: "delKubernetesNic A ?host NAME_VXLAN s1 w1 = ((Inr (), s1'), w2)" and V: "?V w2" by blast
  from del [OF s(2-4) [OF in_s(3)] host get(2) ifs(1,2,4), unfolded s(1,5) [OF in_s(3)], OF cond(9,2,5), of w2 net p "[dev]"] V
  obtain w3 where 3: "delKubernetesNic A ?host dev s1' w2 = ((Inr (), s2), w3)" "lease_table (view w3) node net p []"
    "view w3 (getAddrKey node HOST dev) = None" "view w3 (getRouteKey node HOST dev) = None"
    "holds (view w3) (getNicKey node HOST) []"
    "view w3 (getVtepKey node) = (if mode = Mode_vxlan then None else view w2 (getVtepKey node))"
    "\<forall>j. j \<notin> {address_key node, getAddrKey node HOST dev, getRouteKey node HOST dev, getNicKey node HOST, getVtepKey node}
       \<longrightarrow> view w3 j = view w2 j"
    unfolding s2_def by auto
  have f3: "view w3 (entry_key (Pod_of node HOST)) = Some HOST" "view w3 (getNetnsKey node HOST) = Some HOST"
    "holds (view w3) (getAllPodsKey node) [HOST]" "holds (view w3) ETCD_KEY_SUBNET subs"
    using 3(7) V 1(7) assms(20,22,23) d by (simp_all add: node_recorded_def holds_def)
  from delKubernetesPod_up [OF assms(3,4) s(3) [OF in_s(4)], of HOST HOST HOST w3 "[HOST]"] ok f3(1-3) s(1) [OF in_s(4)]
  have pod: "succeeds (delKubernetesPod HOST) (\<lambda>_ s' w'. s' = on_node (node_delNetns HOST) s2 \<and>
      view w' (getNetnsKey node HOST) = None \<and> view w' (entry_key (Pod_of node HOST)) = None \<and>
      holds (view w') (getAllPodsKey node) [] \<and>
      (\<forall>j. j \<notin> entry_key ` {Netns_of node HOST, Pod_of node HOST, Pods_of node} \<longrightarrow> view w' j = view w3 j)) s2 w3"
    by simp
  have sub: "node_getSubnet A n = Inr (cidr_text net p)" "cidr_text net p \<noteq> []"
    using assms(5) cidr_text_list_elem [of net p]
    by (simp_all add: node_getSubnet_def getSubnet_def assms(14) asio_documented_def list_elem_def shell_word_def)
  let ?Q = "\<lambda>w5. node_unknown (view w5) node br dev \<and> holds (view w5) ETCD_KEY_SUBNET (removeAll (cidr_text net p) subs) \<and>
      view w5 (getVtepKey node) = (if vx then None else view w (getVtepKey node)) \<and>
      (\<forall>j. j \<notin> entry_key ` set (Vtep_of node # Subnets # host_entries node br dev) \<longrightarrow> view w5 j = view w j)"
  have last: "?Q (snd (ipam_releaseSubnet E1 node (cidr_text net p) w4))"
    if 4: "view w4 (getNetnsKey node HOST) = None" "view w4 (entry_key (Pod_of node HOST)) = None"
        "holds (view w4) (getAllPodsKey node) []"
        "\<forall>j. j \<notin> entry_key ` {Netns_of node HOST, Pod_of node HOST, Pods_of node} \<longrightarrow> view w4 j = view w3 j" for w4
  proof -
    obtain b w5 where r: "ipam_releaseSubnet E1 node (cidr_text net p) w4 = (b, w5)" by fastforce
    have "holds (view w4) ETCD_KEY_SUBNET subs" using f3(4) 4(4) d by (simp add: holds_def)
    from etcd_shell_up.releaseSubnet_up [OF assms(1,2) ok(2) this, of "cidr_text net p"] r
    have 5: "holds (view w5) ETCD_KEY_SUBNET (removeAll (cidr_text net p) subs)" "view w5 (subnet_key node) = None"
      "\<forall>j. j \<notin> {ETCD_KEY_SUBNET, subnet_key node} \<longrightarrow> view w5 j = view w4 j" by auto
    have "node_unknown (view w5) node br dev"
      using 1(3,4,7) V 3(2-5,7) 4 5(2,3) d assms(20)
      by (simp add: node_unknown_def host_entries_def lease_table_def holds_def)
    moreover have "view w5 (getVtepKey node) = (if vx then None else view w (getVtepKey node))"
      using 1(6) V 3(6) 4(4) 5(3) d assms(24) by simp
    moreover have "view w5 j = view w j" if "j \<notin> entry_key ` set (Vtep_of node # Subnets # host_entries node br dev)" for j
      using that 1(7) V 3(7) 4(4) 5(3) by (simp add: host_entries_def)
    ultimately show ?thesis using 5(1) r by simp
  qed
  have fin: "succeeds (seq (lift (node_getSubnet A n)) (\<lambda>sub. if sub \<noteq> []
      then seq (deref cni_ipam) (\<lambda>I. seq (call (ip_releaseSubnet I node sub)) (\<lambda>ok. ret ())) else ret ()))
      (\<lambda>_ s' w'. ?Q w') (on_node f s2) w4"
    if 4: "view w4 (getNetnsKey node HOST) = None" "view w4 (entry_key (Pod_of node HOST)) = None"
        "holds (view w4) (getAllPodsKey node) []"
        "\<forall>j. j \<notin> entry_key ` {Netns_of node HOST, Pod_of node HOST, Pods_of node} \<longrightarrow> view w4 j = view w3 j" for f w4
  proof -
    have "cni_ipam (on_node f s2) = Some (ipam_ops E1 A)" using s(2) [OF in_s(4)] by (simp add: on_node_def)
    moreover obtain b w5 where r: "ipam_releaseSubnet E1 node (cidr_text net p) w4 = (b, w5)" by fastforce
    ultimately have "seq (lift (node_getSubnet A n)) (\<lambda>sub. if sub \<noteq> []
      then seq (deref cni_ipam) (\<lambda>I. seq (call (ip_releaseSubnet I node sub)) (\<lambda>ok. ret ())) else ret ()) (on_node f s2) w4 =
      ((Inr (), on_node f s2), w5)"
      using sub by (simp add: action_run ipam_ops_def)
    then show ?thesis by (rule succeedsI) (use last [OF 4] r in simp)
  qed
  show ?thesis
    unfolding take_down_def
    by (simp only: succeeds_seq getKubernetesPod_def assms(13) option.case succeeds_ret
        succeeds_eq [of "delKubernetesNic A ?host br", OF 1(1)] succeeds_eq [of "delKubernetesNic A ?host NAME_VXLAN", OF 2]
        succeeds_eq [of "delKubernetesNic A ?host dev", OF 3(1)],
      rule succeeds_mono [OF pod], elim conjE, erule ssubst, rule fin [unfolded succeeds_seq])
qed

text \<open>Records of the root namespace are none of those of a pod.\<close>

lemma host_key_not_pod:
  assumes "\<forall>x \<in> {node, br, dev, ns, cid, name}. name_ok x" "cid \<noteq> HOST" "ns \<noteq> HOST"
    and "e \<in> {Subnets, Netns_of node HOST, Pod_of node HOST, Nics_of node HOST, Addrs_of node HOST br,
      Routes_of node HOST br, Addrs_of node HOST NAME_VXLAN, Routes_of node HOST NAME_VXLAN, Addrs_of node HOST dev,
      Routes_of node HOST dev}"
  shows "entry_key e \<notin> entry_key ` set (pod_entries node ns cid name)"
proof
  have ok: "\<forall>n \<in> set (entry_names e). name_ok n" using assms(1,4) by auto
  assume "entry_key e \<in> entry_key ` set (pod_entries node ns cid name)"
  then obtain h where h: "h \<in> set (pod_entries node ns cid name)" "entry_key e = entry_key h" by blast
  then have "\<forall>n \<in> set (entry_names h). name_ok n" using assms(1) by (auto simp: pod_entries_def)
  from entry_key_inject [OF ok this] h(2) have "e = h" by blast
  with h(1) assms(2-4) show False by (auto simp: pod_entries_def)
qed

lemma host_records_stay:
  assumes "\<forall>x \<in> {node, br, dev, ns, cid, name}. name_ok x" "cid \<noteq> HOST" "ns \<noteq> HOST"
    and "\<forall>j. j \<notin> entry_key ` set (pod_entries node ns cid name) \<longrightarrow> m' j = m j"
  shows "node_recorded vx m' node br dev net gw \<longleftrightarrow> node_recorded vx m node br dev net gw"
    and "holds m' ETCD_KEY_SUBNET subs \<longleftrightarrow> holds m ETCD_KEY_SUBNET subs"
proof -
  note out = host_key_not_pod [OF assms(1-3)]
  have eq: "m' (entry_key e) = m (entry_key e)"
    if "e \<in> {Subnets, Netns_of node HOST, Pod_of node HOST, Nics_of node HOST, Addrs_of node HOST br,
      Routes_of node HOST br, Addrs_of node HOST NAME_VXLAN, Routes_of node HOST NAME_VXLAN, Addrs_of node HOST dev,
      Routes_of node HOST dev}" for e
    using out [OF that] assms(4) by blast
  show "node_recorded vx m' node br dev net gw \<longleftrightarrow> node_recorded vx m node br dev net gw"
    "holds m' ETCD_KEY_SUBNET subs \<longleftrightarrow> holds m ETCD_KEY_SUBNET subs"
    using eq [of "Netns_of node HOST"] eq [of "Pod_of node HOST"] eq [of "Nics_of node HOST"] eq [of "Addrs_of node HOST br"]
      eq [of "Routes_of node HOST br"] eq [of "Addrs_of node HOST dev"] eq [of "Routes_of node HOST dev"] eq [of Subnets]
      eq [of "Addrs_of node HOST NAME_VXLAN"] eq [of "Routes_of node HOST NAME_VXLAN"]
    by (simp_all add: node_recorded_def holds_def)
qed

lemma last_del_up:
  assumes "shell_serves E1 view" "shell_reliable E1" "shell_serves E2 view" "shell_reliable E2"
    and "platform_of P view node dev addr" "link_obeys N view"
    and "cni_ipam s = Some (ipam_ops E1 (pf_asio P))" "cni_storage s = Some (storage_ops E2 (pf_asio P))"
    and "cni_netlink s = Some N" "cni_mode s = Some mode"
    and "node_readable (pf_asio P) node (view w)" "holds (view w) (getAllPodsKey node) [HOST, cid]"
    and "br = cc_bridge (cni_conf s)" "br \<noteq> dev" "NAME_VXLAN \<notin> {br, dev}"
    and "\<forall>x \<in> {node, br, dev, ns, cid, name}. name_ok x \<and> shell_word x" "cid \<noteq> HOST" "ns \<noteq> HOST"
    and "simpleNetns netns = Inr ns" "shell_word netns"
    and "pod_recorded (view w) node netns ns cid name (cidr_text a p) rt" "p \<le> 32"
    and "lease_table (view w) node net p [cidr_text g p, cidr_text a p]" "cidr_text g p \<noteq> cidr_text a p"
    and "node_recorded vx (view w) node br dev net (cidr_text g p)" "holds (view w) ETCD_KEY_SUBNET subs"
    and "vx \<longleftrightarrow> mode = Mode_vxlan"
  shows "succeeds (del_body P cid name) (\<lambda>_ s' w'.
      node_unknown (view w') node br dev \<and> pod_unknown (view w') node ns cid name \<and>
      holds (view w') ETCD_KEY_SUBNET (removeAll (cidr_text net p) subs) \<and>
      view w' (getVtepKey node) = (if vx then None else view w (getVtepKey node)) \<and>
      (\<forall>j. j \<notin> entry_key ` set (Vtep_of node # Subnets # host_entries node br dev @ pod_entries node ns cid name)
         \<longrightarrow> view w' j = view w j)) s w"
    (is "succeeds _ (\<lambda>_ s' w'. ?Q w') s w")
proof -
  have P: "asio_documented (pf_asio P)" using assms(5) by (simp add: platform_of_def)
  have nm: "\<forall>x \<in> {node, ns, cid, name}. name_ok x \<and> shell_word x" "\<forall>x \<in> {node, br, dev}. name_ok x \<and> shell_word x"
    "\<forall>x \<in> {node, br, dev, ns, cid, name}. name_ok x" "\<forall>x \<in> {node, br, dev}. name_ok x" using assms(16) by simp_all
  have ps: "cid \<in> set [HOST, cid]" "card (set [HOST, cid]) = 2" using assms(17) by simp_all
  show ?thesis
  proof (rule del_body_then [OF assms(1-12) ps(1) assms(17) nm(1) assms(19-23)])
    fix s' :: "'a cni" and w' and n :: "'a node"
    let ?s0 = "s\<lparr>cni_node_name := node, cni_underlay_dev := dev, cni_underlay_addr := addr\<rparr>"
    assume st: "cni_node_name s' = node" "cni_ipam s' = cni_ipam s" "cni_storage s' = cni_storage s" "cni_mode s' = Some mode"
        "cni_underlay_dev s' = dev" "Suc (node_getNetnsSize n) = card (set [HOST, cid])" "node_subnet n = Some (v4_subnet net p)"
        "node_getNetns HOST n = (if HOST \<in> set [HOST, cid] then Some (picture_pod (pf_asio P) N ?s0 (view w) HOST) else None)"
      and del: "pod_deleted (view w) (view w') node ns cid name net p [cidr_text g p, cidr_text a p] [HOST, cid] (cidr_text a p) mode"
    have one: "node_getNetnsSize n = 1" using st(6) ps(2) by simp
    from del have fr: "\<forall>j. j \<notin> entry_key ` set (pod_entries node ns cid name) \<longrightarrow> view w' j = view w j"
      by (simp add: pod_deleted_def)
    note stay = host_records_stay [OF nm(3) assms(17,18) fr]
    have h: "lease_table (view w') node net p [cidr_text g p]" "holds (view w') (getAllPodsKey node) [HOST]"
      "pod_unknown (view w') node ns cid name" "view w' (getVtepKey node) = (if vx then None else view w (getVtepKey node))"
      using del assms(17,24,27) by (simp_all add: pod_deleted_def)
    have "succeeds (take_down (pf_asio P) node dev br n) (\<lambda>_ s'' w''. node_unknown (view w'') node br dev \<and>
      holds (view w'') ETCD_KEY_SUBNET (removeAll (cidr_text net p) subs) \<and>
      view w'' (getVtepKey node) = (if vx then None else view w' (getVtepKey node)) \<and>
      (\<forall>j. j \<notin> entry_key ` set (Vtep_of node # Subnets # host_entries node br dev) \<longrightarrow> view w'' j = view w' j)) s' w'"
      by (rule take_down_up [OF assms(1-4) P assms(6) st(2) [unfolded assms(7)] st(3) [unfolded assms(8)] st(4) st(1,5)
          _ _ st(7) assms(22) nm(2) assms(14,15,25) _ h(1,2) _ assms(27), where ?s0.0 = ?s0])
        (use st(8) stay assms(25,26) in simp_all)
    then have "succeeds (take_down (pf_asio P) node dev br n) (\<lambda>_ s'' w''. ?Q w'') s' w'"
    proof (rule succeeds_mono, elim conjE, intro conjI)
      fix s'' w'' assume t: "\<forall>j. j \<notin> entry_key ` set (Vtep_of node # Subnets # host_entries node br dev) \<longrightarrow> view w'' j = view w' j"
      show "pod_unknown (view w'') node ns cid name"
        unfolding pod_unknown_def
      proof
        fix e assume e: "e \<in> {Netns_of node cid, Pod_of node ns, Nics_of node cid, Addrs_of node cid name, Routes_of node cid name}"
        from pod_key_not_host [OF nm(3) assms(17,18) e] t have "view w'' (entry_key e) = view w' (entry_key e)" by blast
        with h(3) e show "view w'' (entry_key e) = None" by (simp only: pod_unknown_def)
      qed
      show "\<forall>j. j \<notin> entry_key ` set (Vtep_of node # Subnets # host_entries node br dev @ pod_entries node ns cid name) \<longrightarrow>
          view w'' j = view w j"
        using t fr by (auto simp: image_Un)
      assume "view w'' (getVtepKey node) = (if vx then None else view w' (getVtepKey node))"
      then show "view w'' (getVtepKey node) = (if vx then None else view w (getVtepKey node))"
        unfolding h(4) by (cases vx) (simp_all only: if_True if_False)
    qed
    then show "succeeds (if node_getNetnsSize n = 1 then take_down (pf_asio P) node dev (cc_bridge (cni_conf s)) n else ret ())
      (\<lambda>_ s'' w''. ?Q w'') s' w'"
      unfolding if_P [OF one] assms(13) .
  qed
qed

end
