(* ===== verification/Cni_Lifecycle.thy ===== *)
theory Cni_Lifecycle
  imports Cni_Setup
begin

text \<open>
  Properties of whole commands: the cluster a command works on is the picture of the records, and ADD
  followed by DEL gives the store back as it was.
\<close>

subsection \<open>The picture\<close>

text \<open>
  C9: With a cluster that answers and a kernel that does what it is told, the cluster a command rebuilds
  is determined by the records: it is the one node, with exactly the recorded pods under it, each with
  exactly its recorded interfaces, each with exactly its recorded addresses and routes, in the recorded
  order. Nothing in the store changes. The gateway becomes the first address of the bridge when it was
  not known.
\<close>

theorem cluster_is_rebuilt_from_records:
  assumes "etcdctl_serves (shell c) (command_prefix c) view" and "etcdctl_reliable (shell c) (command_prefix c)"
    and "etcd_backed c A s" and "link_obeys N view" and "asio_documented A" and "q \<le> 32"
    and "view w (subnet_key (cni_node_name s)) = Some (cidr_text net q)"
    and "node_readable A (cni_node_name s) (view w)"
    and "getKubernetesCluster A (Some N) s w = ((r, s'), w')"
  defines "node \<equiv> cni_node_name s" and "m \<equiv> view w"
  shows "\<exists>n. r = Inr [(node, n)] \<and> node_name n = node \<and> node_subnet n = Some (v4_subnet net q) \<and>
    (\<forall>pod. node_getNetns pod n = (if pod \<in> set (stored_list m (getAllPodsKey node)) then Some (picture_pod A N s m pod) else None)) \<and>
    (\<forall>pod nic. netns_getNic nic (picture_pod A N s m pod) =
       (if nic \<in> set (stored_list m (getNicKey node pod)) then Some (picture_nic A N s m pod nic) else None)) \<and>
    (\<forall>pod nic. let i = picture_nic A N s m pod nic in nic_name i = nic \<and>
       nic_addrs i = map (Addr A) (stored_list m (getAddrKey node pod nic)) \<and>
       (pod \<in> set (stored_list m (getAllPodsKey node)) \<and> nic \<in> set (stored_list m (getNicKey node pod)) \<longrightarrow>
          routes_of (stored_list m (getRouteKey node pod nic)) = Inr (nic_routes i))) \<and>
    s' = set_gateway A (all_bridge_addrs s m (stored_list m (getAllPodsKey node))) s \<and> view w' = view w"
proof -
  from assms(3) obtain o1 o2 where cni: "cni_ipam s = Some (ipam_ops (etcd_shell_if o1 c) A)"
    "cni_storage s = Some (storage_ops (etcd_shell_if o2 c) A)" unfolding etcd_backed_def by blast
  note srv = shell_serves_intro [OF assms(1)] and rel = shell_reliable_intro [OF assms(2)]
  from succeeds_run [OF getKubernetesCluster_up [OF srv rel srv rel cni assms(4-8)] assms(9)]
  have run: "r = Inr [(node, picture_node A N s m)]"
    "s' = set_gateway A (all_bridge_addrs s m (stored_list m (getAllPodsKey node))) s" "view w' = view w"
    by (auto simp: node_def m_def)
  have routes: "routes_of (stored_list m (getRouteKey node pod nic)) = Inr (nic_routes (picture_nic A N s m pod nic))"
    if "pod \<in> set (stored_list m (getAllPodsKey node))" "nic \<in> set (stored_list m (getNicKey node pod))" for pod nic
  proof -
    have "returns (routes_of (stored_list m (getRouteKey node pod nic)))"
      using assms(8) that by (simp add: node_readable_def pod_readable_def nic_readable_def node_def m_def)
    then show ?thesis by (auto simp: picture_nic_def node_def returns_def split: sum.splits)
  qed
  have sub: "node_subnet (picture_node A N s m) = Some (v4_subnet net q)"
    using stored_cidr_text [of "view w", OF assms(7)] by (simp add: picture_node_def m_def v4_subnet_init [OF assms(5,6)])
  have "node_name (picture_node A N s m) = node" by (simp add: picture_node_def node_def)
  with run sub routes show ?thesis
    by (intro exI [of _ "picture_node A N s m"]) (simp add: node_def picture_nic_def Let_def)
qed

subsection \<open>ADD and DEL\<close>

lemma holds_same: "holds m k vs \<Longrightarrow> holds m' k vs \<Longrightarrow> m k = m' k"
  by (simp add: holds_def)

lemma default_route_returns:
  "name \<noteq> [] \<Longrightarrow> returns (routes_of [getRouteValue [] (dotted g) name])"
proof -
  assume "name \<noteq> []"
  have "SEPARATOR \<notin> set (dotted g)" by (auto simp: SEPARATOR_def dest!: dotted_chars)
  with \<open>name \<noteq> []\<close> show ?thesis by (simp add: route_of_value)
qed

text \<open>What ADD records can be read back, and what was readable still is.\<close>

lemma node_stays_readable:
  assumes "node_readable A node m" "holds m (getAllPodsKey node) ps" "cid \<notin> set ps"
    and "\<forall>x \<in> {node, ns, cid, name}. name_ok x \<and> shell_word x" "simpleNetns netns = Inr ns" "shell_word netns"
    and "pod_recorded m' node netns ns cid name ip (getRouteValue [] (dotted g) name)"
    and "returns (addr_getAddrCidr A (Addr A ip))" "holds m' (getAllPodsKey node) (ps @ [cid])"
    and "\<forall>j. j \<notin> entry_key ` set (pod_entries node ns cid name) \<longrightarrow> m' j = m j"
  shows "node_readable A node m'"
proof -
  have nm: "name_ok node" "shell_word node" "name_ok cid" "shell_word cid" "name_ok name" "shell_word name" "name_ok ns"
    using assms(4) by simp_all
  have es: "\<forall>e \<in> set (pod_entries node ns cid name). \<forall>n \<in> set (entry_names e). name_ok n"
    using nm by (simp add: pod_entries_def)
  have same: "stored_text m' (entry_key e) = stored_text m (entry_key e) \<and> stored_list m' (entry_key e) = stored_list m (entry_key e)"
    if "\<forall>n \<in> set (entry_names e). name_ok n" "e \<notin> set (pod_entries node ns cid name)" for e
  proof -
    have "entry_key e \<notin> entry_key ` set (pod_entries node ns cid name)"
      using entry_key_inject [OF that(1)] es that(2) by blast
    with assms(10) show ?thesis by (intro stored_cong) simp
  qed
  have pods: "stored_list m (getAllPodsKey node) = ps" "stored_list m' (getAllPodsKey node) = ps @ [cid]"
    by (rule holds_stored_list, rule assms(2), rule holds_stored_list, rule assms(9))
  have old: "pod_readable A node m' pod" if pod: "pod \<in> set ps" for pod
  proof -
    have rd: "pod_readable A node m pod" using assms(1) pod pods(1) by (simp add: node_readable_def)
    then have "name_ok pod" by (simp add: pod_readable_def)
    have "pod \<noteq> cid" using assms(3) pod by blast
    have s: "stored_text m' (getNetnsKey node pod) = stored_text m (getNetnsKey node pod)"
      "stored_list m' (getNicKey node pod) = stored_list m (getNicKey node pod)"
      using same [of "Netns_of node pod"] same [of "Nics_of node pod"] \<open>pod \<noteq> cid\<close> \<open>name_ok pod\<close> nm
      by (simp_all add: pod_entries_def)
    have "stored_list m' (getAddrKey node pod nic) = stored_list m (getAddrKey node pod nic) \<and>
        stored_list m' (getRouteKey node pod nic) = stored_list m (getRouteKey node pod nic)" if "name_ok nic" for nic
      using same [of "Addrs_of node pod nic"] same [of "Routes_of node pod nic"] \<open>pod \<noteq> cid\<close> \<open>name_ok pod\<close> nm that
      by (simp add: pod_entries_def)
    with rd s show ?thesis by (auto simp: pod_readable_def nic_readable_def)
  qed
  have rec: "stored_text m' (getNetnsKey node cid) = netns" "stored_list m' (getNicKey node cid) = [name]"
    "stored_list m' (getAddrKey node cid name) = [ip]"
    "stored_list m' (getRouteKey node cid name) = [getRouteValue [] (dotted g) name]"
    using assms(6,7) by (simp_all add: pod_recorded_def stored_word holds_stored_list)
  have "name \<noteq> []" using nm(5) by (simp add: name_ok_def)
  then have "pod_readable A node m' cid"
    using nm assms(5,8) default_route_returns [of name g] by (simp add: pod_readable_def nic_readable_def rec)
  with old nm show ?thesis by (simp add: node_readable_def pods(2))
qed

text \<open>Records that are back: every record ADD and DEL may touch is as it was, so the store is.\<close>

lemma records_back:
  assumes "lease_table m node net p xs" "lease_table m' node net p xs"
    and "pod_unknown m node ns cid name" "pod_unknown m' node ns cid name"
    and "holds m (getAllPodsKey node) ps" "holds m' (getAllPodsKey node) ps"
    and "\<forall>j. j \<notin> entry_key ` set (pod_entries node ns cid name) \<longrightarrow> m' j = m j"
  shows "m' = m(getVtepKey node := m' (getVtepKey node))"
proof
  fix j
  have "m' (entry_key e) = m (entry_key e)" if "e \<in> set (pod_entries node ns cid name)" "e \<noteq> Vtep_of node" for e
    using that assms(1-4) holds_same [OF assms(6,5)] holds_same [of m' "address_key node" xs m]
    by (auto simp: pod_entries_def lease_table_def pod_unknown_def)
  moreover have "getVtepKey node = entry_key (Vtep_of node)" by simp
  ultimately show "m' j = (m(getVtepKey node := m' (getVtepKey node))) j"
    using assms(7) by (cases "j \<in> entry_key ` set (pod_entries node ns cid name)") (auto simp del: entry_key.simps)
qed

text \<open>
  C1: On a node that is set up and has another pod, ADD for a container that is not recorded prints
  the first free address of the node's subnet and the bridge's address as gateway, and records the
  lease, the pod, its namespace, its interface, its address and its default route. DEL for the same
  container, by another process that knows nothing but the store, then succeeds and gives the store
  back exactly as it was before ADD; only in the vxlan mode the node's VTEP record is gone.
\<close>

theorem add_then_del_leaves_no_trace:
  assumes "etcdctl_serves (shell c) (command_prefix c) view" and "etcdctl_reliable (shell c) (command_prefix c)"
    and "etcdctl_lists (shell c) (command_prefix c) view"
    and "platform_of P view node dev addr" and "link_obeys N view"
    and "\<forall>x \<in> {s, t}. etcd_backed c (pf_asio P) x \<and> cni_netlink x = Some N"
    and "cni_gateway s = None" and "cc_bridge (cni_conf s) \<noteq> dev" and "cni_mode t = Some mode"
    and "node_set_up (pf_asio P) (view w) node (cc_bridge (cni_conf s)) ps (cidr_text g q)" and "q \<le> 32"
    and "1 < card (set ps)"
    and "\<forall>x \<in> {node, ns, cid, name}. name_ok x \<and> shell_word x" and "list_elem cid" and "list_elem name"
    and "cid \<notin> set ps" and "simpleNetns netns = Inr ns" and "shell_word netns"
    and "0 < p" and "p < 32" and "lease_table (view w) node net p xs"
    and "pod_unknown (view w) node ns cid name" and "first_free (host_ips net p) xs = Some ip"
    and "cni_add P cid netns name s w = ((r, s'), w1)" and "cni_del P cid name t w1 = ((r', t'), w2)"
  shows "r = Inr (j_dump (pf_json P) 4 (result_to_json (pf_json P)
       \<lparr>cr_cniversion = cc_version (cni_conf s), cr_ips = [\<lparr>cri_address = ip, cri_gateway = dotted g\<rparr>],
        cr_interfaces = [\<lparr>ri_name = name, ri_sandbox = netns\<rparr>]\<rparr>)) \<and>
    lease_table (view w1) node net p (xs @ [ip]) \<and>
    pod_recorded (view w1) node netns ns cid name ip (getRouteValue [] (dotted g) name) \<and>
    holds (view w1) (getAllPodsKey node) (ps @ [cid]) \<and>
    r' = Inr () \<and> view w2 = (if mode = Mode_vxlan then (view w)(getVtepKey node := None) else view w)"
proof -
  from assms(6) obtain o1 o2 o3 o4 where cni: "cni_ipam s = Some (ipam_ops (etcd_shell_if o1 c) (pf_asio P))"
    "cni_storage s = Some (storage_ops (etcd_shell_if o2 c) (pf_asio P))"
    "cni_ipam t = Some (ipam_ops (etcd_shell_if o3 c) (pf_asio P))"
    "cni_storage t = Some (storage_ops (etcd_shell_if o4 c) (pf_asio P))" unfolding etcd_backed_def by auto
  have nl: "cni_netlink s = Some N" "cni_netlink t = Some N" using assms(6) by simp_all
  note srv = shell_serves_intro [OF assms(1)] and rel = shell_reliable_intro [OF assms(2)]
  have "shell_word ETCD_KEY_PREFIX" by (simp add: ETCD_KEY_PREFIX_def shell_word_def word_char_def)
  then have dump: "\<exists>d w'. ec_dump (etcd_shell_if o1 c) ETCD_KEY_PREFIX v = (Inr d, w') \<and> view w' = view v" for v
    using dump_up [OF assms(3)] by simp
  have A: "asio_documented (pf_asio P)" using assms(4) by (simp add: platform_of_def)
  from first_free_host [OF assms(23)] obtain a where ip: "ip = cidr_text a p" "ip \<notin> set xs" by blast
  have p: "p \<le> 32" using assms(20) by simp
  from succeeds_run [OF cni_add_up [OF srv rel srv rel dump assms(4,5) cni(1,2) nl(1) assms(7,8,10,11,13-23)] assms(24),
      unfolded pod_added_def add_output_def]
  have add: "r = Inr (j_dump (pf_json P) 4 (result_to_json (pf_json P)
       \<lparr>cr_cniversion = cc_version (cni_conf s), cr_ips = [\<lparr>cri_address = ip, cri_gateway = dotted g\<rparr>],
        cr_interfaces = [\<lparr>ri_name = name, ri_sandbox = netns\<rparr>]\<rparr>))"
    "lease_table (view w1) node net p (xs @ [ip])"
    "pod_recorded (view w1) node netns ns cid name ip (getRouteValue [] (dotted g) name)"
    "holds (view w1) (getAllPodsKey node) (ps @ [cid])"
    "\<forall>j. j \<notin> entry_key ` (set (pod_entries node ns cid name) - {Subnet_of node, Vtep_of node}) \<longrightarrow> view w1 j = view w j"
    by auto
  then have frame: "\<forall>j. j \<notin> entry_key ` set (pod_entries node ns cid name) \<longrightarrow> view w1 j = view w j" by blast
  have up: "node_readable (pf_asio P) node (view w)" "holds (view w) (getAllPodsKey node) ps" "HOST \<in> set ps"
    using assms(10) by (simp_all add: node_set_up_def)
  have "returns (addr_getAddrCidr (pf_asio P) (Addr (pf_asio P) ip))" using addr_print(1) [OF A p] ip(1) by simp
  from node_stays_readable [OF up(1,2) assms(16,13,17,18) add(3) this add(4) frame]
  have read: "node_readable (pf_asio P) node (view w1)" .
  have host: "cid \<noteq> HOST" "cid \<in> set (ps @ [cid])" "2 < card (set (ps @ [cid]))" using up(3) assms(12,16) by auto
  obtain rb sb wb where body: "del_body P cid name t w1 = ((rb, sb), wb)" by (metis prod.collapse)
  from succeeds_run [OF del_body_up [OF srv rel srv rel assms(4,5) cni(3,4) nl(2) assms(9) read add(4) host(2,1)
      assms(13,17,18) add(3) [unfolded ip(1)] p add(2) host(3)] body, unfolded pod_deleted_def]
  have del: "rb = Inr ()" "lease_table (view wb) node net p (removeAll ip (xs @ [ip]))" "pod_unknown (view wb) node ns cid name"
    "holds (view wb) (getAllPodsKey node) (removeAll cid (ps @ [cid]))"
    "view wb (getVtepKey node) = (if mode = Mode_vxlan then None else view w1 (getVtepKey node))"
    "\<forall>j. j \<notin> entry_key ` set (pod_entries node ns cid name) \<longrightarrow> view wb j = view w1 j"
    unfolding ip(1) by auto
  have fin: "r' = Inr ()" "w2 = wb" using assms(25) body del(1) by (simp_all add: cni_del_def)
  have nm: "\<forall>x \<in> {node, ns, cid, name}. name_ok x" using assms(13) by blast
  have vtep: "view w1 (getVtepKey node) = view w (getVtepKey node)"
    using add(5) pod_entries_neq(2) [OF nm]
    by (auto simp: pod_entries_def dest!: spec [of _ "getVtepKey node"])
  have "view wb = (view w)(getVtepKey node := view wb (getVtepKey node))"
    by (rule records_back [OF assms(21) _ assms(22) del(3) up(2)])
      (use del(2,4,6) frame ip(2) assms(16) in simp_all)
  also have "\<dots> = (if mode = Mode_vxlan then (view w)(getVtepKey node := None) else view w)"
    unfolding del(5) vtep by simp
  finally show ?thesis using add(1-4) fin by simp
qed

subsection \<open>The first ADD and the last DEL\<close>

lemma all_records_back:
  assumes "node_unknown m node br dev" "node_unknown m' node br dev" "pod_unknown m node ns cid name" "pod_unknown m' node ns cid name"
    and "holds m ETCD_KEY_SUBNET subs" "holds m' ETCD_KEY_SUBNET subs" "m' (getVtepKey node) = m (getVtepKey node)"
    and "\<forall>j. j \<notin> entry_key ` set (Vtep_of node # Subnets # host_entries node br dev @ pod_entries node ns cid name) \<longrightarrow> m' j = m j"
  shows "m' = m"
proof
  fix j
  have "m' (entry_key e) = m (entry_key e)"
    if e: "e \<in> set (Vtep_of node # Subnets # host_entries node br dev @ pod_entries node ns cid name)" for e
  proof -
    from e consider "e = Subnets" | "e = Vtep_of node" | "e \<in> set (host_entries node br dev)"
      | "e \<in> {Netns_of node cid, Pod_of node ns, Nics_of node cid, Addrs_of node cid name, Routes_of node cid name}"
      unfolding pod_entries_def host_entries_def by auto
    then show ?thesis
    proof cases
      case 1 then show ?thesis using holds_same [OF assms(6,5)] by simp
    next
      case 2 then show ?thesis using assms(7) by simp
    next
      case 3 show ?thesis
        by (simp only: bspec [OF assms(1) [unfolded node_unknown_def] 3] bspec [OF assms(2) [unfolded node_unknown_def] 3])
    next
      case 4 show ?thesis
        by (simp only: bspec [OF assms(3) [unfolded pod_unknown_def] 4] bspec [OF assms(4) [unfolded pod_unknown_def] 4])
    qed
  qed
  note same = this
  show "m' j = m j"
  proof (cases "j \<in> entry_key ` set (Vtep_of node # Subnets # host_entries node br dev @ pod_entries node ns cid name)")
    case True
    then obtain e where "e \<in> set (Vtep_of node # Subnets # host_entries node br dev @ pod_entries node ns cid name)" "j = entry_key e" by (rule imageE)
    with same show ?thesis by (simp only:)
  qed (use assms(8) in blast)
qed

text \<open>
  C2: On a node without a subnet and without any record, ADD sets the node up: it takes the pod CIDR that
  Kubernetes gives the node, reserves the first address for the bridge and prints the second one with
  the first as gateway; in the vxlan mode it also makes the VXLAN device with the network's address and
  publishes the VTEP record, the address and the device's hardware address, that the other nodes read.
  The store then holds the two leases, the records of the root namespace and those of the pod, and the
  node is in the state that every later ADD needs. DEL for the pod, by a process that knows nothing but
  the store, then takes the node down as well: the subnet is given back, and the store is exactly what
  it was before the ADD.
\<close>

theorem first_add_last_del_restore_store:
  assumes "etcdctl_serves (shell c) (command_prefix c) view" and "etcdctl_reliable (shell c) (command_prefix c)"
    and "etcdctl_lists (shell c) (command_prefix c) view"
    and "platform_of P view node dev addr" and "link_obeys N view"
    and "\<forall>x \<in> {s, t}. etcd_backed c (pf_asio P) x \<and> cni_netlink x = Some N \<and> cni_mode x = Some mode \<and> cc_bridge (cni_conf x) = br"
    and "mode = Mode_vxlan \<longrightarrow> mac_known (pf_hwaddr P) view NAME_VXLAN mac \<and> view w (getVtepKey node) = None"
    and "cni_center s = Some center" and "center_knows center view node (cidr_text net p)"
    and "br \<noteq> dev" and "NAME_VXLAN \<notin> {br, dev}" and "\<forall>x \<in> {br, dev, cid, name}. list_elem x"
    and "\<forall>x \<in> {node, br, dev, ns, cid, name}. name_ok x \<and> shell_word x"
    and "cid \<noteq> HOST" and "ns \<noteq> HOST" and "simpleNetns netns = Inr ns" and "shell_word netns" and "0 < p" and "p < 32"
    and "first_free (host_ips net p) [] = Some (cidr_text g p)" and "first_free (host_ips net p) [cidr_text g p] = Some ip"
    and "holds (view w) ETCD_KEY_SUBNET subs" and "cidr_text net p \<notin> set subs"
    and "node_unknown (view w) node br dev" and "pod_unknown (view w) node ns cid name"
    and "cni_add P cid netns name s w = ((r, s'), w1)" and "cni_del P cid name t w1 = ((r', t'), w2)"
  shows "r = Inr (add_output P (cc_version (cni_conf s)) ip (dotted g) name netns) \<and>
    lease_table (view w1) node net p [cidr_text g p, ip] \<and> holds (view w1) ETCD_KEY_SUBNET (subs @ [cidr_text net p]) \<and>
    node_recorded (mode = Mode_vxlan) (view w1) node br dev net (cidr_text g p) \<and>
    view w1 (getVtepKey node) = (if mode = Mode_vxlan then Some (getVtepValue (dotted net) (setMacStr mac)) else view w (getVtepKey node)) \<and>
    holds (view w1) (getAllPodsKey node) [HOST, cid] \<and>
    pod_recorded (view w1) node netns ns cid name ip (getRouteValue [] (dotted g) name) \<and>
    (name \<noteq> br \<longrightarrow> node_set_up (pf_asio P) (view w1) node br [HOST, cid] (cidr_text g p)) \<and>
    r' = Inr () \<and> view w2 = view w"
proof -
  let ?A = "pf_asio P" and ?gw = "cidr_text g p" and ?rt = "getRouteValue [] (dotted g) name" and ?vx = "mode = Mode_vxlan"
  from assms(6) obtain o1 o2 o3 o4 where cni: "cni_ipam s = Some (ipam_ops (etcd_shell_if o1 c) ?A)"
    "cni_storage s = Some (storage_ops (etcd_shell_if o2 c) ?A)" "cni_ipam t = Some (ipam_ops (etcd_shell_if o3 c) ?A)"
    "cni_storage t = Some (storage_ops (etcd_shell_if o4 c) ?A)" unfolding etcd_backed_def by auto
  have st: "cni_netlink s = Some N" "cni_netlink t = Some N" "cni_mode s = Some mode" "cni_mode t = Some mode"
    "br = cc_bridge (cni_conf s)" "br = cc_bridge (cni_conf t)" using assms(6) by simp_all
  have el: "list_elem br" "list_elem dev" "list_elem cid" "list_elem name" using assms(12) by simp_all
  note srv = shell_serves_intro [OF assms(1)] and rel = shell_reliable_intro [OF assms(2)]
  have "shell_word ETCD_KEY_PREFIX" by (simp add: ETCD_KEY_PREFIX_def shell_word_def word_char_def)
  then have dump: "\<exists>d w'. ec_dump (etcd_shell_if o1 c) ETCD_KEY_PREFIX v = (Inr d, w') \<and> view w' = view v" for v
    using dump_up [OF assms(3)] by simp
  have A: "asio_documented ?A" using assms(4) by (simp add: platform_of_def)
  from first_free_host [OF assms(21)] obtain a where ip: "ip = cidr_text a p" "ip \<notin> set [?gw]" by blast
  then have ne: "?gw \<noteq> cidr_text a p" by auto
  have p: "p \<le> 32" using assms(19) by simp
  have nm: "\<forall>x \<in> {node, ns, cid, name}. name_ok x \<and> shell_word x" "\<forall>x \<in> {node, br, dev}. name_ok x \<and> shell_word x"
    "\<forall>x \<in> {node, br, dev, ns, cid, name}. name_ok x" "\<forall>x \<in> {node, br, dev}. name_ok x" using assms(13) by simp_all
  have hw: "mac_known (pf_hwaddr P) view NAME_VXLAN mac" if ?vx using assms(7) that by blast
  from succeeds_run [OF first_add_up [OF srv rel srv rel dump assms(4,5) cni(1,2) st(1,3) hw assms(8,9) st(5) assms(10) el(1,2)
      assms(13) el(3,4) assms(14-22,24,25,11)] assms(26)]
  obtain m where r: "r = Inr (add_output P (cc_version (cni_conf s)) ip (dotted g) name netns)"
    and m: "node_created ?vx (view w) m node br dev net p subs ?gw (setMacStr mac)" and add: "pod_added m (view w1) node netns ns cid name net p [?gw] [HOST] ip ?rt"
    by blast
  from add have w1: "lease_table (view w1) node net p [?gw, ip]" "holds (view w1) (getAllPodsKey node) [HOST, cid]"
    "pod_recorded (view w1) node netns ns cid name ip ?rt"
    and f1: "\<forall>j. j \<notin> entry_key ` (set (pod_entries node ns cid name) - {Subnet_of node, Vtep_of node}) \<longrightarrow> view w1 j = m j"
    by (simp_all add: pod_added_def)
  then have f1': "\<forall>j. j \<notin> entry_key ` set (pod_entries node ns cid name) \<longrightarrow> view w1 j = m j" by blast
  note stay = host_records_stay [OF nm(3) assms(14,15) f1']
  have h: "node_recorded ?vx (view w1) node br dev net ?gw" "holds (view w1) ETCD_KEY_SUBNET (subs @ [cidr_text net p])"
    using m stay by (simp_all add: node_created_def)
  have up: "node_set_up ?A m node br [HOST] ?gw"
    by (rule created_is_set_up [OF m nm(2) assms(10,11) A refl p])
  then have rd: "node_readable ?A node m" by (simp add: node_set_up_def)
  have pods: "holds m (getAllPodsKey node) [HOST]" using m by (simp add: node_created_def)
  have pr: "returns (addr_getAddrCidr ?A (Addr ?A ip))" using addr_print(1) [OF A p] ip(1) by (simp add: returns_def)
  have "cid \<notin> set [HOST]" using assms(14) by simp
  from node_stays_readable [OF rd pods this nm(1) assms(16,17) w1(3) pr _ f1'] w1(2)
  have read: "node_readable ?A node (view w1)" by simp
  have sl: "stored_list (view w1) (getNicKey node HOST) = host_nics ?vx br dev" "stored_list (view w1) (getAddrKey node HOST br) = [?gw]"
    "stored_list (view w1) (getNicKey node cid) = [name]"
    using w1(3) h(1) unfolding node_recorded_def pod_recorded_def by (blast intro: holds_stored_list)+
  have "node_set_up ?A (view w1) node br [HOST, cid] ?gw" if "name \<noteq> br"
    using that read w1(2) by (auto simp: node_set_up_def sl host_nics_def)
  moreover obtain rb sb wb where body: "del_body P cid name t w1 = ((rb, sb), wb)" by (metis prod.collapse)
  from succeeds_run [OF last_del_up [OF srv rel srv rel assms(4,5) cni(3,4) st(2,4) read w1(2) st(6) assms(10,11,13-17)
      w1(3) [unfolded ip(1)] p w1(1) [unfolded ip(1)] ne h refl] body]
  have del: "rb = Inr ()" "node_unknown (view wb) node br dev" "pod_unknown (view wb) node ns cid name"
    "holds (view wb) ETCD_KEY_SUBNET (removeAll (cidr_text net p) (subs @ [cidr_text net p]))"
    "view wb (getVtepKey node) = (if ?vx then None else view w1 (getVtepKey node))"
    "\<forall>j. j \<notin> entry_key ` set (Vtep_of node # Subnets # host_entries node br dev @ pod_entries node ns cid name) \<longrightarrow>
       view wb j = view w1 j"
    by auto
  have fin: "r' = Inr ()" "w2 = wb" using assms(27) body del(1) by (simp_all add: cni_del_def)
  have vt: "view w1 (getVtepKey node) = (if ?vx then Some (getVtepValue (dotted net) (setMacStr mac)) else view w (getVtepKey node))"
  proof -
    have "\<forall>x \<in> {node, ns, cid, name}. name_ok x" using nm(1) by blast
    then have "view w1 (getVtepKey node) = m (getVtepKey node)"
      using f1 pod_entries_neq(2) [of node ns cid name] by (auto simp: pod_entries_def dest!: spec [of _ "getVtepKey node"])
    with m show ?thesis by (simp only: node_created_def)
  qed
  have vtb: "view wb (getVtepKey node) = view w (getVtepKey node)"
    using assms(7) unfolding del(5) vt by (cases ?vx) (simp_all only: if_True if_False simp_thms)
  have "view wb = view w"
    by (rule all_records_back [OF assms(24) del(2) assms(25) del(3) assms(22)])
      (use del(4,6) vtb assms(23) m f1' in \<open>auto simp: node_created_def image_Un\<close>)
  ultimately show ?thesis using r w1 h vt fin by simp
qed

subsection \<open>A node for the witnesses\<close>

text \<open>The node n1 with the bridge br, its gateway, the root namespace and one more pod, p1.\<close>

definition demo_node_store :: "string \<rightharpoonup> string" where
  "demo_node_store = demo_store(getAllPodsKey ''n1'' \<mapsto> ''host,p1'', getNicKey ''n1'' HOST \<mapsto> ''br'',
     getAddrKey ''n1'' HOST ''br'' \<mapsto> cidr_text 0x0AF40101 29)"

definition demo_node_platform :: "((string \<rightharpoonup> string), jvalue) platform" where
  "demo_node_platform = \<lparr>pf_shell = demo_describe, pf_asio = demo_asio, pf_json = demo_json,
     pf_hwaddr = (\<lambda>name w. (Some (ARPHRD_ETHER, [2, 66, 10, 244, 1, 0]), w)), pf_draw = (\<lambda>w. (\<lambda>i. 0, w))\<rparr>"

definition demo_fresh_plugin :: "(string \<rightharpoonup> string) cni" where
  "demo_fresh_plugin = (new_cni (Some (demo_link True)))\<lparr>cni_conf := default_config\<lparr>cc_bridge := ''br''\<rparr>,
     cni_mode := Some Mode_host_gw, cni_ipam := Some (ipam_ops demo_etcd demo_asio),
     cni_storage := Some (storage_ops demo_etcd demo_asio)\<rparr>"

lemma demo_lists: "etcdctl_lists (shell demo_client) (command_prefix demo_client) f"
  unfolding demo_client_shell etcdctl_lists_def
proof (intro allI impI)
  fix k w ch w' assume "shell_word k" "demo_etcdctl (command_prefix demo_client)
    (command_prefix demo_client @ '' get '' @ k @ '' --prefix'') w = (ch, w')"
  then have w: "w' = w" and ch: "child_stdout ch =
      (case w k of None \<Rightarrow> [] | Some v \<Rightarrow> if shell_word v then k @ CHR 0x0A # v @ [CHR 0x0A] else [])"
    by (simp_all only: demo_prefix_get prod.inject child_stdout_def) (auto simp: child_stdout_def)
  have "\<exists>kvs. child_stdout ch = pair_lines kvs \<and> (\<forall>(k, v) \<in> set kvs. shell_word k \<and> shell_word v)"
  proof (cases "\<exists>v. w k = Some v \<and> shell_word v")
    case True
    then obtain v where "w k = Some v" "shell_word v" by blast
    with ch \<open>shell_word k\<close> show ?thesis by (intro exI [of _ "[(k, v)]"]) (simp add: pair_lines_def)
  next
    case False
    with ch show ?thesis by (intro exI [of _ "[]"]) (auto simp: pair_lines_def split: option.splits)
  qed
  with w show "f w' = f w \<and> (exit_ok ch \<longrightarrow>
      (\<exists>kvs. child_stdout ch = pair_lines kvs \<and> (\<forall>(k, v) \<in> set kvs. shell_word k \<and> shell_word v)))" by simp
qed

lemma demo_link_obeys: "link_obeys (demo_link True) f"
  unfolding link_obeys_def by (intro conjI demo_link_sets) (simp_all add: demo_link_def)

lemma demo_platform_of: "platform_of demo_node_platform f ''n1'' ''eth0'' (cidr_text 0x0A000001 24)"
  by (simp add: platform_of_def demo_described demo_asio_documented demo_node_platform_def)

lemma demo_fresh_facts:
  "\<forall>x \<in> {demo_fresh_plugin, demo_fresh_plugin}. etcd_backed demo_client (pf_asio demo_node_platform) x \<and>
     cni_netlink x = Some (demo_link True)"
  "cni_gateway demo_fresh_plugin = None" "cc_bridge (cni_conf demo_fresh_plugin) = ''br''"
  "cni_mode demo_fresh_plugin = Some Mode_host_gw" "pf_asio demo_node_platform = demo_asio"
  by (auto simp: demo_fresh_plugin_def demo_node_platform_def etcd_backed_def new_cni_def)

text \<open>What the demo store holds under every key.\<close>

lemma demo_node_store_keys:
  "holds demo_node_store (getAllPodsKey ''n1'') [HOST, ''p1'']"
  "holds demo_node_store (getNicKey ''n1'' HOST) [''br'']"
  "holds demo_node_store (getAddrKey ''n1'' HOST ''br'') [cidr_text 0x0AF40101 29]"
  "lease_table demo_node_store ''n1'' 0x0AF40100 29 [ip_at 0x0AF40100 29 1]"
  "demo_node_store (getNicKey ''n1'' ''p1'') = None" "demo_node_store (getNetnsKey ''n1'' ''p1'') = None"
  "demo_node_store (getRouteKey ''n1'' HOST ''br'') = None"
  "pod_unknown demo_node_store ''n1'' ''cni-2'' ''p2'' ''eth1''"
proof -
  have k: "name_ok ''n1''" "name_ok ''p1''" "name_ok ''p2''" "name_ok ''eth1''" "name_ok ''cni-2''" "name_ok HOST" "name_ok ''br''"
    by (simp_all add: name_ok_def HOST_def)
  let ?es = "[(Addrs_of ''n1'' HOST ''br'', cidr_text 0x0AF40101 29), (Nics_of ''n1'' HOST, ''br''),
    (Pods_of ''n1'', ''host,p1''), (Addresses_of ''n1'', ip_at 0x0AF40100 29 1), (Subnet_of ''n1'', cidr_text 0x0AF40100 29)]"
  have st: "demo_node_store (entry_key e) = map_of ?es e" if e: "\<forall>n \<in> set (entry_names e). name_ok n" for e
  proof -
    have "map_of (map (\<lambda>(e, v). (entry_key e, v)) es) (entry_key e) = map_of es e"
      if "\<forall>(e, v) \<in> set es. \<forall>n \<in> set (entry_names e). name_ok n" for es :: "(entry \<times> string) list"
      using that by (induction es) (auto simp: entry_key_inject e simp del: entry_key.simps)
    from this [of ?es] k have "map_of (map (\<lambda>(e, v). (entry_key e, v)) ?es) (entry_key e) = map_of ?es e" by simp
    then show ?thesis by (simp add: demo_node_store_def demo_store_def)
  qed
  show "holds demo_node_store (getAllPodsKey ''n1'') [HOST, ''p1'']"
    using st [of "Pods_of ''n1''"] k by (simp add: holds_def HOST_def list_elem_def shell_word_def word_char_def)
  show "holds demo_node_store (getNicKey ''n1'' HOST) [''br'']"
    using st [of "Nics_of ''n1'' HOST"] k by (simp add: holds_def list_elem_def shell_word_def word_char_def)
  show "holds demo_node_store (getAddrKey ''n1'' HOST ''br'') [cidr_text 0x0AF40101 29]"
    using st [of "Addrs_of ''n1'' HOST ''br''"] k by (simp add: holds_def)
  show "lease_table demo_node_store ''n1'' 0x0AF40100 29 [ip_at 0x0AF40100 29 1]"
    using st [of "Subnet_of ''n1''"] st [of "Addresses_of ''n1''"] k by (simp add: lease_table_def holds_def)
  show "demo_node_store (getNicKey ''n1'' ''p1'') = None" "demo_node_store (getNetnsKey ''n1'' ''p1'') = None"
    "demo_node_store (getRouteKey ''n1'' HOST ''br'') = None"
    using st [of "Nics_of ''n1'' ''p1''"] st [of "Netns_of ''n1'' ''p1''"] st [of "Routes_of ''n1'' HOST ''br''"] k
    by (simp_all add: HOST_def)
  show "pod_unknown demo_node_store ''n1'' ''cni-2'' ''p2'' ''eth1''"
    using st [of "Nics_of ''n1'' ''p2''"] st [of "Netns_of ''n1'' ''p2''"] st [of "Routes_of ''n1'' ''p2'' ''eth1''"]
      st [of "Pod_of ''n1'' ''cni-2''"] st [of "Addrs_of ''n1'' ''p2'' ''eth1''"] k
    by (simp add: pod_unknown_def HOST_def)
qed

lemma demo_stored:
  "stored_list demo_node_store (getAllPodsKey ''n1'') = [HOST, ''p1'']"
  "stored_list demo_node_store (getNicKey ''n1'' HOST) = [''br'']"
  "stored_list demo_node_store (getAddrKey ''n1'' HOST ''br'') = [cidr_text 0x0AF40101 29]"
  "stored_list demo_node_store (getNicKey ''n1'' ''p1'') = []"
  "stored_text demo_node_store (getNetnsKey ''n1'' ''p1'') = []"
  "stored_list demo_node_store (getRouteKey ''n1'' HOST ''br'') = []"
  using demo_node_store_keys(1-3) by (simp_all add: holds_stored_list)
    (simp_all add: demo_node_store_keys(5-7) stored_list_def stored_text_def)

lemma demo_set_up: "node_set_up demo_asio demo_node_store ''n1'' ''br'' [HOST, ''p1''] (cidr_text 0x0AF40101 29)"
proof -
  have w: "name_ok HOST" "shell_word HOST" "name_ok ''p1''" "shell_word ''p1''" "name_ok ''br''" "shell_word ''br''"
    "name_ok ''n1''" "shell_word ''n1''" "HOST \<noteq> ''p1''"
    by (simp_all add: name_ok_def HOST_def shell_word_def word_char_def)
  have "simpleNetns [] = Inr []" by (simp add: simpleNetns_def contains_sub_def PATH_NAMESPACE_def)
  with w addr_print(1) [OF demo_asio_documented, of 29 "0x0AF40101"] have "node_readable demo_asio ''n1'' demo_node_store"
    by (simp add: node_readable_def pod_readable_def nic_readable_def demo_stored)
  with w demo_node_store_keys(1) show ?thesis by (simp add: node_set_up_def demo_stored)
qed

theorem add_then_del_leaves_no_trace_witness:
  "\<exists>out s' w1 t'. cni_add demo_node_platform ''p2'' ''/var/run/netns/cni-2'' ''eth1'' demo_fresh_plugin demo_node_store =
      ((Inr out, s'), w1) \<and> lease_table w1 ''n1'' 0x0AF40100 29 [ip_at 0x0AF40100 29 1, ip_at 0x0AF40100 29 2] \<and>
    cni_del demo_node_platform ''p2'' ''eth1'' demo_fresh_plugin w1 = ((Inr (), t'), demo_node_store)"
proof -
  obtain r s' w1 where add: "cni_add demo_node_platform ''p2'' ''/var/run/netns/cni-2'' ''eth1'' demo_fresh_plugin demo_node_store =
      ((r, s'), w1)" by (metis prod.collapse)
  obtain r' t' w2 where del: "cni_del demo_node_platform ''p2'' ''eth1'' demo_fresh_plugin w1 = ((r', t'), w2)"
    by (metis prod.collapse)
  have names: "\<forall>x \<in> {''n1'', ''cni-2'', ''p2'', ''eth1''}. name_ok x \<and> shell_word x" "list_elem ''p2''" "list_elem ''eth1''"
    "''p2'' \<notin> set [HOST, ''p1'']" "shell_word ''/var/run/netns/cni-2''"
    by (simp_all add: name_ok_def HOST_def list_elem_def shell_word_def word_char_def)
  have ns: "simpleNetns ''/var/run/netns/cni-2'' = Inr ''cni-2''"
    by (simp add: simpleNetns_def contains_sub_def PATH_NAMESPACE_def)
  have n: "1 < card (set [HOST, ''p1''])" "(29 :: nat) \<le> 32" "(0 :: nat) < 29" "(29 :: nat) < 32"
    by (simp_all add: HOST_def)
  have br: "cc_bridge (cni_conf demo_fresh_plugin) \<noteq> ''eth0''" by (simp add: demo_fresh_facts(3))
  note res = add_then_del_leaves_no_trace [where view = "\<lambda>m. m" and w = demo_node_store,
      OF demo_client_serves demo_client_reliable demo_lists demo_platform_of demo_link_obeys demo_fresh_facts(1,2) br
        demo_fresh_facts(4) demo_set_up [folded demo_fresh_facts(3,5)] n(2,1) names(1-4) ns names(5) n(3,4)
        demo_node_store_keys(4,8) demo_first_free add del]
  from res obtain out where r: "r = Inr out" by blast
  from res have t: "lease_table w1 ''n1'' 0x0AF40100 29 ([ip_at 0x0AF40100 29 1] @ [ip_at 0x0AF40100 29 2])"
    "r' = Inr ()" "w2 = (if Mode_host_gw = Mode_vxlan then demo_node_store(getVtepKey ''n1'' := None) else demo_node_store)"
    by blast+
  from t(3) have "w2 = demo_node_store" by simp
  with add del r t(1,2) show ?thesis by (simp only: append.simps) blast
qed

theorem cluster_is_rebuilt_from_records_witness:
  "\<exists>n s' w'. getKubernetesCluster demo_asio (Some (demo_link True)) (demo_fresh_plugin\<lparr>cni_node_name := ''n1''\<rparr>)
      demo_node_store = ((Inr [(''n1'', n)], s'), w') \<and>
    node_getNetns ''p1'' n \<noteq> None \<and> node_getNetns ''p2'' n = None \<and>
    cni_gateway s' = Some (Addr demo_asio (cidr_text 0x0AF40101 29))"
proof -
  let ?s = "demo_fresh_plugin\<lparr>cni_node_name := ''n1''\<rparr>"
  obtain r s' w' where run: "getKubernetesCluster demo_asio (Some (demo_link True)) ?s demo_node_store = ((r, s'), w')"
    by (metis prod.collapse)
  have s: "etcd_backed demo_client demo_asio ?s" "cni_node_name ?s = ''n1''" "cc_bridge (cni_conf ?s) = ''br''" "cni_gateway ?s = None"
    using demo_fresh_facts by (simp_all add: etcd_backed_def)
  have p: "(29 :: nat) \<le> 32" by simp
  have m: "demo_node_store (subnet_key (cni_node_name ?s)) = Some (cidr_text 0x0AF40100 29)"
    "node_readable demo_asio (cni_node_name ?s) demo_node_store"
    using demo_node_store_keys(4) demo_set_up by (simp_all add: lease_table_def node_set_up_def)
  have gw: "set_gateway demo_asio (all_bridge_addrs ?s demo_node_store (stored_list demo_node_store (getAllPodsKey ''n1''))) ?s =
      ?s\<lparr>cni_gateway := Some (Addr demo_asio (cidr_text 0x0AF40101 29))\<rparr>"
    using node_set_up_gateway [of demo_asio demo_node_store ?s] demo_set_up s(2-4) by simp
  note res = cluster_is_rebuilt_from_records [where view = "\<lambda>m. m" and w = demo_node_store,
      OF demo_client_serves demo_client_reliable s(1) demo_link_obeys demo_asio_documented p m run, unfolded s(2) gw]
  then obtain n where n: "r = Inr [(''n1'', n)]" "node_getNetns ''p1'' n \<noteq> None" "node_getNetns ''p2'' n = None"
    by (auto simp: demo_stored(1) HOST_def)
  from res have "s' = ?s\<lparr>cni_gateway := Some (Addr demo_asio (cidr_text 0x0AF40101 29))\<rparr>" by blast
  with run n show ?thesis by simp
qed

text \<open>A node that Kubernetes knows and the store does not, in the vxlan mode.\<close>

definition demo_kubernetes :: "'w center_if" where
  "demo_kubernetes = demo_center\<lparr>ct_node := (\<lambda>node w.
     (\<lparr>info_name = node, internal_ip = ''10.0.0.1'', pod_cidr = cidr_text 0x0AF40100 29\<rparr>, w))\<rparr>"

definition demo_vxlan_plugin :: "(string \<rightharpoonup> string) cni" where
  "demo_vxlan_plugin = demo_fresh_plugin\<lparr>cni_mode := Some Mode_vxlan, cni_center := Some demo_kubernetes\<rparr>"

lemma demo_vxlan_plugin_facts:
  "\<forall>x \<in> {demo_vxlan_plugin, demo_vxlan_plugin}. etcd_backed demo_client (pf_asio demo_node_platform) x \<and>
     cni_netlink x = Some (demo_link True) \<and> cni_mode x = Some Mode_vxlan \<and> cc_bridge (cni_conf x) = ''br''"
  "Mode_vxlan = Mode_vxlan \<longrightarrow> mac_known (pf_hwaddr demo_node_platform) f NAME_VXLAN [2, 66, 10, 244, 1, 0] \<and>
     Map.empty (getVtepKey ''n1'') = None"
  "cni_center demo_vxlan_plugin = Some demo_kubernetes"
  "center_knows demo_kubernetes f ''n1'' (cidr_text 0x0AF40100 29)"
  using demo_fresh_facts
  by (simp_all add: demo_vxlan_plugin_def center_knows_def demo_kubernetes_def demo_center_def etcd_backed_def mac_known_def
      demo_node_platform_def)

lemma demo_gateway_free:
  "first_free (host_ips 0x0AF40100 29) [] = Some (cidr_text 0x0AF40101 29)"
  "first_free (host_ips 0x0AF40100 29) [cidr_text 0x0AF40101 29] = Some (ip_at 0x0AF40100 29 2)"
  using demo_first_free by (simp_all add: first_free_def host_ips_def upt_conv_Cons ip_at_def)

lemma demo_nothing_known:
  "holds Map.empty ETCD_KEY_SUBNET []" "cidr_text net p \<notin> set []"
  "node_unknown Map.empty node br dev" "pod_unknown Map.empty node ns cid name"
  by (simp_all add: holds_def node_unknown_def pod_unknown_def)

theorem first_add_last_del_restore_store_witness:
  "\<exists>out s' w1 t'. cni_add demo_node_platform ''p2'' ''/var/run/netns/cni-2'' ''eth1'' demo_vxlan_plugin Map.empty =
      ((Inr out, s'), w1) \<and> lease_table w1 ''n1'' 0x0AF40100 29 [cidr_text 0x0AF40101 29, ip_at 0x0AF40100 29 2] \<and>
    w1 (getVtepKey ''n1'') = Some (getVtepValue (dotted 0x0AF40100) ''02:42:0a:f4:01:00'') \<and>
    cni_del demo_node_platform ''p2'' ''eth1'' demo_vxlan_plugin w1 = ((Inr (), t'), Map.empty)"
proof -
  obtain r s' w1 where add: "cni_add demo_node_platform ''p2'' ''/var/run/netns/cni-2'' ''eth1'' demo_vxlan_plugin Map.empty =
      ((r, s'), w1)" by (metis prod.collapse)
  obtain r' t' w2 where del: "cni_del demo_node_platform ''p2'' ''eth1'' demo_vxlan_plugin w1 = ((r', t'), w2)"
    by (metis prod.collapse)
  have names: "\<forall>x \<in> {''br'', ''eth0'', ''p2'', ''eth1''}. list_elem x"
    "\<forall>x \<in> {''n1'', ''br'', ''eth0'', ''cni-2'', ''p2'', ''eth1''}. name_ok x \<and> shell_word x"
    "shell_word ''/var/run/netns/cni-2''"
    by (simp_all add: name_ok_def list_elem_def shell_word_def word_char_def)
  have ne: "''br'' \<noteq> ''eth0''" "NAME_VXLAN \<notin> {''br'', ''eth0''}" "''p2'' \<noteq> HOST" "''cni-2'' \<noteq> HOST"
    by (simp_all add: NAME_VXLAN_def HOST_def)
  have ns: "simpleNetns ''/var/run/netns/cni-2'' = Inr ''cni-2''"
    by (simp add: simpleNetns_def contains_sub_def PATH_NAMESPACE_def)
  have n: "(0 :: nat) < 29" "(29 :: nat) < 32" by simp_all
  note res = first_add_last_del_restore_store [where view = "\<lambda>m. m" and w = Map.empty,
      OF demo_client_serves demo_client_reliable demo_lists demo_platform_of demo_link_obeys demo_vxlan_plugin_facts ne(1,2) names(1,2) ne(3,4) ns names(3) n demo_gateway_free demo_nothing_known add del]
  from res obtain out where r: "r = Inr out" by blast
  from res have t: "lease_table w1 ''n1'' 0x0AF40100 29 [cidr_text 0x0AF40101 29, ip_at 0x0AF40100 29 2]"
    "w1 (getVtepKey ''n1'') = Some (getVtepValue (dotted 0x0AF40100) (setMacStr [2, 66, 10, 244, 1, 0]))"
    "r' = Inr ()" "w2 = Map.empty" by simp_all
  have mac: "setMacStr [2, 66, 10, 244, 1, 0] = ''02:42:0a:f4:01:00''"
    by code_simp
  from add del r t [unfolded mac] show ?thesis by blast
qed

end
