(* ===== verification/Center_Facts.thy ===== *)
theory Center_Facts
  imports Center Json_Facts
begin

text \<open>
  What the plugin learns from the API server and the node's files: looking one node up against taking
  all of them, and the ETCD endpoint that is made from the server URL in \<open>kubelet.conf\<close>.
\<close>

subsection \<open>One node and all nodes\<close>

lemma all_nodes_upd:
  "distinct (map ki_name items) \<Longrightarrow>
   fold (\<lambda>i m. m(ki_name i \<mapsto> node_of_item i)) items m name =
     (case find (\<lambda>i. ki_name i = name) items of None \<Rightarrow> m name | Some i \<Rightarrow> Some (node_of_item i))"
proof (induction items arbitrary: m)
  case (Cons i items)
  have "ki_name i \<notin> ki_name ` set items" using Cons.prems by simp
  then have "\<forall>x \<in> set items. ki_name x \<noteq> ki_name i" by (metis image_eqI)
  then have "find (\<lambda>j. ki_name j = ki_name i) items = None" by (simp add: find_None_iff)
  with Cons show ?case by (auto split: option.splits)
qed simp

lemma all_nodes_find:
  "distinct (map ki_name items) \<Longrightarrow>
   all_nodes items name = map_option node_of_item (find (\<lambda>i. ki_name i = name) items)"
  by (simp add: all_nodes_def all_nodes_upd split: option.split)

text \<open>
  C24: On the nodes of a cluster, whose names differ, asking for one node gives what the map of all the
  nodes holds under that name; an unknown node, or a server that does not answer, is a node without
  address and without pod CIDR. The two make the same request.
\<close>

theorem node_lookup_agrees:
  assumes "\<forall>items. fst (fetch_items J curl c w) = Some items \<longrightarrow> distinct (map ki_name items)"
  shows "fst (getNodes_single J curl c name w) =
      (case fst (getNodes_all J curl c w) name of
         None \<Rightarrow> \<lparr>info_name = name, internal_ip = [], pod_cidr = []\<rparr> | Some info \<Rightarrow> info) \<and>
    snd (getNodes_single J curl c name w) = snd (getNodes_all J curl c w)"
proof (cases "fetch_items J curl c w")
  case (Pair found w')
  show ?thesis
  proof (cases found)
    case (Some items)
    then have "distinct (map ki_name items)" using assms Pair by simp
    with Pair Some show ?thesis
      by (simp add: getNodes_single_def getNodes_all_def all_nodes_find Let_def split: option.split)
  qed (use Pair in \<open>simp add: getNodes_single_def getNodes_all_def\<close>)
qed

definition demo_items :: "kube_item list" where
  "demo_items = [\<lparr>ki_name = ''n1'', ki_addresses = [\<lparr>ka_type = Hostname, ka_address = ''n1''\<rparr>,
       \<lparr>ka_type = InternalIP, ka_address = ''10.0.0.1''\<rparr>], ki_pod_cidr = ''10.244.0.0/24''\<rparr>,
     \<lparr>ki_name = ''n2'', ki_addresses = [\<lparr>ka_type = InternalIP, ka_address = ''10.0.0.2''\<rparr>],
       ki_pod_cidr = ''10.244.1.0/24''\<rparr>]"

definition demo_api :: "jvalue json_lib" where
  "demo_api = demo_json\<lparr>j_parse := (\<lambda>s. Inr (nodes_to_json demo_json demo_items))\<rparr>"

definition demo_curl :: "unit curl" where
  "demo_curl req w = (Inr (200, ''nodes''), w)"

definition demo_center :: center where
  "demo_center = \<lparr>api_server = ''https://10.0.0.1:6443'', ce_ssl = True, ce_type = On_host, ce_token = ''t'',
     ca_path = ''/etc/kubernetes/pki/ca.crt''\<rparr>"

lemma demo_api_nodes: "nodes_from_json demo_api j = nodes_from_json demo_json j"
proof -
  have get: "get_vector demo_api = get_vector demo_json"
    by (intro ext) (simp add: get_vector_def demo_api_def)
  have fld: "field demo_api = field demo_json"
    by (intro ext) (simp add: field_def demo_api_def)
  have str: "j_string demo_api = j_string demo_json" by (simp add: demo_api_def)
  have addr: "address_from_json demo_api = address_from_json demo_json"
    by (intro ext) (simp add: address_from_json_def fld str)
  have item: "item_from_json demo_api = item_from_json demo_json"
  proof
    fix j
    show "item_from_json demo_api j = item_from_json demo_json j"
      unfolding item_from_json_def metadata_from_json_def [abs_def] spec_from_json_def [abs_def]
        status_from_json_def [abs_def] fld str get addr ..
  qed
  show ?thesis by (simp add: nodes_from_json_def fld get item)
qed

lemma demo_api_parse: "j_parse demo_api s = Inr (nodes_to_json demo_json demo_items)"
  by (simp add: demo_api_def)

lemma demo_fetch: "fetch_items demo_api demo_curl demo_center () = (Some demo_items, ())"
  using nodes_roundtrip [OF demo_json_documented, of demo_items]
  by (simp add: fetch_items_def getHttpResponse_def httpRequest_def demo_curl_def Ok_def demo_api_nodes demo_api_parse)

lemma node_lookup_agrees_witness:
  "fst (getNodes_single demo_api demo_curl demo_center ''n2'' ()) =
     \<lparr>info_name = ''n2'', internal_ip = ''10.0.0.2'', pod_cidr = ''10.244.1.0/24''\<rparr> \<and>
   fst (getNodes_single demo_api demo_curl demo_center ''n3'' ()) =
     \<lparr>info_name = ''n3'', internal_ip = [], pod_cidr = []\<rparr>"
proof -
  have "\<forall>items. fst (fetch_items demo_api demo_curl demo_center ()) = Some items \<longrightarrow> distinct (map ki_name items)"
    by (simp add: demo_fetch) (simp add: demo_items_def)
  note agrees = node_lookup_agrees [OF this]
  show ?thesis
    using agrees [where name = "''n2''"] agrees [where name = "''n3''"] demo_fetch
    by (simp add: getNodes_all_def all_nodes_def demo_items_def node_of_item_def)
qed

subsection \<open>The ETCD endpoint\<close>

lemma find_sub_skip:
  "pat \<noteq> [] \<Longrightarrow> hd pat \<notin> set a \<Longrightarrow> find_sub pat (a @ s) = map_option ((+) (length a)) (find_sub pat s)"
proof (induction a)
  case (Cons c a)
  have "take (length pat) (c # a @ s) \<noteq> pat"
  proof
    assume "take (length pat) (c # a @ s) = pat"
    with Cons.prems(1) have "hd pat = c" by (cases pat) auto
    with Cons.prems(2) show False by simp
  qed
  with Cons show ?case by (simp add: option.map_comp o_def)
qed (simp add: option.map_ident [unfolded id_def] option.map_cong0 [where g = "\<lambda>x. x"])

lemma find_sub_head: "CHR '':'' \<notin> set a \<Longrightarrow> find_sub '':'' (a @ CHR '':'' # s) = Some (length a)"
  using find_sub_skip [of "'':''" a "CHR '':'' # s"] by simp

lemma find_sub_absent: "c \<notin> set s \<Longrightarrow> find_sub (c # pat) s = None"
  by (induction s) auto

lemma find_sub_no_scheme:
  "CHR '':'' \<notin> set a \<Longrightarrow> CHR '':'' \<notin> set b \<Longrightarrow> take 2 b \<noteq> ''//'' \<Longrightarrow> find_sub ''://'' (a @ CHR '':'' # b) = None"
  by (subst find_sub_skip) (auto simp: find_sub_absent numeral_2_eq_2)

lemma cluster_of_uri_host:
  assumes start: "start = (case find_sub ''://'' uri of None \<Rightarrow> 2 | Some i \<Rightarrow> i + 3)"
    and uri: "uri = front @ host @ rest" "length front = start"
    and host: "CHR '':'' \<notin> set host" "rest = [] \<or> hd rest = CHR '':''"
  shows "cluster_of_uri uri = Inr (''https://'' @ host @ '':2379'')"
proof -
  have "(case find_from '':'' uri start of None \<Rightarrow> length uri | Some e \<Rightarrow> e) = start + length host"
  proof (cases rest)
    case Nil
    then show ?thesis using uri find_sub_absent [OF host(1), of "[]"] by (simp add: find_from_def)
  next
    case (Cons c cs)
    then show ?thesis using uri host find_sub_head [OF host(1), of cs] by (simp add: find_from_def)
  qed
  moreover have "substr uri start (start + length host - start) = Inr host"
    using uri by (simp add: substr_def)
  ultimately show ?thesis
    unfolding cluster_of_uri_def Let_def start [symmetric] by simp
qed

text \<open>
  From a server URL the ETCD endpoint gets the host between the scheme and the next colon, and the
  port 2379. A URL without a scheme loses the first two characters of its host.
\<close>

lemma etcd_endpoint_of_server_url:
  assumes host: "CHR '':'' \<notin> set host"
    and scheme: "CHR '':'' \<notin> set scheme" "rest = [] \<or> hd rest = CHR '':''"
    and bare: "CHR '':'' \<notin> set [a, b]" "CHR '':'' \<notin> set port" "take 2 port \<noteq> ''//''"
  shows "cluster_of_uri (scheme @ ''://'' @ host @ rest) = Inr (''https://'' @ host @ '':2379'') \<and>
    cluster_of_uri ([a, b] @ host @ '':'' @ port) = Inr (''https://'' @ host @ '':2379'')"
proof
  have "find_sub ''://'' (scheme @ ''://'' @ host @ rest) = Some (length scheme)"
    by (subst find_sub_skip) (use scheme find_sub_prefix [of "''://''" "host @ rest"] in auto)
  then show "cluster_of_uri (scheme @ ''://'' @ host @ rest) = Inr (''https://'' @ host @ '':2379'')"
    by (intro cluster_of_uri_host [where front = "scheme @ ''://''", OF refl]) (use host scheme in auto)
  have "find_sub ''://'' (([a, b] @ host) @ CHR '':'' # port) = None"
    by (rule find_sub_no_scheme) (use host bare in auto)
  then show "cluster_of_uri ([a, b] @ host @ '':'' @ port) = Inr (''https://'' @ host @ '':2379'')"
    by (intro cluster_of_uri_host [where front = "[a, b]", OF refl]) (use host in auto)
qed

end
