(* ===== verification/Ohno.thy ===== *)
theory Ohno
  imports Cni Log
begin

text \<open>
  \<open>ohno.cc\<close>: the plugin's process. The inputs are the command line, the environment and
  standard input; the outcome is what it prints, how it ends and the world it leaves. \<open>main\<close> logs between
  its steps, and both a logger that cannot open its file and a text that cannot be dumped as JSON throw
  there, so the state of the loggers is passed along.
\<close>

datatype cni_type = Type_RESERVED | Type_ADD | Type_DEL | Type_VERSION

text \<open>
  Everything outside the process. \<open>os_order\<close> and \<open>os_enum\<close> are the iteration orders of hash tables,
  \<open>os_opens\<close> and \<open>os_is_dir\<close> what the loggers need (see \<open>Log\<close>), \<open>os_dumpable\<close> the strings that
  \<open>nlohmann::json::dump\<close> accepts (it throws on what is not UTF-8), \<open>os_version\<close> the version that the
  build writes into \<open>ohno_version.h\<close>.
\<close>

record ('w, 'j) system =
  os_platform :: "('w, 'j) platform"
  os_files :: "'w files"
  os_curl :: "'w curl"
  os_order :: map_order
  os_enum :: "(string \<rightharpoonup> node_info) \<Rightarrow> (string \<times> node_info) list"
  os_opens :: "string \<Rightarrow> bool"
  os_is_dir :: "string \<Rightarrow> bool result"
  os_dumpable :: "string \<Rightarrow> bool"
  os_version :: string

text \<open>\<open>printed\<close> is what \<open>main\<close> itself writes to stdout; \<open>failure\<close> the exception that \<open>main\<close> caught and reported to stderr.\<close>

record exit =
  exit_code :: int
  printed :: string
  failure :: "exn option"

definition EXIT_SUCCESS :: int where "EXIT_SUCCESS = 0"

definition EXIT_FAILURE :: int where "EXIT_FAILURE = 1"

definition main_log :: "('w, 'j) system \<Rightarrow> string \<Rightarrow> log_state \<Rightarrow> unit result \<times> log_state" where
  "main_log Y msg s = global_log (os_opens Y) Info msg s"

definition generateEmptyConfigFile :: "('w, 'j) system \<Rightarrow> string list \<Rightarrow> log_state \<Rightarrow> ('w, bool result \<times> log_state) op" where
  "generateEmptyConfigFile Y args s w =
     (case args of
        arg # rest \<Rightarrow>
          if arg = ''--get-conf''
          then (case main_log Y ''Generate empty config file'' s of
                  (Inl ex, s') \<Rightarrow> ((Inl ex, s'), w)
                | (Inr _, s') \<Rightarrow>
                    ((Inr True, s'), write_contents (os_files Y) ''ohno.json''
                       (j_dump (pf_json (os_platform Y)) 2 (config_to_json (pf_json (os_platform Y)) default_config)) w))
          else ((Inr False, s), w)
      | [] \<Rightarrow> ((Inr False, s), w))"

definition read_config :: "'j json_lib \<Rightarrow> string \<Rightarrow> config result" where
  "read_config J stdin = and_then (j_parse J stdin) (config_from_json J default_config)"

definition parseCniConfig :: "('w, 'j) system \<Rightarrow> string \<Rightarrow> log_state \<Rightarrow> config result \<times> log_state" where
  "parseCniConfig Y stdin s =
     (let J = pf_json (os_platform Y) in
      case read_config J stdin of
        Inl ex \<Rightarrow> (Inl ex, s)
      | Inr conf \<Rightarrow>
          (case main_log Y (''Get CNI config:'' @ [CHR 0x0A, CHR '' ''] @ j_dump J 2 (config_to_json J conf)) s of
             (Inl ex, s') \<Rightarrow> (Inl ex, s') | (Inr _, s') \<Rightarrow> (Inr conf, s')))"

definition env_of :: "environ \<Rightarrow> cni_env" where
  "env_of e = \<lparr>ce_command = env_get e ''CNI_COMMAND'', ce_container_id = env_get e ''CNI_CONTAINERID'',
     ce_netns = env_get e ''CNI_NETNS'', ce_ifname = env_get e ''CNI_IFNAME''\<rparr>"

text \<open>The variables are any bytes; they are dumped when the message passes the level of the process.\<close>

definition env_dumpable :: "('w, 'j) system \<Rightarrow> cni_env \<Rightarrow> bool" where
  "env_dumpable Y env \<longleftrightarrow>
     list_all (os_dumpable Y) [ce_command env, ce_container_id env, ce_netns env, ce_ifname env]"

definition parseCniEnv :: "('w, 'j) system \<Rightarrow> environ \<Rightarrow> log_state \<Rightarrow> cni_env result \<times> log_state" where
  "parseCniEnv Y e s =
     (let J = pf_json (os_platform Y); env = env_of e in
      if g_level s \<le> Info \<and> \<not> env_dumpable Y env then (Inl Std_exception, s)
      else (case main_log Y (''Get CNI env var:'' @ [CHR 0x0A, CHR '' ''] @ j_dump J 2 (env_to_json J env)) s of
              (Inl ex, s') \<Rightarrow> (Inl ex, s') | (Inr _, s') \<Rightarrow> (Inr env, s')))"

definition determineType :: "string \<Rightarrow> cni_type result" where
  "determineType command =
     (if command = ''ADD'' then Inr Type_ADD
      else if command = ''DEL'' then Inr Type_DEL
      else if command = ''CHECK'' \<or> command = ''STATUS'' \<or> command = ''GC''
      then Inl (Cni_error CNI_ERRCODE_NOT_SUPPORTED ([CHR 0x22] @ command @ [CHR 0x22] @ '' is on the road, bro''))
      else if command = ''VERSION'' then Inr Type_VERSION
      else Inr Type_RESERVED)"

text \<open>
  The client for IPAM is built first and sets \<open>ETCDCTL_API\<close> in the environment \<open>e\<close> of the process,
  which the second one then finds there.
\<close>

definition getCniPlugin :: "('w, 'j) system \<Rightarrow> environ \<Rightarrow> config \<Rightarrow> ('w, 'w cni) throwing" where
  "getCniPlugin Y e conf w =
     (let F = os_files Y; A = pf_asio (os_platform Y); sh = pf_shell (os_platform Y);
          (server, w1) = getApiServer F e On_host w in
      case new_center F server (cc_ssl conf) On_host w1 of
        (Inl ex, w2) \<Rightarrow> (Inl ex, w2)
      | (Inr c, w2) \<Rightarrow>
          (case center_test (os_curl Y) c w2 of
             (False, w3) \<Rightarrow> (Inl (Cni_error 7 ''Kubernetes api server is unhealthy''), w3)
           | (True, w3) \<Rightarrow>
               (let (etcd_server, w4) = getEtcdClusters F w3;
                    (client1, e1) = etcd_ctor (etcd_data_of e etcd_server) sh e;
                    E1 = etcd_shell_if (os_order Y) client1 in
                case ipam_init (Some E1) w4 of
                  (False, w5) \<Rightarrow>
                    (Inl (Cni_error CNI_ERRCODE_OHNO ''Failed to initialize IPAM, please check in ETCD cluster''), w5)
                | (True, w5) \<Rightarrow>
                    (let (client2, e2) = etcd_ctor (etcd_data_of e1 etcd_server) sh e1;
                         E2 = etcd_shell_if (os_order Y) client2 in
                     case storage_init (Some E2) w5 of
                       (False, w6) \<Rightarrow>
                         (Inl (Cni_error CNI_ERRCODE_OHNO ''Failed to initialize storage, please check in ETCD cluster''), w6)
                     | (True, w6) \<Rightarrow>
                         (case cni_parseConfig conf (new_cni (Some (netlink_ip_cmd sh))) w6 of
                            ((Inl ex, s), w7) \<Rightarrow> (Inl ex, w7)
                          | ((Inr _, s), w7) \<Rightarrow>
                              (Inr (s\<lparr>cni_ipam := Some (ipam_ops E1 A), cni_storage := Some (storage_ops E2 A),
                                 cni_center := Some (center_ops (os_enum Y) (pf_json (os_platform Y)) (os_curl Y) c)\<rparr>), w7))))))"

text \<open>The \<open>switch\<close> of \<open>main\<close>: what it prints.\<close>

definition log_and_print :: "('w, 'j) system \<Rightarrow> string \<Rightarrow> string \<Rightarrow> log_state \<Rightarrow> string result \<times> log_state" where
  "log_and_print Y title output s =
     (case main_log Y (title @ [CHR 0x0A] @ output) s of
        (Inl ex, s') \<Rightarrow> (Inl ex, s') | (Inr _, s') \<Rightarrow> (Inr (output @ [CHR 0x0A]), s'))"

definition run_command :: "('w, 'j) system \<Rightarrow> cni_type \<Rightarrow> cni_env \<Rightarrow> 'w cni \<Rightarrow> log_state
    \<Rightarrow> ('w, string result \<times> log_state) op" where
  "run_command Y ty env c s w =
     (let P = os_platform Y; J = pf_json P in
      case ty of
        Type_ADD \<Rightarrow>
          (case cni_add P (ce_container_id env) (ce_netns env) (ce_ifname env) c w of
             ((Inl ex, c'), w') \<Rightarrow> ((Inl ex, s), w')
           | ((Inr out, c'), w') \<Rightarrow> (log_and_print Y ''CNI ADD result:'' out s, w'))
      | Type_DEL \<Rightarrow>
          (case cni_del P (ce_container_id env) (ce_ifname env) c w of
             ((Inl ex, c'), w') \<Rightarrow> ((Inl ex, s), w') | ((Inr _, c'), w') \<Rightarrow> ((Inr [], s), w'))
      | Type_VERSION \<Rightarrow> (log_and_print Y ''CNI VERSION result:'' (cni_version_text J c) s, w)
      | Type_RESERVED \<Rightarrow>
          ((Inl (Cni_error 4 (''Unknown CNI env var: CNI_COMMAND='' @ ce_command env)), s), w))"

text \<open>
  The end of \<open>main\<close>. A \<open>CniError\<close> is dumped as JSON in the handler: a text in it that cannot be dumped
  throws out of \<open>main\<close>, which ends in \<open>std::terminate\<close> (\<open>Inl\<close>), as does undefined behaviour.
\<close>

definition reportable :: "('w, 'j) system \<Rightarrow> exn \<Rightarrow> bool" where
  "reportable Y ex = (case ex of Cni_error code details \<Rightarrow> os_dumpable Y details | _ \<Rightarrow> True)"

definition finish :: "('w, 'j) system \<Rightarrow> bool \<Rightarrow> string \<Rightarrow> unit result \<Rightarrow> exit result" where
  "finish Y g_del out r =
     (case r of
        Inr _ \<Rightarrow> Inr \<lparr>exit_code = EXIT_SUCCESS, printed = out, failure = None\<rparr>
      | Inl ex \<Rightarrow>
          if ex = Undefined_behaviour then Inl ex
          else if \<not> reportable Y ex then Inl Std_exception
          else Inr \<lparr>exit_code = (if g_del then EXIT_SUCCESS else EXIT_FAILURE), printed = out, failure = Some ex\<rparr>)"

definition ohno_main :: "('w, 'j) system \<Rightarrow> string list \<Rightarrow> environ \<Rightarrow> string \<Rightarrow> ('w, exit) throwing" where
  "ohno_main Y args e stdin w =
     (case main_log Y (''Launch ohno v'' @ os_version Y) log_init of
        (Inl ex, s1) \<Rightarrow> (finish Y False [] (Inl ex), w)
      | (Inr _, s1) \<Rightarrow>
     (case generateEmptyConfigFile Y args s1 w of
        ((Inl ex, s2), w1) \<Rightarrow> (finish Y False [] (Inl ex), w1)
      | ((Inr True, s2), w1) \<Rightarrow> (finish Y False [] (Inr ()), w1)
      | ((Inr False, s2), w1) \<Rightarrow>
     (case parseCniConfig Y stdin s2 of
        (Inl ex, s3) \<Rightarrow> (finish Y False [] (Inl ex), w1)
      | (Inr conf, s3) \<Rightarrow>
     (case log_configure (os_opens Y) (os_is_dir Y) conf s3 of
        (Inl ex, s4) \<Rightarrow> (finish Y False [] (Inl ex), w1)
      | (Inr _, s4) \<Rightarrow>
     (case parseCniEnv Y e s4 of
        (Inl ex, s5) \<Rightarrow> (finish Y False [] (Inl ex), w1)
      | (Inr env, s5) \<Rightarrow>
     (case determineType (ce_command env) of
        Inl ex \<Rightarrow> (finish Y False [] (Inl ex), w1)
      | Inr ty \<Rightarrow>
     (let g_del = (ty = Type_DEL) in
      case getCniPlugin Y e conf w1 of
        (Inl ex, w2) \<Rightarrow> (finish Y g_del [] (Inl ex), w2)
      | (Inr c, w2) \<Rightarrow>
     (case run_command Y ty env c s5 w2 of
        ((Inl ex, s6), w3) \<Rightarrow> (finish Y g_del [] (Inl ex), w3)
      | ((Inr out, s6), w3) \<Rightarrow>
          (finish Y g_del out (fst (main_log Y ''ohno CNI finished successfully'' s6)), w3)))))))))"

text \<open>What a caught \<open>CniError\<close> prints to stderr, as JSON.\<close>

definition error_output :: "'j json_lib \<Rightarrow> exn \<Rightarrow> string option" where
  "error_output J ex =
     (case ex of Cni_error code details \<Rightarrow> Some (j_dump J 4 (error_to_json J (CniError code details)) @ [CHR 0x0A])
      | _ \<Rightarrow> None)"

end
