(* ===== verification/Log_Facts.thy ===== *)
theory Log_Facts
  imports Log
begin

text \<open>
  A logger keeps the file, the level and the outputs of the moment it was first asked for: the steps
  of the log globals, what they preserve, and what that does to the configured log file.
\<close>

subsection \<open>The steps any code of the process can make on the log globals\<close>

inductive log_step :: "(string \<Rightarrow> bool) \<Rightarrow> (string \<Rightarrow> bool result) \<Rightarrow> log_state \<Rightarrow> log_state \<Rightarrow> bool"
  for opens is_dir where
  global: "log_step opens is_dir s (snd (global_log opens lvl msg s))"
| module: "log_step opens is_dir s (snd (module_log opens m own lvl msg s))"
| level: "log_step opens is_dir s (snd (setLevel lvl (c, s)))"
| level_str: "log_step opens is_dir s (snd (snd (setLevel_str opens str (c, s))))"
| log_file: "log_step opens is_dir s (snd (snd (setLogFile opens is_dir file (c, s))))"
| stdout: "log_step opens is_dir s (setStdout b s)"

text \<open>One relation covers them: the loggers stay, and every new line passed through one of them.\<close>

definition line_of :: "(string \<rightharpoonup> logger) \<Rightarrow> string \<times> level \<times> string \<Rightarrow> bool" where
  "line_of loggers = (\<lambda>(f, lvl, msg). \<exists>l \<in> ran loggers. lg_file l = f \<and> lg_level l \<le> lvl)"

definition log_extends :: "log_state \<Rightarrow> log_state \<Rightarrow> bool" where
  "log_extends s s' \<longleftrightarrow> g_map s \<subseteq>\<^sub>m g_map s' \<and>
     (\<exists>more. in_files s' = in_files s @ more \<and> (\<forall>x \<in> set more. line_of (g_map s') x)) \<and>
     (\<exists>more. on_stdout s' = on_stdout s @ more)"

lemma line_of_mono: "line_of m x \<Longrightarrow> m \<subseteq>\<^sub>m m' \<Longrightarrow> line_of m' x"
  unfolding line_of_def map_le_def ran_def by (auto split: prod.splits) (metis domI)

lemma log_extends_refl [simp]: "log_extends s s"
  by (simp add: log_extends_def)

lemma log_extends_trans:
  assumes "log_extends a b" and "log_extends b c"
  shows "log_extends a c"
proof -
  from assms obtain m1 m2 where
    m1: "in_files b = in_files a @ m1" "\<forall>x \<in> set m1. line_of (g_map b) x" and
    m2: "in_files c = in_files b @ m2" "\<forall>x \<in> set m2. line_of (g_map c) x" and
    le: "g_map a \<subseteq>\<^sub>m g_map b" "g_map b \<subseteq>\<^sub>m g_map c" and
    out: "\<exists>m. on_stdout b = on_stdout a @ m" "\<exists>m. on_stdout c = on_stdout b @ m"
    unfolding log_extends_def by blast
  have "\<forall>x \<in> set (m1 @ m2). line_of (g_map c) x"
    using m1 m2 le line_of_mono by fastforce
  moreover have "in_files c = in_files a @ (m1 @ m2)" using m1 m2 by simp
  moreover have "g_map a \<subseteq>\<^sub>m g_map c" using le map_le_trans by blast
  moreover have "\<exists>m. on_stdout c = on_stdout a @ m" using out by fastforce
  ultimately show ?thesis unfolding log_extends_def by blast
qed

lemma log_extends_globals [simp]:
  "log_extends s (s'\<lparr>g_level := l\<rparr>) = log_extends s s'"
  "log_extends s (s'\<lparr>g_logfile := f\<rparr>) = log_extends s s'"
  "log_extends s (s'\<lparr>g_stdout := b\<rparr>) = log_extends s s'"
  by (simp_all add: log_extends_def)

lemma getLogger_extends: "log_extends s (snd (getLogger opens n s))"
  by (auto simp: getLogger_def log_extends_def map_le_def Let_def split: option.splits)

lemma getLogger_stored:
  "getLogger opens n s = (Inr l, s') \<Longrightarrow> g_map s' (if n = [] then LOGNAME_DEFAULT else n) = Some l"
  by (auto simp: getLogger_def Let_def split: option.splits if_splits)

lemma logger_log_extends: "l \<in> ran (g_map s) \<Longrightarrow> log_extends s (logger_log l lvl msg s)"
  by (auto simp: logger_log_def log_extends_def line_of_def)

lemma logged_extends:
  assumes "getLogger opens n s = (Inr l, s')"
  shows "log_extends s (logger_log l lvl msg s')"
  using assms getLogger_extends [of s opens n] getLogger_stored [OF assms]
  by (auto intro!: log_extends_trans [of s s'] logger_log_extends simp: ran_def)

lemma global_log_extends: "log_extends s (snd (global_log opens lvl msg s))"
  using getLogger_extends [of s opens LOGNAME_DEFAULT]
  by (auto simp: global_log_def logged_extends split: prod.splits sum.splits)

lemma module_log_extends: "log_extends s (snd (module_log opens m own lvl msg s))"
  using getLogger_extends [of s opens "enumName id_names m"]
  by (auto simp: module_log_def getModuleLogger_def logged_extends split: prod.splits sum.splits)

lemma log_step_extends: "log_step opens is_dir s s' \<Longrightarrow> log_extends s s'"
proof (induction rule: log_step.induct)
  case (level_str s str c)
  show ?case using global_log_extends [of s opens Info "TEXT_LEVEL @ str"]
    by (auto simp: setLevel_str_def setLevel_def split: prod.splits sum.splits)
next
  case (log_file s path c)
  show ?case using global_log_extends [of s opens Info "TEXT_FILE @ path"]
    by (auto simp: setLogFile_def Let_def split: prod.splits sum.splits)
qed (simp_all add: global_log_extends module_log_extends setLevel_def setStdout_def)

lemma log_steps_extend: "(log_step opens is_dir)\<^sup>*\<^sup>* s s' \<Longrightarrow> log_extends s s'"
  by (induction rule: rtranclp_induct) (auto intro: log_extends_trans log_step_extends)

text \<open>
  C20: Whatever the process logs and reconfigures, a logger keeps its first file, level and outputs,
  and every line in a log file was written there by an existing logger of that file that lets its
  level pass.
\<close>

theorem loggers_keep_first_settings:
  assumes "(log_step opens is_dir)\<^sup>*\<^sup>* log_init s" and "(log_step opens is_dir)\<^sup>*\<^sup>* s s'"
  shows "(g_map s n = Some l \<longrightarrow> g_map s' n = Some l) \<and>
    ((f, lvl, msg) \<in> set (in_files s') \<longrightarrow>
      (\<exists>n l. g_map s' n = Some l \<and> lg_file l = f \<and> lg_level l \<le> lvl))"
proof
  from assms(2) have "g_map s \<subseteq>\<^sub>m g_map s'"
    using log_steps_extend log_extends_def by blast
  then show "g_map s n = Some l \<longrightarrow> g_map s' n = Some l"
    by (simp add: map_le_def domI) (metis domI)
  have "log_extends log_init s'"
    using log_steps_extend [OF rtranclp_trans [OF assms]] .
  then show "(f, lvl, msg) \<in> set (in_files s') \<longrightarrow>
      (\<exists>n l. g_map s' n = Some l \<and> lg_file l = f \<and> lg_level l \<le> lvl)"
    by (fastforce simp: log_extends_def log_init_def line_of_def ran_def)
qed

definition demo_log :: log_state where
  "demo_log = snd (global_log (\<lambda>_. True) Info ''hi'' log_init)"

lemma demo_log_step: "(log_step (\<lambda>_. True) (\<lambda>_. Inr False))\<^sup>*\<^sup>* log_init demo_log"
  unfolding demo_log_def by (intro r_into_rtranclp log_step.global)

lemma loggers_keep_first_settings_witness:
  "(LOGFILE_DEFAULT, Info, ''hi'') \<in> set (in_files demo_log) \<and>
   (\<exists>n l. g_map demo_log n = Some l \<and> lg_file l = LOGFILE_DEFAULT \<and> lg_level l \<le> Info)"
proof -
  have "(LOGFILE_DEFAULT, Info, ''hi'') \<in> set (in_files demo_log)"
    by (simp add: demo_log_def global_log_def getLogger_def logger_log_def log_init_def
        LOGLEVEL_DEFAULT_def less_eq_level_def Let_def)
  with loggers_keep_first_settings [OF rtranclp.rtrancl_refl demo_log_step, of _ _ LOGFILE_DEFAULT Info "''hi''"]
  show ?thesis by blast
qed

subsection \<open>The configured log file\<close>

lemma global_log_stored:
  "g_map s LOGNAME_DEFAULT = Some l \<Longrightarrow>
   global_log opens lvl msg s = (Inr (), if g_level s \<le> lvl then logger_log l lvl msg s else s)"
  by (simp add: global_log_def getLogger_def LOGNAME_DEFAULT_def)

lemma logger_log_globals [simp]:
  "g_map (logger_log l lvl msg s) = g_map s" "g_level (logger_log l lvl msg s) = g_level s"
  "g_logfile (logger_log l lvl msg s) = g_logfile s" "g_stdout (logger_log l lvl msg s) = g_stdout s"
  by (simp_all add: logger_log_def)

text \<open>The logger that the first message of the plugin creates.\<close>

definition first_logger :: logger where
  "first_logger = \<lparr>lg_file = LOGFILE_DEFAULT, lg_max_size = 4 * 1024 * 1024, lg_max_files = 5,
     lg_stdout = False, lg_level = Trace, lg_flush_on = Trace\<rparr>"

lemma Trace_least [simp]: "Trace \<le> l"
  by (simp add: less_eq_level_def)

text \<open>The first message of a process needs the default file; after it, no message of the process can fail.\<close>

lemma first_log:
  "global_log opens Info msg log_init =
    (if opens LOGFILE_DEFAULT
     then (Inr (), logger_log first_logger Info msg (log_init\<lparr>g_map := [LOGNAME_DEFAULT \<mapsto> first_logger]\<rparr>))
     else (Inl Std_exception, log_init))"
  by (simp add: global_log_def getLogger_def log_init_def LOGLEVEL_DEFAULT_def LOGNAME_DEFAULT_def first_logger_def Let_def)

definition log_opened :: "log_state \<Rightarrow> bool" where
  "log_opened s \<longleftrightarrow> g_map s LOGNAME_DEFAULT \<noteq> None"

lemma first_log_opened: "log_opened (snd (global_log opens Info msg log_init)) \<longleftrightarrow> opens LOGFILE_DEFAULT"
  by (simp only: first_log) (simp add: log_opened_def log_init_def)

lemma opened_log:
  assumes "log_opened s"
  obtains s' where "global_log opens lvl msg s = (Inr (), s')" "log_opened s'" "g_level s' = g_level s"
  using assms by (auto simp: log_opened_def global_log_stored)

definition log_path :: "config \<Rightarrow> string" where
  "log_path conf = (if cc_log conf = [] then LOGFILE_DEFAULT else cc_log conf)"

lemma opened_configure:
  assumes "log_opened s"
  shows "fst (log_configure opens is_dir conf s) = (case is_dir (log_path conf) of Inl e \<Rightarrow> Inl e | Inr _ \<Rightarrow> Inr ())"
    "log_opened (snd (log_configure opens is_dir conf s))"
    "returns (is_dir (log_path conf)) \<Longrightarrow> g_level (snd (log_configure opens is_dir conf s)) = cc_loglevel conf"
proof -
  obtain l where l: "g_map s LOGNAME_DEFAULT = Some l" using assms by (auto simp: log_opened_def)
  note defs = log_configure_def setLogFile_def global_log_stored [OF l] setLevel_def log_path_def log_opened_def Let_def
  show "fst (log_configure opens is_dir conf s) = (case is_dir (log_path conf) of Inl e \<Rightarrow> Inl e | Inr _ \<Rightarrow> Inr ())"
    "log_opened (snd (log_configure opens is_dir conf s))"
    by (simp_all add: defs l split: sum.split)
  show "returns (is_dir (log_path conf)) \<Longrightarrow> g_level (snd (log_configure opens is_dir conf s)) = cc_loglevel conf"
    by (cases "cc_log conf = []") (auto simp: defs returns_def split: sum.splits)
qed

lemma ohno_logging_run:
  assumes "ohno_logging opens is_dir launch parsed conf log_init = (Inr (), s)"
    and "cc_log conf \<noteq> []" and "is_dir (cc_log conf) = Inr False"
  shows "g_map s = [LOGNAME_DEFAULT \<mapsto> first_logger]" "g_level s = cc_loglevel conf"
    "g_logfile s = cc_log conf" "\<not> g_stdout s"
proof -
  have opens: "opens LOGFILE_DEFAULT"
    using assms(1) by (rule contrapos_pp)
      (simp add: ohno_logging_def global_log_def getLogger_def log_init_def LOGLEVEL_DEFAULT_def)
  define s1 where "s1 = snd (global_log opens Info launch log_init)"
  have s1: "global_log opens Info launch log_init = (Inr (), s1)" "g_map s1 = [LOGNAME_DEFAULT \<mapsto> first_logger]"
    "g_level s1 = Trace" "\<not> g_stdout s1"
    unfolding s1_def using opens
    by (simp_all add: global_log_def getLogger_def log_init_def LOGLEVEL_DEFAULT_def LOGNAME_DEFAULT_def
        first_logger_def Let_def)
  have "g_map s1 LOGNAME_DEFAULT = Some first_logger" using s1 by simp
  then show "g_map s = [LOGNAME_DEFAULT \<mapsto> first_logger]" "g_level s = cc_loglevel conf"
    "g_logfile s = cc_log conf" "\<not> g_stdout s"
    using assms s1(2-4)
    by (auto simp: ohno_logging_def log_configure_def s1(1) global_log_stored setLogFile_def setLevel_def Let_def)
qed

text \<open>
  C38: Once \<open>main\<close> has set the configured log file, every message of the process itself still goes to
  the default file, whatever is logged or configured later; the first message of a module goes to the
  configured file, when its level is at least the configured one.
\<close>

theorem configured_log_file_only_for_modules:
  assumes "ohno_logging opens is_dir launch parsed conf log_init = (Inr (), s)"
    and "cc_log conf \<noteq> []" and "is_dir (cc_log conf) = Inr False" and "opens (cc_log conf)"
  shows "((log_step opens is_dir)\<^sup>*\<^sup>* s s' \<longrightarrow>
      in_files (snd (global_log opens lvl msg s')) =
        in_files s' @ (if g_level s' \<le> lvl then [(LOGFILE_DEFAULT, lvl, msg)] else [])) \<and>
    (m \<noteq> Id_ohno \<and> own \<le> lvl \<longrightarrow>
      in_files (snd (module_log opens m own lvl msg s)) =
        in_files s @ (if cc_loglevel conf \<le> lvl then [(cc_log conf, lvl, msg)] else []))"
proof
  note run = ohno_logging_run [OF assms(1-3)]
  have "g_map s' LOGNAME_DEFAULT = Some first_logger" if "(log_step opens is_dir)\<^sup>*\<^sup>* s s'"
    using log_steps_extend [OF that] run(1) by (simp add: log_extends_def map_le_def)
  then show "(log_step opens is_dir)\<^sup>*\<^sup>* s s' \<longrightarrow>
      in_files (snd (global_log opens lvl msg s')) =
        in_files s' @ (if g_level s' \<le> lvl then [(LOGFILE_DEFAULT, lvl, msg)] else [])"
    by (simp add: global_log_stored logger_log_def first_logger_def)
  have "enumName id_names m \<noteq> [] \<and> enumName id_names m \<noteq> LOGNAME_DEFAULT" if "m \<noteq> Id_ohno"
    using that by (cases m) (simp_all add: id_names_def LOGNAME_DEFAULT_def)
  then show "m \<noteq> Id_ohno \<and> own \<le> lvl \<longrightarrow>
      in_files (snd (module_log opens m own lvl msg s)) =
        in_files s @ (if cc_loglevel conf \<le> lvl then [(cc_log conf, lvl, msg)] else [])"
    using run assms(4)
    by (simp add: module_log_def getModuleLogger_def getLogger_def Let_def logger_log_def)
qed

definition demo_config :: config where
  "demo_config = default_config\<lparr>cc_log := ''/tmp/o.log'', cc_loglevel := Warn\<rparr>"

lemma configured_log_file_only_for_modules_witness:
  "let s = snd (ohno_logging (\<lambda>_. True) (\<lambda>_. Inr False) ''Launch'' ''Config'' demo_config log_init) in
   in_files (snd (global_log (\<lambda>_. True) Error ''late'' s)) = in_files s @ [(''/var/run/log/ohno.log'', Error, ''late'')] \<and>
   in_files (snd (module_log (\<lambda>_. True) Id_cni Trace Error ''cni'' s)) = in_files s @ [(''/tmp/o.log'', Error, ''cni'')]"
proof -
  let ?run = "ohno_logging (\<lambda>_. True) (\<lambda>_. Inr False) ''Launch'' ''Config'' demo_config log_init"
  have "fst ?run = Inr ()"
    by (simp add: ohno_logging_def log_configure_def global_log_def getLogger_def setLogFile_def logger_log_def log_init_def
        LOGLEVEL_DEFAULT_def demo_config_def default_config_def Let_def)
  then have run: "?run = (Inr (), snd ?run)" by (metis prod.collapse)
  have conf: "cc_log demo_config = ''/tmp/o.log''" "cc_loglevel demo_config = Warn"
    by (simp_all add: demo_config_def default_config_def)
  have "g_level (snd ?run) \<le> Error"
    using ohno_logging_run(2) [OF run] conf by (simp add: less_eq_level_def)
  with configured_log_file_only_for_modules [OF run, where s' = "snd ?run" and lvl = Error and m = Id_cni and own = Trace]
  show ?thesis by (simp add: conf less_eq_level_def LOGFILE_DEFAULT_def Let_def)
qed

end
