(* ===== verification/Ohno_Facts.thy ===== *)
theory Ohno_Facts
  imports Ohno Cni_Types Log_Facts
begin

text \<open>
  How the plugin's process ends: its exit code and what it prints.
\<close>

lemma finish_Inr:
  "finish Y g_del out r = Inr x \<longleftrightarrow>
   (case r of
      Inr _ \<Rightarrow> x = \<lparr>exit_code = EXIT_SUCCESS, printed = out, failure = None\<rparr>
    | Inl ex \<Rightarrow> ex \<noteq> Undefined_behaviour \<and> reportable Y ex \<and>
        x = \<lparr>exit_code = (if g_del then EXIT_SUCCESS else EXIT_FAILURE), printed = out, failure = Some ex\<rparr>)"
  by (auto simp: finish_def split: sum.split)

lemma finish_code:
  "finish Y g_del out r = Inr x \<Longrightarrow>
   exit_code x = (if failure x = None \<or> g_del then EXIT_SUCCESS else EXIT_FAILURE) \<and> printed x = out \<and>
   (failure x = None \<longleftrightarrow> returns r)"
  by (auto simp: finish_Inr returns_def split: sum.splits)

lemma determineType_simps [simp]:
  "determineType ''ADD'' = Inr Type_ADD" "determineType ''DEL'' = Inr Type_DEL"
  "determineType ''VERSION'' = Inr Type_VERSION"
  by (simp_all add: determineType_def)

lemma determineType_DEL: "determineType cmd = Inr ty \<Longrightarrow> (ty = Type_DEL) = (cmd = ''DEL'')"
  by (auto simp: determineType_def split: if_splits)

lemma env_of_command [simp]: "ce_command (env_of e) = env_get e ''CNI_COMMAND''"
  by (simp add: env_of_def)

subsection \<open>The steps before the plugin's object\<close>

lemma opened_main_log:
  assumes "log_opened s"
  obtains s' where "main_log Y msg s = (Inr (), s')" "log_opened s'" "g_level s' = g_level s"
  unfolding main_log_def using opened_log [OF assms] by blast

lemma parseCniConfig_fst:
  assumes "log_opened s"
  shows "fst (parseCniConfig Y stdin s) = read_config (pf_json (os_platform Y)) stdin" "log_opened (snd (parseCniConfig Y stdin s))"
proof -
  have "fst (parseCniConfig Y stdin s) = read_config (pf_json (os_platform Y)) stdin \<and> log_opened (snd (parseCniConfig Y stdin s))"
  proof (cases "read_config (pf_json (os_platform Y)) stdin")
    case (Inr conf)
    obtain s' where "main_log Y (''Get CNI config:'' @ [CHR 0x0A, CHR '' ''] @
        j_dump (pf_json (os_platform Y)) 2 (config_to_json (pf_json (os_platform Y)) conf)) s = (Inr (), s')" "log_opened s'"
      using opened_main_log [OF assms] by blast
    with Inr show ?thesis by (simp add: parseCniConfig_def Let_def)
  qed (use assms in \<open>simp add: parseCniConfig_def Let_def\<close>)
  then show "fst (parseCniConfig Y stdin s) = read_config (pf_json (os_platform Y)) stdin" "log_opened (snd (parseCniConfig Y stdin s))"
    by simp_all
qed

definition env_logged :: "('w, 'j) system \<Rightarrow> environ \<Rightarrow> level \<Rightarrow> bool" where
  "env_logged Y e lvl \<longleftrightarrow> (lvl \<le> Info \<longrightarrow> env_dumpable Y (env_of e))"

lemma parseCniEnv_fst:
  assumes "log_opened s"
  shows "fst (parseCniEnv Y e s) = (if env_logged Y e (g_level s) then Inr (env_of e) else Inl Std_exception)"
    "log_opened (snd (parseCniEnv Y e s))"
proof -
  obtain s' where "main_log Y (''Get CNI env var:'' @ [CHR 0x0A, CHR '' ''] @
      j_dump (pf_json (os_platform Y)) 2 (env_to_json (pf_json (os_platform Y)) (env_of e))) s = (Inr (), s')" "log_opened s'"
    using opened_main_log [OF assms] by blast
  then show "fst (parseCniEnv Y e s) = (if env_logged Y e (g_level s) then Inr (env_of e) else Inl Std_exception)"
    "log_opened (snd (parseCniEnv Y e s))"
    using assms by (auto simp: parseCniEnv_def env_logged_def Let_def)
qed

text \<open>What a run needs to get as far as the command, and the exception it ends in otherwise.\<close>

definition prepared :: "('w, 'j) system \<Rightarrow> environ \<Rightarrow> string \<Rightarrow> config result" where
  "prepared Y e stdin =
     (if \<not> os_opens Y LOGFILE_DEFAULT then Inl Std_exception
      else and_then (read_config (pf_json (os_platform Y)) stdin) (\<lambda>conf.
           and_then (os_is_dir Y (log_path conf)) (\<lambda>_.
             if env_logged Y e (cc_loglevel conf) then Inr conf else Inl Std_exception)))"

lemma ohno_main_prepared:
  assumes "\<not> (\<exists>rest. args = ''--get-conf'' # rest)"
  shows "\<exists>s. log_opened s \<and> ohno_main Y args e stdin w =
    (case prepared Y e stdin of
       Inl ex \<Rightarrow> (finish Y False [] (Inl ex), w)
     | Inr conf \<Rightarrow>
         (case determineType (env_get e ''CNI_COMMAND'') of
            Inl ex \<Rightarrow> (finish Y False [] (Inl ex), w)
          | Inr ty \<Rightarrow>
              (case getCniPlugin Y e conf w of
                 (Inl ex, w2) \<Rightarrow> (finish Y (ty = Type_DEL) [] (Inl ex), w2)
               | (Inr c, w2) \<Rightarrow>
                   (case run_command Y ty (env_of e) c s w2 of
                      ((Inl ex, s6), w3) \<Rightarrow> (finish Y (ty = Type_DEL) [] (Inl ex), w3)
                    | ((Inr out, s6), w3) \<Rightarrow>
                        (finish Y (ty = Type_DEL) out (fst (main_log Y ''ohno CNI finished successfully'' s6)), w3)))))"
proof -
  define s1 where "s1 = snd (main_log Y (''Launch ohno v'' @ os_version Y) log_init)"
  have launch: "main_log Y (''Launch ohno v'' @ os_version Y) log_init =
      (if os_opens Y LOGFILE_DEFAULT then Inr () else Inl Std_exception, s1)"
    unfolding s1_def main_log_def first_log by simp
  have conf_file: "generateEmptyConfigFile Y args s w = ((Inr False, s), w)" for s
    using assms by (auto simp: generateEmptyConfigFile_def split: list.split)
  show ?thesis
  proof (cases "os_opens Y LOGFILE_DEFAULT")
    case False
    have "log_opened (log_init\<lparr>g_map := [LOGNAME_DEFAULT \<mapsto> first_logger]\<rparr>)" by (simp add: log_opened_def)
    with False show ?thesis unfolding ohno_main_def launch prepared_def by (intro exI conjI) simp_all
  next
    case True
    then have s1: "log_opened s1" unfolding s1_def main_log_def by (simp only: first_log_opened)
    define s3 where "s3 = snd (parseCniConfig Y stdin s1)"
    have p: "parseCniConfig Y stdin s1 = (read_config (pf_json (os_platform Y)) stdin, s3)" "log_opened s3"
      using parseCniConfig_fst [OF s1, of Y stdin] by (simp_all add: s3_def prod_eq_iff)
    show ?thesis
    proof (cases "read_config (pf_json (os_platform Y)) stdin")
      case (Inl ex)
      with True s1 p show ?thesis
        unfolding ohno_main_def launch by (intro exI conjI) (simp_all add: conf_file prepared_def and_then_def)
    next
      case conf: (Inr conf)
      define s4 where "s4 = snd (log_configure (os_opens Y) (os_is_dir Y) conf s3)"
      note c = opened_configure [OF p(2), where opens = "os_opens Y" and is_dir = "os_is_dir Y" and conf = conf]
      have c': "log_configure (os_opens Y) (os_is_dir Y) conf s3 =
          (case os_is_dir Y (log_path conf) of Inl e \<Rightarrow> Inl e | Inr _ \<Rightarrow> Inr (), s4)" "log_opened s4"
        using c(1,2) by (simp_all add: s4_def prod_eq_iff)
      show ?thesis
      proof (cases "os_is_dir Y (log_path conf)")
        case (Inl ex)
        with True conf s1 p c' show ?thesis
          unfolding ohno_main_def launch by (intro exI conjI) (simp_all add: conf_file prepared_def and_then_def)
      next
        case dir: (Inr d)
        then have lvl: "g_level s4 = cc_loglevel conf" using c(3) by (simp add: s4_def)
        define s5 where "s5 = snd (parseCniEnv Y e s4)"
        have v: "parseCniEnv Y e s4 = (if env_logged Y e (cc_loglevel conf) then Inr (env_of e) else Inl Std_exception, s5)"
          "log_opened s5"
          using parseCniEnv_fst [OF c'(2), of Y e] by (simp_all add: s5_def lvl prod_eq_iff)
        show ?thesis
          unfolding ohno_main_def launch Let_def
          by (rule exI [of _ s5]) (use True conf dir p(1) c'(1) v in \<open>simp add: conf_file prepared_def and_then_def\<close>)
      qed
    qed
  qed
qed

text \<open>No log line after these steps can fail.\<close>

lemma run_command_logs:
  assumes "log_opened s" and "run_command Y ty env c s w = ((Inr out, s'), w')"
  shows "log_opened s'" "ty = Type_DEL \<Longrightarrow> out = []"
proof -
  have print: "log_opened s2" if "log_and_print Y title t s = (r, s2)" for title t r s2
  proof -
    obtain s3 where "main_log Y (title @ [CHR 0x0A] @ t) s = (Inr (), s3)" "log_opened s3"
      using opened_main_log [OF assms(1)] by blast
    with that show ?thesis unfolding log_and_print_def by simp
  qed
  show "log_opened s'"
  proof (cases ty)
    case Type_ADD
    with assms(2) show ?thesis
      unfolding run_command_def Let_def by (auto simp del: append.simps split: prod.splits sum.splits dest: print)
  next
    case Type_VERSION
    with assms(2) show ?thesis unfolding run_command_def Let_def by (auto simp del: append.simps dest: print)
  qed (use assms in \<open>auto simp: run_command_def Let_def split: prod.splits sum.splits\<close>)
  show "ty = Type_DEL \<Longrightarrow> out = []" using assms(2) by (auto simp: run_command_def Let_def split: prod.splits sum.splits)
qed

definition DEL_prepared :: "('w, 'j) system \<Rightarrow> environ \<Rightarrow> string \<Rightarrow> bool" where
  "DEL_prepared Y e stdin \<longleftrightarrow> env_get e ''CNI_COMMAND'' = ''DEL'' \<and> returns (prepared Y e stdin)"

text \<open>
  C19: The process exits with success if nothing went wrong, or if the command is DEL and everything up
  to the flag \<open>g_del\<close> went well: the default log file can be opened, the configuration on standard input
  can be read, the configured log path can be looked at, and the variables can be dumped if their message
  passes the configured level. Otherwise it exits with failure, also for a DEL that fails at one of
  these. What went wrong leaves standard output empty, and DEL prints nothing.
\<close>

theorem ohno_exit_code:
  assumes "ohno_main Y args e stdin w = (Inr x, w')" and "\<not> (\<exists>rest. args = ''--get-conf'' # rest)"
  shows "exit_code x = (if failure x = None \<or> DEL_prepared Y e stdin then EXIT_SUCCESS else EXIT_FAILURE) \<and>
    (failure x \<noteq> None \<or> DEL_prepared Y e stdin \<longrightarrow> printed x = []) \<and>
    (\<not> returns (prepared Y e stdin) \<longrightarrow> failure x \<noteq> None)"
proof -
  obtain s where s: "log_opened s" and main: "ohno_main Y args e stdin w =
    (case prepared Y e stdin of
       Inl ex \<Rightarrow> (finish Y False [] (Inl ex), w)
     | Inr conf \<Rightarrow>
         (case determineType (env_get e ''CNI_COMMAND'') of
            Inl ex \<Rightarrow> (finish Y False [] (Inl ex), w)
          | Inr ty \<Rightarrow>
              (case getCniPlugin Y e conf w of
                 (Inl ex, w2) \<Rightarrow> (finish Y (ty = Type_DEL) [] (Inl ex), w2)
               | (Inr c, w2) \<Rightarrow>
                   (case run_command Y ty (env_of e) c s w2 of
                      ((Inl ex, s6), w3) \<Rightarrow> (finish Y (ty = Type_DEL) [] (Inl ex), w3)
                    | ((Inr out, s6), w3) \<Rightarrow>
                        (finish Y (ty = Type_DEL) out (fst (main_log Y ''ohno CNI finished successfully'' s6)), w3)))))"
    using ohno_main_prepared [OF assms(2), of Y e stdin w] by (elim exE conjE)
  show ?thesis
  proof (cases "prepared Y e stdin")
    case (Inl ex)
    with main assms(1) show ?thesis using finish_code [of Y False "[]" "Inl ex" x] by (simp add: DEL_prepared_def)
  next
    case conf: (Inr conf)
    show ?thesis
    proof (cases "determineType (env_get e ''CNI_COMMAND'')")
      case (Inl ex)
      then have "\<not> DEL_prepared Y e stdin" by (auto simp: DEL_prepared_def)
      with Inl conf main assms(1) show ?thesis using finish_code [of Y False "[]" "Inl ex" x] by simp
    next
      case ok: (Inr ty)
      have del: "(ty = Type_DEL) = DEL_prepared Y e stdin"
        using determineType_DEL [OF ok] conf by (simp add: DEL_prepared_def)
      have "\<exists>out r. finish Y (ty = Type_DEL) out r = Inr x \<and> (ty = Type_DEL \<or> \<not> returns r \<longrightarrow> out = [])"
      proof (cases "getCniPlugin Y e conf w")
        case (Pair p w2)
        show ?thesis
        proof (cases p)
          case (Inl ex)
          with main conf ok Pair assms(1) show ?thesis by (intro exI [of _ "[]"] exI [of _ "Inl ex"]) simp
        next
          case c: (Inr c)
          obtain r s6 w3 where run: "run_command Y ty (env_of e) c s w2 = ((r, s6), w3)" by (metis prod.collapse)
          show ?thesis
          proof (cases r)
            case (Inl ex)
            with main conf ok Pair c run assms(1) show ?thesis by (intro exI [of _ "[]"] exI [of _ "Inl ex"]) simp
          next
            case out: (Inr out)
            note logs = run_command_logs [OF s run [unfolded out]]
            obtain s7 where "main_log Y ''ohno CNI finished successfully'' s6 = (Inr (), s7)"
              using opened_main_log [OF logs(1)] by blast
            with main conf ok Pair c run out assms(1) logs(2) show ?thesis
              by (intro exI [of _ out] exI [of _ "Inr ()"]) simp
          qed
        qed
      qed
      then obtain out r where "finish Y (ty = Type_DEL) out r = Inr x" "ty = Type_DEL \<or> \<not> returns r \<longrightarrow> out = []" by blast
      with finish_code [of Y "ty = Type_DEL" out r x] del conf show ?thesis by auto
    qed
  qed
qed

text \<open>A host without any of the files the plugin reads, and one where the log file cannot be opened either.\<close>

definition demo_system :: "(unit, jvalue) system" where
  "demo_system = \<lparr>
     os_platform = demo_platform,
     os_files = \<lparr>read_contents = (\<lambda>f w. (None, w)), write_contents = (\<lambda>f s w. w), file_exists = (\<lambda>f w. (Inr False, w))\<rparr>,
     os_curl = (\<lambda>req w. (Inl ''unreachable'', w)), os_order = (\<lambda>m. []), os_enum = (\<lambda>m. []),
     os_opens = (\<lambda>f. True), os_is_dir = (\<lambda>f. Inr False), os_dumpable = (\<lambda>s. True), os_version = ''1''\<rparr>"

definition demo_unlogged :: "(unit, jvalue) system" where
  "demo_unlogged = demo_system\<lparr>os_opens := (\<lambda>f. False)\<rparr>"

definition demo_DEL :: environ where "demo_DEL = [''CNI_COMMAND'' \<mapsto> ''DEL'']"

lemma demo_DEL_command: "env_get demo_DEL ''CNI_COMMAND'' = ''DEL''"
  by (simp add: demo_DEL_def env_get_def)

lemma demo_prepared:
  "prepared demo_system demo_DEL ''{}'' = Inr default_config"
  "prepared demo_system demo_DEL ''x'' = Inl Std_exception"
  "prepared demo_unlogged demo_DEL ''{}'' = Inl Std_exception"
proof -
  have "pf_json (os_platform demo_system) = demo_json" by (simp add: demo_system_def demo_platform_def)
  then have r: "read_config (pf_json (os_platform demo_system)) ''{}'' = Inr default_config"
    "read_config (pf_json (os_platform demo_system)) ''x'' = Inl Std_exception"
    using empty_config [OF demo_json_documented] by (simp_all add: read_config_def)
  have "os_opens demo_system LOGFILE_DEFAULT" "os_is_dir demo_system f = Inr False" "env_logged demo_system e lvl" for f e lvl
    by (simp_all add: demo_system_def env_logged_def env_dumpable_def)
  then show "prepared demo_system demo_DEL ''{}'' = Inr default_config"
    "prepared demo_system demo_DEL ''x'' = Inl Std_exception" by (simp_all add: prepared_def r and_then_def)
  show "prepared demo_unlogged demo_DEL ''{}'' = Inl Std_exception" by (simp add: prepared_def demo_unlogged_def)
qed

lemma demo_DEL_runs:
  "ohno_main demo_system [] demo_DEL ''{}'' () =
     (Inr \<lparr>exit_code = 0, printed = [], failure = Some (Cni_error 7 ''Kubernetes api server is unhealthy'')\<rparr>, ())"
  "ohno_main demo_system [] demo_DEL ''x'' () =
     (Inr \<lparr>exit_code = 1, printed = [], failure = Some Std_exception\<rparr>, ())"
  "ohno_main demo_unlogged [] demo_DEL ''{}'' () =
     (Inr \<lparr>exit_code = 1, printed = [], failure = Some Std_exception\<rparr>, ())"
proof -
  have "getCniPlugin demo_system demo_DEL default_config () =
    (Inl (Cni_error 7 ''Kubernetes api server is unhealthy''), ())"
    by (simp add: getCniPlugin_def demo_system_def getApiServer_def getServerUrl_def readFile_def new_center_def
        getCa_def getToken_def center_test_def default_config_def Let_def)
  moreover note demo_DEL_command
  moreover have "os_dumpable demo_system t" for t by (simp add: demo_system_def)
  moreover have args: "\<not> (\<exists>rest. ([] :: string list) = ''--get-conf'' # rest)" by simp
  ultimately show "ohno_main demo_system [] demo_DEL ''{}'' () =
     (Inr \<lparr>exit_code = 0, printed = [], failure = Some (Cni_error 7 ''Kubernetes api server is unhealthy'')\<rparr>, ())"
    using ohno_main_prepared [OF args, of demo_system demo_DEL "''{}''" "()"]
    by (simp add: demo_prepared finish_def reportable_def EXIT_SUCCESS_def)
  show "ohno_main demo_system [] demo_DEL ''x'' () =
     (Inr \<lparr>exit_code = 1, printed = [], failure = Some Std_exception\<rparr>, ())"
    using ohno_main_prepared [OF args, of demo_system demo_DEL "''x''" "()"]
    by (simp add: demo_prepared finish_def reportable_def EXIT_FAILURE_def)
  show "ohno_main demo_unlogged [] demo_DEL ''{}'' () =
     (Inr \<lparr>exit_code = 1, printed = [], failure = Some Std_exception\<rparr>, ())"
    using ohno_main_prepared [OF args, of demo_unlogged demo_DEL "''{}''" "()"]
    by (simp add: demo_prepared finish_def reportable_def EXIT_FAILURE_def)
qed

lemma ohno_exit_code_witness:
  "exit_code \<lparr>exit_code = 0, printed = [], failure = Some (Cni_error 7 ''Kubernetes api server is unhealthy'')\<rparr> =
     EXIT_SUCCESS \<and> DEL_prepared demo_system demo_DEL ''{}'' \<and>
   exit_code \<lparr>exit_code = 1, printed = [], failure = Some Std_exception\<rparr> = EXIT_FAILURE \<and>
   \<not> DEL_prepared demo_system demo_DEL ''x'' \<and> \<not> DEL_prepared demo_unlogged demo_DEL ''{}''"
proof -
  have p: "DEL_prepared demo_system demo_DEL ''{}''" "\<not> DEL_prepared demo_system demo_DEL ''x''"
    "\<not> DEL_prepared demo_unlogged demo_DEL ''{}''"
    by (simp_all add: DEL_prepared_def demo_prepared demo_DEL_command)
  show ?thesis
    using ohno_exit_code [OF demo_DEL_runs(1)] ohno_exit_code [OF demo_DEL_runs(2)] ohno_exit_code [OF demo_DEL_runs(3)] p
    by simp
qed

end
