(* ===== verification/Vxlan_Backend.thy ===== *)
theory Vxlan_Backend
  imports Host_Gw
begin

text \<open>
  \<open>src/backend/vxlan.cc\<close>: a route, a neighbour and an FDB entry on the VXLAN device per other node
  that has a VTEP record. An exception ends the handler with the state it has reached; undefined
  behaviour (the read of a malformed record, or of an erased entry of the cache) is one of them.
\<close>

record 'w vxlan_backend = "'w backend" +
  vb_cache :: "(string \<times> node_info) list"
  vb_storage :: "'w storage_if option"

definition new_vxlan_backend :: "'w vxlan_backend" where
  "new_vxlan_backend = backend.extend new_backend \<lparr>vb_cache = [], vb_storage = None\<rparr>"

definition vxlan_setStorage :: "'w storage_if option \<Rightarrow> 'w vxlan_backend \<Rightarrow> 'w vxlan_backend" where
  "vxlan_setStorage S b = b\<lparr>vb_storage := S\<rparr>"

text \<open>The three additions for one node, with their roll-back: success is \<open>True\<close>.\<close>

definition vxlan_add_one :: "node_info \<Rightarrow> string \<Rightarrow> string \<Rightarrow> 'w nic \<Rightarrow> ('w, bool \<times> 'w nic) op" where
  "vxlan_add_one info vtep_addr vtep_mac n w =
     (case nic_addRoute (Route (pod_cidr info) vtep_addr NAME_VXLAN) NH_onlink n w of
        ((False, n1), w1) \<Rightarrow> ((False, n1), w1)
      | ((True, n1), w1) \<Rightarrow>
          (case nic_addNeigh (Neigh vtep_addr vtep_mac NAME_VXLAN) n1 w1 of
             ((False, n2), w2) \<Rightarrow>
               (case nic_delRoute (pod_cidr info) vtep_addr [] n2 w2 of ((_, n3), w3) \<Rightarrow> ((False, n3), w3))
           | ((True, n2), w2) \<Rightarrow>
               (case nic_addFdb (Fdb vtep_mac (internal_ip info) NAME_VXLAN) n2 w2 of
                  ((False, n3), w3) \<Rightarrow>
                    (case nic_delRoute (pod_cidr info) vtep_addr [] n3 w3 of
                       ((_, n4), w4) \<Rightarrow>
                         (case nic_delNeigh vtep_addr vtep_mac NAME_VXLAN n4 w4 of
                            ((_, n5), w5) \<Rightarrow> ((False, n5), w5)))
                | ((True, n3), w3) \<Rightarrow> ((True, n3), w3))))"

fun vxlan_add :: "'w storage_if \<Rightarrow> string \<Rightarrow> (string \<times> node_info) list \<Rightarrow> (string \<times> node_info) list
    \<Rightarrow> 'w nic \<Rightarrow> ('w, unit result \<times> (string \<times> node_info) list \<times> 'w nic) op" where
  "vxlan_add S current [] cache n w = ((Inr (), cache, n), w)"
| "vxlan_add S current ((name, info) # cluster) cache n w =
     (if current = name then vxlan_add S current cluster cache n w
      else (case st_getVtep S name w of
              (Inl e, w1) \<Rightarrow> ((Inl e, cache, n), w1)
            | (Inr (vtep_addr, vtep_mac), w1) \<Rightarrow>
                if vtep_addr \<noteq> [] \<and> map_of cache name = None
                then (case vxlan_add_one info vtep_addr vtep_mac n w1 of
                        ((False, n'), w2) \<Rightarrow> vxlan_add S current cluster cache n' w2
                      | ((True, n'), w2) \<Rightarrow> vxlan_add S current cluster (emplace name info cache) n' w2)
                else vxlan_add S current cluster cache n w1))"

definition vxlan_del_one :: "node_info \<Rightarrow> string \<Rightarrow> string \<Rightarrow> 'w nic \<Rightarrow> ('w, 'w nic) op" where
  "vxlan_del_one info vtep_addr vtep_mac n w =
     (case nic_delRoute (pod_cidr info) vtep_addr NAME_VXLAN n w of
        ((_, n1), w1) \<Rightarrow>
          (case nic_delNeigh vtep_addr vtep_mac NAME_VXLAN n1 w1 of
             ((_, n2), w2) \<Rightarrow>
               (case nic_delFdb (internal_ip info) vtep_mac NAME_VXLAN n2 w2 of ((_, n3), w3) \<Rightarrow> (n3, w3))))"

text \<open>As in \<open>hostgw_del\<close>, the log line after the erase reads the erased entry, when it is formatted.\<close>

fun vxlan_del :: "bool \<Rightarrow> 'w storage_if \<Rightarrow> string \<Rightarrow> (string \<times> node_info) list \<Rightarrow> 'w nic
    \<Rightarrow> ('w, unit result \<times> (string \<times> node_info) list \<times> 'w nic) op" where
  "vxlan_del fmt S current_vtep_addr [] n w = ((Inr (), [], n), w)"
| "vxlan_del fmt S current_vtep_addr ((name, info) # cache) n w =
     (case st_getVtep S name w of
        (Inl e, w1) \<Rightarrow> ((Inl e, (name, info) # cache, n), w1)
      | (Inr (vtep_addr, vtep_mac), w1) \<Rightarrow>
          if current_vtep_addr = [] \<or> vtep_addr = []
          then (case vxlan_del_one info vtep_addr vtep_mac n w1 of
                  (n', w2) \<Rightarrow>
                    if fmt then ((Inl Undefined_behaviour, cache, n'), w2)
                    else vxlan_del fmt S current_vtep_addr cache n' w2)
          else (case vxlan_del fmt S current_vtep_addr cache n w1 of
                  ((r, kept, n'), w2) \<Rightarrow> ((r, (name, info) # kept, n'), w2)))"

definition vxlan_eventHandler :: "level \<Rightarrow> arrangement \<Rightarrow> string \<Rightarrow> 'w vxlan_backend
    \<Rightarrow> ('w, unit result \<times> 'w vxlan_backend) op" where
  "vxlan_eventHandler lvl arrange current b w =
     (case (bk_center b, vb_storage b, bk_nic b) of
        (Some center, Some S, Some n) \<Rightarrow>
          (case ct_all center w of
             (cluster, w1) \<Rightarrow>
               (case st_getVtep S current w1 of
                  (Inl e, w2) \<Rightarrow> ((Inl e, b), w2)
                | (Inr (current_vtep_addr, current_vtep_mac), w2) \<Rightarrow>
                    (case (if current_vtep_addr \<noteq> [] then vxlan_add S current cluster (vb_cache b) n w2
                           else ((Inr (), vb_cache b, n), w2)) of
                       ((Inl e, cache, n'), w3) \<Rightarrow> ((Inl e, b\<lparr>vb_cache := cache, bk_nic := Some n'\<rparr>), w3)
                     | ((Inr _, cache, n'), w3) \<Rightarrow>
                         (case vxlan_del (info_formatted lvl) S current_vtep_addr (arrange cache) n' w3 of
                            ((r, cache', n''), w4) \<Rightarrow>
                              ((r, b\<lparr>vb_cache := cache', bk_nic := Some n''\<rparr>), w4)))))
      | _ \<Rightarrow> ((Inl Undefined_behaviour, b), w))"

end
