(* ===== verification/Evpn.thy ===== *)
theory Evpn
  imports Backend
begin

text \<open>
  \<open>src/backend/evpn.cc\<close>: the devices of the BGP EVPN mode, brought up and connected when the
  backend starts and removed when it stops. It has no worker thread. A device that was never set
  is a null pointer.
\<close>

record 'w evpn =
  ev_vrf :: "'w nic option"
  ev_l3 :: "'w nic option"
  ev_l2 :: "'w nic option"
  ev_vxlan :: "'w nic option"

definition new_evpn :: "'w evpn" where
  "new_evpn = \<lparr>ev_vrf = None, ev_l3 = None, ev_l2 = None, ev_vxlan = None\<rparr>"

definition evpn_setVrf :: "'w nic \<Rightarrow> 'w evpn \<Rightarrow> 'w evpn" where
  "evpn_setVrf n b = b\<lparr>ev_vrf := Some n\<rparr>"

definition evpn_setl3Bridge :: "'w nic \<Rightarrow> 'w evpn \<Rightarrow> 'w evpn" where
  "evpn_setl3Bridge n b = b\<lparr>ev_l3 := Some n\<rparr>"

definition evpn_setl2Bridge :: "'w nic \<Rightarrow> 'w evpn \<Rightarrow> 'w evpn" where
  "evpn_setl2Bridge n b = b\<lparr>ev_l2 := Some n\<rparr>"

definition evpn_setVxlan :: "'w nic \<Rightarrow> 'w evpn \<Rightarrow> 'w evpn" where
  "evpn_setVxlan n b = b\<lparr>ev_vxlan := Some n\<rparr>"

definition evpn_envSetup :: "'w evpn \<Rightarrow> ('w, unit result \<times> 'w evpn) op" where
  "evpn_envSetup b w =
     (case (ev_vrf b, ev_l3 b, ev_l2 b, ev_vxlan b) of
        (Some vrf, Some l3, Some l2, Some vx) \<Rightarrow>
          (let ((_, vrf'), w1) = nic_setStatus UP vrf w;
               ((_, l3'), w2) = nic_setStatus UP l3 w1;
               ((_, l2'), w3) = nic_setStatus UP l2 w2;
               (_, w4) = setMaster (nic_name l3) mode_none vrf' w3;
               (_, w5) = setMaster (nic_name l2) mode_none vrf' w4;
               ((_, vx'), w6) = nic_setStatus UP vx w5;
               (_, w7) = setMaster (nic_name vx) mode_reserved l3' w6;
               (_, w8) = setSlave True False vx' w7
           in ((Inr (), b\<lparr>ev_vrf := Some vrf', ev_l3 := Some l3', ev_l2 := Some l2', ev_vxlan := Some vx'\<rparr>), w8))
      | _ \<Rightarrow> ((Inl Undefined_behaviour, b), w))"

text \<open>The first exception ends the clean-up and is swallowed.\<close>

definition evpn_envCleanup :: "asio \<Rightarrow> 'w evpn \<Rightarrow> ('w, unit result) op" where
  "evpn_envCleanup A b w =
     (case (ev_vrf b, ev_l3 b, ev_vxlan b) of
        (Some vrf, Some l3, Some vx) \<Rightarrow>
          (case nic_cleanup A vrf w of
             (Inl e, w1) \<Rightarrow> (swallow e, w1)
           | (Inr _, w1) \<Rightarrow>
               (case nic_cleanup A l3 w1 of
                  (Inl e, w2) \<Rightarrow> (swallow e, w2)
                | (Inr _, w2) \<Rightarrow>
                    (case nic_cleanup A vx w2 of
                       (Inl e, w3) \<Rightarrow> (swallow e, w3) | (Inr _, w3) \<Rightarrow> (Inr (), w3))))
      | _ \<Rightarrow> (Inl Undefined_behaviour, w))"

definition evpn_start :: "string \<Rightarrow> 'w evpn \<Rightarrow> ('w, unit result \<times> 'w evpn) op" where
  "evpn_start current b w = evpn_envSetup b w"

definition evpn_stop :: "asio \<Rightarrow> 'w evpn \<Rightarrow> ('w, unit result) op" where
  "evpn_stop A b w = evpn_envCleanup A b w"

end
