(* ===== verification/Except.thy ===== *)
theory Except
  imports Prelude
begin

text \<open>
  \<open>src/common/except.cc\<close> and \<open>src/common/assert.h\<close>: the text that an exception carries, and what an
  assertion does in either build.

  The components throw the values of \<open>exn\<close>, whose \<open>Ohno_exception\<close> holds the argument \<open>msg\<close> alone;
  here is the object that the constructor makes of it. \<open>errno\<close> and \<open>strerror_r\<close> belong to the C
  library and are parameters. Of \<open>strerror_r\<close> the code looks at two things: whether the value that
  it returns equals 0, and the text in the buffer of 256 bytes.
\<close>

subsection \<open>Exception (\<open>except.cc\<close>)\<close>

record Exception =
  exc_msg :: string
  exc_err :: int

text \<open>A decimal \<open>int\<close> in a hole of \<open>fmt::format\<close>.\<close>

definition dec_int :: "int \<Rightarrow> string" where
  "dec_int i = (if i < 0 then ''-'' @ dec (nat (- i)) else dec (nat i))"

definition MAXSIZE :: nat where
  "MAXSIZE = 256"

text \<open>\<open>[{}:{}] {}\<close>\<close>

definition located :: "string \<Rightarrow> int \<Rightarrow> string \<Rightarrow> string" where
  "located file line msg = ''['' @ file @ '':'' @ dec_int line @ ''] '' @ msg"

definition new_Exception ::
    "int \<Rightarrow> (int \<Rightarrow> nat \<Rightarrow> bool \<times> string) \<Rightarrow> string \<Rightarrow> int \<Rightarrow> string \<Rightarrow> bool \<Rightarrow> Exception" where
  "new_Exception errno strerror_r file line msg is_errno =
     (let err = errno; m = located file line msg in
      if is_errno \<and> err \<noteq> 0 then
        (case strerror_r err MAXSIZE of (is_zero, err_msg) \<Rightarrow>
           if is_zero then
             \<lparr>exc_msg = m @ '' ('' @ dec_int err @ '' -- '' @ err_msg @ '')'', exc_err = err\<rparr>
           else \<lparr>exc_msg = m, exc_err = err\<rparr>)
      else \<lparr>exc_msg = m, exc_err = err\<rparr>)"

definition getMsg :: "Exception \<Rightarrow> string" where
  "getMsg e = exc_msg e"

text \<open>The macro, at the place \<open>file\<close>, \<open>line\<close> where it is written.\<close>

definition OHNO_EXCEPT ::
    "int \<Rightarrow> (int \<Rightarrow> nat \<Rightarrow> bool \<times> string) \<Rightarrow> string \<Rightarrow> int \<Rightarrow> string \<Rightarrow> bool \<Rightarrow> Exception" where
  "OHNO_EXCEPT errno strerror_r file line msg is_errno =
     new_Exception errno strerror_r file line msg is_errno"

text \<open>The exception that is caught has the number that \<open>errno\<close> had, asked for or not.\<close>

lemma exc_err_is_errno: "exc_err (OHNO_EXCEPT errno strerror_r file line msg is_errno) = errno"
  by (simp add: OHNO_EXCEPT_def new_Exception_def Let_def split: prod.split)

text \<open>
  Whatever is asked for, the text names the place and the message first; every throw of the
  repository asks for no more.
\<close>

lemma message_starts_with_place:
  "\<exists>more. getMsg (OHNO_EXCEPT errno strerror_r file line msg is_errno) = located file line msg @ more
     \<and> (\<not> is_errno \<or> errno = 0 \<longrightarrow> more = [])"
  by (auto simp: OHNO_EXCEPT_def new_Exception_def getMsg_def Let_def split: prod.split)

lemma message_without_errno [simp]:
  "getMsg (OHNO_EXCEPT errno strerror_r file line msg False) = located file line msg"
  by (simp add: OHNO_EXCEPT_def new_Exception_def getMsg_def Let_def)

text \<open>
  With the \<open>strerror_r\<close> that returns an error number, 0 for success (POSIX), the text of the error
  is appended. The C++ compilers that the repository is built with on Linux select the other one
  (GNU), which returns a pointer to the text, never null: then the text is never appended.
\<close>

lemma posix_message_tells_errno:
  assumes "strerror_r errno MAXSIZE = (True, text)" "errno \<noteq> 0"
  shows "getMsg (OHNO_EXCEPT errno strerror_r file line msg True)
    = located file line msg @ '' ('' @ dec_int errno @ '' -- '' @ text @ '')''"
  using assms by (simp add: OHNO_EXCEPT_def new_Exception_def getMsg_def Let_def)

lemma gnu_message_never_tells_errno:
  assumes "\<And>err n. \<not> fst (strerror_r err n)"
  shows "getMsg (OHNO_EXCEPT errno strerror_r file line msg is_errno) = located file line msg"
  using assms [of errno MAXSIZE]
  by (cases "strerror_r errno MAXSIZE")
    (simp add: OHNO_EXCEPT_def new_Exception_def getMsg_def Let_def)

text \<open>Within one file the text tells the line and the message apart: it reads back.\<close>

lemma dec_int_chars: "c \<in> set (dec_int i) \<Longrightarrow> is_digit c \<or> c = CHR ''-''"
  by (auto simp: dec_int_def dest: dec_digits split: if_splits)

lemma dec_int_inject [simp]: "dec_int i = dec_int j \<longleftrightarrow> i = j"
proof
  have "hd (dec n) \<noteq> CHR ''-''" for n
    using dec_digits [of "hd (dec n)" n] by (auto simp: is_digit_def)
  moreover assume "dec_int i = dec_int j"
  ultimately show "i = j"
    by (auto simp: dec_int_def split: if_splits) (metis list.sel(1))+
qed simp

lemma located_inject:
  "located file line msg = located file line' msg' \<longleftrightarrow> line = line' \<and> msg = msg'"
proof
  have stop: "takeWhile (\<lambda>c. c \<noteq> CHR '']'') (dec_int i @ CHR '']'' # s) = dec_int i" for i s
    using dec_int_chars [of "CHR '']''" i] by (subst takeWhile_append2) (auto simp: is_digit_def)
  assume "located file line msg = located file line' msg'"
  then have same: "dec_int line @ CHR '']'' # CHR '' '' # msg = dec_int line' @ CHR '']'' # CHR '' '' # msg'"
    by (simp add: located_def)
  with stop have "dec_int line = dec_int line'" by metis
  with same show "line = line' \<and> msg = msg'" by simp
qed simp

subsection \<open>Assertions (\<open>assert.h\<close>)\<close>

text \<open>
  What the statement does: \<open>Some err\<close> when it goes on, having written \<open>err\<close> to stderr, \<open>None\<close> when
  the process is aborted, by \<open>assert\<close> of the standard library before \<open>std::abort\<close> is reached. With
  \<open>NDEBUG\<close> that \<open>assert\<close> is empty, and \<open>OHNO_ACTION\<close> prints.
\<close>

definition std_assert :: "bool \<Rightarrow> bool \<Rightarrow> unit option" where
  "std_assert ndebug expr = (if ndebug \<or> expr then Some () else None)"

definition OHNO_ACTION :: "bool \<Rightarrow> string \<Rightarrow> int \<Rightarrow> string option" where
  "OHNO_ACTION ndebug file line =
     (if ndebug then
        Some (''ohno assertion failed in '' @ file @ '':'' @ dec_int line @ [CHR 0x0A])
      else None)"

definition OHNO_ASSERT :: "bool \<Rightarrow> string \<Rightarrow> int \<Rightarrow> bool \<Rightarrow> string option" where
  "OHNO_ASSERT ndebug file line expr =
     (case std_assert ndebug expr of
        None \<Rightarrow> None
      | Some _ \<Rightarrow> if \<not> expr then OHNO_ACTION ndebug file line else Some [])"

text \<open>An assertion stops the process exactly in the Debug build, and only when it fails.\<close>

lemma assertion_aborts_iff: "OHNO_ASSERT ndebug file line expr = None \<longleftrightarrow> \<not> ndebug \<and> \<not> expr"
  by (auto simp: OHNO_ASSERT_def OHNO_ACTION_def std_assert_def)

text \<open>
  This is what lets the other theories leave assertions out: in the Release build the next statement
  is reached, and the assertion is silent exactly when it holds.
\<close>

lemma release_assertion_goes_on: "\<exists>err. OHNO_ASSERT True file line expr = Some err \<and> (err = [] \<longleftrightarrow> expr)"
  by (auto simp: OHNO_ASSERT_def OHNO_ACTION_def std_assert_def)

end
