(* ===== verification/Ohnod.thy ===== *)
theory Ohnod
  imports Ohno Vxlan_Backend Evpn Except
begin

text \<open>
  \<open>src/backend/scheduler.cc\<close>, \<open>strategy_client.cc\<close> and \<open>src/ohnod/ohnod.cc\<close>: the daemon chooses a
  routing backend by the mode in the CNI configuration file, builds it and runs it until a signal.
\<close>

subsection \<open>Scheduler (\<open>scheduler.cc\<close>)\<close>

text \<open>A backend object: the two with a worker thread and the one without.\<close>

datatype 'w strategy = Hostgw_strategy "'w host_gw" worker | Vxlan_strategy "'w vxlan_backend" worker
  | Evpn_strategy "'w evpn"

type_synonym 'w scheduler = "'w strategy option"

definition scheduler_setStrategy :: "'w strategy option \<Rightarrow> 'w scheduler" where
  "scheduler_setStrategy backend = backend"

definition scheduler_start :: "string \<Rightarrow> 'w scheduler \<Rightarrow> ('w, unit result \<times> 'w scheduler) op" where
  "scheduler_start node s w =
     (case s of
        None \<Rightarrow> ((Inl Undefined_behaviour, s), w)
      | Some (Hostgw_strategy b t) \<Rightarrow> ((Inr (), Some (Hostgw_strategy b (worker_start t))), w)
      | Some (Vxlan_strategy b t) \<Rightarrow> ((Inr (), Some (Vxlan_strategy b (worker_start t))), w)
      | Some (Evpn_strategy b) \<Rightarrow> (case evpn_start node b w of ((r, b'), w') \<Rightarrow> ((r, Some (Evpn_strategy b')), w')))"

text \<open>\<open>stop\<close> up to the wait for the thread.\<close>

definition scheduler_stop :: "asio \<Rightarrow> 'w scheduler \<Rightarrow> ('w, unit result \<times> 'w scheduler) op" where
  "scheduler_stop A s w =
     (case s of
        None \<Rightarrow> ((Inr (), s), w)
      | Some (Hostgw_strategy b t) \<Rightarrow> ((Inr (), Some (Hostgw_strategy b (worker_stop t))), w)
      | Some (Vxlan_strategy b t) \<Rightarrow> ((Inr (), Some (Vxlan_strategy b (worker_stop t))), w)
      | Some (Evpn_strategy b) \<Rightarrow> (case evpn_stop A b w of (r, w') \<Rightarrow> ((r, s), w')))"

subsection \<open>StrategyClient (\<open>strategy_client.cc\<close>)\<close>

record backend_info =
  bi_api_server :: string
  bi_ssl :: bool
  bi_refresh_interval :: int

record 'w strategy_client =
  sc_scheduler :: "'w scheduler option"
  sc_netlink :: "'w netlink_if option"
  sc_bkinfo :: backend_info

definition BGP_EVPN_VRF :: string where "BGP_EVPN_VRF = ''ohnovrf''"

definition BGP_EVPN_BR :: string where "BGP_EVPN_BR = ''ohnol3svi''"

definition BGP_EVPN_VTEP :: string where "BGP_EVPN_VTEP = ''ohnol3vni''"

definition PATH_CNI_CONF :: string where "PATH_CNI_CONF = ''/etc/cni/net.d/ohno.json''"

definition client_setNetlink :: "'w netlink_if option \<Rightarrow> 'w strategy_client \<Rightarrow> bool \<times> 'w strategy_client" where
  "client_setNetlink netlink c = (\<not> Option.is_none netlink, c\<lparr>sc_netlink := netlink\<rparr>)"

definition client_setBackendInfo :: "backend_info \<Rightarrow> 'w strategy_client \<Rightarrow> 'w strategy_client" where
  "client_setBackendInfo bkinfo c = c\<lparr>sc_bkinfo := bkinfo\<rparr>"

definition daemon_etcd :: "('w, 'j) system \<Rightarrow> environ \<Rightarrow> ('w, 'w etcd_client_if) op" where
  "daemon_etcd Y e w =
     (case getEtcdClusters (os_files Y) w of
        (server, w') \<Rightarrow>
          (etcd_shell_if (os_order Y)
            (fst (etcd_ctor (etcd_data_of e server) (pf_shell (os_platform Y)) e)), w'))"

definition getHostgw :: "('w, 'j) system \<Rightarrow> environ \<Rightarrow> ('w, 'w host_gw) throwing" where
  "getHostgw Y e w =
     (case daemon_etcd Y e w of
        (E, w1) \<Rightarrow>
          (case ipam_init (Some E) w1 of
             (False, w2) \<Rightarrow> (Inl (Ohno_exception ''Failed to initialize IPAM, please check in ETCD cluster''), w2)
           | (True, w2) \<Rightarrow> (Inr (hostgw_setIpam (Some (ipam_ops E (pf_asio (os_platform Y)))) new_host_gw), w2)))"

definition getVxlan_strategy :: "('w, 'j) system \<Rightarrow> environ \<Rightarrow> ('w, 'w vxlan_backend) throwing" where
  "getVxlan_strategy Y e w =
     (case daemon_etcd Y e w of
        (E, w1) \<Rightarrow>
          (case storage_init (Some E) w1 of
             (False, w2) \<Rightarrow> (Inl (Ohno_exception ''Failed to initialize storage, please check in ETCD cluster''), w2)
           | (True, w2) \<Rightarrow>
               (Inr (vxlan_setStorage (Some (storage_ops E (pf_asio (os_platform Y)))) new_vxlan_backend), w2)))"

definition getEvpn :: "('w, 'j) system \<Rightarrow> 'w netlink_if option \<Rightarrow> string \<Rightarrow> ('w, 'w evpn) throwing" where
  "getEvpn Y netlink l2svi w =
     (case nic_setup netlink (nic_setName BGP_EVPN_VRF new_vrf) w of
        ((False, vrf), w1) \<Rightarrow> (Inl (Ohno_exception ''Create Vrf device meets error: invalid Netlink''), w1)
      | ((True, vrf), w1) \<Rightarrow>
     (case nic_setup netlink (nic_setName BGP_EVPN_BR new_bridge) w1 of
        ((False, l3), w2) \<Rightarrow> (Inl (Ohno_exception ''Create L3 Bridge device meets error: invalid Netlink''), w2)
      | ((True, l3), w2) \<Rightarrow>
     (case nic_setup netlink (nic_setName l2svi new_bridge) w2 of
        ((False, l2), w3) \<Rightarrow> (Inl (Ohno_exception ''Create L2 Bridge device meets error: invalid Netlink''), w3)
      | ((True, l2), w3) \<Rightarrow>
     (case getNodeInfo (pf_shell (os_platform Y)) [] [] [] w3 of
        ((False, _), w4) \<Rightarrow> (Inl (Ohno_exception ''Cannot get current Kubernetes node infos''), w4)
      | ((True, name, underlay_dev, underlay_addr), w4) \<Rightarrow>
     (case nic_setup netlink (nic_setName BGP_EVPN_VTEP
             (new_vxlan (pf_asio (os_platform Y)) underlay_addr underlay_dev)) w4 of
        ((False, vx), w5) \<Rightarrow> (Inl (Ohno_exception ''Create Vxlan device meets error: invalid Netlink''), w5)
      | ((True, vx), w5) \<Rightarrow>
          (Inr (evpn_setVxlan vx (evpn_setl2Bridge l2 (evpn_setl3Bridge l3 (evpn_setVrf vrf new_evpn)))), w5))))))"

text \<open>\<open>setInterval\<close>, \<open>setCenter\<close> and \<open>setNic\<close> on the strategy; the EVPN backend uses none of them.\<close>

definition with_common :: "int \<Rightarrow> 'w center_if \<Rightarrow> 'w nic \<Rightarrow> ('w, 'z) backend_scheme \<Rightarrow> ('w, 'z) backend_scheme" where
  "with_common interval center n b =
     backend_setNic (Some n) (backend_setCenter (Some center) (backend_setInterval interval b))"

definition make_backend :: "('w, 'j) system \<Rightarrow> environ \<Rightarrow> 'w strategy_client \<Rightarrow> ipam_mode \<Rightarrow> string
    \<Rightarrow> ('w, 'w strategy) throwing" where
  "make_backend Y e c mode l2svi w =
     (case mode of
        Mode_host_gw \<Rightarrow>
          (case getHostgw Y e w of (Inl ex, w1) \<Rightarrow> (Inl ex, w1)
           | (Inr b, w1) \<Rightarrow> (Inr (Hostgw_strategy b new_worker), w1))
      | Mode_vxlan \<Rightarrow>
          (case getVxlan_strategy Y e w of (Inl ex, w1) \<Rightarrow> (Inl ex, w1)
           | (Inr b, w1) \<Rightarrow> (Inr (Vxlan_strategy b new_worker), w1))
      | Mode_evpn \<Rightarrow>
          (case getEvpn Y (sc_netlink c) l2svi w of (Inl ex, w1) \<Rightarrow> (Inl ex, w1)
           | (Inr b, w1) \<Rightarrow> (Inr (Evpn_strategy b), w1))
      | Mode_RESERVED \<Rightarrow> (Inl (Ohno_exception ''CNI configuration has invalid entry(ipam.mode)''), w))"

definition getStrategy :: "('w, 'j) system \<Rightarrow> environ \<Rightarrow> 'w strategy_client \<Rightarrow> ipam_mode \<Rightarrow> string
    \<Rightarrow> ('w, 'w strategy) throwing" where
  "getStrategy Y e c mode l2svi w =
     (case make_backend Y e c mode l2svi w of
        (Inl ex, w1) \<Rightarrow> (Inl ex, w1)
      | (Inr strategy, w1) \<Rightarrow>
          (case new_center (os_files Y) (bi_api_server (sc_bkinfo c)) (bi_ssl (sc_bkinfo c)) In_pod w1 of
             (Inl ex, w2) \<Rightarrow> (Inl ex, w2)
           | (Inr ctr, w2) \<Rightarrow>
               (case center_test (os_curl Y) ctr w2 of
                  (False, w3) \<Rightarrow> (Inl (Ohno_exception ''Kubernetes api server is unhealthy''), w3)
                | (True, w3) \<Rightarrow>
                    (case nic_setup (sc_netlink c) new_plain w3 of
                       ((False, n), w4) \<Rightarrow> (Inl (Ohno_exception ''Failed to setup nic''), w4)
                     | ((True, n), w4) \<Rightarrow>
                         (let C = center_ops (os_enum Y) (pf_json (os_platform Y)) (os_curl Y) ctr;
                              sec = bi_refresh_interval (sc_bkinfo c)
                          in (Inr (case strategy of
                                     Hostgw_strategy b t \<Rightarrow> Hostgw_strategy (with_common sec C n b) t
                                   | Vxlan_strategy b t \<Rightarrow> Vxlan_strategy (with_common sec C n b) t
                                   | Evpn_strategy b \<Rightarrow> Evpn_strategy b), w4))))))"

definition executeStrategy :: "('w, 'j) system \<Rightarrow> environ \<Rightarrow> string \<Rightarrow> 'w strategy_client
    \<Rightarrow> ('w, unit result \<times> 'w strategy_client) op" where
  "executeStrategy Y e node c w =
     (let J = pf_json (os_platform Y) in
      case read_contents (os_files Y) PATH_CNI_CONF w of
        (None, w1) \<Rightarrow> ((Inl (Ohno_exception (''Cannot open CNI configuration:'' @ PATH_CNI_CONF)), c), w1)
      | (Some text, w1) \<Rightarrow>
          (case and_then (j_parse J text) (config_from_json J default_config) of
             Inl ex \<Rightarrow> ((Inl ex, c), w1)
           | Inr conf \<Rightarrow>
               (case getStrategy Y e c (cci_mode (cc_ipam conf)) (cc_bridge conf) w1 of
                  (Inl ex, w2) \<Rightarrow> ((Inl ex, c\<lparr>sc_scheduler := Some None\<rparr>), w2)
                | (Inr strategy, w2) \<Rightarrow>
                    (case scheduler_start node (scheduler_setStrategy (Some strategy)) w2 of
                       ((r, s), w3) \<Rightarrow> ((r, c\<lparr>sc_scheduler := Some s\<rparr>), w3)))))"

definition stopStrategy :: "asio \<Rightarrow> 'w strategy_client \<Rightarrow> ('w, unit result \<times> 'w strategy_client) op" where
  "stopStrategy A c w =
     (case sc_scheduler c of
        None \<Rightarrow> ((Inr (), c), w)
      | Some s \<Rightarrow> (case scheduler_stop A s w of ((r, s'), w') \<Rightarrow> ((r, c\<lparr>sc_scheduler := Some s'\<rparr>), w')))"

subsection \<open>ohnod (\<open>ohnod.cc\<close>)\<close>

record daemon_config =
  dc_bkinfo :: backend_info
  dc_log_level :: level

definition DEF_INTERVAL_SEC :: nat where "DEF_INTERVAL_SEC = 5"

definition default_daemon_config :: daemon_config where
  "default_daemon_config = \<lparr>dc_bkinfo = \<lparr>bi_api_server = [], bi_ssl = True, bi_refresh_interval = int DEF_INTERVAL_SEC\<rparr>,
     dc_log_level = Info\<rparr>"

definition set_server :: "string \<Rightarrow> daemon_config \<Rightarrow> daemon_config" where
  "set_server s c = c\<lparr>dc_bkinfo := (dc_bkinfo c)\<lparr>bi_api_server := s\<rparr>\<rparr>"

text \<open>The names of the levels below \<open>MAXSIZE\<close>, the loop over \<open>loglevel_num\<close>.\<close>

fun level_list :: "level list \<Rightarrow> string" where
  "level_list [] = []"
| "level_list [l] = enumName level_names l"
| "level_list (l # ls) = enumName level_names l @ '', '' @ level_list ls"

definition line :: "string \<Rightarrow> string" where
  "line s = s @ [CHR 0x0A]"

definition printUsage :: "string \<Rightarrow> string" where
  "printUsage programName =
     line (''Usage: '' @ programName @ '' [options]'') @
     line ''Options:'' @
     line (''  --loglevel LEVEL   Log Level ('' @ level_list [Trace, Debug, Info, Warn, Error, Critical, Off] @ '')'') @
     line ''  --apiserver URL    Kubernetes API server URL'' @
     line ''  --ssl-dir DIR      Dir of CA certificate and token files'' @
     line ''  --insecure         Disable SSL certificate verification'' @
     line (''  --interval SEC     Refresh interval in seconds (default: '' @ dec DEF_INTERVAL_SEC @ '')'') @
     line ''  --help             Show this help message''"

text \<open>
  The loop: \<open>Some\<close> usage when it was printed and the function returns early (after \<open>--help\<close>, or after
  an option it does not know, which it also reports to stderr).
\<close>

function parse_loop :: "string \<Rightarrow> string list \<Rightarrow> daemon_config \<Rightarrow> (string option \<times> daemon_config) result" where
  "parse_loop prog [] c = Inr (None, c)"
| "parse_loop prog (arg # rest) c =
     (if arg = ''--loglevel'' \<and> rest \<noteq> []
      then parse_loop prog (tl rest) (c\<lparr>dc_log_level := enum_or level_names (dc_log_level c) (hd rest)\<rparr>)
      else if arg = ''--apiserver'' \<and> rest \<noteq> [] then parse_loop prog (tl rest) (set_server (hd rest) c)
      else if arg = ''--insecure'' then parse_loop prog rest (c\<lparr>dc_bkinfo := (dc_bkinfo c)\<lparr>bi_ssl := False\<rparr>\<rparr>)
      else if arg = ''--interval'' \<and> rest \<noteq> []
      then (case stoi (hd rest) of
              None \<Rightarrow> Inl Std_exception
            | Some n \<Rightarrow> parse_loop prog (tl rest) (c\<lparr>dc_bkinfo := (dc_bkinfo c)\<lparr>bi_refresh_interval := n\<rparr>\<rparr>))
      else Inr (Some (printUsage prog), set_server [] c))"
  by pat_completeness auto
termination by (relation "measure (\<lambda>(prog, args, c). length args)") (auto simp: neq_Nil_conv)

definition parseArguments :: "'w files \<Rightarrow> environ \<Rightarrow> string \<Rightarrow> string list \<Rightarrow> ('w, string \<times> daemon_config) throwing" where
  "parseArguments F e prog args w =
     (case parse_loop prog args default_daemon_config of
        Inl ex \<Rightarrow> (Inl ex, w)
      | Inr (Some usage, c) \<Rightarrow> (Inr (usage, c), w)
      | Inr (None, c) \<Rightarrow>
          if bi_api_server (dc_bkinfo c) = []
          then (case getApiServer F e In_pod w of (server, w') \<Rightarrow> (Inr ([], set_server server c), w'))
          else (Inr ([], c), w))"

text \<open>What the daemon logs about its configuration; the first line may fail to open the log file.\<close>

definition launch_lines :: "string \<Rightarrow> daemon_config \<Rightarrow> string list" where
  "launch_lines version conf =
     [''Launch ohnod v'' @ version, ''API Server:       '' @ bi_api_server (dc_bkinfo conf),
      ''SSL verification: '' @ (if bi_ssl (dc_bkinfo conf) then ''enabled'' else ''disabled''),
      ''Refresh interval: '' @ dec_int (bi_refresh_interval (dc_bkinfo conf))]"

fun log_lines :: "(string \<Rightarrow> bool) \<Rightarrow> string list \<Rightarrow> log_state \<Rightarrow> unit result \<times> log_state" where
  "log_lines opens [] s = (Inr (), s)"
| "log_lines opens (msg # msgs) s =
     (case global_log opens Info msg s of
        (Inl ex, s') \<Rightarrow> (Inl ex, s') | (Inr _, s') \<Rightarrow> log_lines opens msgs s')"

text \<open>
  \<open>main\<close> up to \<open>pause()\<close>: \<open>Inl\<close> how the process ended, or \<open>Inr\<close> the client that is running.
\<close>

definition ohnod_main :: "('w, 'j) system \<Rightarrow> environ \<Rightarrow> string \<Rightarrow> string list
    \<Rightarrow> ('w, exit + 'w strategy_client) throwing" where
  "ohnod_main Y e prog args w =
     (let failed = (\<lambda>ex. if ex = Undefined_behaviour then Inl ex
                         else Inr (Inl \<lparr>exit_code = EXIT_FAILURE, printed = [], failure = Some ex\<rparr>)) in
      case parseArguments (os_files Y) e prog args w of
        (Inl ex, w1) \<Rightarrow> (failed ex, w1)
      | (Inr (usage, conf), w1) \<Rightarrow>
          if bi_api_server (dc_bkinfo conf) = []
          then (Inr (Inl \<lparr>exit_code = EXIT_SUCCESS, printed = usage, failure = None\<rparr>), w1)
          else (case fst (log_lines (os_opens Y) (launch_lines (os_version Y) conf)
                            (ohnod_logging (dc_log_level conf) log_init)) of
                  Inl ex \<Rightarrow> (failed ex, w1)
                | Inr _ \<Rightarrow>
                    (let sh = pf_shell (os_platform Y) in
                     case execute sh ''hostname'' [] w1 of
                       ((ok, node), w2) \<Rightarrow>
                         if \<not> ok \<or> node = []
                         then (failed (Ohno_exception ''Failed to get current Kubernetes node name''), w2)
                         else (case executeStrategy Y e node
                                 \<lparr>sc_scheduler = None, sc_netlink = Some (netlink_ip_cmd sh), sc_bkinfo = dc_bkinfo conf\<rparr> w2 of
                                 ((Inl ex, c), w3) \<Rightarrow> (failed ex, w3)
                               | ((Inr _, c), w3) \<Rightarrow> (Inr (Inr c), w3)))))"

text \<open>The signal handler, which acts on the client once there is one.\<close>

datatype signal = SIGTERM | SIGINT | Other_signal

definition handleSignals :: "asio \<Rightarrow> signal \<Rightarrow> 'w strategy_client option
    \<Rightarrow> ('w, unit result \<times> 'w strategy_client option) op" where
  "handleSignals A sig g_client w =
     (if sig = SIGTERM \<or> sig = SIGINT
      then (case g_client of
              None \<Rightarrow> ((Inr (), None), w)
            | Some c \<Rightarrow> (case stopStrategy A c w of ((r, c'), w') \<Rightarrow> ((r, Some c'), w')))
      else ((Inr (), g_client), w))"

end
