(* ===== verification/Ohnod_Facts.thy ===== *)
theory Ohnod_Facts
  imports Ohnod Subnet_Facts
begin

text \<open>
  The command line of the daemon: the loop of \<open>parseArguments\<close> against a reference reading of a list
  of options, and the option that the usage text documents and the loop refuses.
\<close>

subsection \<open>Reference: a list of options applied in order\<close>

datatype daemon_option = Loglevel string | Apiserver string | Insecure | Interval nat

primrec option_text :: "daemon_option \<Rightarrow> string list" where
  "option_text (Loglevel s) = [''--loglevel'', s]"
| "option_text (Apiserver url) = [''--apiserver'', url]"
| "option_text Insecure = [''--insecure'']"
| "option_text (Interval n) = [''--interval'', dec n]"

primrec apply_option :: "daemon_option \<Rightarrow> daemon_config \<Rightarrow> daemon_config" where
  "apply_option (Loglevel s) c =
     (case stringEnum level_names s of None \<Rightarrow> c | Some l \<Rightarrow> c\<lparr>dc_log_level := l\<rparr>)"
| "apply_option (Apiserver url) c = c\<lparr>dc_bkinfo := (dc_bkinfo c)\<lparr>bi_api_server := url\<rparr>\<rparr>"
| "apply_option Insecure c = c\<lparr>dc_bkinfo := (dc_bkinfo c)\<lparr>bi_ssl := False\<rparr>\<rparr>"
| "apply_option (Interval n) c = c\<lparr>dc_bkinfo := (dc_bkinfo c)\<lparr>bi_refresh_interval := int n\<rparr>\<rparr>"

primrec interval_fits :: "daemon_option \<Rightarrow> bool" where
  "interval_fits (Loglevel s) = True" | "interval_fits (Apiserver url) = True" | "interval_fits Insecure = True"
| "interval_fits (Interval n) = (n < 2 ^ 31)"

definition known_options :: "string set" where
  "known_options = {''--loglevel'', ''--apiserver'', ''--insecure'', ''--interval''}"

lemma parse_loop_option:
  "interval_fits opt \<Longrightarrow> parse_loop prog (option_text opt @ rest) c = parse_loop prog rest (apply_option opt c)"
  by (cases opt) (auto simp: enum_or_def set_server_def stoi_dec split: option.splits)

lemma parse_loop_options:
  "\<forall>opt \<in> set opts. interval_fits opt \<Longrightarrow>
   parse_loop prog (concat (map option_text opts) @ rest) c = parse_loop prog rest (fold apply_option opts c)"
  by (induction opts arbitrary: c) (simp_all add: parse_loop_option del: parse_loop.simps)

text \<open>
  C23: Options are applied from left to right, the last of a kind deciding; the first word that is no
  option ends the parsing with the usage and no API server, whatever follows it; an option that lacks
  its value is such a word.
\<close>

theorem options_apply_in_order:
  assumes "\<forall>opt \<in> set opts. interval_fits opt"
  shows "parse_loop prog (concat (map option_text opts)) c = Inr (None, fold apply_option opts c) \<and>
    (word \<notin> known_options \<or> rest = [] \<and> word \<noteq> ''--insecure'' \<longrightarrow>
      parse_loop prog (concat (map option_text opts) @ word # rest) c =
        Inr (Some (printUsage prog), set_server [] (fold apply_option opts c)))"
  using parse_loop_options [OF assms, of prog "[]" c] parse_loop_options [OF assms, of prog "word # rest" c]
  by (auto simp: known_options_def)

lemma options_apply_in_order_witness:
  "parse_loop ''ohnod'' [''--interval'', dec 9, ''--insecure'', ''--loglevel'', ''warn'', ''--interval'', dec 7]
     default_daemon_config =
   Inr (None, \<lparr>dc_bkinfo = \<lparr>bi_api_server = [], bi_ssl = False, bi_refresh_interval = 7\<rparr>, dc_log_level = Warn\<rparr>) \<and>
   parse_loop ''ohnod'' [''--insecure'', ''--bogus'', ''--help''] default_daemon_config =
   Inr (Some (printUsage ''ohnod''),
     \<lparr>dc_bkinfo = \<lparr>bi_api_server = [], bi_ssl = False, bi_refresh_interval = 5\<rparr>, dc_log_level = Info\<rparr>)"
proof -
  have a: "\<forall>opt \<in> set [Interval 9, Insecure, Loglevel ''warn'', Interval 7]. interval_fits opt" by simp
  have b: "\<forall>opt \<in> set [Insecure]. interval_fits opt" by simp
  note opts = default_daemon_config_def DEF_INTERVAL_SEC_def set_server_def stringEnum_def level_names_def
  from options_apply_in_order [OF a, of "''ohnod''" default_daemon_config]
    options_apply_in_order [OF b, of "''ohnod''" default_daemon_config "''--bogus''" "[''--help'']"]
  show ?thesis by (simp add: known_options_def opts del: parse_loop.simps)
qed

text \<open>
  C39: The usage documents the option \<open>--ssl-dir\<close>; a daemon started with it prints that usage and exits
  successfully, without starting anything.
\<close>

theorem documented_ssl_dir_is_refused:
  "contains_sub (printUsage prog) ''--ssl-dir DIR'' \<and>
   ohnod_main Y e prog (''--ssl-dir'' # dir # rest) w =
     (Inr (Inl \<lparr>exit_code = EXIT_SUCCESS, printed = printUsage prog, failure = None\<rparr>), w)"
proof
  have "printUsage prog = (line (''Usage: '' @ prog @ '' [options]'') @ line ''Options:'' @
     line (''  --loglevel LEVEL   Log Level ('' @ level_list [Trace, Debug, Info, Warn, Error, Critical, Off] @ '')'') @
     line ''  --apiserver URL    Kubernetes API server URL'' @ ''  '') @ ''--ssl-dir DIR'' @
     (line ''      Dir of CA certificate and token files'' @
     line ''  --insecure         Disable SSL certificate verification'' @
     line (''  --interval SEC     Refresh interval in seconds (default: '' @ dec DEF_INTERVAL_SEC @ '')'') @
     line ''  --help             Show this help message'')"
    by (simp add: printUsage_def line_def)
  then show "contains_sub (printUsage prog) ''--ssl-dir DIR''"
    unfolding contains_sub_iff by blast
  show "ohnod_main Y e prog (''--ssl-dir'' # dir # rest) w =
     (Inr (Inl \<lparr>exit_code = EXIT_SUCCESS, printed = printUsage prog, failure = None\<rparr>), w)"
    by (simp add: ohnod_main_def parseArguments_def set_server_def)
qed

end
