(* ===== verification/Helper_Facts.thy ===== *)
theory Helper_Facts
  imports Helper
begin

text \<open>
  The names the plugin makes up for its devices: which of them the kernel's limit of \<open>IFNAMSIZ - 1\<close>
  characters admits, what they consist of, and that the short hash does not keep containers apart.
\<close>

lemma base62_nth: "i < 62 \<Longrightarrow> base62 ! i \<in> set base62"
  by (rule nth_mem) (simp add: length_base62)

lemma set_getUniqueId: "set (getUniqueId dist len False) \<subseteq> set base62"
proof -
  have "base62 ! (unat (dist i) mod 62) \<in> set base62" for i
    by (rule base62_nth) simp
  then show ?thesis by (auto simp: getUniqueId_def concat_id_chunk)
qed

lemma hex_digits: "\<forall>d \<in> set [0..<16]. hex_digit d \<in> set ''0123456789abcdef''"
  by code_simp

lemma hex_digit_in: "d < 16 \<Longrightarrow> hex_digit d \<in> set ''0123456789abcdef''"
  using hex_digits by simp

lemma set_hex: "set (hex n) \<subseteq> set ''0123456789abcdef''"
proof (induction n rule: hex.induct)
  case (1 n)
  have d: "hex_digit (n mod 16) \<in> set ''0123456789abcdef''" by (rule hex_digit_in) simp
  show ?case
  proof (cases "n < 16")
    case True
    then show ?thesis using hex_digit_in [OF True] by (simp add: hex.simps [of n])
  next
    case False
    then show ?thesis using "1.IH" d by (simp add: hex.simps [of n])
  qed
qed

lemma set_hex6: "set (hex6 v) \<subseteq> set ''0123456789abcdef''"
proof -
  have "set (hex6 v) \<subseteq> {CHR ''0''} \<union> set (hex v)"
    unfolding hex6_def by (rule order_trans [OF set_take_subset]) auto
  moreover have "CHR ''0'' \<in> set ''0123456789abcdef''" by simp
  ultimately show ?thesis using set_hex [of v] by blast
qed

subsection \<open>Two containers with one name\<close>

text \<open>Two identifiers that differ in their last four characters; the hash of the rest is computed once.\<close>

definition id_prefix :: string where
  "id_prefix = ''4f53cda18c'' @ ''2baa0c0354'' @ ''bb5f9a3ecb'' @ ''e5ed12ab4d'' @ ''8e11ba873c'' @ ''2f11161202''"

definition container_a :: string where "container_a = id_prefix @ ''031d''"

definition container_b :: string where "container_b = id_prefix @ ''16e9''"

lemma id_prefix_hash: "shortHash_from offset_basis id_prefix = 1429898608"
proof -
  have "shortHash_from 2166136261 ''4f53cda18c'' = 2205716883" "shortHash_from 2205716883 ''2baa0c0354'' = 3602973636"
    "shortHash_from 3602973636 ''bb5f9a3ecb'' = 213380880" "shortHash_from 213380880 ''e5ed12ab4d'' = 4016179547"
    "shortHash_from 4016179547 ''8e11ba873c'' = 2852444104" "shortHash_from 2852444104 ''2f11161202'' = 1429898608"
    by (simp_all add: FNV_prime_def)
  then show ?thesis by (simp only: id_prefix_def shortHash_from_append offset_basis_def)
qed

lemma container_hashes: "shortHash container_a = 0x9d180324" "shortHash container_b = 0x9d1803f5"
  by (simp_all add: shortHash_def container_a_def container_b_def shortHash_from_append id_prefix_hash FNV_prime_def)

lemma container_hex: "hex 0x9d180324 = ''9d180324''" "hex 0x9d1803f5 = ''9d1803f5''"
  by (simp add: hex.simps, code_simp)+

lemma length_id_prefix: "length id_prefix = 60"
  by (simp add: id_prefix_def)

lemma short_id_chars:
  assumes "length s = 16"
  shows "length (getShortHash s) = 6" and "set (getShortHash s) \<subseteq> set base62"
proof -
  have "set ''0123456789abcdef'' \<subseteq> set base62" by (simp add: base62_def)
  with set_hex6 show "set (getShortHash s) \<subseteq> set base62"
    using assms by (fastforce simp: getShortHash_def IFNAMSIZ_def)
qed (simp add: length_getShortHash assms)

text \<open>
  C40: The host end of a pod's veth pair, \<open>veth_\<close> and the short hash of the container's identifier, fits
  into an interface name unless the identifier has 11 to 15 characters, which the hash leaves as it
  is. The temporary name of the pod's end always fits and consists of letters and digits. The hash
  keeps the first six hexadecimal digits of 32 bits, and two containers can get one name: the two
  64-character identifiers above do, so the veth of the second cannot be created beside the first's.
\<close>

theorem device_names:
  "(length (''veth_'' @ getShortHash container_id) \<le> IFNAMSIZ - 1 \<longleftrightarrow> length container_id \<notin> {11..15}) \<and>
   length (''ohno_'' @ getShortHash (getUniqueId dist IFNAMSIZ False)) = 11 \<and>
   set (getShortHash (getUniqueId dist IFNAMSIZ False)) \<subseteq> set base62 \<and>
   container_a \<noteq> container_b \<and> length container_a = 64 \<and> length container_b = 64 \<and>
   ''veth_'' @ getShortHash container_a = ''veth_9d1803'' \<and> ''veth_'' @ getShortHash container_b = ''veth_9d1803''"
proof (intro conjI)
  show "length (''veth_'' @ getShortHash container_id) \<le> IFNAMSIZ - 1 \<longleftrightarrow> length container_id \<notin> {11..15}"
    by (auto simp: length_getShortHash IFNAMSIZ_def)
  have "length (getUniqueId dist IFNAMSIZ False) = 16" by (simp add: length_getUniqueId IFNAMSIZ_def)
  note id = short_id_chars [OF this]
  show "length (''ohno_'' @ getShortHash (getUniqueId dist IFNAMSIZ False)) = 11" by (simp add: id)
  show "set (getShortHash (getUniqueId dist IFNAMSIZ False)) \<subseteq> set base62" by (rule id)
  show lengths: "length container_a = 64" "length container_b = 64"
    by (simp_all add: container_a_def container_b_def length_id_prefix)
  show "container_a \<noteq> container_b" by (simp add: container_a_def container_b_def)
  have "hex6 0x9d180324 = ''9d1803''" "hex6 0x9d1803f5 = ''9d1803''"
    by (simp_all add: hex6_def container_hex)
  with lengths show "''veth_'' @ getShortHash container_a = ''veth_9d1803''"
    "''veth_'' @ getShortHash container_b = ''veth_9d1803''"
    by (simp_all add: getShortHash_def IFNAMSIZ_def container_hashes)
qed

end
