(* ===== verification/Vxlan_Facts.thy ===== *)
theory Vxlan_Facts
  imports Vxlan_Backend Host_Gw_Facts Cni_Facts
begin

text \<open>
  What the VXLAN backend keeps of a node that has left, and of one it could not finish: its cache
  forgets the node, the lists of its interface do not.
\<close>

text \<open>The routes of the backend in the list of its interface.\<close>

definition vxlan_routes :: "'w nic \<Rightarrow> route list" where
  "vxlan_routes n = filter (\<lambda>r. rt_via r \<noteq> [] \<and> rt_dev r = NAME_VXLAN) (nic_routes n)"

definition only_adds :: "'w nic \<Rightarrow> 'w nic \<Rightarrow> bool" where
  "only_adds n n' \<longleftrightarrow> (\<exists>more. vxlan_routes n' = vxlan_routes n @ more)"

lemma only_adds_refl [simp]: "only_adds n n"
  by (simp add: only_adds_def)

lemma only_adds_trans: "only_adds a b \<Longrightarrow> only_adds b c \<Longrightarrow> only_adds a c"
  by (auto simp: only_adds_def)

lemma addRoute_adds: "nic_addRoute r f n w = ((b, n'), w') \<Longrightarrow> only_adds n n'"
  by (auto simp: nic_addRoute_def only_adds_def vxlan_routes_def Let_def
      split: option.splits prod.splits bool.splits)

text \<open>A deletion for another device, or without a gateway, does not hit these routes.\<close>

lemma delRoute_misses:
  assumes "nic_delRoute dst via dev n w = ((b, n'), w')" and "via = [] \<or> dev \<noteq> NAME_VXLAN"
  shows "vxlan_routes n' = vxlan_routes n"
proof -
  have "filter P (removeAll x xs) = filter P xs" if "\<not> P x" for P and x :: route and xs
    using that by (induction xs) auto
  then show ?thesis
    using assms by (auto simp: nic_delRoute_def vxlan_routes_def Route_def split: option.splits prod.splits bool.splits)
qed

lemma neigh_fdb_routes:
  "nic_addNeigh e n w = ((b, n'), w') \<Longrightarrow> nic_routes n' = nic_routes n"
  "nic_delNeigh a m d n w = ((b, n'), w') \<Longrightarrow> nic_routes n' = nic_routes n"
  "nic_addFdb f n w = ((b, n'), w') \<Longrightarrow> nic_routes n' = nic_routes n"
  "nic_delFdb a m d n w = ((b, n'), w') \<Longrightarrow> nic_routes n' = nic_routes n"
  by (auto simp: nic_addNeigh_def nic_delNeigh_def nic_addFdb_def nic_delFdb_def Let_def
      split: option.splits prod.splits bool.splits)

lemma same_routes: "nic_routes n' = nic_routes n \<Longrightarrow> vxlan_routes n' = vxlan_routes n"
  by (simp add: vxlan_routes_def)

lemma add_one_adds:
  assumes "vxlan_add_one info vtep_addr vtep_mac n w = ((b, n'), w')"
  shows "only_adds n n'"
proof -
  have dev: "([] :: string) \<noteq> NAME_VXLAN" by (simp add: NAME_VXLAN_def)
  obtain b1 n1 w1 where r1: "nic_addRoute (Route (pod_cidr info) vtep_addr NAME_VXLAN) NH_onlink n w = ((b1, n1), w1)"
    by (metis prod.collapse)
  obtain b2 n2 w2 where r2: "nic_addNeigh (Neigh vtep_addr vtep_mac NAME_VXLAN) n1 w1 = ((b2, n2), w2)"
    by (metis prod.collapse)
  obtain b3 n3 w3 where r3: "nic_addFdb (Fdb vtep_mac (internal_ip info) NAME_VXLAN) n2 w2 = ((b3, n3), w3)"
    by (metis prod.collapse)
  have n2: "vxlan_routes n2 = vxlan_routes n1" and n3: "vxlan_routes n3 = vxlan_routes n1"
    using neigh_fdb_routes(1) [OF r2] neigh_fdb_routes(3) [OF r3] same_routes by metis+
  have undo: "vxlan_routes (snd (fst (nic_delRoute (pod_cidr info) vtep_addr [] m v))) = vxlan_routes m" for m v
    using delRoute_misses [of "pod_cidr info" vtep_addr "[]" m v] dev by (metis prod.collapse)
  have neigh: "vxlan_routes m' = vxlan_routes m" if "nic_delNeigh vtep_addr vtep_mac NAME_VXLAN m v = ((c, m'), v')"
    for m v c m' v'
    using neigh_fdb_routes(2) [OF that] by (rule same_routes)
  have "vxlan_routes n' = vxlan_routes n1"
    using assms n2 n3 undo [of n2 w2] undo [of n3 w3]
    by (auto simp: vxlan_add_one_def r1 r2 r3 split: bool.splits prod.splits dest: neigh)
  then show ?thesis using addRoute_adds [OF r1] by (simp add: only_adds_def)
qed

lemma del_one_misses:
  assumes "vxlan_del_one info [] vtep_mac n w = (n', w')"
  shows "vxlan_routes n' = vxlan_routes n"
proof -
  obtain b1 n1 w1 where r1: "nic_delRoute (pod_cidr info) [] NAME_VXLAN n w = ((b1, n1), w1)" by (metis prod.collapse)
  obtain b2 n2 w2 where r2: "nic_delNeigh [] vtep_mac NAME_VXLAN n1 w1 = ((b2, n2), w2)" by (metis prod.collapse)
  obtain b3 n3 w3 where r3: "nic_delFdb (internal_ip info) vtep_mac NAME_VXLAN n2 w2 = ((b3, n3), w3)"
    by (metis prod.collapse)
  have "vxlan_routes n3 = vxlan_routes n"
    using delRoute_misses [OF r1] neigh_fdb_routes(2) [OF r2] neigh_fdb_routes(4) [OF r3] same_routes by metis
  then show ?thesis using assms by (simp add: vxlan_del_one_def r1 r2 r3)
qed

text \<open>The records: \<open>R\<close> gives the address and the MAC of a node's VTEP, both empty without a record.\<close>

lemma vxlan_add_adds:
  assumes R: "\<forall>x w. st_getVtep S x w = (Inr (R x), w)"
  shows "vxlan_add S current cluster cache n w = ((r, cache', n'), w') \<Longrightarrow>
    only_adds n n' \<and> r = Inr () \<and> fst ` set cache \<subseteq> fst ` set cache' \<and>
    fst ` set cache' \<subseteq> fst ` set cache \<union> {x. fst (R x) \<noteq> []}"
proof (induction cluster arbitrary: cache n w)
  case (Cons e cluster)
  obtain name info where e: "e = (name, info)" by fastforce
  obtain a m where Rn: "R name = (a, m)" by fastforce
  obtain b n1 w1 where one: "vxlan_add_one info a m n w = ((b, n1), w1)" by (metis prod.collapse)
  show ?case
  proof (cases "current \<noteq> name \<and> a \<noteq> [] \<and> map_of cache name = None")
    case True
    let ?cache = "if b then emplace name info cache else cache"
    have "vxlan_add S current cluster ?cache n1 w1 = ((r, cache', n'), w')"
      using Cons.prems True R one by (simp add: e Rn split: bool.splits)
    from Cons.IH [OF this] have IH: "only_adds n1 n'" "r = Inr ()" "fst ` set ?cache \<subseteq> fst ` set cache'"
      "fst ` set cache' \<subseteq> fst ` set ?cache \<union> {x. fst (R x) \<noteq> []}" by auto
    have "fst ` set cache \<subseteq> fst ` set ?cache" "fst ` set ?cache \<subseteq> fst ` set cache \<union> {x. fst (R x) \<noteq> []}"
      using True Rn by (auto simp: emplace_def)
    with IH(3,4) have "fst ` set cache \<subseteq> fst ` set cache'" "fst ` set cache' \<subseteq> fst ` set cache \<union> {x. fst (R x) \<noteq> []}"
      by (meson subset_trans Un_least Un_upper2)+
    with IH(2) only_adds_trans [OF add_one_adds [OF one] IH(1)] show ?thesis by simp
  next
    case False
    then have "vxlan_add S current cluster cache n w = ((r, cache', n'), w')"
      using Cons.prems R by (auto simp: e Rn split: if_splits)
    from Cons.IH [OF this] show ?thesis .
  qed
qed auto

lemma vxlan_del_misses:
  assumes R: "\<forall>x w. st_getVtep S x w = (Inr (R x), w)" and cur: "current_vtep_addr \<noteq> []"
  shows "vxlan_del fmt S current_vtep_addr cache n w = ((r, cache', n'), w') \<Longrightarrow>
    vxlan_routes n' = vxlan_routes n \<and>
    (if fmt \<and> (\<exists>x \<in> set cache. fst (R (fst x)) = []) then r = Inl Undefined_behaviour
     else r = Inr () \<and> (\<forall>x \<in> set cache'. fst (R (fst x)) \<noteq> []))"
proof (induction cache arbitrary: n w r cache' n' w')
  case (Cons e cache)
  obtain name info where e: "e = (name, info)" by fastforce
  obtain a m where Rn: "R name = (a, m)" by fastforce
  show ?case
  proof (cases "a = []")
    case True
    obtain n1 w1 where one: "vxlan_del_one info [] m n w = (n1, w1)" by fastforce
    show ?thesis
    proof (cases fmt)
      case True
      with Cons.prems \<open>a = []\<close> R one have "r = Inl Undefined_behaviour" "n' = n1" by (simp_all add: e Rn)
      with del_one_misses [OF one] True \<open>a = []\<close> show ?thesis by (simp add: e Rn)
    next
      case False
      with Cons.prems \<open>a = []\<close> R one have "vxlan_del fmt S current_vtep_addr cache n1 w1 = ((r, cache', n'), w')"
        by (simp add: e Rn)
      from Cons.IH [OF this] del_one_misses [OF one] False show ?thesis by simp
    qed
  next
    case False
    obtain r1 kept n1 w1 where rest: "vxlan_del fmt S current_vtep_addr cache n w = ((r1, kept, n1), w1)"
      by (metis prod.collapse)
    have "vxlan_del fmt S current_vtep_addr (e # cache) n w = ((r1, e # kept, n1), w1)"
      using False cur by (simp add: e R [rule_format] Rn rest)
    with Cons.prems have res: "cache' = e # kept" "n' = n1" "r = r1" by (simp_all only: prod.inject)
    have "fst (R (fst e)) \<noteq> []" using False by (simp add: e Rn)
    then have same: "(\<exists>x \<in> set (e # cache). fst (R (fst x)) = []) \<longleftrightarrow> (\<exists>x \<in> set cache. fst (R (fst x)) = [])"
      "(\<forall>x \<in> set (e # kept). fst (R (fst x)) \<noteq> []) \<longleftrightarrow> (\<forall>x \<in> set kept. fst (R (fst x)) \<noteq> [])" by simp_all
    show ?thesis unfolding res same by (rule Cons.IH [OF rest])
  qed
qed auto

text \<open>
  C28: While the node's own VTEP record is there, the handler forgets every node whose record is gone,
  but no route it ever put into the list of its interface leaves that list again: a lost node's route
  is looked for with the empty address of the lost record, and the roll-back of a half-added node
  names no device. The list only grows. Where info lines are formatted it does not even get that far
  once a cached node has lost its record: the log line reads the entry it has just erased.
\<close>

theorem vxlan_handler_keeps_stale_routes:
  assumes "\<forall>x w. st_getVtep S x w = (Inr (R x), w)" and "fst (R current) \<noteq> []"
    and "bk_center b = Some C" and "vb_storage b = Some S" and "bk_nic b = Some n" and "arranges arrange"
    and "vxlan_eventHandler lvl arrange current b w = ((r, b'), w')"
  shows "if info_formatted lvl \<and> (\<exists>x \<in> set (vb_cache b). fst (R (fst x)) = [])
    then r = Inl Undefined_behaviour
    else r = Inr () \<and> (\<exists>n' more. bk_nic b' = Some n' \<and> vxlan_routes n' = vxlan_routes n @ more) \<and>
      (\<forall>x \<in> set (vb_cache b'). fst (R (fst x)) \<noteq> [])"
proof -
  obtain cluster w1 where all: "ct_all C w = (cluster, w1)" by fastforce
  obtain a m where own: "R current = (a, m)" by fastforce
  with assms(2) have a: "a \<noteq> []" by simp
  obtain r1 cache1 n1 w2 where add: "vxlan_add S current cluster (vb_cache b) n w1 = ((r1, cache1, n1), w2)"
    by (metis prod.collapse)
  have r1: "r1 = Inr ()" and n1: "only_adds n n1" and keys: "fst ` set (vb_cache b) \<subseteq> fst ` set cache1"
    "fst ` set cache1 \<subseteq> fst ` set (vb_cache b) \<union> {x. fst (R x) \<noteq> []}"
    using vxlan_add_adds [OF assms(1) add] by auto
  obtain r2 cache2 n2 w3 where
    del: "vxlan_del (info_formatted lvl) S a (arrange cache1) n1 w2 = ((r2, cache2, n2), w3)"
    by (metis prod.collapse)
  have res: "r = r2" "b' = b\<lparr>vb_cache := cache2, bk_nic := Some n2\<rparr>"
    using assms(7) by (simp_all add: vxlan_eventHandler_def assms(1,3,4,5) all own a add r1 del)
  have "(\<exists>x \<in> set (arrange cache1). fst (R (fst x)) = []) \<longleftrightarrow> (\<exists>y \<in> fst ` set cache1. fst (R y) = [])"
    using arranges_set [OF assms(6), of cache1] by blast
  also have "\<dots> \<longleftrightarrow> (\<exists>y \<in> fst ` set (vb_cache b). fst (R y) = [])" using keys by blast
  finally have lost: "(\<exists>x \<in> set (arrange cache1). fst (R (fst x)) = []) \<longleftrightarrow> (\<exists>x \<in> set (vb_cache b). fst (R (fst x)) = [])"
    by blast
  note d = vxlan_del_misses [OF assms(1) a del, unfolded lost]
  obtain more where "vxlan_routes n1 = vxlan_routes n @ more" using n1 by (auto simp: only_adds_def)
  with d have "\<exists>n' more. bk_nic b' = Some n' \<and> vxlan_routes n' = vxlan_routes n @ more" by (simp add: res(2))
  note grown = this
  have cache: "vb_cache b' = cache2" by (simp add: res(2))
  show ?thesis
  proof (cases "info_formatted lvl \<and> (\<exists>x \<in> set (vb_cache b). fst (R (fst x)) = [])")
    case True
    show ?thesis unfolding if_P [OF True] res(1) using conjunct2 [OF d] unfolding if_P [OF True] .
  next
    case False
    show ?thesis unfolding if_not_P [OF False] res(1) cache
      using conjunct2 [OF d] grown unfolding if_not_P [OF False] by (intro conjI; elim conjE)
  qed
qed

subsection \<open>A node that left\<close>

definition demo_vtep :: "string \<Rightarrow> string \<times> string" where
  "demo_vtep x = (if x = ''n1'' then (''10.244.1.0'', ''aa'') else ([], []))"

definition demo_records :: "(string \<rightharpoonup> string) storage_if" where
  "demo_records = (storage_ops demo_etcd demo_asio)\<lparr>st_getVtep := (\<lambda>x w. (Inr (demo_vtep x), w))\<rparr>"

definition demo_vxlan :: "(string \<rightharpoonup> string) vxlan_backend" where
  "demo_vxlan = new_vxlan_backend\<lparr>bk_center := Some demo_nodes, vb_storage := Some demo_records,
     bk_nic := Some (new_plain\<lparr>nic_netlink := Some ((demo_link True)\<lparr>nl_routeIsExist := (\<lambda>dst via dev ns w. (True, w))\<rparr>),
       nic_routes := [Route ''10.244.2.0/24'' ''10.244.2.0'' NAME_VXLAN]\<rparr>),
     vb_cache := [(''n2'', \<lparr>info_name = ''n2'', internal_ip = ''10.0.0.2'', pod_cidr = ''10.244.2.0/24''\<rparr>)]\<rparr>"

lemma demo_vxlan_facts:
  "\<forall>x w. st_getVtep demo_records x w = (Inr (demo_vtep x), w)" "fst (demo_vtep ''n1'') \<noteq> []"
  "bk_center demo_vxlan = Some demo_nodes" "vb_storage demo_vxlan = Some demo_records"
  by (simp_all add: demo_records_def demo_vtep_def demo_vxlan_def)

lemma demo_vxlan_lost: "\<exists>x \<in> set (vb_cache demo_vxlan). fst (demo_vtep (fst x)) = []"
  by (simp add: demo_vxlan_def demo_vtep_def)

lemma vxlan_handler_keeps_stale_routes_witness:
  "(\<exists>b n more. fst (vxlan_eventHandler Warn (\<lambda>m. m) ''n1'' demo_vxlan Map.empty) = (Inr (), b) \<and>
     bk_nic b = Some n \<and> vxlan_routes n = Route ''10.244.2.0/24'' ''10.244.2.0'' NAME_VXLAN # more \<and>
     (\<forall>x \<in> set (vb_cache b). fst x = ''n1'')) \<and>
   fst (fst (vxlan_eventHandler Info (\<lambda>m. m) ''n1'' demo_vxlan Map.empty)) = Inl Undefined_behaviour"
proof -
  obtain n where n: "bk_nic demo_vxlan = Some n"
    "vxlan_routes n = [Route ''10.244.2.0/24'' ''10.244.2.0'' NAME_VXLAN]"
    by (simp add: demo_vxlan_def vxlan_routes_def Route_def)
  note res = vxlan_handler_keeps_stale_routes [where w = Map.empty, OF demo_vxlan_facts n(1) demo_gw_facts(4)]
  obtain r b w where h: "vxlan_eventHandler Warn (\<lambda>m. m) ''n1'' demo_vxlan Map.empty = ((r, b), w)"
    by (metis prod.collapse)
  from res [OF h] have low: "r = Inr ()" "\<exists>n' more. bk_nic b = Some n' \<and> vxlan_routes n' = vxlan_routes n @ more"
    "\<forall>x \<in> set (vb_cache b). fst (demo_vtep (fst x)) \<noteq> []" by (simp_all add: warn_unformatted)
  have "\<forall>x \<in> set (vb_cache b). fst x = ''n1''" using low(3) by (auto simp: demo_vtep_def split: if_splits)
  moreover obtain r2 b2 w2 where h2: "vxlan_eventHandler Info (\<lambda>m. m) ''n1'' demo_vxlan Map.empty = ((r2, b2), w2)"
    by (metis prod.collapse)
  moreover from res [OF h2] demo_vxlan_lost have "r2 = Inl Undefined_behaviour" by (simp add: info_formats)
  ultimately show ?thesis using h low(1,2) n(2) by simp
qed

end
