(* ===== verification/Link_Spec.thy ===== *)
theory Link_Spec
  imports Netlink_Spec
begin

text \<open>
  What the backends rely on for network devices, as the locale \<open>link_table\<close> (and \<open>link_table_up\<close>, a
  kernel that does what it can), and its interpretation on \<open>NetlinkIpCmd\<close>. The commands on devices are
  one datatype: its text is what \<open>netlink_ip_cmd.cc\<close> gives to the shell, its effect what the kernel is
  documented to do.
\<close>

subsection \<open>The kernel's devices\<close>

text \<open>
  The devices of the root namespace. A \<open>Link_vxlan\<close> has the VNI and the port of the program, any other
  kind of device is a \<open>Link_other\<close>. The flags of a bridge port are \<open>neigh_suppress\<close> and \<open>learning\<close>.
\<close>

datatype link_kind = Link_bridge | Link_vxlan string string | Link_vrf nat | Link_other

record link_state =
  lk_kind :: link_kind
  lk_up :: bool
  lk_master :: "string option"
  lk_port :: "(bool \<times> bool) option"

type_synonym links = "string \<rightharpoonup> link_state"

definition fresh_link :: "link_kind \<Rightarrow> link_state" where
  "fresh_link k = \<lparr>lk_kind = k, lk_up = False, lk_master = None, lk_port = None\<rparr>"

text \<open>A device that goes releases its ports, and takes the VXLAN devices that send through it along.\<close>

definition sends_through :: "string \<Rightarrow> link_state \<Rightarrow> bool" where
  "sends_through n s = (case lk_kind s of Link_vxlan a d \<Rightarrow> d = n | _ \<Rightarrow> False)"

definition drop_link :: "string \<Rightarrow> links \<Rightarrow> links" where
  "drop_link n L = (\<lambda>x. if x = n then None else case L x of None \<Rightarrow> None | Some s \<Rightarrow>
     if sends_through n s then None else Some (if lk_master s = Some n then s\<lparr>lk_master := None, lk_port := None\<rparr> else s))"

subsection \<open>The commands\<close>

datatype link_cmd = Show string | New_bridge string | New_vxlan string string string | New_vrf string "32 word"
  | Status string link_status | Enslave string string bridge_addr_gen_mode | Port string bool bool | Destroy string

fun link_text :: "link_cmd \<Rightarrow> string" where
  "link_text (Show n) = ''ip link show '' @ n"
| "link_text (New_bridge n) = ''ip link add dev '' @ n @ '' type bridge''"
| "link_text (New_vxlan n a d) = ''ip link add dev '' @ n @ '' type vxlan id '' @ dec VXLAN_VNI @ '' dstport ''
     @ dec PORT_VXLAN @ '' local '' @ a @ '' dev '' @ d @ '' nolearning proxy''"
| "link_text (New_vrf n t) = ''ip link add name '' @ n @ '' type vrf table '' @ dec (unat t)"
| "link_text (Status n s) = ''ip link set dev '' @ n @ '' '' @ (if s = UP then '' up'' else '' down'')"
| "link_text (Enslave n b m) = ''ip link set dev '' @ n @ '' master '' @ b @ '' ''
     @ (if m = mode_reserved then [] else ''addrgenmode none'')"
| "link_text (Port n ns l) = ''ip link set '' @ n @ '' type bridge_slave neigh_suppress '' @ on_or_off ns
     @ '' learning '' @ on_or_off l"
| "link_text (Destroy n) = ''ip link del dev '' @ n"

text \<open>The operation of the interface behind a command, in the root namespace.\<close>

fun link_op :: "'w netlink_if \<Rightarrow> link_cmd \<Rightarrow> ('w, bool) op" where
  "link_op N (Show n) = nl_linkExist N n []"
| "link_op N (New_bridge n) = nl_bridgeCreate N n"
| "link_op N (New_vxlan n a d) = nl_vxlanCreate N n a d"
| "link_op N (New_vrf n t) = nl_vrfCreate N n t"
| "link_op N (Status n s) = nl_linkSetStatus N n s []"
| "link_op N (Enslave n b m) = nl_bridgeSetStatus N n True b m []"
| "link_op N (Port n ns l) = nl_vxlanSetSlave N n ns l []"
| "link_op N (Destroy n) = nl_linkDestory N n []"

text \<open>
  A device is named by a word that \<open>ip link show\<close> and \<open>ip link set\<close> do not take for an option, in full or
  abbreviated.
\<close>

definition ip_options :: "string list" where
  "ip_options = [''dev'', ''up'', ''to'', ''type'', ''type_slave'', ''scope'', ''label'', ''group'', ''master'', ''nomaster'',
     ''vrf'', ''proto'', ''help'', ''dynamic'', ''permanent'', ''temporary'', ''primary'', ''secondary'', ''tentative'',
     ''deprecated'', ''dadfailed'', ''home'', ''nodad'', ''name'', ''index'', ''link'', ''address'', ''broadcast'', ''peer'',
     ''txqueuelen'', ''qlen'', ''mtu'', ''netns'', ''arp'', ''multicast'', ''allmulticast'', ''promisc'', ''trailers'', ''vf'',
     ''down'', ''alias'', ''addrgenmode'', ''protodown'', ''link-netnsid'', ''numtxqueues'', ''numrxqueues'', ''xdp'',
     ''mode'', ''state'', ''noprefixroute'', ''autojoin'', ''mngtmpaddr'', ''optimistic'']"

definition link_name :: "string \<Rightarrow> bool" where
  "link_name n \<longleftrightarrow> shell_word n \<and> (\<forall>k \<in> set ip_options. take (length n) k \<noteq> n)"

lemma link_name_word: "link_name n \<Longrightarrow> shell_word n"
  by (simp add: link_name_def)

fun link_dev :: "link_cmd \<Rightarrow> string" where
  "link_dev (Show n) = n"
| "link_dev (New_bridge n) = n"
| "link_dev (New_vxlan n a d) = n"
| "link_dev (New_vrf n t) = n"
| "link_dev (Status n s) = n"
| "link_dev (Enslave n b m) = n"
| "link_dev (Port n ns l) = n"
| "link_dev (Destroy n) = n"

fun link_args :: "link_cmd \<Rightarrow> string list" where
  "link_args (New_vxlan n a d) = [a, d]"
| "link_args (Enslave n b m) = [b]"
| "link_args c = []"

definition link_args_ok :: "link_cmd \<Rightarrow> bool" where
  "link_args_ok c \<longleftrightarrow> link_name (link_dev c) \<and> (\<forall>x \<in> set (link_args c). shell_word x)"

text \<open>
  When the kernel is sure to do it: a new device has a free name of at most 15 characters, a VXLAN device
  is the only one and has something to send through, an old device is there, a bridge becomes a port of a
  VRF and a VXLAN device one of a bridge.
\<close>

definition free_link :: "string \<Rightarrow> links \<Rightarrow> bool" where
  "free_link n L \<longleftrightarrow> L n = None \<and> length n \<le> 15"

definition only_vxlan :: "string \<Rightarrow> links \<Rightarrow> bool" where
  "only_vxlan n L \<longleftrightarrow> (\<forall>x s a d. L x = Some s \<longrightarrow> lk_kind s = Link_vxlan a d \<longrightarrow> x = n)"

fun can_enslave :: "link_kind \<Rightarrow> link_kind \<Rightarrow> bool" where
  "can_enslave Link_bridge (Link_vrf t) = True"
| "can_enslave (Link_vxlan a d) Link_bridge = True"
| "can_enslave _ _ = False"

fun link_able :: "links \<Rightarrow> link_cmd \<Rightarrow> bool" where
  "link_able L (Show n) \<longleftrightarrow> L n \<noteq> None"
| "link_able L (New_bridge n) \<longleftrightarrow> free_link n L"
| "link_able L (New_vxlan n a d) \<longleftrightarrow> free_link n L \<and> only_vxlan n L \<and> L d \<noteq> None"
| "link_able L (New_vrf n t) \<longleftrightarrow> free_link n L"
| "link_able L (Status n s) \<longleftrightarrow> L n \<noteq> None"
| "link_able L (Enslave n b m) \<longleftrightarrow> (case (L n, L b) of (Some s, Some s') \<Rightarrow> can_enslave (lk_kind s) (lk_kind s') | _ \<Rightarrow> False)"
| "link_able L (Port n ns l) \<longleftrightarrow> (case L n of None \<Rightarrow> False | Some s \<Rightarrow>
     (case lk_master s of None \<Rightarrow> False | Some b \<Rightarrow> (case L b of None \<Rightarrow> False | Some m \<Rightarrow> lk_kind m = Link_bridge)))"
| "link_able L (Destroy n) \<longleftrightarrow> (case L n of None \<Rightarrow> False | Some s \<Rightarrow> lk_kind s \<noteq> Link_other)"

text \<open>
  What a command that succeeds shows or does. The end of an unknown kind of device can take others along
  (the peer of a veth), so nothing is said about it. A port that keeps its master keeps its flags.
\<close>

fun link_known :: "links \<Rightarrow> link_cmd \<Rightarrow> bool" where
  "link_known L (Destroy n) \<longleftrightarrow> (case L n of None \<Rightarrow> False | Some s \<Rightarrow> lk_kind s \<noteq> Link_other)"
| "link_known L c \<longleftrightarrow> True"

fun link_shown :: "links \<Rightarrow> link_cmd \<Rightarrow> bool" where
  "link_shown L (Show n) \<longleftrightarrow> L n \<noteq> None"
| "link_shown L c \<longleftrightarrow> True"

fun link_effect :: "link_cmd \<Rightarrow> links \<Rightarrow> links" where
  "link_effect (Show n) L = L"
| "link_effect (New_bridge n) L = L(n \<mapsto> fresh_link Link_bridge)"
| "link_effect (New_vxlan n a d) L = L(n \<mapsto> fresh_link (Link_vxlan a d))"
| "link_effect (New_vrf n t) L = L(n \<mapsto> fresh_link (Link_vrf (unat t)))"
| "link_effect (Status n s) L = L(n := map_option (\<lambda>x. x\<lparr>lk_up := (s = UP)\<rparr>) (L n))"
| "link_effect (Enslave n b m) L = L(n := map_option (\<lambda>x. x\<lparr>lk_master := Some b, lk_port := (if lk_master x = Some b then lk_port x else None)\<rparr>) (L n))"
| "link_effect (Port n ns l) L = L(n := map_option (\<lambda>x. x\<lparr>lk_port := Some (ns, l)\<rparr>) (L n))"
| "link_effect (Destroy n) L = drop_link n L"

definition link_outcome :: "bool \<Rightarrow> link_cmd \<Rightarrow> links \<Rightarrow> links \<Rightarrow> bool" where
  "link_outcome ok c L L' \<longleftrightarrow> (if ok then link_shown L c \<and> (link_known L c \<longrightarrow> L' = link_effect c L) else L' = L)"

lemma able_known: "link_able L c \<Longrightarrow> link_known L c"
  by (cases c) simp_all

subsection \<open>The contract\<close>

locale link_table =
  fixes manages :: "'w netlink_if \<Rightarrow> ('w \<Rightarrow> links) \<Rightarrow> bool"
  assumes link_law: "manages N L \<Longrightarrow> link_args_ok c \<Longrightarrow> link_op N c w = (ok, w') \<Longrightarrow>
      link_outcome ok c (L w) (L w')"
begin

lemma show_law:
  assumes "manages N L" "link_name n" "nl_linkExist N n [] w = (b, w')"
  shows "L w' = L w" and "b \<Longrightarrow> L w n \<noteq> None"
  using link_law [OF assms(1), of "Show n" w b w'] assms(2,3)
  by (cases b; simp add: link_args_ok_def link_outcome_def)+

text \<open>\<open>setup\<close> of a device leaves all others alone, whatever happens.\<close>

lemma created_law:
  assumes "manages N L" "link_name n" "link_args_ok c" "\<And>L. link_known L c"
    and "\<And>L. \<forall>x. x \<noteq> n \<longrightarrow> link_effect c L x = L x"
    and "created N n (link_op N c) w = (ok, w')"
  shows "\<forall>x. x \<noteq> n \<longrightarrow> L w' x = L w x"
proof -
  obtain b w1 where s: "nl_linkExist N n [] w = (b, w1)" by fastforce
  note v = show_law(1) [OF assms(1,2) s]
  show ?thesis
  proof (cases b)
    case True
    with assms(6) s v show ?thesis by (simp add: created_def)
  next
    case False
    with assms(6) s have "link_op N c w1 = (ok, w')" by (simp add: created_def)
    from link_law [OF assms(1,3) this] v assms(4,5) [of "L w1"] show ?thesis
      by (cases ok) (simp_all add: link_outcome_def)
  qed
qed

end

text \<open>A kernel that does whatever it can.\<close>

locale link_table_up = link_table manages for manages :: "'w netlink_if \<Rightarrow> ('w \<Rightarrow> links) \<Rightarrow> bool" +
  fixes able :: "'w netlink_if \<Rightarrow> ('w \<Rightarrow> links) \<Rightarrow> bool"
  assumes up_law: "able N L \<Longrightarrow> link_args_ok c \<Longrightarrow> link_able (L w) c \<Longrightarrow> fst (link_op N c w)"
begin

lemma link_up:
  assumes "manages N L" "able N L" "link_args_ok c" "link_able (L w) c"
  obtains w' where "link_op N c w = (True, w')" "L w' = link_effect c (L w)"
proof -
  obtain ok w' where r: "link_op N c w = (ok, w')" by fastforce
  with up_law [OF assms(2-4)] link_law [OF assms(1,3) r] able_known [OF assms(4)] that show thesis
    by (simp add: link_outcome_def)
qed

text \<open>\<open>created\<close> makes a device, or takes the one that is there.\<close>

lemma created_up:
  assumes "manages N L" "able N L" "link_name n" "link_args_ok c"
    and "L w n = None \<Longrightarrow> link_able (L w) c"
  obtains w' where "created N n (link_op N c) w = (True, w')" "L w' = (if L w n = None then link_effect c (L w) else L w)"
proof -
  obtain b w1 where s: "nl_linkExist N n [] w = (b, w1)" by fastforce
  note v = show_law(1) [OF assms(1,3) s]
  have "b" if "L w n \<noteq> None" using up_law [OF assms(2), of "Show n" w] s that assms(3) by (simp add: link_args_ok_def)
  with show_law(2) [OF assms(1,3) s] have vb: "b \<longleftrightarrow> L w n \<noteq> None" by blast
  show thesis
  proof (cases b)
    case True
    with s v vb show thesis by (intro that [of w1]) (auto simp: created_def)
  next
    case False
    with v vb assms(5) have "link_able (L w1) c" by simp
    then obtain w2 where "link_op N c w1 = (True, w2)" "L w2 = link_effect c (L w1)"
      by (rule link_up [OF assms(1,2,4)])
    with False s v vb show thesis by (intro that [of w2]) (simp_all add: created_def)
  qed
qed

end

subsection \<open>\<open>NetlinkIpCmd\<close> fulfils the contract\<close>

definition ip_links_documented :: "'w host \<Rightarrow> ('w \<Rightarrow> links) \<Rightarrow> bool" where
  "ip_links_documented run L \<longleftrightarrow> (\<forall>c w ch w'. link_args_ok c \<longrightarrow> run (link_text c) w = (ch, w') \<longrightarrow>
     link_outcome (exit_ok ch) c (L w) (L w'))"

definition ip_links_able :: "'w host \<Rightarrow> ('w \<Rightarrow> links) \<Rightarrow> bool" where
  "ip_links_able run L \<longleftrightarrow> (\<forall>c w. link_args_ok c \<longrightarrow> link_able (L w) c \<longrightarrow> exit_ok (fst (run (link_text c) w)))"

definition ip_link_manages :: "'w netlink_if \<Rightarrow> ('w \<Rightarrow> links) \<Rightarrow> bool" where
  "ip_link_manages N L \<longleftrightarrow> (\<exists>run. N = netlink_ip_cmd run \<and> ip_links_documented run L)"

definition ip_link_able :: "'w netlink_if \<Rightarrow> ('w \<Rightarrow> links) \<Rightarrow> bool" where
  "ip_link_able N L \<longleftrightarrow> (\<exists>run. N = netlink_ip_cmd run \<and> ip_links_able run L)"

lemma netlink_ip_cmd_links: "link_op (netlink_ip_cmd run) c = executeCommand run (link_text c)"
  by (cases c) (auto simp: netlink_ip_cmd_def linkExist_def bridgeCreate_def vxlanCreate_def vrfCreate_def linkSetStatus_def
      bridgeSetStatus_def vxlanSetSlave_def linkDestory_def addNetns_def Let_def)

interpretation ip_link: link_table ip_link_manages
proof (unfold_locales, goal_cases)
  case (1 N L c w ok w')
  from 1(1) obtain run where r: "N = netlink_ip_cmd run" "ip_links_documented run L"
    unfolding ip_link_manages_def by blast
  from 1(3) [unfolded r netlink_ip_cmd_links] obtain ch where c: "run (link_text c) w = (ch, w')" "ok = exit_ok ch"
    by (blast dest: executeCommand_split)
  with r(2) 1(2) show ?case unfolding ip_links_documented_def by blast
qed

interpretation ip_link_up: link_table_up ip_link_manages ip_link_able
proof (unfold_locales, goal_cases)
  case (1 N L c w)
  then obtain run where r: "N = netlink_ip_cmd run" "ip_links_able run L" unfolding ip_link_able_def by blast
  with 1(2,3) have "exit_ok (fst (run (link_text c) w))" unfolding ip_links_able_def by blast
  with r(1) show ?case by (simp add: netlink_ip_cmd_links fst_executeCommand)
qed

subsection \<open>The hypotheses can hold\<close>

text \<open>
  A kernel that reads the commands back: the text of a command says what the command does.
\<close>

fun spaced :: "string list \<Rightarrow> string" where
  "spaced [] = []"
| "spaced [x] = x"
| "spaced (x # y # xs) = x @ CHR '' '' # spaced (y # xs)"

lemma words_spaced: "\<forall>x \<in> set xs. CHR '' '' \<notin> set x \<Longrightarrow> words (spaced xs) = filter (\<lambda>x. x \<noteq> []) xs"
proof (induction xs rule: spaced.induct)
  case 1
  show ?case using words_end [of "[]"] by simp
qed (simp_all add: words_sep words_end)

definition read_link :: "string list \<Rightarrow> link_cmd" where
  "read_link ws =
     (if ws ! 2 = ''show'' then Show (ws ! 3)
      else if ws ! 2 = ''del'' then Destroy (ws ! 4)
      else if ws ! 2 = ''add''
      then (if ws ! 6 = ''bridge'' then New_bridge (ws ! 4)
            else if ws ! 6 = ''vxlan'' then New_vxlan (ws ! 4) (ws ! 12) (ws ! 14)
            else New_vrf (ws ! 4) (of_nat (undec (ws ! 8))))
      else if ws ! 5 = ''bridge_slave'' then Port (ws ! 3) (ws ! 7 = ''on'') (ws ! 9 = ''on'')
      else if ws ! 5 = ''master'' then Enslave (ws ! 4) (ws ! 6) (if length ws = 7 then mode_reserved else mode_none)
      else Status (ws ! 4) (if ws ! 5 = ''up'' then UP else DOWN))"

text \<open>A status that is neither up nor down is read as down.\<close>

fun plain_cmd :: "link_cmd \<Rightarrow> link_cmd" where
  "plain_cmd (Status n s) = Status n (if s = UP then UP else DOWN)"
| "plain_cmd c = c"

fun cmd_words :: "link_cmd \<Rightarrow> string list" where
  "cmd_words (Show n) = [''ip'', ''link'', ''show'', n]"
| "cmd_words (New_bridge n) = [''ip'', ''link'', ''add'', ''dev'', n, ''type'', ''bridge'']"
| "cmd_words (New_vxlan n a d) = [''ip'', ''link'', ''add'', ''dev'', n, ''type'', ''vxlan'', ''id'', dec VXLAN_VNI,
     ''dstport'', dec PORT_VXLAN, ''local'', a, ''dev'', d, ''nolearning'', ''proxy'']"
| "cmd_words (New_vrf n t) = [''ip'', ''link'', ''add'', ''name'', n, ''type'', ''vrf'', ''table'', dec (unat t)]"
| "cmd_words (Status n s) = [''ip'', ''link'', ''set'', ''dev'', n, [], if s = UP then ''up'' else ''down'']"
| "cmd_words (Enslave n b m) = [''ip'', ''link'', ''set'', ''dev'', n, ''master'', b]
     @ (if m = mode_reserved then [[]] else [''addrgenmode'', ''none''])"
| "cmd_words (Port n ns l) = [''ip'', ''link'', ''set'', n, ''type'', ''bridge_slave'', ''neigh_suppress'', on_or_off ns,
     ''learning'', on_or_off l]"
| "cmd_words (Destroy n) = [''ip'', ''link'', ''del'', ''dev'', n]"

lemma link_text_spaced: "link_text c = spaced (cmd_words c)"
  by (cases c) (auto split: if_splits)

lemma dec_no_space: "CHR '' '' \<notin> set (dec n)"
  using dec_digits [of "CHR '' ''" n] by (auto simp: is_digit_def)

lemma cmd_words_clean: "link_args_ok c \<Longrightarrow> \<forall>x \<in> set (cmd_words c). CHR '' '' \<notin> set x"
  by (cases c) (auto simp: link_args_ok_def dec_no_space on_or_off_def dest!: link_name_word shell_word_chars split: if_splits)

lemma read_link_text: "link_args_ok c \<Longrightarrow> read_link (words (link_text c)) = plain_cmd c"
  unfolding link_text_spaced words_spaced [OF cmd_words_clean]
  by (cases c) (auto simp: read_link_def link_args_ok_def on_or_off_def
      dest!: link_name_word shell_word_chars split: if_splits intro: bridge_addr_gen_mode.exhaust)

fun demo_can :: "links \<Rightarrow> link_cmd \<Rightarrow> bool" where
  "demo_can L (New_bridge n) \<longleftrightarrow> L n = None"
| "demo_can L (New_vxlan n a d) \<longleftrightarrow> L n = None"
| "demo_can L (New_vrf n t) \<longleftrightarrow> L n = None"
| "demo_can L c \<longleftrightarrow> L (link_dev c) \<noteq> None"

definition demo_links :: "links host" where
  "demo_links cmd L =
     (let c = read_link (words cmd) in
      if demo_can L c then (Exited 0 [] [], link_effect c L) else (Exited 1 [] ''Cannot do it'', L))"

lemma demo_can_plain: "link_able L c \<Longrightarrow> demo_can L (plain_cmd c)"
  by (cases c) (auto simp: free_link_def split: option.splits)

lemma plain_effect: "link_effect (plain_cmd c) L = link_effect c L"
  by (cases c) simp_all

lemma demo_shown: "demo_can L (plain_cmd c) \<Longrightarrow> link_shown L c"
  by (cases c) simp_all

lemma demo_links_documented: "ip_links_documented demo_links (\<lambda>L. L)"
  by (auto simp: ip_links_documented_def demo_links_def read_link_text Let_def link_outcome_def exit_ok_def plain_effect
      demo_shown split: if_splits)

lemma demo_links_able: "ip_links_able demo_links (\<lambda>L. L)"
  by (simp add: ip_links_able_def demo_links_def read_link_text exit_ok_def demo_can_plain)

end
