(* ===== verification/Overlay_Spec.thy ===== *)
theory Overlay_Spec
  imports Link_Spec
begin

text \<open>
  What the VXLAN backend relies on for neighbours and FDB entries, as the locale \<open>overlay_table\<close> (and
  \<open>overlay_table_up\<close>, a kernel that does what it can), the interpretation on \<open>NetlinkIpCmd\<close>, and what
  follows for \<open>addNeigh\<close>, \<open>addFdb\<close>, \<open>delNeigh\<close> and \<open>delFdb\<close> of a \<open>Nic\<close>. As in \<open>Link_Spec\<close>, the commands
  are one datatype.
\<close>

subsection \<open>The kernel's tables\<close>

text \<open>
  The root namespace, where the daemon's interface is. A device has one neighbour per address, and a
  VXLAN device sends a MAC to the underlay addresses of its FDB entries.
\<close>

record overlay =
  ov_neigh :: "string \<times> string \<rightharpoonup> string"
  ov_fdb :: "(string \<times> string \<times> string) set"

datatype entry_cmd = Neigh_show string string | Neigh_set bool string string string
  | Fdb_show string string string | Fdb_set bool string string string

fun entry_text :: "entry_cmd \<Rightarrow> string" where
  "entry_text (Neigh_show a d) = ''ip neigh show '' @ a @ '' dev '' @ d"
| "entry_text (Neigh_set add a m d) = ''ip neigh '' @ add_or_del add @ '' '' @ a @ '' lladdr '' @ m @ '' dev '' @ d"
| "entry_text (Fdb_show m u d) = ''bridge fdb show dev '' @ d @ '' | grep '' @ m @ '' | grep '' @ u"
| "entry_text (Fdb_set add m u d) = ''bridge fdb '' @ add_or_del add @ '' '' @ m @ '' dev '' @ d @ '' dst '' @ u"

text \<open>The operation of the interface behind a command.\<close>

fun entry_op :: "'w netlink_if \<Rightarrow> entry_cmd \<Rightarrow> ('w, bool) op" where
  "entry_op N (Neigh_show a d) = nl_neighIsExist N a d []"
| "entry_op N (Neigh_set add a m d) = nl_neighSetEntry N a m add d []"
| "entry_op N (Fdb_show m u d) = nl_fdbIsExist N m u d []"
| "entry_op N (Fdb_set add m u d) = nl_fdbSetEntry N m u d add []"

text \<open>
  The arguments: an address starts with a digit, so it is no option of \<open>ip\<close>, and a MAC is written in
  full, so that \<open>grep\<close> finds it in no other place of a line.
\<close>

definition addr_form :: "string \<Rightarrow> bool" where
  "addr_form a \<longleftrightarrow> shell_word a \<and> is_digit (hd a)"

definition mac_form :: "string \<Rightarrow> bool" where
  "mac_form m \<longleftrightarrow> shell_word m \<and> length m = 17 \<and> set m \<subseteq> set ''0123456789abcdef:''"

lemma entry_words: "addr_form a \<Longrightarrow> shell_word a" "mac_form m \<Longrightarrow> shell_word m"
  by (simp_all add: addr_form_def mac_form_def)

fun entry_args_ok :: "entry_cmd \<Rightarrow> bool" where
  "entry_args_ok (Neigh_show a d) \<longleftrightarrow> addr_form a \<and> shell_word d"
| "entry_args_ok (Neigh_set add a m d) \<longleftrightarrow> addr_form a \<and> mac_form m \<and> shell_word d"
| "entry_args_ok (Fdb_show m u d) \<longleftrightarrow> mac_form m \<and> addr_form u \<and> shell_word d"
| "entry_args_ok (Fdb_set add m u d) \<longleftrightarrow> mac_form m \<and> addr_form u \<and> shell_word d"

text \<open>
  What the answer \<open>yes\<close>, or success, says of the tables before. The search for an FDB entry looks for
  the underlay address as a part of the line only, so it may find another entry of the same MAC.
\<close>

definition sends_to :: "overlay \<Rightarrow> string \<Rightarrow> string \<Rightarrow> string set" where
  "sends_to v m d = {u. (m, d, u) \<in> ov_fdb v}"

fun entry_shown :: "overlay \<Rightarrow> entry_cmd \<Rightarrow> bool" where
  "entry_shown v (Neigh_show a d) \<longleftrightarrow> ov_neigh v (a, d) \<noteq> None"
| "entry_shown v (Neigh_set add a m d) \<longleftrightarrow> (add \<longleftrightarrow> ov_neigh v (a, d) = None)"
| "entry_shown v (Fdb_show m u d) \<longleftrightarrow> sends_to v m d \<noteq> {}"
| "entry_shown v (Fdb_set add m u d) \<longleftrightarrow> (if add then sends_to v m d = {} else u \<in> sends_to v m d)"

text \<open>When it is sure to be \<open>yes\<close>.\<close>

fun entry_able :: "overlay \<Rightarrow> entry_cmd \<Rightarrow> bool" where
  "entry_able v (Fdb_show m u d) \<longleftrightarrow> u \<in> sends_to v m d"
| "entry_able v c \<longleftrightarrow> entry_shown v c"

fun entry_effect :: "entry_cmd \<Rightarrow> overlay \<Rightarrow> overlay" where
  "entry_effect (Neigh_set add a m d) v = v\<lparr>ov_neigh := (ov_neigh v)((a, d) := if add then Some m else None)\<rparr>"
| "entry_effect (Fdb_set add m u d) v =
     v\<lparr>ov_fdb := if add then insert (m, d, u) (ov_fdb v) else ov_fdb v - {(m, d, u)}\<rparr>"
| "entry_effect c v = v"

definition entry_outcome :: "bool \<Rightarrow> entry_cmd \<Rightarrow> overlay \<Rightarrow> overlay \<Rightarrow> bool" where
  "entry_outcome ok c v v' \<longleftrightarrow> (if ok then entry_shown v c \<and> v' = entry_effect c v else v' = v)"

subsection \<open>The contract\<close>

locale overlay_table =
  fixes manages :: "'w netlink_if \<Rightarrow> ('w \<Rightarrow> overlay) \<Rightarrow> bool"
  assumes entry_law: "manages N v \<Longrightarrow> entry_args_ok c \<Longrightarrow> entry_op N c w = (ok, w') \<Longrightarrow>
      entry_outcome ok c (v w) (v w')"
begin

text \<open>Adding writes the entry of that one key, or nothing, whatever the commands do.\<close>

lemma addNeigh_law:
  assumes "manages N v" "nic_netlink n = Some N" "nic_netns n = []"
    and "addr_form (ne_addr e)" "mac_form (ne_mac e)" "shell_word (ne_dev e)"
    and "nic_addNeigh e n w = ((ok, n'), w')"
  shows "nic_netlink n' = Some N" "nic_netns n' = []"
    and "v w' = v w \<or> v w' = v w\<lparr>ov_neigh := (ov_neigh (v w))((ne_addr e, ne_dev e) \<mapsto> ne_mac e)\<rparr>"
proof -
  let ?set = "Neigh_set True (ne_addr e) (ne_mac e) (ne_dev e)"
  obtain b w1 where s: "entry_op N (Neigh_show (ne_addr e) (ne_dev e)) w = (b, w1)" by fastforce
  obtain o2 w2 where x: "entry_op N ?set w1 = (o2, w2)" by fastforce
  have v1: "v w1 = v w" using entry_law [OF assms(1) _ s] assms(4,6) by (simp add: entry_outcome_def split: if_splits)
  have "entry_outcome o2 ?set (v w1) (v w2)" using entry_law [OF assms(1) _ x] assms(4-6) by simp
  then show "nic_netlink n' = Some N" "nic_netns n' = []"
    "v w' = v w \<or> v w' = v w\<lparr>ov_neigh := (ov_neigh (v w))((ne_addr e, ne_dev e) \<mapsto> ne_mac e)\<rparr>"
    using assms(2,3,7) s x v1
    by (auto simp: nic_addNeigh_def entry_outcome_def Let_def split: bool.splits if_splits)
qed

lemma addFdb_law:
  assumes "manages N v" "nic_netlink n = Some N" "nic_netns n = []"
    and "mac_form (fdb_mac e)" "addr_form (fdb_underlay_addr e)" "shell_word (fdb_dev e)"
    and "nic_addFdb e n w = ((ok, n'), w')"
  shows "nic_netlink n' = Some N" "nic_netns n' = []"
    and "v w' = v w \<or> v w' = v w\<lparr>ov_fdb := insert (fdb_mac e, fdb_dev e, fdb_underlay_addr e) (ov_fdb (v w))\<rparr>"
proof -
  let ?set = "Fdb_set True (fdb_mac e) (fdb_underlay_addr e) (fdb_dev e)"
  obtain b w1 where s: "entry_op N (Fdb_show (fdb_mac e) (fdb_underlay_addr e) (fdb_dev e)) w = (b, w1)" by fastforce
  obtain o2 w2 where x: "entry_op N ?set w1 = (o2, w2)" by fastforce
  have v1: "v w1 = v w" using entry_law [OF assms(1) _ s] assms(4-6) by (simp add: entry_outcome_def split: if_splits)
  have "entry_outcome o2 ?set (v w1) (v w2)" using entry_law [OF assms(1) _ x] assms(4-6) by simp
  then show "nic_netlink n' = Some N" "nic_netns n' = []"
    "v w' = v w \<or> v w' = v w\<lparr>ov_fdb := insert (fdb_mac e, fdb_dev e, fdb_underlay_addr e) (ov_fdb (v w))\<rparr>"
    using assms(2,3,7) s x v1
    by (auto simp: nic_addFdb_def entry_outcome_def Let_def split: bool.splits if_splits)
qed

text \<open>Deleting takes the entry of that one key and leaves all others, whatever the commands do.\<close>

lemma delNeigh_law:
  assumes "manages N v" "nic_netlink n = Some N" "nic_netns n = []"
    and "addr_form a" "mac_form m" "shell_word d"
    and "nic_delNeigh a m d n w = ((ok, n'), w')"
  shows "nic_netlink n' = Some N" "nic_netns n' = []"
    and "v w' = v w \<or> v w' = v w\<lparr>ov_neigh := (ov_neigh (v w))((a, d) := None)\<rparr>"
proof -
  obtain b w1 where s: "entry_op N (Neigh_show a d) w = (b, w1)" by fastforce
  obtain o2 w2 where x: "entry_op N (Neigh_set False a m d) w1 = (o2, w2)" by fastforce
  have v1: "v w1 = v w" using entry_law [OF assms(1) _ s] assms(4,6) by (simp add: entry_outcome_def split: if_splits)
  have "entry_outcome o2 (Neigh_set False a m d) (v w1) (v w2)" using entry_law [OF assms(1) _ x] assms(4-6) by simp
  then show "nic_netlink n' = Some N" "nic_netns n' = []"
    "v w' = v w \<or> v w' = v w\<lparr>ov_neigh := (ov_neigh (v w))((a, d) := None)\<rparr>"
    using assms(2,3,7) s x v1
    by (auto simp: nic_delNeigh_def entry_outcome_def split: bool.splits if_splits)
qed

lemma delFdb_law:
  assumes "manages N v" "nic_netlink n = Some N" "nic_netns n = []"
    and "mac_form m" "addr_form u" "shell_word d"
    and "nic_delFdb u m d n w = ((ok, n'), w')"
  shows "nic_netlink n' = Some N" "nic_netns n' = []"
    and "v w' = v w \<or> v w' = v w\<lparr>ov_fdb := ov_fdb (v w) - {(m, d, u)}\<rparr>"
proof -
  obtain b w1 where s: "entry_op N (Fdb_show m u d) w = (b, w1)" by fastforce
  obtain o2 w2 where x: "entry_op N (Fdb_set False m u d) w1 = (o2, w2)" by fastforce
  have v1: "v w1 = v w" using entry_law [OF assms(1) _ s] assms(4-6) by (simp add: entry_outcome_def split: if_splits)
  have "entry_outcome o2 (Fdb_set False m u d) (v w1) (v w2)" using entry_law [OF assms(1) _ x] assms(4-6) by simp
  then show "nic_netlink n' = Some N" "nic_netns n' = []"
    "v w' = v w \<or> v w' = v w\<lparr>ov_fdb := ov_fdb (v w) - {(m, d, u)}\<rparr>"
    using assms(2,3,7) s x v1
    by (auto simp: nic_delFdb_def entry_outcome_def split: bool.splits if_splits)
qed

end

text \<open>A kernel that does whatever it can.\<close>

locale overlay_table_up = overlay_table manages for manages :: "'w netlink_if \<Rightarrow> ('w \<Rightarrow> overlay) \<Rightarrow> bool" +
  fixes able :: "'w netlink_if \<Rightarrow> ('w \<Rightarrow> overlay) \<Rightarrow> bool"
  assumes up_law: "able N v \<Longrightarrow> entry_args_ok c \<Longrightarrow> entry_able (v w) c \<Longrightarrow> fst (entry_op N c w)"
begin

text \<open>An entry that no other stands in the way of is there afterwards.\<close>

lemma addNeigh_up:
  assumes "manages N v" "able N v" "nic_netlink n = Some N" "nic_netns n = []"
    and "addr_form (ne_addr e)" "mac_form (ne_mac e)" "shell_word (ne_dev e)"
    and "ov_neigh (v w) (ne_addr e, ne_dev e) \<in> {None, Some (ne_mac e)}"
  obtains n' w' where "nic_addNeigh e n w = ((True, n'), w')" "nic_netlink n' = Some N" "nic_netns n' = []"
    "v w' = v w\<lparr>ov_neigh := (ov_neigh (v w))((ne_addr e, ne_dev e) \<mapsto> ne_mac e)\<rparr>"
proof -
  let ?show = "Neigh_show (ne_addr e) (ne_dev e)" and ?set = "Neigh_set True (ne_addr e) (ne_mac e) (ne_dev e)"
  obtain b w1 where s: "entry_op N ?show w = (b, w1)" by fastforce
  obtain o2 w2 where x: "entry_op N ?set w1 = (o2, w2)" by fastforce
  have show': "entry_outcome b ?show (v w) (v w1)" using entry_law [OF assms(1) _ s] assms(5,7) by simp
  then have v1: "v w1 = v w" by (simp add: entry_outcome_def split: if_splits)
  show thesis
  proof (cases b)
    case True
    with show' assms(8) have "ov_neigh (v w) (ne_addr e, ne_dev e) = Some (ne_mac e)" by (auto simp: entry_outcome_def)
    then have "(ov_neigh (v w))((ne_addr e, ne_dev e) \<mapsto> ne_mac e) = ov_neigh (v w)" by (rule fun_upd_idem)
    with True s v1 assms(3,4) show thesis
      by (intro that [of "n\<lparr>nic_neighs := nic_neighs n @ [e]\<rparr>" w1]) (simp_all add: nic_addNeigh_def Let_def)
  next
    case False
    with up_law [OF assms(2), of ?show w] s assms(5,7)
    have "ov_neigh (v w) (ne_addr e, ne_dev e) = None" by (cases "ov_neigh (v w) (ne_addr e, ne_dev e)") auto
    with up_law [OF assms(2), of ?set w1] x v1 assms(5-7) have o2 by simp
    with entry_law [OF assms(1) _ x] assms(5-7) have "v w2 = entry_effect ?set (v w1)" by (simp add: entry_outcome_def)
    with False \<open>o2\<close> s x v1 assms(3,4) show thesis
      by (intro that [of "n\<lparr>nic_neighs := nic_neighs n @ [e]\<rparr>" w2]) (simp_all add: nic_addNeigh_def Let_def)
  qed
qed

lemma addFdb_up:
  assumes "manages N v" "able N v" "nic_netlink n = Some N" "nic_netns n = []"
    and "mac_form (fdb_mac e)" "addr_form (fdb_underlay_addr e)" "shell_word (fdb_dev e)"
    and "sends_to (v w) (fdb_mac e) (fdb_dev e) \<subseteq> {fdb_underlay_addr e}"
  obtains n' w' where "nic_addFdb e n w = ((True, n'), w')" "nic_netlink n' = Some N" "nic_netns n' = []"
    "v w' = v w\<lparr>ov_fdb := insert (fdb_mac e, fdb_dev e, fdb_underlay_addr e) (ov_fdb (v w))\<rparr>"
proof -
  let ?show = "Fdb_show (fdb_mac e) (fdb_underlay_addr e) (fdb_dev e)"
    and ?set = "Fdb_set True (fdb_mac e) (fdb_underlay_addr e) (fdb_dev e)"
  obtain b w1 where s: "entry_op N ?show w = (b, w1)" by fastforce
  obtain o2 w2 where x: "entry_op N ?set w1 = (o2, w2)" by fastforce
  have show': "entry_outcome b ?show (v w) (v w1)" using entry_law [OF assms(1) _ s] assms(5-7) by simp
  then have v1: "v w1 = v w" by (simp add: entry_outcome_def split: if_splits)
  show thesis
  proof (cases b)
    case True
    with show' assms(8) have "fdb_underlay_addr e \<in> sends_to (v w) (fdb_mac e) (fdb_dev e)"
      by (auto simp: entry_outcome_def)
    then have "insert (fdb_mac e, fdb_dev e, fdb_underlay_addr e) (ov_fdb (v w)) = ov_fdb (v w)"
      by (auto simp: sends_to_def)
    with True s v1 assms(3,4) show thesis
      by (intro that [of "n\<lparr>nic_fdbs := nic_fdbs n @ [e]\<rparr>" w1]) (simp_all add: nic_addFdb_def Let_def)
  next
    case False
    with up_law [OF assms(2), of ?show w] s assms(5-8) have "sends_to (v w) (fdb_mac e) (fdb_dev e) = {}" by auto
    with up_law [OF assms(2), of ?set w1] x v1 assms(5-7) have o2 by simp
    with entry_law [OF assms(1) _ x] assms(5-7) have "v w2 = entry_effect ?set (v w1)" by (simp add: entry_outcome_def)
    with False \<open>o2\<close> s x v1 assms(3,4) show thesis
      by (intro that [of "n\<lparr>nic_fdbs := nic_fdbs n @ [e]\<rparr>" w2]) (simp_all add: nic_addFdb_def Let_def)
  qed
qed

text \<open>
  \<open>addNeigh\<close> asks for the address only: an entry with another MAC, of a node that was set up anew,
  is taken for the new one, and stays.
\<close>

lemma addNeigh_stale:
  assumes "manages N v" "able N v" "nic_netlink n = Some N" "nic_netns n = []"
    and "addr_form (ne_addr e)" "shell_word (ne_dev e)" "ov_neigh (v w) (ne_addr e, ne_dev e) = Some m"
  shows "\<exists>w'. nic_addNeigh e n w = ((True, n\<lparr>nic_neighs := nic_neighs n @ [e]\<rparr>), w') \<and> v w' = v w"
proof -
  let ?show = "Neigh_show (ne_addr e) (ne_dev e)"
  obtain b w1 where s: "entry_op N ?show w = (b, w1)" by fastforce
  have "v w1 = v w" using entry_law [OF assms(1) _ s] assms(5,6) by (simp add: entry_outcome_def split: if_splits)
  moreover have b using up_law [OF assms(2), of ?show w] s assms(5-7) by simp
  ultimately show ?thesis using s assms(3,4) by (simp add: nic_addNeigh_def Let_def)
qed

text \<open>What is to go is gone.\<close>

lemma delNeigh_up:
  assumes "manages N v" "able N v" "nic_netlink n = Some N" "nic_netns n = []"
    and "addr_form a" "mac_form m" "shell_word d" and "nic_delNeigh a m d n w = ((ok, n'), w')"
  shows "ov_neigh (v w') (a, d) = None"
proof -
  obtain b w1 where s: "entry_op N (Neigh_show a d) w = (b, w1)" by fastforce
  obtain o2 w2 where x: "entry_op N (Neigh_set False a m d) w1 = (o2, w2)" by fastforce
  have v1: "v w1 = v w" using entry_law [OF assms(1) _ s] assms(5,7) by (simp add: entry_outcome_def split: if_splits)
  have e: "entry_outcome o2 (Neigh_set False a m d) (v w1) (v w2)" using entry_law [OF assms(1) _ x] assms(5-7) by simp
  have "b" if "ov_neigh (v w) (a, d) \<noteq> None" using up_law [OF assms(2), of "Neigh_show a d" w] s that assms(5,7) by simp
  moreover have "o2" if "ov_neigh (v w) (a, d) \<noteq> None"
    using up_law [OF assms(2), of "Neigh_set False a m d" w1] x v1 that assms(5-7) by simp
  ultimately show ?thesis
    using assms(3,4,8) s x v1 e
    by (cases "ov_neigh (v w) (a, d) = None")
      (auto simp: nic_delNeigh_def entry_outcome_def split: bool.splits if_splits)
qed

lemma delFdb_up:
  assumes "manages N v" "able N v" "nic_netlink n = Some N" "nic_netns n = []"
    and "mac_form m" "addr_form u" "shell_word d" and "nic_delFdb u m d n w = ((ok, n'), w')"
  shows "(m, d, u) \<notin> ov_fdb (v w')"
proof -
  obtain b w1 where s: "entry_op N (Fdb_show m u d) w = (b, w1)" by fastforce
  obtain o2 w2 where x: "entry_op N (Fdb_set False m u d) w1 = (o2, w2)" by fastforce
  have v1: "v w1 = v w" using entry_law [OF assms(1) _ s] assms(5-7) by (simp add: entry_outcome_def split: if_splits)
  have e: "entry_outcome o2 (Fdb_set False m u d) (v w1) (v w2)" using entry_law [OF assms(1) _ x] assms(5-7) by simp
  have "b" if "u \<in> sends_to (v w) m d" using up_law [OF assms(2), of "Fdb_show m u d" w] s that assms(5-7) by simp
  moreover have "o2" if "u \<in> sends_to (v w) m d"
    using up_law [OF assms(2), of "Fdb_set False m u d" w1] x v1 that assms(5-7) by simp
  ultimately show ?thesis
    using assms(3,4,8) s x v1 e
    by (auto simp: nic_delFdb_def entry_outcome_def sends_to_def split: bool.splits if_splits)
qed

end

subsection \<open>\<open>NetlinkIpCmd\<close> fulfils the contract\<close>

text \<open>
  A search answers yes when it succeeds and prints a line; that \<open>bridge fdb show\<close> went through is told by
  the last \<open>grep\<close>. A change that fails leaves the tables as they were.
\<close>

fun entry_answer :: "entry_cmd \<Rightarrow> child \<Rightarrow> bool" where
  "entry_answer (Neigh_show a d) ch \<longleftrightarrow> exit_ok ch \<and> pop_newline (child_stdout ch) \<noteq> []"
| "entry_answer (Fdb_show m u d) ch \<longleftrightarrow> exit_ok ch \<and> pop_newline (child_stdout ch) \<noteq> []"
| "entry_answer c ch \<longleftrightarrow> exit_ok ch"

definition ip_entries_documented :: "'w host \<Rightarrow> ('w \<Rightarrow> overlay) \<Rightarrow> bool" where
  "ip_entries_documented run v \<longleftrightarrow> (\<forall>c w ch w'. entry_args_ok c \<longrightarrow> run (entry_text c) w = (ch, w') \<longrightarrow>
     entry_outcome (entry_answer c ch) c (v w) (v w'))"

definition ip_entries_able :: "'w host \<Rightarrow> ('w \<Rightarrow> overlay) \<Rightarrow> bool" where
  "ip_entries_able run v \<longleftrightarrow> (\<forall>c w. entry_args_ok c \<longrightarrow> entry_able (v w) c \<longrightarrow>
     entry_answer c (fst (run (entry_text c) w)))"

definition ip_entry_manages :: "'w netlink_if \<Rightarrow> ('w \<Rightarrow> overlay) \<Rightarrow> bool" where
  "ip_entry_manages N v \<longleftrightarrow> (\<exists>run. N = netlink_ip_cmd run \<and> ip_entries_documented run v)"

definition ip_entry_able :: "'w netlink_if \<Rightarrow> ('w \<Rightarrow> overlay) \<Rightarrow> bool" where
  "ip_entry_able N v \<longleftrightarrow> (\<exists>run. N = netlink_ip_cmd run \<and> ip_entries_able run v)"

lemma netlink_ip_cmd_entries:
  assumes "entry_args_ok c" "run (entry_text c) w = (ch, w')"
  shows "entry_op (netlink_ip_cmd run) c w = (entry_answer c ch, w')"
proof -
  have dev: "dev_arg d = ''dev '' @ d" if "shell_word d" for d using that by (auto simp: dev_arg_def shell_word_def)
  show ?thesis
    using assms by (cases c) (simp_all add: netlink_ip_cmd_def neighIsExist_def neighSetEntry_def fdbIsExist_def
        fdbSetEntry_def addNetns_def dev has_output_run executeCommand_run)
qed

interpretation ip_entry: overlay_table ip_entry_manages
proof (unfold_locales, goal_cases)
  case (1 N v c w ok w')
  from 1(1) obtain run where r: "N = netlink_ip_cmd run" "ip_entries_documented run v"
    unfolding ip_entry_manages_def by blast
  obtain ch w1 where c: "run (entry_text c) w = (ch, w1)" by fastforce
  with netlink_ip_cmd_entries [of c run w ch w1, OF 1(2) c] 1(3) r(1) have "ok = entry_answer c ch" "w1 = w'" by simp_all
  with r(2) 1(2) c show ?case unfolding ip_entries_documented_def by blast
qed

interpretation ip_entry_up: overlay_table_up ip_entry_manages ip_entry_able
proof (unfold_locales, goal_cases)
  case (1 N v c w)
  then obtain run where r: "N = netlink_ip_cmd run" "ip_entries_able run v" unfolding ip_entry_able_def by blast
  obtain ch w1 where c: "run (entry_text c) w = (ch, w1)" by fastforce
  from r(2) 1(2,3) have "entry_answer c (fst (run (entry_text c) w))" unfolding ip_entries_able_def by blast
  with netlink_ip_cmd_entries [of c run w ch w1, OF 1(2) c] c r(1) show ?case by simp
qed

text \<open>So a node that comes back with another MAC is not reached: its neighbour entry is the old one.\<close>

lemma stale_neighbour_taken_for_new:
  assumes "ip_entries_documented run v" "ip_entries_able run v"
    and "nic_netlink n = Some (netlink_ip_cmd run)" "nic_netns n = []"
    and "addr_form a" "shell_word d" "ov_neigh (v w) (a, d) = Some old"
  shows "\<exists>n' w'. nic_addNeigh (Neigh a new d) n w = ((True, n'), w') \<and> ov_neigh (v w') (a, d) = Some old"
proof -
  have "ip_entry_manages (netlink_ip_cmd run) v" "ip_entry_able (netlink_ip_cmd run) v"
    using assms(1,2) by (auto simp: ip_entry_manages_def ip_entry_able_def)
  from ip_entry_up.addNeigh_stale [OF this assms(3,4), of "Neigh a new d" w old] assms(5-7)
  show ?thesis by (force simp: Neigh_def)
qed

subsection \<open>The hypotheses can hold\<close>

text \<open>
  A host with the routes of \<open>demo_ip\<close> and the tables above: the text of a command says what it does.
\<close>

fun entry_cmd_words :: "entry_cmd \<Rightarrow> string list" where
  "entry_cmd_words (Neigh_show a d) = [''ip'', ''neigh'', ''show'', a, ''dev'', d]"
| "entry_cmd_words (Neigh_set add a m d) = [''ip'', ''neigh'', add_or_del add, a, ''lladdr'', m, ''dev'', d]"
| "entry_cmd_words (Fdb_show m u d) = [''bridge'', ''fdb'', ''show'', ''dev'', d, ''|'', ''grep'', m, ''|'', ''grep'', u]"
| "entry_cmd_words (Fdb_set add m u d) = [''bridge'', ''fdb'', add_or_del add, m, ''dev'', d, ''dst'', u]"

definition read_entry :: "string list \<Rightarrow> entry_cmd" where
  "read_entry ws =
     (if ws ! 1 = ''neigh''
      then (if ws ! 2 = ''show'' then Neigh_show (ws ! 3) (ws ! 5)
            else Neigh_set (ws ! 2 = ''add'') (ws ! 3) (ws ! 5) (ws ! 7))
      else (if ws ! 2 = ''show'' then Fdb_show (ws ! 7) (ws ! 10) (ws ! 4)
            else Fdb_set (ws ! 2 = ''add'') (ws ! 3) (ws ! 7) (ws ! 5)))"

lemma entry_text_spaced: "entry_text c = spaced (entry_cmd_words c)"
  by (cases c) simp_all

lemma read_entry_text: "entry_args_ok c \<Longrightarrow> read_entry (words (entry_text c)) = c"
proof -
  assume "entry_args_ok c"
  then have "\<forall>x \<in> set (entry_cmd_words c). CHR '' '' \<notin> set x \<and> x \<noteq> []"
    by (cases c) (auto simp: add_or_del_def dest!: entry_words shell_word_chars)
  then have "words (entry_text c) = entry_cmd_words c"
    unfolding entry_text_spaced by (subst words_spaced) (auto simp: filter_id_conv)
  then show ?thesis by (cases c) (simp_all add: read_entry_def add_or_del_def)
qed

definition is_entry_text :: "string \<Rightarrow> bool" where
  "is_entry_text cmd \<longleftrightarrow> take 9 cmd = ''ip neigh '' \<or> take 11 cmd = ''bridge fdb ''"

definition demo_host :: "(routes \<times> overlay) host" where
  "demo_host cmd w =
     (if is_entry_text cmd
      then (let c = read_entry (words cmd) in
            if entry_able (snd w) c then (Exited 0 ''entry'' [], fst w, entry_effect c (snd w)) else (Exited 1 [] [], w))
      else (case demo_ip cmd (fst w) of (ch, t) \<Rightarrow> (ch, t, snd w)))"

lemma entry_texts [simp]: "is_entry_text (entry_text c)"
  by (cases c) (simp_all add: is_entry_text_def)

lemma route_texts [simp]:
  "\<not> is_entry_text (ip_route_show dst via dev ns)" "\<not> is_entry_text (ip_route_set add dst via dev ns fl)"
  by (simp_all add: is_entry_text_def ip_route_show_def ip_route_set_def addNetns_def)

lemma able_shown: "entry_able v c \<Longrightarrow> entry_shown v c"
  by (cases c) auto

lemma demo_host_entry: "entry_args_ok c \<Longrightarrow> demo_host (entry_text c) w =
    (if entry_able (snd w) c then (Exited 0 ''entry'' [], fst w, entry_effect c (snd w)) else (Exited 1 [] [], w))"
  by (simp add: demo_host_def read_entry_text Let_def)

lemma demo_answers:
  "entry_answer c (Exited 0 ''entry'' [])" "\<not> entry_answer c (Exited 1 [] [])"
  by (cases c; simp add: exit_ok_def child_stdout_def pop_newline_def)+

lemma demo_host_entries: "ip_entries_documented demo_host snd" "ip_entries_able demo_host snd"
  by (auto simp: ip_entries_documented_def ip_entries_able_def demo_host_entry demo_answers entry_outcome_def
      able_shown split: if_splits)

text \<open>A host that does these commands on a part \<open>f\<close> of its world, as another does them on all of it.\<close>

lemma routes_documented_on_part:
  assumes "ip_routes_documented run t"
    and "\<And>cmd w ch w'. \<not> is_entry_text cmd \<Longrightarrow> host cmd w = (ch, w') \<Longrightarrow> run cmd (f w) = (ch, f w')"
  shows "ip_routes_documented host (\<lambda>w. t (f w))"
proof -
  note docs = ip_show_doc [OF assms(1)] ip_add_doc [OF assms(1)] ip_del_doc [OF assms(1)]
  show ?thesis
    unfolding ip_routes_documented_def
  proof ((intro conjI; (intro allI impI)?), goal_cases)
    case (1 dst via dev ns w ch w')
    then show ?case by (intro docs(1) assms(2)) simp_all
  next
    case (2 dst via dev ns fl w ch w')
    then show ?case by (intro docs(2) assms(2)) simp_all
  next
    case (3 dst via dev ns fl w ch w')
    then show ?case by (intro docs(3) assms(2)) simp_all
  qed
qed

lemma routes_able_on_part:
  assumes "ip_routes_able run t" "\<And>cmd w. \<not> is_entry_text cmd \<Longrightarrow> fst (host cmd w) = fst (run cmd (f w))"
  shows "ip_routes_able host (\<lambda>w. t (f w))"
  using assms(1) by (simp add: ip_routes_able_def assms(2))

lemma demo_host_routes: "ip_routes_documented demo_host fst"
  by (rule routes_documented_on_part [OF demo_ip_documented]) (auto simp: demo_host_def split: prod.splits)

lemma demo_host_routes_able: "ip_routes_able demo_host fst"
  by (rule routes_able_on_part [OF demo_ip_able]) (simp add: demo_host_def split: prod.splits)

text \<open>The same host in a world that has something else beside it.\<close>

definition on_fst :: "'a host \<Rightarrow> ('a \<times> 'b) host" where
  "on_fst run cmd w = (case run cmd (fst w) of (ch, x) \<Rightarrow> (ch, x, snd w))"

definition on_snd :: "'b host \<Rightarrow> ('a \<times> 'b) host" where
  "on_snd run cmd w = (case run cmd (snd w) of (ch, x) \<Rightarrow> (ch, fst w, x))"

lemma on_fst_run: "on_fst run cmd w = (ch, w') \<longleftrightarrow> run cmd (fst w) = (ch, fst w') \<and> snd w' = snd w"
  by (cases w') (auto simp: on_fst_def split: prod.splits)

lemma on_snd_run: "on_snd run cmd w = (ch, w') \<longleftrightarrow> run cmd (snd w) = (ch, snd w') \<and> fst w' = fst w"
  by (cases w') (auto simp: on_snd_def split: prod.splits)

lemma fst_on: "fst (on_fst run cmd w) = fst (run cmd (fst w))" "fst (on_snd run cmd' w') = fst (run cmd' (snd w'))"
  by (simp_all add: on_fst_def on_snd_def split: prod.splits)

lemma ip_on_snd:
  "ip_routes_documented run t \<Longrightarrow> ip_routes_documented (on_snd run) (\<lambda>w. t (snd w))"
  "ip_routes_able run t \<Longrightarrow> ip_routes_able (on_snd run) (\<lambda>w. t (snd w))"
  "ip_entries_documented run v \<Longrightarrow> ip_entries_documented (on_snd run) (\<lambda>w. v (snd w))"
  "ip_entries_able run v \<Longrightarrow> ip_entries_able (on_snd run) (\<lambda>w. v (snd w))"
     apply (rule routes_documented_on_part, assumption, simp add: on_snd_run)
    apply (rule routes_able_on_part, assumption, simp add: fst_on)
   apply (simp add: ip_entries_documented_def on_snd_run)
  apply (simp add: ip_entries_able_def fst_on)
  done

end
