(* ===== verification/Vxlan_Converge.thy ===== *)
theory Vxlan_Converge
  imports Vxlan_Facts Overlay_Spec Cni_Setup
begin

text \<open>
  What the VXLAN handler reaches when every command does what it can: the nodes with a VTEP record are
  connected, by a route, a neighbour and an FDB entry, and without a record of the node's own all are
  disconnected. Nodes that lost their record are the subject of \<open>Vxlan_Facts\<close>.
\<close>

subsection \<open>Vocabulary\<close>

text \<open>The address and the MAC of a node's VTEP, both empty without a record.\<close>

type_synonym vteps = "string \<Rightarrow> string \<times> string"

type_synonym peer = "string \<times> node_info"

abbreviation vtep_addr :: "vteps \<Rightarrow> peer \<Rightarrow> string" where
  "vtep_addr R e \<equiv> fst (R (fst e))"

abbreviation vtep_mac :: "vteps \<Rightarrow> peer \<Rightarrow> string" where
  "vtep_mac R e \<equiv> snd (R (fst e))"

text \<open>Data that can stand in a command, and nothing of it shared by two nodes.\<close>

definition peer_words :: "vteps \<Rightarrow> peer \<Rightarrow> bool" where
  "peer_words R e \<longleftrightarrow> shell_word (pod_cidr (snd e)) \<and> addr_form (internal_ip (snd e)) \<and>
     addr_form (vtep_addr R e) \<and> mac_form (vtep_mac R e)"

definition apart :: "vteps \<Rightarrow> peer \<Rightarrow> peer \<Rightarrow> bool" where
  "apart R e e' \<longleftrightarrow> pod_cidr (snd e) \<noteq> pod_cidr (snd e') \<and> vtep_addr R e \<noteq> vtep_addr R e' \<and> vtep_mac R e \<noteq> vtep_mac R e'"

definition peers_ok :: "vteps \<Rightarrow> peer set \<Rightarrow> bool" where
  "peers_ok R S \<longleftrightarrow> (\<forall>e \<in> S. vtep_addr R e \<noteq> [] \<longrightarrow> peer_words R e \<and>
     (\<forall>e' \<in> S. vtep_addr R e' \<noteq> [] \<longrightarrow> fst e \<noteq> fst e' \<longrightarrow> apart R e e'))"

text \<open>
  The kernel's tables (\<open>t\<close> the routes, \<open>v\<close> the neighbours and FDB entries) towards a node: all that
  leads to its pods is there; nothing else stands in the way; nothing of it is there.
\<close>

definition connected :: "vteps \<Rightarrow> routes \<Rightarrow> overlay \<Rightarrow> peer \<Rightarrow> bool" where
  "connected R t v e \<longleftrightarrow> route_there t [] (pod_cidr (snd e)) (vtep_addr R e) NAME_VXLAN \<and>
     ov_neigh v (vtep_addr R e, NAME_VXLAN) = Some (vtep_mac R e) \<and>
     internal_ip (snd e) \<in> sends_to v (vtep_mac R e) NAME_VXLAN"

definition unobstructed :: "vteps \<Rightarrow> routes \<Rightarrow> overlay \<Rightarrow> peer \<Rightarrow> bool" where
  "unobstructed R t v e \<longleftrightarrow>
     (t [] (pod_cidr (snd e)) = None \<or> route_there t [] (pod_cidr (snd e)) (vtep_addr R e) NAME_VXLAN) \<and>
     ov_neigh v (vtep_addr R e, NAME_VXLAN) \<in> {None, Some (vtep_mac R e)} \<and>
     sends_to v (vtep_mac R e) NAME_VXLAN \<subseteq> {internal_ip (snd e)}"

definition disconnected :: "vteps \<Rightarrow> routes \<Rightarrow> overlay \<Rightarrow> peer \<Rightarrow> bool" where
  "disconnected R t v e \<longleftrightarrow> \<not> route_there t [] (pod_cidr (snd e)) (vtep_addr R e) NAME_VXLAN \<and>
     ov_neigh v (vtep_addr R e, NAME_VXLAN) = None \<and>
     internal_ip (snd e) \<notin> sends_to v (vtep_mac R e) NAME_VXLAN"

text \<open>A step that touches nothing but what leads to \<open>e\<close>.\<close>

definition touches :: "vteps \<Rightarrow> peer \<Rightarrow> routes \<Rightarrow> overlay \<Rightarrow> routes \<Rightarrow> overlay \<Rightarrow> bool" where
  "touches R e t v t' v' \<longleftrightarrow> (\<forall>x. x \<noteq> pod_cidr (snd e) \<longrightarrow> t' [] x = t [] x) \<and>
     (\<forall>x. x \<noteq> vtep_addr R e \<longrightarrow> ov_neigh v' (x, NAME_VXLAN) = ov_neigh v (x, NAME_VXLAN)) \<and>
     (\<forall>m. m \<noteq> vtep_mac R e \<longrightarrow> sends_to v' m NAME_VXLAN = sends_to v m NAME_VXLAN)"

lemma dest_arg_peer: "peer_words R e \<Longrightarrow> dest_arg (pod_cidr (snd e)) = pod_cidr (snd e)"
  by (simp add: peer_words_def dest_arg_word)

lemma touches_others:
  assumes "touches R e t v t' v'" "apart R e e'" "peer_words R e'"
  shows "connected R t' v' e' \<longleftrightarrow> connected R t v e'" "unobstructed R t' v' e' \<longleftrightarrow> unobstructed R t v e'"
    "disconnected R t' v' e' \<longleftrightarrow> disconnected R t v e'"
proof -
  have r: "t' [] (pod_cidr (snd e')) = t [] (pod_cidr (snd e'))"
    and "ov_neigh v' (vtep_addr R e', NAME_VXLAN) = ov_neigh v (vtep_addr R e', NAME_VXLAN)"
    and "sends_to v' (vtep_mac R e') NAME_VXLAN = sends_to v (vtep_mac R e') NAME_VXLAN"
    using assms(1,2) unfolding touches_def apart_def by metis+
  moreover from r have "route_there t' [] (pod_cidr (snd e')) a d = route_there t [] (pod_cidr (snd e')) a d" for a d
    by (simp add: route_there_def dest_arg_peer [OF assms(3)])
  ultimately show "connected R t' v' e' \<longleftrightarrow> connected R t v e'" "unobstructed R t' v' e' \<longleftrightarrow> unobstructed R t v e'"
    "disconnected R t' v' e' \<longleftrightarrow> disconnected R t v e'"
    by (simp_all add: connected_def unobstructed_def disconnected_def)
qed

lemma peers_okD:
  "peers_ok R S \<Longrightarrow> e \<in> S \<Longrightarrow> vtep_addr R e \<noteq> [] \<Longrightarrow> peer_words R e"
  "peers_ok R S \<Longrightarrow> e \<in> S \<Longrightarrow> vtep_addr R e \<noteq> [] \<Longrightarrow> e' \<in> S \<Longrightarrow> vtep_addr R e' \<noteq> [] \<Longrightarrow> fst e \<noteq> fst e' \<Longrightarrow> apart R e e'"
  unfolding peers_ok_def by blast+

text \<open>The routes and the other two tables do not depend on each other's commands.\<close>

definition entries_keep :: "'w netlink_if \<Rightarrow> ('w \<Rightarrow> 'v) \<Rightarrow> bool" where
  "entries_keep N f \<longleftrightarrow> (\<forall>c w. entry_args_ok c \<longrightarrow> f (snd (entry_op N c w)) = f w)"

lemma entries_keepD: "entries_keep N f \<Longrightarrow> entry_op N c w = (ok, w') \<Longrightarrow> entry_args_ok c \<Longrightarrow> f w' = f w"
  unfolding entries_keep_def by (metis snd_conv)

lemma nic_entries_keep:
  assumes "entries_keep N f" "nic_netlink n = Some N" "nic_netns n = []"
  shows "addr_form (ne_addr e) \<Longrightarrow> mac_form (ne_mac e) \<Longrightarrow> shell_word (ne_dev e) \<Longrightarrow>
      nic_addNeigh e n w = ((ok, n'), w') \<Longrightarrow> f w' = f w"
    and "mac_form (fdb_mac x) \<Longrightarrow> addr_form (fdb_underlay_addr x) \<Longrightarrow> shell_word (fdb_dev x) \<Longrightarrow>
      nic_addFdb x n w = ((ok, n'), w') \<Longrightarrow> f w' = f w"
    and "addr_form a \<Longrightarrow> mac_form m \<Longrightarrow> shell_word d \<Longrightarrow> nic_delNeigh a m d n w = ((ok, n'), w') \<Longrightarrow> f w' = f w"
    and "addr_form u \<Longrightarrow> mac_form m \<Longrightarrow> shell_word d \<Longrightarrow> nic_delFdb u m d n w = ((ok, n'), w') \<Longrightarrow> f w' = f w"
proof -
  note keep = entries_keepD [OF assms(1), where c = "Neigh_show a d" for a d, simplified]
    entries_keepD [OF assms(1), where c = "Neigh_set b a m d" for b a m d, simplified]
    entries_keepD [OF assms(1), where c = "Fdb_show m u d" for m u d, simplified]
    entries_keepD [OF assms(1), where c = "Fdb_set b m u d" for b m u d, simplified]
  show "addr_form (ne_addr e) \<Longrightarrow> mac_form (ne_mac e) \<Longrightarrow> shell_word (ne_dev e) \<Longrightarrow>
      nic_addNeigh e n w = ((ok, n'), w') \<Longrightarrow> f w' = f w"
    by (auto simp: nic_addNeigh_def assms(2,3) Let_def dest!: keep split: prod.splits bool.splits)
  show "mac_form (fdb_mac x) \<Longrightarrow> addr_form (fdb_underlay_addr x) \<Longrightarrow> shell_word (fdb_dev x) \<Longrightarrow>
      nic_addFdb x n w = ((ok, n'), w') \<Longrightarrow> f w' = f w"
    by (auto simp: nic_addFdb_def assms(2,3) Let_def dest!: keep split: prod.splits bool.splits)
  show "addr_form a \<Longrightarrow> mac_form m \<Longrightarrow> shell_word d \<Longrightarrow> nic_delNeigh a m d n w = ((ok, n'), w') \<Longrightarrow> f w' = f w"
    by (auto simp: nic_delNeigh_def assms(2,3) dest!: keep split: prod.splits bool.splits)
  show "addr_form u \<Longrightarrow> mac_form m \<Longrightarrow> shell_word d \<Longrightarrow> nic_delFdb u m d n w = ((ok, n'), w') \<Longrightarrow> f w' = f w"
    by (auto simp: nic_delFdb_def assms(2,3) dest!: keep split: prod.splits bool.splits)
qed

lemma NAME_VXLAN_word [simp]: "shell_word NAME_VXLAN"
  by (simp add: NAME_VXLAN_def shell_word_def word_char_def)

lemma Neigh_Fdb_sel [simp]:
  "ne_addr (Neigh a m d) = a" "ne_mac (Neigh a m d) = m" "ne_dev (Neigh a m d) = d"
  "fdb_mac (Fdb m u d) = m" "fdb_underlay_addr (Fdb m u d) = u" "fdb_dev (Fdb m u d) = d"
  by (simp_all add: Neigh_def Fdb_def)

subsection \<open>One node\<close>

locale tunnel_kernel = r: route_table_up routed_by route_able + e: overlay_table_up entered_by entry_can
  for routed_by route_able :: "'w netlink_if \<Rightarrow> ('w \<Rightarrow> routes) \<Rightarrow> bool"
    and entered_by entry_can :: "'w netlink_if \<Rightarrow> ('w \<Rightarrow> overlay) \<Rightarrow> bool"
begin

text \<open>The commands of either kind leave the other tables alone, and the store (\<open>k\<close>).\<close>

definition kernel_ok :: "'w netlink_if \<Rightarrow> ('w \<Rightarrow> routes) \<Rightarrow> ('w \<Rightarrow> overlay) \<Rightarrow> ('w \<Rightarrow> string \<rightharpoonup> string) \<Rightarrow> bool" where
  "kernel_ok N t v k \<longleftrightarrow> routed_by N t \<and> route_able N t \<and> entered_by N v \<and> entry_can N v \<and> routes_keep N v \<and>
     entries_keep N t \<and> routes_keep N k \<and> entries_keep N k"

lemma add_one_up:
  assumes "kernel_ok N t v k" "nic_netlink n = Some N" "nic_netns n = []" "peer_words R (name, info)" "R name = (a, m)"
    and "unobstructed R (t w) (v w) (name, info)"
  obtains n' w' where "vxlan_add_one info a m n w = ((True, n'), w')" "nic_netlink n' = Some N" "nic_netns n' = []"
    "connected R (t w') (v w') (name, info)" "touches R (name, info) (t w) (v w) (t w') (v w')" "k w' = k w"
proof -
  have laws: "routed_by N t" "route_able N t" "entered_by N v" "entry_can N v" "routes_keep N v" "entries_keep N t"
    "routes_keep N k" "entries_keep N k" using assms(1) by (simp_all add: kernel_ok_def)
  have forms: "shell_word (pod_cidr info)" "addr_form (internal_ip info)" "addr_form a" "mac_form m"
    using assms(4,5) by (simp_all add: peer_words_def)
  note words = forms(1) entry_words(1) [OF forms(3)]
  let ?r = "Route (pod_cidr info) a NAME_VXLAN"
  obtain ok n1 w1 where s1: "nic_addRoute ?r NH_onlink n w = ((ok, n1), w1)" by (metis prod.collapse)
  have free: "t w [] (pod_cidr info) = None \<or> route_there (t w) [] (pod_cidr info) a NAME_VXLAN"
    using assms(5,6) by (simp add: unobstructed_def)
  with r.addRoute_up [OF laws(1,2) assms(2), of ?r w NH_onlink] s1 words assms(3) have ok by (simp add: dest_arg_word)
  with r.addRoute_law [OF laws(1) assms(2) _ _ _ _ s1] words assms(2,3)
  have n1: "nic_netlink n1 = Some N" "nic_netns n1 = []" and there: "route_there (t w1) [] (pod_cidr info) a NAME_VXLAN"
    and t1: "t w1 = t w \<or> added (t w) (t w1) [] (pod_cidr info) a NAME_VXLAN" by simp_all
  have v1: "v w1 = v w" using addRoute_keeps [OF laws(5) assms(2), of ?r NH_onlink w] s1 by simp
  obtain n2 w2 where s2: "nic_addNeigh (Neigh a m NAME_VXLAN) n1 w1 = ((True, n2), w2)" "nic_netlink n2 = Some N"
    "nic_netns n2 = []" and v2: "v w2 = v w\<lparr>ov_neigh := (ov_neigh (v w))((a, NAME_VXLAN) \<mapsto> m)\<rparr>"
    using e.addNeigh_up [OF laws(3,4) n1, of "Neigh a m NAME_VXLAN" w1] forms assms(5,6) v1
    by (auto simp: unobstructed_def)
  obtain n3 w3 where s3: "nic_addFdb (Fdb m (internal_ip info) NAME_VXLAN) n2 w2 = ((True, n3), w3)"
    "nic_netlink n3 = Some N" "nic_netns n3 = []"
    and v3: "v w3 = v w2\<lparr>ov_fdb := insert (m, NAME_VXLAN, internal_ip info) (ov_fdb (v w2))\<rparr>"
    using e.addFdb_up [OF laws(3,4) s2(2,3), of "Fdb m (internal_ip info) NAME_VXLAN" w2] forms assms(5,6) v2
    by (auto simp: unobstructed_def sends_to_def)
  have t3: "t w3 = t w1"
    using nic_entries_keep(1) [OF laws(6) n1, OF _ _ _ s2(1)] nic_entries_keep(2) [OF laws(6) s2(2,3), OF _ _ _ s3(1)] forms
    by simp
  have k3: "k w3 = k w"
    using addRoute_keeps [OF laws(7) assms(2), of ?r NH_onlink w] s1 nic_entries_keep(1) [OF laws(8) n1, OF _ _ _ s2(1)]
      nic_entries_keep(2) [OF laws(8) s2(2,3), OF _ _ _ s3(1)] forms by simp
  have "vxlan_add_one info a m n w = ((True, n3), w3)" using \<open>ok\<close> by (simp add: vxlan_add_one_def s1 s2 s3)
  moreover have "connected R (t w3) (v w3) (name, info)"
    using there assms(5) by (simp add: connected_def t3 v3 v2 sends_to_def)
  moreover have "touches R (name, info) (t w) (v w) (t w3) (v w3)"
    using t1 words(1) assms(5) by (auto simp: touches_def t3 v3 v2 sends_to_def added_def set_route_def dest_arg_word)
  ultimately show thesis using s3(2,3) k3 that by blast
qed

lemma del_one_up:
  assumes "kernel_ok N t v k" "nic_netlink n = Some N" "nic_netns n = []" "peer_words R (name, info)" "R name = (a, m)"
    and "vxlan_del_one info a m n w = (n', w')"
  shows "nic_netlink n' = Some N" "nic_netns n' = []" "disconnected R (t w') (v w') (name, info)"
    "touches R (name, info) (t w) (v w) (t w') (v w')" "k w' = k w"
proof -
  have laws: "routed_by N t" "route_able N t" "entered_by N v" "entry_can N v" "routes_keep N v" "entries_keep N t"
    "routes_keep N k" "entries_keep N k" using assms(1) by (simp_all add: kernel_ok_def)
  have forms: "shell_word (pod_cidr info)" "addr_form (internal_ip info)" "addr_form a" "mac_form m"
    using assms(4,5) by (simp_all add: peer_words_def)
  note words = forms(1) entry_words(1) [OF forms(3)]
  obtain o1 n1 w1 where s1: "nic_delRoute (pod_cidr info) a NAME_VXLAN n w = ((o1, n1), w1)" by (metis prod.collapse)
  have gone: "\<not> route_there (t w1) [] (pod_cidr info) a NAME_VXLAN"
    using r.delRoute_up [OF laws(1,2) assms(2), of "pod_cidr info" a NAME_VXLAN w] s1 words assms(3) by simp
  have n1: "nic_netlink n1 = Some N" "nic_netns n1 = []"
    and t1: "t w1 = t w \<or> removed (t w) (t w1) [] (pod_cidr info) a NAME_VXLAN"
    using r.delRoute_law [OF laws(1) assms(2) _ _ _ _ s1] words assms(2,3) by (auto split: if_splits)
  have v1: "v w1 = v w" using delRoute_keeps [OF laws(5) assms(2), of "pod_cidr info" a NAME_VXLAN w] s1 by simp
  obtain o2 n2 w2 where s2: "nic_delNeigh a m NAME_VXLAN n1 w1 = ((o2, n2), w2)" by (metis prod.collapse)
  note l2 = e.delNeigh_law [OF laws(3) n1 forms(3,4) NAME_VXLAN_word s2]
  note u2 = e.delNeigh_up [OF laws(3,4) n1 forms(3,4) NAME_VXLAN_word s2]
  obtain o3 n3 w3 where s3: "nic_delFdb (internal_ip info) m NAME_VXLAN n2 w2 = ((o3, n3), w3)" by (metis prod.collapse)
  note l3 = e.delFdb_law [OF laws(3) l2(1,2) forms(4,2) NAME_VXLAN_word s3]
  note u3 = e.delFdb_up [OF laws(3,4) l2(1,2) forms(4,2) NAME_VXLAN_word s3]
  have t3: "t w3 = t w1"
    using nic_entries_keep(3) [OF laws(6) n1 forms(3,4) NAME_VXLAN_word s2]
      nic_entries_keep(4) [OF laws(6) l2(1,2) forms(2,4) NAME_VXLAN_word s3] by simp
  have res: "n' = n3" "w' = w3" using assms(6) by (simp_all add: vxlan_del_one_def s1 s2 s3)
  show "k w' = k w"
    using delRoute_keeps [OF laws(7) assms(2), of "pod_cidr info" a NAME_VXLAN w] s1
      nic_entries_keep(3) [OF laws(8) n1 forms(3,4) NAME_VXLAN_word s2]
      nic_entries_keep(4) [OF laws(8) l2(1,2) forms(2,4) NAME_VXLAN_word s3] by (simp add: res)
  show "nic_netlink n' = Some N" "nic_netns n' = []" using l3 res by simp_all
  have neigh: "ov_neigh (v w3) = ov_neigh (v w2)" using l3(3) by auto
  show "disconnected R (t w') (v w') (name, info)"
    using gone u2 u3 by (simp add: disconnected_def res t3 neigh assms(5) sends_to_def)
  show "touches R (name, info) (t w) (v w) (t w') (v w')"
    using t1 l2(3) l3(3) words(1)
    by (auto simp: touches_def res t3 v1 assms(5) sends_to_def removed_def set_route_def dest_arg_word)
qed

end

subsection \<open>The two loops\<close>

text \<open>
  While the store is \<open>m\<close>, reading the record of a node among \<open>X\<close> gives \<open>R\<close> and touches none of what is
  considered here.
\<close>

definition records_known :: "'w storage_if \<Rightarrow> ('w \<Rightarrow> string \<rightharpoonup> string) \<Rightarrow> (string \<rightharpoonup> string) \<Rightarrow> vteps \<Rightarrow> string set
    \<Rightarrow> ('w \<Rightarrow> routes) \<Rightarrow> ('w \<Rightarrow> overlay) \<Rightarrow> bool" where
  "records_known S k m R X t v \<longleftrightarrow> (\<forall>x \<in> X. \<forall>w. k w = m \<longrightarrow>
     (\<exists>w'. st_getVtep S x w = (Inr (R x), w') \<and> k w' = m \<and> t w' = t w \<and> v w' = v w))"

lemma records_knownE:
  assumes "records_known S k m R X t v" "x \<in> X" "k w = m"
  obtains w' where "st_getVtep S x w = (Inr (R x), w')" "k w' = m" "t w' = t w" "v w' = v w"
  using assms unfolding records_known_def by blast

text \<open>All these nodes have a record, and are connected.\<close>

definition all_connected :: "vteps \<Rightarrow> routes \<Rightarrow> overlay \<Rightarrow> peer list \<Rightarrow> bool" where
  "all_connected R t v m \<longleftrightarrow> (\<forall>e \<in> set m. vtep_addr R e \<noteq> [] \<and> connected R t v e)"

definition none_obstructed :: "vteps \<Rightarrow> routes \<Rightarrow> overlay \<Rightarrow> peer list \<Rightarrow> bool" where
  "none_obstructed R t v m \<longleftrightarrow> (\<forall>e \<in> set m. vtep_addr R e \<noteq> [] \<longrightarrow> unobstructed R t v e)"

lemma loops_touch:
  assumes "touches R e t v t' v'" "peers_ok R S" "e \<in> S" "vtep_addr R e \<noteq> []" "set m \<subseteq> S" "fst e \<notin> fst ` set m"
  shows "all_connected R t v m \<Longrightarrow> all_connected R t' v' m"
    "none_obstructed R t v m \<Longrightarrow> none_obstructed R t' v' m"
proof -
  have "connected R t' v' x = connected R t v x" "unobstructed R t' v' x = unobstructed R t v x"
    if "x \<in> set m" "vtep_addr R x \<noteq> []" for x
  proof -
    have x: "x \<in> S" "fst e \<noteq> fst x" using assms(5,6) that(1) by auto
    note pr = peers_okD(2) [OF assms(2-4) x(1) that(2) x(2)] peers_okD(1) [OF assms(2) x(1) that(2)]
    show "connected R t' v' x = connected R t v x" "unobstructed R t' v' x = unobstructed R t v x"
      by (rule touches_others [OF assms(1) pr])+
  qed
  then show "all_connected R t v m \<Longrightarrow> all_connected R t' v' m"
    "none_obstructed R t v m \<Longrightarrow> none_obstructed R t' v' m"
    by (simp_all add: all_connected_def none_obstructed_def)
qed

text \<open>With a record of the node's own and no node lost, the second loop does nothing.\<close>

lemma vxlan_del_stays:
  assumes "records_known S k m R X t v" "current_vtep_addr \<noteq> []"
  shows "fst ` set cache \<subseteq> X \<Longrightarrow> \<forall>e \<in> set cache. vtep_addr R e \<noteq> [] \<Longrightarrow> k w = m \<Longrightarrow>
    \<exists>w'. vxlan_del fmt S current_vtep_addr cache n w = ((Inr (), cache, n), w') \<and> k w' = m \<and> t w' = t w \<and> v w' = v w"
proof (induction cache arbitrary: w)
  case (Cons e cache)
  obtain name info where e: "e = (name, info)" by fastforce
  obtain a mac where Rn: "R name = (a, mac)" by fastforce
  obtain w0 where g: "st_getVtep S name w = (Inr (R name), w0)" "k w0 = m" "t w0 = t w" "v w0 = v w"
    using assms(1) _ Cons.prems(3) by (rule records_knownE) (use Cons.prems(1) e in auto)
  with Cons.IH [of w0] Cons.prems Rn assms(2) show ?case by (auto simp: e)
qed simp

context tunnel_kernel
begin

lemma vxlan_add_up:
  assumes K: "kernel_ok N t v k" and S: "records_known S k m R X t v" and ok: "peers_ok R P" and X: "fst ` P \<subseteq> X"
  shows "set cluster \<subseteq> P \<Longrightarrow> set cache \<subseteq> P \<Longrightarrow> distinct_keys cluster \<Longrightarrow> distinct_keys cache \<Longrightarrow>
    nic_netlink n = Some N \<Longrightarrow> nic_netns n = [] \<Longrightarrow> k w = m \<Longrightarrow> none_obstructed R (t w) (v w) cluster \<Longrightarrow>
    all_connected R (t w) (v w) cache \<Longrightarrow> vxlan_add S current cluster cache n w = ((r, cache', n'), w') \<Longrightarrow>
    r = Inr () \<and> k w' = m \<and> distinct_keys cache' \<and>
    set cache \<subseteq> set cache' \<and> set cache' \<subseteq> set cache \<union> set cluster \<and> all_connected R (t w') (v w') cache' \<and>
    fst ` set cache' = fst ` set cache \<union> {x \<in> fst ` set cluster. x \<noteq> current \<and> fst (R x) \<noteq> []}"
proof (induction cluster arbitrary: cache n w)
  case (Cons e cluster)
  obtain name info where e: "e = (name, info)" by fastforce
  obtain a mac where Rn: "R name = (a, mac)" by fastforce
  have eP: "e \<in> P" and cP: "set cluster \<subseteq> P" using Cons.prems(1) by simp_all
  have keys: "fst e \<notin> fst ` set cluster" "distinct_keys cluster" using Cons.prems(3) by (auto simp: distinct_keys_def)
  have unob: "none_obstructed R (t w) (v w) cluster" and mine: "vtep_addr R e \<noteq> [] \<Longrightarrow> unobstructed R (t w) (v w) e"
    using Cons.prems(8) by (simp_all add: none_obstructed_def)
  obtain w0 where g: "st_getVtep S name w = (Inr (R name), w0)" "k w0 = m" "t w0 = t w" "v w0 = v w"
    using S _ Cons.prems(7) by (rule records_knownE) (use X eP e in auto)
  show ?case
  proof (cases "current \<noteq> name \<and> a \<noteq> [] \<and> map_of cache name = None")
    case False
    define w1 where "w1 = (if current = name then w else w0)"
    have same: "k w1 = m" "t w1 = t w" "v w1 = v w" using g Cons.prems(7) by (simp_all add: w1_def)
    have "vxlan_add S current cluster cache n w1 = ((r, cache', n'), w')"
      using Cons.prems(10) False g(1) by (auto simp: e Rn w1_def split: if_splits)
    from Cons.IH [OF cP Cons.prems(2) keys(2) Cons.prems(4-6) same(1) _ _ this] unob Cons.prems(9) same False
    show ?thesis by (auto simp: e Rn map_of_eq_None_iff)
  next
    case True
    have rec: "vtep_addr R e \<noteq> []" and fresh: "fst e \<notin> fst ` set cache"
      using True by (simp_all add: e Rn map_of_eq_None_iff)
    obtain n1 w1 where one: "vxlan_add_one info a mac n w0 = ((True, n1), w1)"
      and n1: "nic_netlink n1 = Some N" "nic_netns n1 = []"
      and con: "connected R (t w1) (v w1) e" and tou: "touches R e (t w) (v w) (t w1) (v w1)" and k1: "k w1 = m"
      using add_one_up [OF K Cons.prems(5,6), of R name info a mac w0] peers_okD(1) [OF ok eP rec] mine [OF rec] Rn g
      by (auto simp: e)
    note touch = loops_touch [OF tou ok eP rec]
    have "all_connected R (t w1) (v w1) (emplace name info cache)"
      using touch(1) [OF Cons.prems(2) fresh Cons.prems(9)] con rec set_emplace [of name info cache]
      by (auto simp: all_connected_def e)
    moreover have "vxlan_add S current cluster (emplace name info cache) n1 w1 = ((r, cache', n'), w')"
      using Cons.prems(10) True g(1) one by (simp add: e Rn)
    moreover have "set (emplace name info cache) \<subseteq> P" using set_emplace [of name info cache] eP Cons.prems(2) by (auto simp: e)
    ultimately have "r = Inr () \<and> k w' = m \<and> distinct_keys cache' \<and> set (emplace name info cache) \<subseteq> set cache' \<and>
        set cache' \<subseteq> set (emplace name info cache) \<union> set cluster \<and> all_connected R (t w') (v w') cache' \<and>
        fst ` set cache' = fst ` set (emplace name info cache) \<union> {x \<in> fst ` set cluster. x \<noteq> current \<and> fst (R x) \<noteq> []}"
      using Cons.IH [OF cP _ keys(2) distinct_keys_emplace [OF Cons.prems(4)] n1 k1 touch(2) [OF cP keys(1) unob]] by blast
    with True Rn set_emplace [of name info cache] emplace_grows [of cache name info] show ?thesis by (auto simp: e keys_emplace)
  qed
qed simp

text \<open>Without a record of the node's own, the second loop disconnects every node it knows.\<close>

lemma vxlan_del_up:
  assumes K: "kernel_ok N t v k" and S: "records_known S k m R X t v" and ok: "peers_ok R P" and X: "fst ` P \<subseteq> X"
  shows "set cache \<subseteq> P \<Longrightarrow> distinct_keys cache \<Longrightarrow> \<forall>e \<in> set cache. vtep_addr R e \<noteq> [] \<Longrightarrow>
    nic_netlink n = Some N \<Longrightarrow> nic_netns n = [] \<Longrightarrow> k w = m \<Longrightarrow> vxlan_del False S [] cache n w = ((r, cache', n'), w') \<Longrightarrow>
    r = Inr () \<and> k w' = m \<and> cache' = [] \<and> (\<forall>e \<in> set cache. disconnected R (t w') (v w') e) \<and>
    (\<forall>e \<in> P. fst e \<notin> fst ` set cache \<longrightarrow> vtep_addr R e \<noteq> [] \<longrightarrow>
       disconnected R (t w) (v w) e \<longrightarrow> disconnected R (t w') (v w') e)"
proof (induction cache arbitrary: n w)
  case (Cons e cache)
  obtain name info where e: "e = (name, info)" by fastforce
  obtain a mac where Rn: "R name = (a, mac)" by fastforce
  have eP: "e \<in> P" and cP: "set cache \<subseteq> P" and rec: "vtep_addr R e \<noteq> []" using Cons.prems(1,3) by simp_all
  have keys: "fst e \<notin> fst ` set cache" "distinct_keys cache" using Cons.prems(2) by (auto simp: distinct_keys_def)
  obtain w0 where g: "st_getVtep S name w = (Inr (R name), w0)" "k w0 = m" "t w0 = t w" "v w0 = v w"
    using S _ Cons.prems(6) by (rule records_knownE) (use X eP e in auto)
  obtain n1 w1 where one: "vxlan_del_one info a mac n w0 = (n1, w1)" by fastforce
  note words = peers_okD(1) [OF ok eP rec, unfolded e]
  note d = del_one_up [OF K Cons.prems(4,5) words Rn one, folded e, unfolded g(2-4)]
  have run: "vxlan_del False S [] cache n1 w1 = ((r, cache', n'), w')"
    using Cons.prems(7) g(1) one by (simp add: e Rn)
  have recs: "\<forall>e \<in> set cache. vtep_addr R e \<noteq> []" using Cons.prems(3) by simp
  note IH = Cons.IH [OF cP keys(2) recs d(1,2,5) run]
  have "disconnected R (t w1) (v w1) x"
    if x: "x \<in> P" "fst x \<noteq> fst e" "vtep_addr R x \<noteq> []" "disconnected R (t w) (v w) x" for x
  proof -
    note pr = peers_okD(2) [OF ok eP rec x(1,3) x(2) [symmetric]] peers_okD(1) [OF ok x(1,3)]
    show ?thesis using touches_others(3) [OF d(4) pr] x(4) by simp
  qed
  with IH d(3) keys(1) eP rec show ?case by auto
qed simp

end

interpretation tunnels: tunnel_kernel ip_cmd_manages ip_cmd_able ip_entry_manages ip_entry_able
  by unfold_locales

subsection \<open>The records in ETCD\<close>

text \<open>What the plugin writes for a node, and that this is what the handler reads.\<close>

definition vtep_recorded :: "(string \<rightharpoonup> string) \<Rightarrow> string \<Rightarrow> string \<times> string \<Rightarrow> bool" where
  "vtep_recorded m x p \<longleftrightarrow> (case m (getVtepKey x) of
       None \<Rightarrow> p = ([], [])
     | Some s \<Rightarrow> s = getVtepValue (fst p) (snd p) \<and> shell_word (fst p) \<and> shell_word (snd p) \<and>
         SEPARATOR \<notin> set (fst p) \<union> set (snd p))"

text \<open>
  The record that the plugin writes when it sets up a node in vxlan mode (\<open>node_created\<close> of \<open>Cni_Setup\<close>) is one
  that the handler can work with.
\<close>

lemma mac_form_setMacStr: "mac_form (setMacStr mac)"
proof -
  define H where "H = set ''0123456789abcdef:''"
  have "list_all (\<lambda>d. hex_digit d \<in> set ''0123456789abcdef:'') [0 ..< 16]" by code_simp
  then have digits: "\<forall>d \<in> {0 ..< 16}. hex_digit d \<in> H" unfolding list_all_iff set_upt H_def .
  have "hex_digit d \<in> H" if "d < 16" for d
    by (rule bspec [OF digits]) (simp only: atLeastLessThan_iff that le0 simp_thms)
  then have "set (hex2 b) \<subseteq> H" for b by (simp add: hex2_def)
  moreover have "CHR '':'' \<in> H" by (simp add: H_def)
  ultimately have "set (setMacStr mac) \<subseteq> H" by (auto simp: setMacStr_def split: if_splits)
  moreover have "[0 ..< 6] = [0, 1, 2, 3, 4, 5 :: nat]" by code_simp
  then have "length (setMacStr mac) = 17" by (simp add: setMacStr_def hex2_def)
  ultimately show ?thesis using setMacStr_word [of mac] by (simp only: mac_form_def H_def simp_thms)
qed

lemma addr_form_dotted: "addr_form (dotted a)"
proof -
  have "shell_word (dotted a)" using dotted_list_elem [of a] by (simp only: list_elem_def)
  moreover have "hd (dec n @ s) \<in> set (dec n)" for n s by (simp add: hd_append)
  then have "is_digit (hd (dec n @ s))" for n s by (rule dec_digits)
  then have "is_digit (hd (dotted a))" by (simp add: dotted_def)
  ultimately show ?thesis by (simp add: addr_form_def)
qed

lemma plugin_record_is_readable:
  assumes "m (getVtepKey node) = Some (getVtepValue (dotted net) (setMacStr mac))"
  shows "vtep_recorded m node (dotted net, setMacStr mac)"
proof -
  have "SEPARATOR \<notin> set (dotted net)" using dotted_chars [of SEPARATOR net] by (auto simp: SEPARATOR_def is_digit_def)
  moreover have "SEPARATOR \<notin> set (setMacStr mac)"
    using mac_form_setMacStr [of mac] by (auto simp: mac_form_def SEPARATOR_def)
  ultimately show ?thesis
    using assms addr_form_dotted [of net] mac_form_setMacStr [of mac]
    by (simp add: vtep_recorded_def entry_words)
qed

definition reads_keep :: "'w etcd_client_if \<Rightarrow> ('w \<Rightarrow> 'v) \<Rightarrow> bool" where
  "reads_keep E f \<longleftrightarrow> (\<forall>key out w. f (snd (ec_get E key out w)) = f w)"

lemma takeWhile_absent: "c \<notin> set s \<Longrightarrow> takeWhile (\<lambda>x. x \<noteq> c) s = s"
  by (induction s) auto

lemma vtep_reads_back:
  assumes "vtep_recorded m x p"
  shows "vtep_of (stored_text m (getVtepKey x)) = Inr p"
proof (cases "m (getVtepKey x)")
  case None
  with assms show ?thesis by (simp add: vtep_recorded_def stored_text_def vtep_of_def)
next
  case (Some s)
  with assms have p: "s = getVtepValue (fst p) (snd p)" "shell_word (fst p)" "shell_word (snd p)"
    "SEPARATOR \<notin> set (fst p)" "SEPARATOR \<notin> set (snd p)" by (simp_all add: vtep_recorded_def)
  then have "shell_word s" by (auto simp: getVtepValue_def shell_word_def SEPARATOR_def)
  with Some p(1) have "stored_text m (getVtepKey x) = getVtepValue (fst p) (snd p)" by (simp add: stored_word)
  moreover have "snd p \<noteq> []" using p(3) by (simp add: shell_word_def)
  ultimately show ?thesis using p(4,5) by (simp add: vtep_of_value takeWhile_absent)
qed

lemma stored_records_known:
  assumes "shell_serves E k" "shell_reliable E" "reads_keep E t" "reads_keep E v"
    and "\<forall>x \<in> X. name_ok x \<and> shell_word x \<and> vtep_recorded m x (R x)"
  shows "records_known (storage_ops E A) k m R X t v"
  unfolding records_known_def
proof (intro ballI allI impI)
  fix x w
  assume x: "x \<in> X" and km: "k w = m"
  obtain ok s w' where g: "ec_get E (getVtepKey x) [] w = ((ok, s), w')" by (metis prod.collapse)
  have "shell_word (getVtepKey x)" using assms(5) x entry_key_word [of "Vtep_of x"] by simp
  from etcd_shell.get_law [OF assms(1) this g] etcd_shell_up.up_get [OF assms(2), of "getVtepKey x" "[]" w] g km
  have "ok" "k w' = m" "s = stored_text m (getVtepKey x)" by simp_all
  moreover have "t w' = t w" "v w' = v w"
    using assms(3,4) [unfolded reads_keep_def, rule_format, of "getVtepKey x" "[]" w] g by simp_all
  moreover have "vtep_of (stored_text m (getVtepKey x)) = Inr (R x)" using assms(5) x by (intro vtep_reads_back) simp
  ultimately show "\<exists>w'. st_getVtep (storage_ops E A) x w = (Inr (R x), w') \<and> k w' = m \<and> t w' = t w \<and> v w' = v w"
    using g by (simp add: storage_ops_def storage_getVtep_def)
qed

subsection \<open>The handler\<close>

text \<open>The host: ETCD behind \<open>E\<close> keeps the store \<open>k\<close>, and \<open>run\<close> the kernel's tables \<open>t\<close> and \<open>v\<close>; none touches the others'.\<close>

definition tunnel_host :: "'w host \<Rightarrow> 'w etcd_client_if \<Rightarrow> ('w \<Rightarrow> string \<rightharpoonup> string) \<Rightarrow> ('w \<Rightarrow> routes) \<Rightarrow> ('w \<Rightarrow> overlay) \<Rightarrow> bool" where
  "tunnel_host run E k t v \<longleftrightarrow>
     ip_routes_documented run t \<and> ip_routes_able run t \<and> ip_entries_documented run v \<and> ip_entries_able run v \<and>
     shell_serves E k \<and> shell_reliable E \<and> reads_keep E t \<and> reads_keep E v \<and>
     routes_keep (netlink_ip_cmd run) v \<and> entries_keep (netlink_ip_cmd run) t \<and>
     routes_keep (netlink_ip_cmd run) k \<and> entries_keep (netlink_ip_cmd run) k"

definition vxlan_ready :: "'w host \<Rightarrow> 'w center_if \<Rightarrow> 'w storage_if \<Rightarrow> 'w nic \<Rightarrow> 'w vxlan_backend \<Rightarrow> bool" where
  "vxlan_ready run C S n b \<longleftrightarrow> bk_center b = Some C \<and> vb_storage b = Some S \<and> bk_nic b = Some n \<and>
     nic_netlink n = Some (netlink_ip_cmd run) \<and> nic_netns n = []"

text \<open>What holds between two events: the cached nodes have a record and are connected, the node itself is not cached.\<close>

definition vxlan_inv :: "vteps \<Rightarrow> string \<Rightarrow> routes \<Rightarrow> overlay \<Rightarrow> 'w vxlan_backend \<Rightarrow> bool" where
  "vxlan_inv R current t v b \<longleftrightarrow> distinct_keys (vb_cache b) \<and> map_of (vb_cache b) current = None \<and>
     all_connected R t v (vb_cache b)"

text \<open>The handler as its two loops.\<close>

lemma vxlan_eventHandler_loops:
  assumes "vxlan_ready run C S n b" "ct_all C w = (cluster, w1)" "st_getVtep S current w1 = (Inr (R current), w2)"
    and "vxlan_eventHandler lvl arrange current b w = ((r, b'), w')"
    and "(if fst (R current) \<noteq> [] then vxlan_add S current cluster (vb_cache b) n w2 else ((Inr (), vb_cache b, n), w2)) =
      ((Inr (), cache, n1), w3)"
    and "vxlan_del (info_formatted lvl) S (fst (R current)) (arrange cache) n1 w3 = ((r2, cache', n2), w4)"
  shows "r = r2" "b' = b\<lparr>vb_cache := cache', bk_nic := Some n2\<rparr>" "w' = w4"
proof -
  obtain a mac where own: "R current = (a, mac)" by fastforce
  have "vxlan_eventHandler lvl arrange current b w = ((r2, b\<lparr>vb_cache := cache', bk_nic := Some n2\<rparr>), w4)"
    using assms(1-3,5,6) by (cases "a = []") (simp_all add: vxlan_eventHandler_def vxlan_ready_def own)
  with assms(4) show "r = r2" "b' = b\<lparr>vb_cache := cache', bk_nic := Some n2\<rparr>" "w' = w4" by simp_all
qed

subsection \<open>Two nodes\<close>

text \<open>A world of a store and the kernel's tables; the node \<open>n1\<close>, and \<open>n2\<close> it does not know yet.\<close>

type_synonym tunnel_world = "(string \<rightharpoonup> string) \<times> routes \<times> overlay"

definition demo_run :: "tunnel_world host" where
  "demo_run = on_snd demo_host"

definition demo_tunnel_etcd :: "tunnel_world etcd_client_if" where
  "demo_tunnel_etcd = etcd_shell_if (\<lambda>_. []) \<lparr>command_prefix = demo_prefix, shell = on_fst (demo_etcdctl demo_prefix)\<rparr>"

definition demo_vteps :: vteps where
  "demo_vteps x = (if x = ''n1'' then (''10.244.1.0'', ''02:42:0a:f4:01:00'')
     else if x = ''n2'' then (''10.244.2.0'', ''02:42:0a:f4:02:00'') else ([], []))"

definition demo_world :: tunnel_world where
  "demo_world = ([getVtepKey ''n1'' \<mapsto> getVtepValue ''10.244.1.0'' ''02:42:0a:f4:01:00'',
      getVtepKey ''n2'' \<mapsto> getVtepValue ''10.244.2.0'' ''02:42:0a:f4:02:00''],
    no_routes, \<lparr>ov_neigh = Map.empty, ov_fdb = {}\<rparr>)"

definition demo_tunnel_nic :: "tunnel_world nic" where
  "demo_tunnel_nic = new_plain\<lparr>nic_netlink := Some (netlink_ip_cmd demo_run)\<rparr>"

definition demo_tunnel :: "tunnel_world vxlan_backend" where
  "demo_tunnel = new_vxlan_backend\<lparr>bk_center := Some demo_nodes,
     vb_storage := Some (storage_ops demo_tunnel_etcd demo_asio), bk_nic := Some demo_tunnel_nic\<rparr>"

lemma demo_run_keeps:
  "fst (snd (has_output demo_run cmd w)) = fst w" "fst (snd (executeCommand demo_run cmd w)) = fst w"
  by (cases "demo_run cmd w"; simp add: has_output_run executeCommand_run; simp add: demo_run_def on_snd_run)+

lemma demo_run_routes:
  assumes "\<not> is_entry_text cmd"
  shows "snd (snd (snd (has_output demo_run cmd w))) = snd (snd w)"
    "snd (snd (snd (executeCommand demo_run cmd w))) = snd (snd w)"
proof -
  obtain ch m t v where r: "demo_run cmd w = (ch, m, t, v)" by (metis prod.collapse)
  define w' where "w' = (m, t, v)"
  with r assms have "snd (snd w') = snd (snd w)" by (auto simp: demo_run_def on_snd_run demo_host_def split: prod.splits)
  moreover have r: "demo_run cmd w = (ch, w')" using r by (simp add: w'_def)
  ultimately show "snd (snd (snd (has_output demo_run cmd w))) = snd (snd w)"
    "snd (snd (snd (executeCommand demo_run cmd w))) = snd (snd w)"
    using has_output_run [of demo_run cmd w ch w', OF r] executeCommand_run [of demo_run cmd w ch w', OF r]
    by simp_all
qed

lemma demo_run_entries:
  assumes "entry_args_ok c"
  shows "fst (snd (entry_op (netlink_ip_cmd demo_run) c w)) = fst w"
    "fst (snd (snd (entry_op (netlink_ip_cmd demo_run) c w))) = fst (snd w)"
proof -
  obtain ch m t v where r: "demo_run (entry_text c) w = (ch, m, t, v)" by (metis prod.collapse)
  define w' where "w' = (m, t, v)"
  then have r: "demo_run (entry_text c) w = (ch, w')" using r by simp
  then have "fst w' = fst w" "fst (snd w') = fst (snd w)" unfolding w'_def
    by (auto simp: demo_run_def on_snd_run demo_host_entry [OF assms] split: if_splits)
  with netlink_ip_cmd_entries [of c demo_run w ch w', OF assms r]
  show "fst (snd (entry_op (netlink_ip_cmd demo_run) c w)) = fst w"
    "fst (snd (snd (entry_op (netlink_ip_cmd demo_run) c w))) = fst (snd w)" by simp_all
qed

lemma on_fst_etcdctl:
  "etcdctl_serves run p view \<Longrightarrow> etcdctl_serves (on_fst run) p (\<lambda>w. view (fst w))"
  "etcdctl_reliable run p \<Longrightarrow> etcdctl_reliable (on_fst run) p"
  unfolding etcdctl_serves_def etcdctl_reliable_def
  by (intro conjI allI impI; elim conjE; simp only: on_fst_run; blast)
    (simp add: fst_on)

lemma demo_tunnel_host: "tunnel_host demo_run demo_tunnel_etcd fst (\<lambda>w. fst (snd w)) (\<lambda>w. snd (snd w))"
proof -
  have "shell_serves demo_tunnel_etcd fst"
    unfolding shell_serves_def demo_tunnel_etcd_def
    by (intro exI conjI, rule refl) (simp add: on_fst_etcdctl(1) [OF demo_etcdctl_serves])
  moreover have "shell_reliable demo_tunnel_etcd"
    unfolding shell_reliable_def demo_tunnel_etcd_def
    by (intro exI conjI, rule refl) (simp add: on_fst_etcdctl(2) [OF demo_etcdctl_reliable])
  moreover have "snd (snd (ec_get demo_tunnel_etcd key out w)) = snd w" for key out w
    by (simp add: demo_tunnel_etcd_def etcd_get_def execute_def execute3_def on_fst_def split: prod.splits child.splits)
  then have "reads_keep demo_tunnel_etcd (\<lambda>w. fst (snd w))" "reads_keep demo_tunnel_etcd (\<lambda>w. snd (snd w))"
    by (simp_all add: reads_keep_def)
  moreover have "routes_keep (netlink_ip_cmd demo_run) (\<lambda>w. snd (snd w))" "routes_keep (netlink_ip_cmd demo_run) fst"
    by (simp_all add: routes_keep_def demo_run_keeps demo_run_routes)
  moreover have "entries_keep (netlink_ip_cmd demo_run) (\<lambda>w. fst (snd w))" "entries_keep (netlink_ip_cmd demo_run) fst"
    by (simp_all add: entries_keep_def demo_run_entries)
  moreover have "ip_routes_documented demo_run (\<lambda>w. fst (snd w))" "ip_routes_able demo_run (\<lambda>w. fst (snd w))"
    "ip_entries_documented demo_run (\<lambda>w. snd (snd w))" "ip_entries_able demo_run (\<lambda>w. snd (snd w))"
    unfolding demo_run_def by (rule ip_on_snd demo_host_routes demo_host_routes_able demo_host_entries)+
  ultimately show ?thesis unfolding tunnel_host_def by simp
qed

lemma demo_tunnel_ready: "vxlan_ready demo_run demo_nodes (storage_ops demo_tunnel_etcd demo_asio) demo_tunnel_nic demo_tunnel"
  by (simp add: vxlan_ready_def demo_tunnel_def demo_tunnel_nic_def new_plain_def new_nic_def)

lemma demo_tunnel_cache: "vb_cache demo_tunnel = []"
  by (simp add: demo_tunnel_def new_vxlan_backend_def new_backend_def backend.defs)

lemma demo_vtep_recorded: "vtep_recorded (fst demo_world) x (demo_vteps x)"
proof -
  have key: "getVtepKey x = getVtepKey y \<longleftrightarrow> x = y" for y by (simp add: getVtepKey_def)
  show ?thesis
    by (simp add: vtep_recorded_def demo_world_def demo_vteps_def key shell_word_def word_char_def SEPARATOR_def)
qed

lemma demo_tunnel_state:
  "ct_all demo_nodes w = (demo_cluster, w)"
  "none_obstructed demo_vteps (fst (snd demo_world)) (snd (snd demo_world)) demo_cluster"
  "vxlan_inv demo_vteps ''n1'' (fst (snd demo_world)) (snd (snd demo_world)) demo_tunnel"
    apply (simp add: demo_nodes_def)
   apply (simp add: none_obstructed_def demo_cluster_def unobstructed_def demo_world_def no_routes_def sends_to_def)
  apply (simp add: vxlan_inv_def demo_tunnel_cache distinct_keys_def all_connected_def)
  done

lemma demo_peers_ok: "peers_ok demo_vteps (set demo_cluster)" "distinct_keys demo_cluster"
  by (simp_all add: peers_ok_def peer_words_def apart_def demo_cluster_def demo_vteps_def addr_form_def mac_form_def
      shell_word_def word_char_def is_digit_def distinct_keys_def)

subsection \<open>Property\<close>

text \<open>
  C8: When every command does what it can, nothing foreign stands in the way and no cached node has lost
  its VTEP record, the VXLAN handler reaches exactly the state it aims at, and can start from it again.
  \<open>R\<close> gives the VTEPs that the plugins of the nodes have recorded in ETCD. If the node has one of its own,
  the cached nodes are afterwards all other nodes, of the cluster or cached before, that have one, and
  each of them is connected: the route of its pods through its VTEP, the neighbour entry of the VTEP and
  the FDB entry to its machine are in the kernel. If the node has none, no node is cached, and of those
  that were nothing is left in the kernel. The store is as it was. The last case needs that the info
  lines of the backend are not formatted: where they are, as by the default of the daemon, dropping
  the first cached node ends in undefined behaviour, since the log line reads the erased entry.
\<close>

theorem vxlan_handler_converges:
  assumes "tunnel_host run E k t v" and "vxlan_ready run C (storage_ops E A) n b" and "arranges arrange"
    and "ct_all C w = (cluster, w1)" "k w1 = k w" "t w1 = t w" "v w1 = v w"
    and "\<forall>x \<in> insert current (fst ` (set cluster \<union> set (vb_cache b))). name_ok x \<and> shell_word x \<and> vtep_recorded (k w) x (R x)"
    and "peers_ok R (set cluster \<union> set (vb_cache b))" "distinct_keys cluster"
    and "none_obstructed R (t w) (v w) cluster" "vxlan_inv R current (t w) (v w) b"
    and "vxlan_eventHandler lvl arrange current b w = ((r, b'), w')"
  shows "if info_formatted lvl \<and> fst (R current) = [] \<and> vb_cache b \<noteq> []
    then r = Inl Undefined_behaviour
    else r = Inr () \<and> k w' = k w \<and> vxlan_inv R current (t w') (v w') b' \<and>
      fst ` set (vb_cache b') = {x \<in> fst ` (set cluster \<union> set (vb_cache b)).
        fst (R current) \<noteq> [] \<and> x \<noteq> current \<and> fst (R x) \<noteq> []} \<and>
      (\<forall>e \<in> set (vb_cache b) - set (vb_cache b'). disconnected R (t w') (v w') e)"
proof -
  let ?N = "netlink_ip_cmd run" and ?S = "storage_ops E A" and ?P = "set cluster \<union> set (vb_cache b)"
  have K: "tunnels.kernel_ok ?N t v k"
    using assms(1) by (auto simp: tunnels.kernel_ok_def tunnel_host_def ip_cmd_manages_def ip_cmd_able_def
        ip_entry_manages_def ip_entry_able_def)
  have S: "records_known ?S k (k w) R (insert current (fst ` ?P)) t v"
    using assms(1) by (intro stored_records_known assms(8)) (simp_all add: tunnel_host_def)
  have X: "fst ` ?P \<subseteq> insert current (fst ` ?P)" by blast
  have nic: "nic_netlink n = Some ?N" "nic_netns n = []" using assms(2) by (simp_all add: vxlan_ready_def)
  obtain w2 where own: "st_getVtep ?S current w1 = (Inr (R current), w2)" and w2: "k w2 = k w" "t w2 = t w" "v w2 = v w"
    using records_knownE [OF S insertI1 assms(5)] assms(6,7) by metis
  have inv: "distinct_keys (vb_cache b)" "current \<notin> fst ` set (vb_cache b)" "all_connected R (t w2) (v w2) (vb_cache b)"
    using assms(12) w2 by (simp_all add: vxlan_inv_def map_of_eq_None_iff)
  note loops = vxlan_eventHandler_loops [where R = R and arrange = arrange and current = current, OF assms(2,4) own assms(13)]
  show ?thesis
  proof (cases "fst (R current) = []")
    case True
    let ?cache = "arrange (vb_cache b)"
    have ar: "set ?cache = set (vb_cache b)" "distinct_keys ?cache"
      using arranges_set [OF assms(3)] arranges_distinct [OF assms(3)] inv(1) by simp_all
    show ?thesis
    proof (cases "info_formatted lvl \<and> ?cache \<noteq> []")
      case fmt: True
      then obtain name info rest where c: "?cache = (name, info) # rest" by (cases ?cache) auto
      then have "name \<in> fst ` set (vb_cache b)" using ar(1) by (auto intro: rev_image_eqI)
      then obtain w3 where g: "st_getVtep ?S name w2 = (Inr (R name), w3)" using records_knownE [OF S _ w2(1)] by blast
      obtain n3 w4 where one: "vxlan_del_one info (fst (R name)) (snd (R name)) n w3 = (n3, w4)" by fastforce
      have "vxlan_del (info_formatted lvl) ?S [] ?cache n w2 = ((Inl Undefined_behaviour, rest, n3), w4)"
        using fmt g one by (simp add: c split_beta)
      with loops True fmt ar(1) show ?thesis by auto
    next
      case quiet: False
      obtain r2 cache' n2 w3 where d: "vxlan_del False ?S [] ?cache n w2 = ((r2, cache', n2), w3)" by (metis prod.collapse)
      have "\<forall>e \<in> set ?cache. vtep_addr R e \<noteq> []" using inv(3) ar(1) by (simp add: all_connected_def)
      from tunnels.vxlan_del_up [OF K S assms(9) X _ ar(2) this nic w2(1) d] ar(1)
      have "r2 = Inr ()" "k w3 = k w" "cache' = []" "\<forall>e \<in> set (vb_cache b). disconnected R (t w3) (v w3) e" by simp_all
      moreover have "vxlan_del (info_formatted lvl) ?S [] ?cache n w2 = ((r2, cache', n2), w3)"
        using quiet d by (cases "?cache = []") auto
      moreover have "info_formatted lvl \<Longrightarrow> vb_cache b = []" using quiet ar(1) by auto
      ultimately show ?thesis using loops True by (auto simp: vxlan_inv_def all_connected_def distinct_keys_def)
    qed
  next
    case False
    obtain r1 cache n1 w3 where a: "vxlan_add ?S current cluster (vb_cache b) n w2 = ((r1, cache, n1), w3)"
      by (metis prod.collapse)
    have "none_obstructed R (t w2) (v w2) cluster" using assms(11) w2 by simp
    from tunnels.vxlan_add_up [OF K S assms(9) X _ _ assms(10) inv(1) nic w2(1) this inv(3) a]
    have res: "r1 = Inr ()" "k w3 = k w" "distinct_keys cache" "set (vb_cache b) \<subseteq> set cache" "set cache \<subseteq> ?P"
      "all_connected R (t w3) (v w3) cache"
      "fst ` set cache = fst ` set (vb_cache b) \<union> {x \<in> fst ` set cluster. x \<noteq> current \<and> fst (R x) \<noteq> []}" by auto
    have ar: "set (arrange cache) = set cache" "distinct_keys (arrange cache)"
      using arranges_set [OF assms(3)] arranges_distinct [OF assms(3)] res(3) by simp_all
    have "fst ` set (arrange cache) \<subseteq> insert current (fst ` ?P)" using ar(1) res(5) by auto
    moreover have "\<forall>e \<in> set (arrange cache). vtep_addr R e \<noteq> []" using res(6) ar(1) by (simp add: all_connected_def)
    ultimately obtain w4 where d: "vxlan_del (info_formatted lvl) ?S (fst (R current)) (arrange cache) n1 w3 = ((Inr (), arrange cache, n1), w4)"
      and w4: "k w4 = k w" "t w4 = t w3" "v w4 = v w3"
      using vxlan_del_stays [OF S False, of "arrange cache" w3 "info_formatted lvl" n1] res(2) by auto
    have h: "r = Inr ()" "vb_cache b' = arrange cache" "w' = w4" using loops [OF _ d] a res(1) False by simp_all
    have "\<forall>x \<in> fst ` set (vb_cache b). x \<noteq> current \<and> fst (R x) \<noteq> []"
      using inv(2,3) by (auto simp: all_connected_def)
    then have "fst ` set cache = {x \<in> fst ` ?P. x \<noteq> current \<and> fst (R x) \<noteq> []}" unfolding res(7) by blast
    with h ar res w4 False show ?thesis by (auto simp: vxlan_inv_def all_connected_def map_of_eq_None_iff)
  qed
qed

theorem vxlan_handler_converges_witness:
  "\<exists>b w. vxlan_eventHandler Info (\<lambda>m. m) ''n1'' demo_tunnel demo_world = ((Inr (), b), w) \<and>
     fst ` set (vb_cache b) = {''n2''} \<and> (\<exists>e \<in> set (vb_cache b). connected demo_vteps (fst (snd w)) (snd (snd w)) e)"
proof -
  obtain r b w where h: "vxlan_eventHandler Info (\<lambda>m. m) ''n1'' demo_tunnel demo_world = ((r, b), w)" by (metis prod.collapse)
  have peers: "peers_ok demo_vteps (set demo_cluster \<union> set (vb_cache demo_tunnel))"
    using demo_peers_ok(1) by (simp add: demo_tunnel_cache)
  have vteps: "fst (demo_vteps ''n1'') \<noteq> []" "fst (demo_vteps ''n2'') \<noteq> []" by (simp_all add: demo_vteps_def)
  have names: "fst ` (set demo_cluster \<union> set (vb_cache demo_tunnel)) = {''n1'', ''n2''}"
    by (simp add: demo_tunnel_cache demo_cluster_def)
  have recorded: "\<forall>x \<in> insert ''n1'' (fst ` (set demo_cluster \<union> set (vb_cache demo_tunnel))).
      name_ok x \<and> shell_word x \<and> vtep_recorded (fst demo_world) x (demo_vteps x)"
    unfolding names using demo_vtep_recorded by (simp add: name_ok_def shell_word_def word_char_def)
  note res = vxlan_handler_converges [where k = fst and t = "\<lambda>w. fst (snd w)" and v = "\<lambda>w. snd (snd w)",
      OF demo_tunnel_host demo_tunnel_ready demo_gw_facts(4) demo_tunnel_state(1) refl refl refl recorded peers
      demo_peers_ok(2) demo_tunnel_state(2,3) h]
  have names': "{x \<in> fst ` (set demo_cluster \<union> set (vb_cache demo_tunnel)).
      fst (demo_vteps ''n1'') \<noteq> [] \<and> x \<noteq> ''n1'' \<and> fst (demo_vteps x) \<noteq> []} = {''n2''}"
    unfolding names using vteps by auto
  have quiet: "\<not> (info_formatted Info \<and> fst (demo_vteps ''n1'') = [] \<and> vb_cache demo_tunnel \<noteq> [])" using vteps by simp
  note res = res [unfolded if_not_P [OF quiet]]
  from res names' have keys: "r = Inr ()" "fst ` set (vb_cache b) = {''n2''}" by simp_all
  have "''n2'' \<in> fst ` set (vb_cache b)" unfolding keys(2) by (rule insertI1)
  then obtain e where "e \<in> set (vb_cache b)" by (rule imageE)
  with res have "\<exists>e \<in> set (vb_cache b). connected demo_vteps (fst (snd w)) (snd (snd w)) e"
    unfolding vxlan_inv_def all_connected_def by blast
  with h keys show ?thesis by blast
qed

end
