(* ===== verification/Vxlan_Return.thy ===== *)
theory Vxlan_Return
  imports Vxlan_Converge
begin

text \<open>
  What the VXLAN handler does with a node that comes back with another MAC while the neighbour entry of
  its old VTEP is still in the kernel, where \<open>Vxlan_Facts\<close> has it stay: it counts as connected and is not,
  for good.
\<close>

subsection \<open>Adding one node\<close>

text \<open>The cluster, as any event finds it.\<close>

definition cluster_is :: "'w center_if \<Rightarrow> (string \<times> node_info) list \<Rightarrow> ('w \<Rightarrow> string \<rightharpoonup> string) \<Rightarrow> ('w \<Rightarrow> routes) \<Rightarrow> ('w \<Rightarrow> overlay) \<Rightarrow> bool" where
  "cluster_is C cluster k t v \<longleftrightarrow>
     (\<forall>w. \<exists>w'. ct_all C w = (cluster, w') \<and> k w' = k w \<and> t w' = t w \<and> v w' = v w)"

lemma cluster_isE:
  assumes "cluster_is C cluster k t v"
  obtains w' where "ct_all C w = (cluster, w')" "k w' = k w" "t w' = t w" "v w' = v w"
  using assms unfolding cluster_is_def by blast

text \<open>
  Adding a node whose route and FDB entry nothing stands in the way of, while its address has an entry
  with another MAC: every addition succeeds, and the entry stays as it is.
\<close>

definition stale :: "vteps \<Rightarrow> routes \<Rightarrow> overlay \<Rightarrow> peer \<Rightarrow> string \<Rightarrow> bool" where
  "stale R t v e old \<longleftrightarrow>
     (t [] (pod_cidr (snd e)) = None \<or> route_there t [] (pod_cidr (snd e)) (vtep_addr R e) NAME_VXLAN) \<and>
     sends_to v (vtep_mac R e) NAME_VXLAN \<subseteq> {internal_ip (snd e)} \<and>
     ov_neigh v (vtep_addr R e, NAME_VXLAN) = Some old \<and> old \<noteq> vtep_mac R e"

context tunnel_kernel
begin

lemma add_one_stale:
  assumes "kernel_ok N t v k" "nic_netlink n = Some N" "nic_netns n = []" "peer_words R (name, info)" "R name = (a, m)"
    and "stale R (t w) (v w) (name, info) old"
  shows "\<exists>n' w'. vxlan_add_one info a m n w = ((True, n'), w') \<and> nic_netlink n' = Some N \<and> nic_netns n' = [] \<and>
    k w' = k w \<and> ov_neigh (v w') (a, NAME_VXLAN) = Some old"
proof -
  have laws: "routed_by N t" "route_able N t" "entered_by N v" "entry_can N v" "routes_keep N v" "entries_keep N t"
    "routes_keep N k" "entries_keep N k" using assms(1) by (simp_all add: kernel_ok_def)
  have forms: "shell_word (pod_cidr info)" "addr_form (internal_ip info)" "addr_form a" "mac_form m"
    using assms(4,5) by (simp_all add: peer_words_def)
  note words = forms(1) entry_words(1) [OF forms(3)]
  have st: "t w [] (pod_cidr info) = None \<or> route_there (t w) [] (pod_cidr info) a NAME_VXLAN"
    "sends_to (v w) m NAME_VXLAN \<subseteq> {internal_ip info}" "ov_neigh (v w) (a, NAME_VXLAN) = Some old"
    using assms(5,6) by (simp_all add: stale_def)
  let ?r = "Route (pod_cidr info) a NAME_VXLAN" and ?e = "Neigh a m NAME_VXLAN"
  obtain ok n1 w1 where s1: "nic_addRoute ?r NH_onlink n w = ((ok, n1), w1)" by (metis prod.collapse)
  with r.addRoute_up [OF laws(1,2) assms(2), of ?r w NH_onlink] words assms(3) st(1) have ok by (simp add: dest_arg_word)
  with r.addRoute_law [OF laws(1) assms(2) _ _ _ _ s1] words assms(2,3)
  have n1: "nic_netlink n1 = Some N" "nic_netns n1 = []" by simp_all
  have v1: "v w1 = v w" and k1: "k w1 = k w"
    using addRoute_keeps [OF laws(5) assms(2), of ?r NH_onlink w] addRoute_keeps [OF laws(7) assms(2), of ?r NH_onlink w] s1
    by simp_all
  obtain w2 where s2: "nic_addNeigh ?e n1 w1 = ((True, n1\<lparr>nic_neighs := nic_neighs n1 @ [?e]\<rparr>), w2)" and v2: "v w2 = v w1"
    using e.addNeigh_stale [OF laws(3,4) n1, of ?e w1 old] forms st(3) v1 by auto
  have n2: "nic_netlink (n1\<lparr>nic_neighs := nic_neighs n1 @ [?e]\<rparr>) = Some N"
    "nic_netns (n1\<lparr>nic_neighs := nic_neighs n1 @ [?e]\<rparr>) = []" using n1 by simp_all
  obtain n3 w3 where s3: "nic_addFdb (Fdb m (internal_ip info) NAME_VXLAN) (n1\<lparr>nic_neighs := nic_neighs n1 @ [?e]\<rparr>) w2 =
      ((True, n3), w3)" "nic_netlink n3 = Some N" "nic_netns n3 = []"
    and v3: "v w3 = v w2\<lparr>ov_fdb := insert (m, NAME_VXLAN, internal_ip info) (ov_fdb (v w2))\<rparr>"
    using e.addFdb_up [OF laws(3,4) n2, of "Fdb m (internal_ip info) NAME_VXLAN" w2] forms st(2) v1 v2 by auto
  have "k w3 = k w"
    using k1 nic_entries_keep(1) [OF laws(8) n1, OF _ _ _ s2] nic_entries_keep(2) [OF laws(8) n2, OF _ _ _ s3(1)] forms by simp
  moreover have "ov_neigh (v w3) (a, NAME_VXLAN) = Some old" using v1 v2 v3 st(3) by simp
  ultimately show ?thesis using s3(2,3) \<open>ok\<close> by (simp add: vxlan_add_one_def s1 s2 s3(1))
qed

end

text \<open>
  Whatever commands fail, adding a node writes nothing but what leads to it, the roll-back included.
\<close>

definition only_touches :: "'w netlink_if \<Rightarrow> vteps \<Rightarrow> peer \<Rightarrow> ('w \<Rightarrow> routes) \<Rightarrow> ('w \<Rightarrow> overlay) \<Rightarrow> ('w \<Rightarrow> string \<rightharpoonup> string)
    \<Rightarrow> 'w \<Rightarrow> 'w nic \<Rightarrow> 'w \<Rightarrow> bool" where
  "only_touches N R e t v k w n' w' \<longleftrightarrow> nic_netlink n' = Some N \<and> nic_netns n' = [] \<and> k w' = k w \<and>
     touches R e (t w) (v w) (t w') (v w')"

lemma only_touches_trans:
  "only_touches N R e t v k w n1 w1 \<Longrightarrow> only_touches N R e t v k w1 n2 w2 \<Longrightarrow> only_touches N R e t v k w n2 w2"
  by (simp add: only_touches_def touches_def)

lemma only_touches_nic: "only_touches N R e t v k w n' w' \<Longrightarrow> nic_netlink n' = Some N \<and> nic_netns n' = []"
  by (simp add: only_touches_def)

context tunnel_kernel
begin

lemma route_step_touches:
  assumes "kernel_ok N t v k" "nic_netlink n = Some N" "nic_netns n = []" "peer_words R (name, info)" "R name = (a, m)"
  shows "nic_addRoute (Route (pod_cidr info) a NAME_VXLAN) fl n w = ((ok, n'), w') \<Longrightarrow>
      only_touches N R (name, info) t v k w n' w'"
    and "nic_delRoute (pod_cidr info) a [] n w = ((ok, n'), w') \<Longrightarrow> only_touches N R (name, info) t v k w n' w'"
proof -
  have laws: "routed_by N t" "routes_keep N v" "routes_keep N k" using assms(1) by (simp_all add: kernel_ok_def)
  have words: "shell_word (pod_cidr info)" "shell_word a" using assms(4,5) by (simp_all add: peer_words_def entry_words)
  show "only_touches N R (name, info) t v k w n' w'"
    if s: "nic_addRoute (Route (pod_cidr info) a NAME_VXLAN) fl n w = ((ok, n'), w')"
    using r.addRoute_law [OF laws(1) assms(2) _ _ _ _ s] words assms(2,3)
      addRoute_keeps [OF laws(2) assms(2), of "Route (pod_cidr info) a NAME_VXLAN" fl w]
      addRoute_keeps [OF laws(3) assms(2), of "Route (pod_cidr info) a NAME_VXLAN" fl w] s
    by (auto simp: only_touches_def touches_def added_def set_route_def dest_arg_word split: if_splits)
  show "only_touches N R (name, info) t v k w n' w'" if s: "nic_delRoute (pod_cidr info) a [] n w = ((ok, n'), w')"
    using r.delRoute_law [OF laws(1) assms(2) _ _ _ _ s] words assms(2,3)
      delRoute_keeps [OF laws(2) assms(2), of "pod_cidr info" a "[]" w]
      delRoute_keeps [OF laws(3) assms(2), of "pod_cidr info" a "[]" w] s
    by (auto simp: only_touches_def touches_def removed_def set_route_def dest_arg_word split: if_splits)
qed

lemma entry_step_touches:
  assumes "kernel_ok N t v k" "nic_netlink n = Some N" "nic_netns n = []" "peer_words R (name, info)" "R name = (a, m)"
  shows "nic_addNeigh (Neigh a m NAME_VXLAN) n w = ((ok, n'), w') \<Longrightarrow> only_touches N R (name, info) t v k w n' w'"
    and "nic_addFdb (Fdb m (internal_ip info) NAME_VXLAN) n w = ((ok, n'), w') \<Longrightarrow>
      only_touches N R (name, info) t v k w n' w'"
    and "nic_delNeigh a m NAME_VXLAN n w = ((ok, n'), w') \<Longrightarrow> only_touches N R (name, info) t v k w n' w'"
proof -
  have laws: "entered_by N v" "entries_keep N t" "entries_keep N k" using assms(1) by (simp_all add: kernel_ok_def)
  have forms: "addr_form (internal_ip info)" "addr_form a" "mac_form m" using assms(4,5) by (simp_all add: peer_words_def)
  note keep = nic_entries_keep [OF laws(2) assms(2,3)] nic_entries_keep [OF laws(3) assms(2,3)]
  show "only_touches N R (name, info) t v k w n' w'" if s: "nic_addNeigh (Neigh a m NAME_VXLAN) n w = ((ok, n'), w')"
    using e.addNeigh_law [OF laws(1) assms(2,3) _ _ _ s] keep(1,5) [OF _ _ _ s] forms assms(5)
    by (auto simp: only_touches_def touches_def sends_to_def)
  show "only_touches N R (name, info) t v k w n' w'" if s: "nic_addFdb (Fdb m (internal_ip info) NAME_VXLAN) n w = ((ok, n'), w')"
    using e.addFdb_law [OF laws(1) assms(2,3) _ _ _ s] keep(2,6) [OF _ _ _ s] forms assms(5)
    by (auto simp: only_touches_def touches_def sends_to_def)
  show "only_touches N R (name, info) t v k w n' w'" if s: "nic_delNeigh a m NAME_VXLAN n w = ((ok, n'), w')"
    using e.delNeigh_law [OF laws(1) assms(2,3) _ _ _ s] keep(3,7) [OF _ _ _ s] forms assms(5)
    by (auto simp: only_touches_def touches_def sends_to_def)
qed

lemma add_one_touches:
  assumes "kernel_ok N t v k" "nic_netlink n = Some N" "nic_netns n = []" "peer_words R (name, info)" "R name = (a, m)"
    and "vxlan_add_one info a m n w = ((ok, n'), w')"
  shows "only_touches N R (name, info) t v k w n' w'"
proof -
  let ?T = "only_touches N R (name, info) t v k"
  note routes = route_step_touches [OF assms(1) _ _ assms(4,5)] and entries = entry_step_touches [OF assms(1) _ _ assms(4,5)]
  obtain o1 n1 w1 where s1: "nic_addRoute (Route (pod_cidr info) a NAME_VXLAN) NH_onlink n w = ((o1, n1), w1)"
    by (metis prod.collapse)
  obtain o2 n2 w2 where s2: "nic_addNeigh (Neigh a m NAME_VXLAN) n1 w1 = ((o2, n2), w2)" by (metis prod.collapse)
  obtain o3 n3 w3 where s3: "nic_addFdb (Fdb m (internal_ip info) NAME_VXLAN) n2 w2 = ((o3, n3), w3)"
    by (metis prod.collapse)
  obtain o4 n4 w4 where s4: "nic_delRoute (pod_cidr info) a [] n2 w2 = ((o4, n4), w4)" by (metis prod.collapse)
  obtain o5 n5 w5 where s5: "nic_delRoute (pod_cidr info) a [] n3 w3 = ((o5, n5), w5)" by (metis prod.collapse)
  obtain o6 n6 w6 where s6: "nic_delNeigh a m NAME_VXLAN n5 w5 = ((o6, n6), w6)" by (metis prod.collapse)
  have 1: "?T w n1 w1" by (rule routes(1) [OF assms(2,3) s1])
  have "?T w1 n2 w2" using only_touches_nic [OF 1] by (intro entries(1) [OF _ _ s2]) simp_all
  with 1 have 2: "?T w n2 w2" by (rule only_touches_trans)
  have "?T w2 n3 w3" using only_touches_nic [OF 2] by (intro entries(2) [OF _ _ s3]) simp_all
  with 2 have 3: "?T w n3 w3" by (rule only_touches_trans)
  have "?T w2 n4 w4" using only_touches_nic [OF 2] by (intro routes(2) [OF _ _ s4]) simp_all
  with 2 have 4: "?T w n4 w4" by (rule only_touches_trans)
  have "?T w3 n5 w5" using only_touches_nic [OF 3] by (intro routes(2) [OF _ _ s5]) simp_all
  with 3 have 5: "?T w n5 w5" by (rule only_touches_trans)
  have "?T w5 n6 w6" using only_touches_nic [OF 5] by (intro entries(3) [OF _ _ s6]) simp_all
  with 5 have 6: "?T w n6 w6" by (rule only_touches_trans)
  show ?thesis
    using assms(6) 1 3 4 6 by (cases o1; cases o2; cases o3) (auto simp: vxlan_add_one_def s1 s2 s3 s4 s5 s6)
qed

end

subsection \<open>One event\<close>

text \<open>
  The node \<open>e\<close> before and after: not cached, with the stale entry of its old VTEP in the kernel; or cached, with
  that entry still there.
\<close>

definition entry_kept :: "vteps \<Rightarrow> overlay \<Rightarrow> peer \<Rightarrow> string \<Rightarrow> bool" where
  "entry_kept R v e old \<longleftrightarrow> ov_neigh v (vtep_addr R e, NAME_VXLAN) = Some old"

definition back_or_counted :: "vteps \<Rightarrow> routes \<Rightarrow> overlay \<Rightarrow> peer \<Rightarrow> string \<Rightarrow> peer list \<Rightarrow> peer list \<Rightarrow> bool" where
  "back_or_counted R t v e old cluster cache \<longleftrightarrow>
     (if fst e \<in> fst ` set cache then entry_kept R v e old else e \<in> set cluster \<and> stale R t v e old)"

lemma stale_touched:
  assumes "touches R x t v t' v'" "apart R x e" "peer_words R e"
  shows "stale R t' v' e old \<longleftrightarrow> stale R t v e old" "entry_kept R v' e old \<longleftrightarrow> entry_kept R v e old"
proof -
  have r: "t' [] (pod_cidr (snd e)) = t [] (pod_cidr (snd e))"
    and "ov_neigh v' (vtep_addr R e, NAME_VXLAN) = ov_neigh v (vtep_addr R e, NAME_VXLAN)"
    and "sends_to v' (vtep_mac R e) NAME_VXLAN = sends_to v (vtep_mac R e) NAME_VXLAN"
    using assms(1,2) unfolding touches_def apart_def by metis+
  moreover from r have "route_there t' [] (pod_cidr (snd e)) a d = route_there t [] (pod_cidr (snd e)) a d" for a d
    by (simp add: route_there_def dest_arg_peer [OF assms(3)])
  ultimately show "stale R t' v' e old \<longleftrightarrow> stale R t v e old" "entry_kept R v' e old \<longleftrightarrow> entry_kept R v e old"
    by (simp_all add: stale_def entry_kept_def)
qed

lemma stale_kept: "stale R t v e old \<Longrightarrow> entry_kept R v e old"
  by (simp add: stale_def entry_kept_def)

text \<open>All cached nodes are known and have a record.\<close>

definition recorded_in :: "vteps \<Rightarrow> peer set \<Rightarrow> peer list \<Rightarrow> bool" where
  "recorded_in R P cache \<longleftrightarrow> set cache \<subseteq> P \<and> (\<forall>x \<in> set cache. vtep_addr R x \<noteq> [])"

lemma recorded_in_emplace:
  "recorded_in R P cache \<Longrightarrow> (name, info) \<in> P \<Longrightarrow> fst (R name) \<noteq> [] \<Longrightarrow> recorded_in R P (emplace name info cache)"
  using set_emplace [of name info cache] by (auto simp: recorded_in_def)

context tunnel_kernel
begin

lemma vxlan_add_counts:
  assumes K: "kernel_ok N t v k" and S: "records_known S k m R X t v" and ok: "peers_ok R P" and X: "fst ` P \<subseteq> X"
    and e: "e \<in> P" "vtep_addr R e \<noteq> []" "fst e \<noteq> current"
  shows "set cluster \<subseteq> P \<Longrightarrow> distinct_keys cluster \<Longrightarrow> recorded_in R P cache \<Longrightarrow>
    nic_netlink n = Some N \<Longrightarrow> nic_netns n = [] \<Longrightarrow> k w = m \<Longrightarrow> back_or_counted R (t w) (v w) e old cluster cache \<Longrightarrow>
    \<exists>cache' n' w'. vxlan_add S current cluster cache n w = ((Inr (), cache', n'), w') \<and>
      nic_netlink n' = Some N \<and> nic_netns n' = [] \<and> k w' = m \<and> recorded_in R P cache' \<and>
      fst e \<in> fst ` set cache' \<and> entry_kept R (v w') e old"
proof (induction cluster arbitrary: cache n w)
  case Nil
  then show ?case by (simp add: back_or_counted_def split: if_splits)
next
  case (Cons x cluster)
  obtain name info where x: "x = (name, info)" by fastforce
  obtain a mac where Rn: "R name = (a, mac)" by fastforce
  have xP: "x \<in> P" and cP: "set cluster \<subseteq> P" using Cons.prems(1) by simp_all
  have keys: "fst x \<notin> fst ` set cluster" "distinct_keys cluster" using Cons.prems(2) by (auto simp: distinct_keys_def)
  obtain w0 where g: "st_getVtep S name w = (Inr (R name), w0)" "k w0 = m" "t w0 = t w" "v w0 = v w"
    using S _ Cons.prems(6) by (rule records_knownE) (use X xP x in auto)
  show ?case
  proof (cases "current \<noteq> name \<and> a \<noteq> [] \<and> map_of cache name = None")
    case False
    define w1 where "w1 = (if current = name then w else w0)"
    have same: "k w1 = m" "t w1 = t w" "v w1 = v w" using g Cons.prems(6) by (simp_all add: w1_def)
    have "fst e \<in> fst ` set cache" if "x = e"
      using False e(2,3) that by (force simp: x Rn map_of_eq_None_iff)
    with Cons.prems(7) have "back_or_counted R (t w1) (v w1) e old cluster cache"
      by (auto simp: back_or_counted_def same(2,3) split: if_splits)
    from Cons.IH [OF cP keys(2) Cons.prems(3-5) same(1) this] show ?thesis
      using False g(1) by (auto simp: x Rn w1_def split: if_splits)
  next
    case True
    have rec: "vtep_addr R x \<noteq> []" and fresh: "fst x \<notin> fst ` set cache"
      using True by (simp_all add: x Rn map_of_eq_None_iff)
    note words = peers_okD(1) [OF ok xP rec]
    obtain ok1 n1 w1 where one: "vxlan_add_one info a mac n w0 = ((ok1, n1), w1)" by (metis prod.collapse)
    have tou: "only_touches N R x t v k w0 n1 w1"
      using add_one_touches [OF K Cons.prems(4,5) words [unfolded x] Rn one] by (simp add: x)
    define cache1 where "cache1 = (if ok1 then emplace name info cache else cache)"
    have run: "vxlan_add S current (x # cluster) cache n w = vxlan_add S current cluster cache1 n1 w1"
      using True g(1) one by (cases ok1) (simp_all add: x Rn cache1_def)
    have rec1: "recorded_in R P cache1"
      using Cons.prems(3) recorded_in_emplace [OF Cons.prems(3), of name info] xP rec by (simp add: x cache1_def)
    have "back_or_counted R (t w1) (v w1) e old cluster cache1"
    proof (cases "fst x = fst e")
      case mine: True
      then have "e = x" "stale R (t w0) (v w0) x old"
        using Cons.prems(7) fresh keys(1) g(3,4) by (auto simp: back_or_counted_def intro: rev_image_eqI)
      with add_one_stale [OF K Cons.prems(4,5) words [unfolded x] Rn, of w0 old] one
      have ok1 "entry_kept R (v w1) e old" by (auto simp: x Rn entry_kept_def)
      with \<open>e = x\<close> show ?thesis by (simp add: back_or_counted_def cache1_def x keys_emplace)
    next
      case False
      note pr = peers_okD(2) [OF ok xP rec e(1,2) False] peers_okD(1) [OF ok e(1,2)]
      have "touches R x (t w) (v w) (t w1) (v w1)" using tou g(3,4) by (simp add: only_touches_def)
      note touched = stale_touched [OF this pr]
      have "fst e \<in> fst ` set cache1 \<longleftrightarrow> fst e \<in> fst ` set cache"
        using False by (auto simp: cache1_def x keys_emplace)
      moreover have "e \<noteq> x" using False by auto
      ultimately show ?thesis using Cons.prems(7) by (auto simp: back_or_counted_def touched)
    qed
    from Cons.IH [OF cP keys(2) rec1 _ _ _ this] only_touches_nic [OF tou] tou g(2) show ?thesis
      unfolding run by (simp add: only_touches_def)
  qed
qed

end

text \<open>The state between two events, and what one makes of it.\<close>

definition returning :: "'w host \<Rightarrow> 'w center_if \<Rightarrow> 'w storage_if \<Rightarrow> vteps \<Rightarrow> peer set \<Rightarrow> 'w vxlan_backend \<Rightarrow> bool" where
  "returning run C S R P b \<longleftrightarrow> (\<exists>n. vxlan_ready run C S n b) \<and> recorded_in R P (vb_cache b)"

lemma vxlan_ready_after:
  "vxlan_ready run C S n b \<Longrightarrow> nic_netlink n' = Some (netlink_ip_cmd run) \<Longrightarrow> nic_netns n' = [] \<Longrightarrow>
   vxlan_ready run C S n' (b\<lparr>vb_cache := cache, bk_nic := Some n'\<rparr>)"
  by (simp add: vxlan_ready_def)

lemma event_counts:
  assumes K: "tunnels.kernel_ok (netlink_ip_cmd run) t v k" and S: "records_known S k m R X t v"
    and ok: "peers_ok R P" and X: "fst ` P \<subseteq> X" "current \<in> X" and e: "e \<in> P" "vtep_addr R e \<noteq> []" "fst e \<noteq> current"
    and ar: "arranges arrange" and C: "cluster_is C cluster k t v" "set cluster \<subseteq> P" "distinct_keys cluster"
    and own: "fst (R current) \<noteq> []" and m: "k w = m"
    and inv: "returning run C S R P b" "back_or_counted R (t w) (v w) e old cluster (vb_cache b)"
    and run: "vxlan_eventHandler lvl arrange current b w = ((r, b'), w')"
  shows "r = Inr () \<and> k w' = m \<and> returning run C S R P b' \<and> fst e \<in> fst ` set (vb_cache b') \<and> entry_kept R (v w') e old"
proof -
  obtain n where ready: "vxlan_ready run C S n b" and rec: "recorded_in R P (vb_cache b)"
    using inv(1) by (auto simp: returning_def)
  have nic: "nic_netlink n = Some (netlink_ip_cmd run)" "nic_netns n = []" using ready by (simp_all add: vxlan_ready_def)
  obtain w1 where c: "ct_all C w = (cluster, w1)" "k w1 = m" "t w1 = t w" "v w1 = v w" using C(1) m by (metis cluster_isE)
  obtain w2 where o: "st_getVtep S current w1 = (Inr (R current), w2)" "k w2 = m" "t w2 = t w" "v w2 = v w"
    using records_knownE [OF S X(2) c(2)] c(3,4) by metis
  have "back_or_counted R (t w2) (v w2) e old cluster (vb_cache b)" using inv(2) o(3,4) by simp
  from tunnels.vxlan_add_counts [OF K S ok X(1) e C(2,3) rec nic o(2) this] obtain cache n1 w3
    where a: "vxlan_add S current cluster (vb_cache b) n w2 = ((Inr (), cache, n1), w3)"
      and n1: "nic_netlink n1 = Some (netlink_ip_cmd run)" "nic_netns n1 = []"
      and w3: "k w3 = m" "recorded_in R P cache" "fst e \<in> fst ` set cache" "entry_kept R (v w3) e old" by blast
  have set: "set (arrange cache) = set cache" using ar by (rule arranges_set)
  have "fst ` set (arrange cache) \<subseteq> X" "\<forall>x \<in> set (arrange cache). vtep_addr R x \<noteq> []"
    using w3(2) X(1) by (auto simp: set recorded_in_def)
  from vxlan_del_stays [OF S own this w3(1), of "info_formatted lvl" n1] obtain w4
    where d: "vxlan_del (info_formatted lvl) S (fst (R current)) (arrange cache) n1 w3 = ((Inr (), arrange cache, n1), w4)"
      and w4: "k w4 = m" "v w4 = v w3" by blast
  note h = vxlan_eventHandler_loops [where R = R, OF ready c(1) o(1) run, OF _ d]
  have "recorded_in R P (arrange cache)" using w3(2) by (simp add: recorded_in_def set)
  with h a own n1 w3 w4 set vxlan_ready_after [OF ready n1, of "arrange cache"] show ?thesis
    by (auto simp: returning_def)
qed

subsection \<open>Event after event\<close>

text \<open>\<open>i\<close> runs of the handler in a row, as long as each returns.\<close>

fun vxlan_events :: "level \<Rightarrow> arrangement \<Rightarrow> string \<Rightarrow> nat \<Rightarrow> 'w vxlan_backend \<Rightarrow> ('w, unit result \<times> 'w vxlan_backend) op" where
  "vxlan_events lvl arrange current 0 b w = ((Inr (), b), w)"
| "vxlan_events lvl arrange current (Suc i) b w =
     (case vxlan_eventHandler lvl arrange current b w of
        ((Inl e, b'), w') \<Rightarrow> ((Inl e, b'), w')
      | ((Inr _, b'), w') \<Rightarrow> vxlan_events lvl arrange current i b' w')"

lemma events_count:
  assumes K: "tunnels.kernel_ok (netlink_ip_cmd run) t v k" and S: "records_known S k m R X t v"
    and ok: "peers_ok R P" and X: "fst ` P \<subseteq> X" "current \<in> X" and e: "e \<in> P" "vtep_addr R e \<noteq> []" "fst e \<noteq> current"
    and ar: "arranges arrange" and C: "cluster_is C cluster k t v" "set cluster \<subseteq> P" "distinct_keys cluster"
    and own: "fst (R current) \<noteq> []"
  shows "k w = m \<Longrightarrow> returning run C S R P b \<Longrightarrow> back_or_counted R (t w) (v w) e old cluster (vb_cache b) \<Longrightarrow>
    vxlan_events lvl arrange current (Suc i) b w = ((r, b'), w') \<Longrightarrow>
    r = Inr () \<and> k w' = m \<and> returning run C S R P b' \<and> fst e \<in> fst ` set (vb_cache b') \<and> entry_kept R (v w') e old"
proof (induction i arbitrary: b w)
  case 0
  obtain r1 b1 w1 where h: "vxlan_eventHandler lvl arrange current b w = ((r1, b1), w1)" by (metis prod.collapse)
  note one = event_counts [OF K S ok X e ar C own 0(1-3) h]
  have "vxlan_events lvl arrange current (Suc 0) b w = ((Inr (), b1), w1)" using one h by simp
  with 0(4) one show ?case by (simp only: prod.inject)
next
  case (Suc i)
  obtain r1 b1 w1 where h: "vxlan_eventHandler lvl arrange current b w = ((r1, b1), w1)" by (metis prod.collapse)
  note one = event_counts [OF K S ok X e ar C own Suc.prems(1-3) h]
  have "vxlan_events lvl arrange current (Suc (Suc i)) b w = vxlan_events lvl arrange current (Suc i) b1 w1"
    using one h by (simp only: vxlan_events.simps(2) [of lvl arrange current "Suc i"]) simp
  with Suc.prems(4) have next': "vxlan_events lvl arrange current (Suc i) b1 w1 = ((r, b'), w')" by simp
  from one have "k w1 = m" "returning run C S R P b1" "back_or_counted R (t w1) (v w1) e old cluster (vb_cache b1)"
    by (simp_all add: back_or_counted_def)
  from Suc.IH [OF this next'] show ?case .
qed

subsection \<open>Property\<close>

text \<open>
  C29: Even when every command does what it can, a node that comes back with another MAC, or with the address
  of a node that is gone, stays unreachable when the kernel still has the neighbour entry of the old VTEP:
  the first event counts it as connected, with the old entry in place, since \<open>addNeigh\<close> only asks for the
  address; and no later event, however many there are, does anything about it. This is while the cluster and
  the records in the store stay as they are, and no node that is cached has lost its record; the other nodes
  may be any, cached or not, and the commands for them may fail.
\<close>

theorem returned_node_stays_unreachable:
  assumes "tunnel_host run E k t v" and "vxlan_ready run C (storage_ops E A) n b" and "arranges arrange"
    and "cluster_is C cluster k t v" and "distinct_keys cluster" and "peers_ok R (set cluster \<union> set (vb_cache b))"
    and "\<forall>x \<in> insert current (fst ` (set cluster \<union> set (vb_cache b))). name_ok x \<and> shell_word x \<and> vtep_recorded (k w) x (R x)"
    and "fst (R current) \<noteq> []" and "\<forall>x \<in> set (vb_cache b). vtep_addr R x \<noteq> []"
    and "e \<in> set cluster" "fst e \<noteq> current" "fst e \<notin> fst ` set (vb_cache b)" "vtep_addr R e \<noteq> []"
    and "stale R (t w) (v w) e old"
    and "vxlan_events lvl arrange current (Suc i) b w = ((r, b'), w')"
  shows "r = Inr () \<and> fst e \<in> fst ` set (vb_cache b') \<and>
    ov_neigh (v w') (vtep_addr R e, NAME_VXLAN) = Some old \<and> \<not> connected R (t w') (v w') e"
proof -
  let ?S = "storage_ops E A" and ?P = "set cluster \<union> set (vb_cache b)"
  have K: "tunnels.kernel_ok (netlink_ip_cmd run) t v k"
    using assms(1) by (auto simp: tunnels.kernel_ok_def tunnel_host_def ip_cmd_manages_def ip_cmd_able_def
        ip_entry_manages_def ip_entry_able_def)
  have S: "records_known ?S k (k w) R (insert current (fst ` ?P)) t v"
    using assms(1) by (intro stored_records_known assms(7)) (simp_all add: tunnel_host_def)
  have sets: "fst ` ?P \<subseteq> insert current (fst ` ?P)" "current \<in> insert current (fst ` ?P)" "set cluster \<subseteq> ?P" "e \<in> ?P"
    using assms(10) by auto
  have "returning run C ?S R ?P b" using assms(2,9) by (auto simp: returning_def recorded_in_def)
  moreover have "back_or_counted R (t w) (v w) e old cluster (vb_cache b)"
    using assms(10,12,14) by (simp add: back_or_counted_def)
  ultimately have "r = Inr ()" "fst e \<in> fst ` set (vb_cache b')" "entry_kept R (v w') e old"
    using events_count [OF K S assms(6) sets(1,2,4) assms(13,11,3,4) sets(3) assms(5,8) refl _ _ assms(15)] by blast+
  with assms(14) show ?thesis by (auto simp: entry_kept_def connected_def stale_def)
qed

text \<open>The VTEP of \<open>n2\<close> as the kernel of \<open>n1\<close> knew it before \<open>n2\<close> was set up anew.\<close>

definition stale_world :: tunnel_world where
  "stale_world = (fst demo_world, no_routes,
     \<lparr>ov_neigh = [(''10.244.2.0'', NAME_VXLAN) \<mapsto> ''02:42:0a:f4:02:ff''], ov_fdb = {}\<rparr>)"

theorem returned_node_stays_unreachable_witness:
  "\<exists>b w. vxlan_events Info (\<lambda>m. m) ''n1'' 3 demo_tunnel stale_world = ((Inr (), b), w) \<and> ''n2'' \<in> fst ` set (vb_cache b) \<and>
     ov_neigh (snd (snd w)) (''10.244.2.0'', NAME_VXLAN) = Some ''02:42:0a:f4:02:ff''"
proof -
  define e :: peer where "e = (''n2'', \<lparr>info_name = ''n2'', internal_ip = ''10.0.0.2'', pod_cidr = ''10.244.2.0/24''\<rparr>)"
  obtain r b w where h: "vxlan_events Info (\<lambda>m. m) ''n1'' (Suc 2) demo_tunnel stale_world = ((r, b), w)" by (metis prod.collapse)
  have c: "cluster_is demo_nodes demo_cluster fst (\<lambda>w :: tunnel_world. fst (snd w)) (\<lambda>w. snd (snd w))"
    by (simp add: cluster_is_def demo_nodes_def)
  have peers: "peers_ok demo_vteps (set demo_cluster \<union> set (vb_cache demo_tunnel))"
    using demo_peers_ok(1) by (simp add: demo_tunnel_cache)
  have names: "fst ` (set demo_cluster \<union> set (vb_cache demo_tunnel)) = {''n1'', ''n2''}"
    by (simp add: demo_tunnel_cache demo_cluster_def)
  have recorded: "\<forall>x \<in> insert ''n1'' (fst ` (set demo_cluster \<union> set (vb_cache demo_tunnel))).
      name_ok x \<and> shell_word x \<and> vtep_recorded (fst stale_world) x (demo_vteps x)"
    unfolding names stale_world_def using demo_vtep_recorded by (simp add: name_ok_def shell_word_def word_char_def)
  have e: "e \<in> set demo_cluster" "fst e \<noteq> ''n1''" "fst e = ''n2''" by (simp_all add: e_def demo_cluster_def)
  have vteps: "fst (demo_vteps ''n1'') \<noteq> []" "fst (demo_vteps (fst e)) = ''10.244.2.0''" "vtep_addr demo_vteps e \<noteq> []"
    by (simp_all add: demo_vteps_def e(3))
  have st: "stale demo_vteps (fst (snd stale_world)) (snd (snd stale_world)) e ''02:42:0a:f4:02:ff''"
    by (simp add: stale_def stale_world_def no_routes_def sends_to_def e(3) demo_vteps_def)
  have cache: "\<forall>x \<in> set (vb_cache demo_tunnel). vtep_addr demo_vteps x \<noteq> []" "fst e \<notin> fst ` set (vb_cache demo_tunnel)"
    by (simp_all add: demo_tunnel_cache)
  note res = returned_node_stays_unreachable [where k = fst and t = "\<lambda>w. fst (snd w)" and v = "\<lambda>w. snd (snd w)",
      OF demo_tunnel_host demo_tunnel_ready demo_gw_facts(4) c demo_peers_ok(2) peers recorded vteps(1) cache(1) e(1,2)
        cache(2) vteps(3) st h, unfolded vteps(2), unfolded e(3)]
  have "vxlan_events Info (\<lambda>m. m) ''n1'' 3 demo_tunnel stale_world = ((r, b), w)"
    using h by (simp only: numeral_3_eq_3 numeral_2_eq_2)
  with res show ?thesis by blast
qed

end
