(* ===== verification/Evpn_Facts.thy ===== *)
theory Evpn_Facts
  imports Ohnod Cni_Load Json_Facts Link_Spec
begin

text \<open>
  The life of the EVPN backend, from the devices the daemon finds to those it leaves: \<open>getEvpn\<close> of
  \<open>strategy_client.cc\<close> creates them, \<open>start\<close> brings them up and connects them, \<open>stop\<close> removes them.
\<close>

subsection \<open>The devices\<close>

definition evpn_device :: "nic_kind \<Rightarrow> string \<Rightarrow> 'w netlink_if \<Rightarrow> 'w nic" where
  "evpn_device k n N = (new_nic k USER)\<lparr>nic_name := n, nic_netlink := Some N\<rparr>"

lemma device_setup:
  "nic_setup (Some N) (nic_setName n new_vrf) w =
     (case created N n (link_op N (New_vrf n VRF_TABLE)) w of (ok, w') \<Rightarrow> ((ok, evpn_device (Vrf VRF_TABLE) n N), w'))"
  "nic_setup (Some N) (nic_setName n new_bridge) w =
     (case created N n (link_op N (New_bridge n)) w of (ok, w') \<Rightarrow> ((ok, evpn_device Bridge n N), w'))"
  "nic_setup (Some N) (nic_setName n ((new_nic (Vxlan a d) USER))) w =
     (case created N n (link_op N (New_vxlan n a d)) w of (ok, w') \<Rightarrow> ((ok, evpn_device (Vxlan a d) n N), w'))"
  by (simp_all add: nic_setup_def nic_setName_def new_vrf_def new_bridge_def new_nic_def vrf_setup_def bridge_setup_def
      vxlan_setup_def base_setup_def evpn_device_def Let_def)

text \<open>The object remembers the status of a device that obeyed, and nothing else.\<close>

definition after_status :: "bool \<Rightarrow> 'w nic \<Rightarrow> 'w nic" where
  "after_status ok n = (if ok then n\<lparr>nic_status := Some UP\<rparr> else n)"

lemma device_status:
  "\<forall>p. k \<noteq> Veth p \<Longrightarrow> nic_setStatus UP (evpn_device k n N) w =
     (case link_op N (Status n UP) w of (ok, w') \<Rightarrow> ((ok, after_status ok (evpn_device k n N)), w'))"
  by (cases k) (auto simp: nic_setStatus_def base_setStatus_def evpn_device_def new_nic_def after_status_def
      split: prod.split bool.split)

lemma device_master:
  "setMaster x m (after_status ok (evpn_device k n N)) w = link_op N (Enslave x n m) w"
  "setSlave ns l (after_status ok (evpn_device k n N)) w = link_op N (Port n ns l) w"
  by (simp_all add: setMaster_def bridge_setImpl_def setSlave_def evpn_device_def new_nic_def after_status_def)

lemma device_cleanup:
  "nic_cleanup A (after_status ok (evpn_device k n N)) w = (Inr (), snd (link_op N (Destroy n) w))"
  by (simp add: nic_cleanup_def evpn_device_def new_nic_def after_status_def Let_def)

lemma device_name [simp]: "nic_name (evpn_device k n N) = n"
  by (simp add: evpn_device_def)

definition evpn_names :: "string \<Rightarrow> string list" where
  "evpn_names l2svi = [BGP_EVPN_VRF, BGP_EVPN_BR, l2svi, BGP_EVPN_VTEP]"

text \<open>The connected devices.\<close>

definition evpn_topology :: "links \<Rightarrow> string \<Rightarrow> bool" where
  "evpn_topology L l2svi \<longleftrightarrow> (\<exists>v r s t. L BGP_EVPN_VRF = Some v \<and> L BGP_EVPN_BR = Some r \<and> L l2svi = Some s \<and>
     L BGP_EVPN_VTEP = Some t \<and> lk_up v \<and> lk_up r \<and> lk_up s \<and> lk_up t \<and>
     lk_master r = Some BGP_EVPN_VRF \<and> lk_master s = Some BGP_EVPN_VRF \<and>
     lk_master t = Some BGP_EVPN_BR \<and> lk_port t = Some (True, False))"

text \<open>The flags of a port that is given to the VRF.\<close>

definition kept :: "link_state \<Rightarrow> (bool \<times> bool) option" where
  "kept s = (if lk_master s = Some BGP_EVPN_VRF then lk_port s else None)"

text \<open>
  Devices of these names that are there already are of the right kind, as those of an earlier run are, no
  other VXLAN device has the VNI, and the underlay device is there.
\<close>

definition evpn_ready :: "links \<Rightarrow> string \<Rightarrow> string \<Rightarrow> bool" where
  "evpn_ready L l2svi d \<longleftrightarrow> (\<forall>s. L BGP_EVPN_VRF = Some s \<longrightarrow> (\<exists>t. lk_kind s = Link_vrf t)) \<and>
     (\<forall>s. L BGP_EVPN_BR = Some s \<longrightarrow> lk_kind s = Link_bridge) \<and>
     (\<forall>s. L l2svi = Some s \<longrightarrow> lk_kind s = Link_bridge) \<and>
     (\<forall>s. L BGP_EVPN_VTEP = Some s \<longrightarrow> (\<exists>a. lk_kind s = Link_vxlan a d)) \<and>
     only_vxlan BGP_EVPN_VTEP L \<and> L d \<noteq> None"

definition with_link :: "string \<Rightarrow> link_kind \<Rightarrow> links \<Rightarrow> links" where
  "with_link n k L = (if L n = None then L(n \<mapsto> fresh_link k) else L)"

lemma with_link_simps [simp]:
  "with_link n k L n = Some (case L n of None \<Rightarrow> fresh_link k | Some s \<Rightarrow> s)" "x \<noteq> n \<Longrightarrow> with_link n k L x = L x"
  by (simp_all add: with_link_def split: option.split)

lemma with_link_keeps:
  "only_vxlan n L \<Longrightarrow> (\<And>a d. k \<noteq> Link_vxlan a d) \<Longrightarrow> only_vxlan n (with_link m k L)"
  "L d \<noteq> None \<Longrightarrow> with_link m k L d \<noteq> None"
  by (auto simp: only_vxlan_def with_link_def fresh_link_def)

definition evpn_links :: "string \<Rightarrow> string \<Rightarrow> string \<Rightarrow> links \<Rightarrow> links" where
  "evpn_links l2svi a d L = with_link BGP_EVPN_VTEP (Link_vxlan a d) (with_link l2svi Link_bridge
     (with_link BGP_EVPN_BR Link_bridge (with_link BGP_EVPN_VRF (Link_vrf (unat VRF_TABLE)) L)))"

definition evpn_devices :: "'w netlink_if \<Rightarrow> string \<Rightarrow> string \<Rightarrow> string \<Rightarrow> 'w evpn" where
  "evpn_devices N l2svi a d = \<lparr>ev_vrf = Some (evpn_device (Vrf VRF_TABLE) BGP_EVPN_VRF N),
     ev_l3 = Some (evpn_device Bridge BGP_EVPN_BR N), ev_l2 = Some (evpn_device Bridge l2svi N),
     ev_vxlan = Some (evpn_device (Vxlan a d) BGP_EVPN_VTEP N)\<rparr>"

definition evpn_devices_up :: "'w netlink_if \<Rightarrow> string \<Rightarrow> string \<Rightarrow> string \<Rightarrow> 'w evpn" where
  "evpn_devices_up N l2svi a d = \<lparr>ev_vrf = Some (after_status True (evpn_device (Vrf VRF_TABLE) BGP_EVPN_VRF N)),
     ev_l3 = Some (after_status True (evpn_device Bridge BGP_EVPN_BR N)),
     ev_l2 = Some (after_status True (evpn_device Bridge l2svi N)),
     ev_vxlan = Some (after_status True (evpn_device (Vxlan a d) BGP_EVPN_VTEP N))\<rparr>"

lemma evpn_name_words [simp]:
  "link_name BGP_EVPN_VRF" "link_name BGP_EVPN_BR" "link_name BGP_EVPN_VTEP"
  "shell_word BGP_EVPN_VRF" "shell_word BGP_EVPN_BR" "shell_word BGP_EVPN_VTEP"
  "BGP_EVPN_VRF \<noteq> BGP_EVPN_BR" "BGP_EVPN_VRF \<noteq> BGP_EVPN_VTEP" "BGP_EVPN_BR \<noteq> BGP_EVPN_VTEP"
  "length BGP_EVPN_VRF \<le> 15" "length BGP_EVPN_BR \<le> 15" "length BGP_EVPN_VTEP \<le> 15"
  "BGP_EVPN_BR \<noteq> BGP_EVPN_VRF" "BGP_EVPN_VTEP \<noteq> BGP_EVPN_VRF" "BGP_EVPN_VTEP \<noteq> BGP_EVPN_BR"
  by (simp_all add: BGP_EVPN_VRF_def BGP_EVPN_BR_def BGP_EVPN_VTEP_def link_name_def ip_options_def shell_word_def word_char_def)

context link_table_up
begin

lemma with_link_up:
  assumes "manages N L" "able N L" "link_name n" "link_args_ok c" "L w n = None \<Longrightarrow> link_able (L w) c"
    and "\<And>M. link_effect c M = M(n \<mapsto> fresh_link k)"
  obtains w' where "created N n (link_op N c) w = (True, w')" "L w' = with_link n k (L w)"
  by (rule created_up [OF assms(1-4), of w]) (use assms(5) in \<open>auto simp: assms(6) with_link_def\<close>)

lemma getEvpn_up:
  assumes "manages N L" "able N L" "link_name l2svi"
    and "node_described (pf_shell (os_platform Y)) L node d addr" "asio_documented (pf_asio (os_platform Y))"
    and "addr = cidr_text u q" "q \<le> 32" "shell_word d"
    and "length l2svi \<le> 15" "l2svi \<notin> {BGP_EVPN_VRF, BGP_EVPN_BR, BGP_EVPN_VTEP}" "only_vxlan BGP_EVPN_VTEP (L w)" "L w d \<noteq> None"
  obtains w' where "getEvpn Y (Some N) l2svi w = (Inr (evpn_devices N l2svi (dotted u) d), w')"
    "L w' = evpn_links l2svi (dotted u) d (L w)"
proof -
  note wl = with_link_up [OF assms(1,2)]
  have ne: "l2svi \<noteq> BGP_EVPN_VRF" "l2svi \<noteq> BGP_EVPN_BR" "BGP_EVPN_VTEP \<noteq> l2svi" using assms(10) by auto
  obtain w1 where 1: "created N BGP_EVPN_VRF (link_op N (New_vrf BGP_EVPN_VRF VRF_TABLE)) w = (True, w1)"
    "L w1 = with_link BGP_EVPN_VRF (Link_vrf (unat VRF_TABLE)) (L w)"
    by (rule wl [of BGP_EVPN_VRF "New_vrf BGP_EVPN_VRF VRF_TABLE"]) (auto simp: link_args_ok_def free_link_def)
  obtain w2 where 2: "created N BGP_EVPN_BR (link_op N (New_bridge BGP_EVPN_BR)) w1 = (True, w2)"
    "L w2 = with_link BGP_EVPN_BR Link_bridge (L w1)"
    by (rule wl [of BGP_EVPN_BR "New_bridge BGP_EVPN_BR"]) (auto simp: link_args_ok_def free_link_def)
  obtain w3 where 3: "created N l2svi (link_op N (New_bridge l2svi)) w2 = (True, w3)"
    "L w3 = with_link l2svi Link_bridge (L w2)"
    by (rule wl [of l2svi "New_bridge l2svi"]) (auto simp: link_args_ok_def free_link_def assms(3,9))
  from getNodeInfo_up [OF assms(4), of "[]" "[]" "[]" w3] obtain w4 where
    4: "getNodeInfo (pf_shell (os_platform Y)) [] [] [] w3 = ((True, node, d, addr), w4)" "L w4 = L w3" by blast
  have "shell_word (dotted u)" using dotted_list_elem [of u] by (simp only: list_elem_def)
  obtain w5 where 5: "created N BGP_EVPN_VTEP (link_op N (New_vxlan BGP_EVPN_VTEP (dotted u) d)) w4 = (True, w5)"
    "L w5 = with_link BGP_EVPN_VTEP (Link_vxlan (dotted u) d) (L w4)"
  proof (rule wl [of BGP_EVPN_VTEP "New_vxlan BGP_EVPN_VTEP (dotted u) d" w4])
    show "link_able (L w4) (New_vxlan BGP_EVPN_VTEP (dotted u) d)" if "L w4 BGP_EVPN_VTEP = None"
      using that assms(11,12) by (simp add: free_link_def 1(2) 2(2) 3(2) 4(2) with_link_keeps)
  qed (auto simp: link_args_ok_def assms(8) \<open>shell_word (dotted u)\<close>)
  have vx: "new_vxlan (pf_asio (os_platform Y)) addr d = new_nic (Vxlan (dotted u) d) USER"
    using addr_print(2) [OF assms(5,7)] by (simp add: new_vxlan_def assms(6))
  show thesis
    by (rule that [of w5])
      (simp_all add: getEvpn_def device_setup vx 1 2 3 4 5 evpn_devices_def evpn_links_def evpn_setVxlan_def evpn_setl2Bridge_def
        evpn_setl3Bridge_def evpn_setVrf_def new_evpn_def del: link_op.simps)
qed

lemma evpn_start_up:
  assumes "manages N L" "able N L" "link_name l2svi" "l2svi \<notin> {BGP_EVPN_VRF, BGP_EVPN_BR, BGP_EVPN_VTEP}"
    and "L w BGP_EVPN_VRF = Some v" "lk_kind v = Link_vrf tb" "L w BGP_EVPN_BR = Some r" "lk_kind r = Link_bridge"
    and "L w l2svi = Some s" "lk_kind s = Link_bridge" "L w BGP_EVPN_VTEP = Some t" "lk_kind t = Link_vxlan a' d'"
  obtains w' where "evpn_start node (evpn_devices N l2svi a d) w = ((Inr (), evpn_devices_up N l2svi a d), w')"
    "L w' = (L w)(BGP_EVPN_VRF \<mapsto> v\<lparr>lk_up := True\<rparr>,
       BGP_EVPN_BR \<mapsto> r\<lparr>lk_up := True, lk_master := Some BGP_EVPN_VRF, lk_port := kept r\<rparr>,
       l2svi \<mapsto> s\<lparr>lk_up := True, lk_master := Some BGP_EVPN_VRF, lk_port := kept s\<rparr>,
       BGP_EVPN_VTEP \<mapsto> t\<lparr>lk_up := True, lk_master := Some BGP_EVPN_BR, lk_port := Some (True, False)\<rparr>)"
proof -
  note up = link_up [OF assms(1,2)]
  have ne: "l2svi \<noteq> BGP_EVPN_VRF" "l2svi \<noteq> BGP_EVPN_BR" "l2svi \<noteq> BGP_EVPN_VTEP" "BGP_EVPN_VRF \<noteq> l2svi"
    "BGP_EVPN_BR \<noteq> l2svi" "BGP_EVPN_VTEP \<noteq> l2svi" using assms(4) by auto
  have args: "link_args_ok (Status x UP)" "link_args_ok (Enslave x y m)" "link_args_ok (Port x ns l)"
    if "x \<in> set (evpn_names l2svi)" "y \<in> set (evpn_names l2svi)" for x y m ns l
    using that assms(3) link_name_word [OF assms(3)] by (auto simp: link_args_ok_def evpn_names_def)
  have in_names: "BGP_EVPN_VRF \<in> set (evpn_names l2svi)" "BGP_EVPN_BR \<in> set (evpn_names l2svi)" "l2svi \<in> set (evpn_names l2svi)"
    "BGP_EVPN_VTEP \<in> set (evpn_names l2svi)" by (simp_all add: evpn_names_def)
  note ok = args [OF in_names(1,1)] args [OF in_names(2,1)] args [OF in_names(3,1)] args [OF in_names(4,2)]
  obtain w1 where 1: "link_op N (Status BGP_EVPN_VRF UP) w = (True, w1)" "L w1 = link_effect (Status BGP_EVPN_VRF UP) (L w)"
    by (rule up [of "Status BGP_EVPN_VRF UP"]) (use ok assms(5) in auto)
  obtain w2 where 2: "link_op N (Status BGP_EVPN_BR UP) w1 = (True, w2)" "L w2 = link_effect (Status BGP_EVPN_BR UP) (L w1)"
    by (rule up [of "Status BGP_EVPN_BR UP" w1]) (use ok assms(7) 1(2) in auto)
  obtain w3 where 3: "link_op N (Status l2svi UP) w2 = (True, w3)" "L w3 = link_effect (Status l2svi UP) (L w2)"
    by (rule up [of "Status l2svi UP" w2]) (use ok assms(9) 1(2) 2(2) ne in auto)
  note m3 = 1(2) 2(2) 3(2)
  obtain w4 where 4: "link_op N (Enslave BGP_EVPN_BR BGP_EVPN_VRF mode_none) w3 = (True, w4)"
    "L w4 = link_effect (Enslave BGP_EVPN_BR BGP_EVPN_VRF mode_none) (L w3)"
    by (rule up [of "Enslave BGP_EVPN_BR BGP_EVPN_VRF mode_none" w3]) (use ok assms(5-8) m3 ne in auto)
  obtain w5 where 5: "link_op N (Enslave l2svi BGP_EVPN_VRF mode_none) w4 = (True, w5)"
    "L w5 = link_effect (Enslave l2svi BGP_EVPN_VRF mode_none) (L w4)"
    by (rule up [of "Enslave l2svi BGP_EVPN_VRF mode_none" w4]) (use ok assms(5-10) m3 4(2) ne in auto)
  obtain w6 where 6: "link_op N (Status BGP_EVPN_VTEP UP) w5 = (True, w6)" "L w6 = link_effect (Status BGP_EVPN_VTEP UP) (L w5)"
    by (rule up [of "Status BGP_EVPN_VTEP UP" w5]) (use ok assms(11) m3 4(2) 5(2) ne in auto)
  obtain w7 where 7: "link_op N (Enslave BGP_EVPN_VTEP BGP_EVPN_BR mode_reserved) w6 = (True, w7)"
    "L w7 = link_effect (Enslave BGP_EVPN_VTEP BGP_EVPN_BR mode_reserved) (L w6)"
    by (rule up [of "Enslave BGP_EVPN_VTEP BGP_EVPN_BR mode_reserved" w6])
      (use ok assms(7,8,11,12) m3 4(2) 5(2) 6(2) ne in auto)
  obtain w8 where 8: "link_op N (Port BGP_EVPN_VTEP True False) w7 = (True, w8)"
    "L w8 = link_effect (Port BGP_EVPN_VTEP True False) (L w7)"
    by (rule up [of "Port BGP_EVPN_VTEP True False" w7]) (use ok assms(7,8,11,12) m3 4(2) 5(2) 6(2) 7(2) ne in auto)
  show thesis
  proof (rule that [of w8])
    show "evpn_start node (evpn_devices N l2svi a d) w = ((Inr (), evpn_devices_up N l2svi a d), w8)"
      using 1(1) 2(1) 3(1) 4(1) 5(1) 6(1) 7(1) 8(1)
      by (simp add: evpn_start_def evpn_envSetup_def evpn_devices_def evpn_devices_up_def device_status device_master Let_def
          del: link_op.simps)
    show "L w8 = (L w)(BGP_EVPN_VRF \<mapsto> v\<lparr>lk_up := True\<rparr>,
       BGP_EVPN_BR \<mapsto> r\<lparr>lk_up := True, lk_master := Some BGP_EVPN_VRF, lk_port := kept r\<rparr>,
       l2svi \<mapsto> s\<lparr>lk_up := True, lk_master := Some BGP_EVPN_VRF, lk_port := kept s\<rparr>,
       BGP_EVPN_VTEP \<mapsto> t\<lparr>lk_up := True, lk_master := Some BGP_EVPN_BR, lk_port := Some (True, False)\<rparr>)"
      using assms(5,7,9,11) ne by (intro ext) (simp add: m3 4(2) 5(2) 6(2) 7(2) 8(2) kept_def)
  qed
qed

lemma evpn_stop_up:
  assumes "manages N L" "able N L"
    and "L w BGP_EVPN_VRF = Some v" "lk_kind v = Link_vrf tb" "L w BGP_EVPN_BR = Some r" "lk_kind r = Link_bridge"
    and "L w BGP_EVPN_VTEP = Some t" "lk_kind t = Link_vxlan a' d'" "d' \<noteq> BGP_EVPN_VRF" "d' \<noteq> BGP_EVPN_BR"
  obtains w' where "evpn_stop A (evpn_devices_up N l2svi a d) w = (Inr (), w')"
    "L w' = drop_link BGP_EVPN_VTEP (drop_link BGP_EVPN_BR (drop_link BGP_EVPN_VRF (L w)))"
proof -
  note up = link_up [OF assms(1,2)]
  have ok: "link_args_ok (Destroy BGP_EVPN_VRF)" "link_args_ok (Destroy BGP_EVPN_BR)" "link_args_ok (Destroy BGP_EVPN_VTEP)"
    by (simp_all add: link_args_ok_def)
  obtain w1 where 1: "link_op N (Destroy BGP_EVPN_VRF) w = (True, w1)" "L w1 = drop_link BGP_EVPN_VRF (L w)"
    by (rule up [of "Destroy BGP_EVPN_VRF" w]) (use ok assms(3,4) in auto)
  obtain w2 where 2: "link_op N (Destroy BGP_EVPN_BR) w1 = (True, w2)" "L w2 = drop_link BGP_EVPN_BR (L w1)"
    by (rule up [of "Destroy BGP_EVPN_BR" w1]) (use ok assms(5,6) in \<open>auto simp: 1(2) drop_link_def sends_through_def\<close>)
  obtain w3 where 3: "link_op N (Destroy BGP_EVPN_VTEP) w2 = (True, w3)" "L w3 = drop_link BGP_EVPN_VTEP (L w2)"
    by (rule up [of "Destroy BGP_EVPN_VTEP" w2]) (use ok assms(7-10) in \<open>auto simp: 1(2) 2(2) drop_link_def sends_through_def\<close>)
  show thesis
    by (rule that [of w3]) (simp_all add: evpn_stop_def evpn_envCleanup_def evpn_devices_up_def device_cleanup 1 2 3 del: link_op.simps)
qed

end

subsection \<open>The life of the backend\<close>

lemma with_link_found:
  assumes "\<forall>s. L n = Some s \<longrightarrow> P (lk_kind s)" "P k"
  obtains s where "with_link n k L n = Some s" "P (lk_kind s)"
  using assms by (cases "L n") (simp_all add: fresh_link_def)

lemma evpn_links_kinds:
  assumes "evpn_ready L l2svi d" "l2svi \<notin> {BGP_EVPN_VRF, BGP_EVPN_BR, BGP_EVPN_VTEP}"
  obtains v tb r s t a' where "evpn_links l2svi a d L BGP_EVPN_VRF = Some v" "lk_kind v = Link_vrf tb"
    "evpn_links l2svi a d L BGP_EVPN_BR = Some r" "lk_kind r = Link_bridge"
    "evpn_links l2svi a d L l2svi = Some s" "lk_kind s = Link_bridge"
    "evpn_links l2svi a d L BGP_EVPN_VTEP = Some t" "lk_kind t = Link_vxlan a' d"
proof -
  note found = assms(1) [unfolded evpn_ready_def, THEN conjunct1]
    assms(1) [unfolded evpn_ready_def, THEN conjunct2, THEN conjunct1]
    assms(1) [unfolded evpn_ready_def, THEN conjunct2, THEN conjunct2, THEN conjunct1]
    assms(1) [unfolded evpn_ready_def, THEN conjunct2, THEN conjunct2, THEN conjunct2, THEN conjunct1]
  have ne: "l2svi \<noteq> BGP_EVPN_VRF" "l2svi \<noteq> BGP_EVPN_BR" "l2svi \<noteq> BGP_EVPN_VTEP" "BGP_EVPN_VRF \<noteq> l2svi"
    "BGP_EVPN_BR \<noteq> l2svi" "BGP_EVPN_VTEP \<noteq> l2svi" using assms(2) by auto
  obtain v tb where "with_link BGP_EVPN_VRF (Link_vrf (unat VRF_TABLE)) L BGP_EVPN_VRF = Some v" "lk_kind v = Link_vrf tb"
    by (rule with_link_found [where P = "\<lambda>k. \<exists>t. k = Link_vrf t" and n = BGP_EVPN_VRF and L = L, OF found(1)]) auto
  moreover obtain r where "with_link BGP_EVPN_BR Link_bridge L BGP_EVPN_BR = Some r" "lk_kind r = Link_bridge"
    by (rule with_link_found [where P = "\<lambda>k. k = Link_bridge" and n = BGP_EVPN_BR and L = L, OF found(2)]) auto
  moreover obtain s where "with_link l2svi Link_bridge L l2svi = Some s" "lk_kind s = Link_bridge"
    by (rule with_link_found [where P = "\<lambda>k. k = Link_bridge" and n = l2svi and L = L, OF found(3)]) auto
  moreover obtain t a' where "with_link BGP_EVPN_VTEP (Link_vxlan a d) L BGP_EVPN_VTEP = Some t" "lk_kind t = Link_vxlan a' d"
    by (rule with_link_found [where P = "\<lambda>k. \<exists>a. k = Link_vxlan a d" and n = BGP_EVPN_VTEP and L = L, OF found(4)]) auto
  ultimately show thesis using ne that by (simp add: evpn_links_def)
qed

text \<open>What becomes of another device when these are taken down: it loses a master that goes.\<close>

definition released_from :: "string set \<Rightarrow> link_state \<Rightarrow> link_state" where
  "released_from gone s = (if \<exists>m \<in> gone. lk_master s = Some m then s\<lparr>lk_master := None, lk_port := None\<rparr> else s)"

lemma drop_links_released:
  assumes "only_vxlan c L" "x \<notin> {a, b, c}"
  shows "drop_link c (drop_link b (drop_link a L)) x = map_option (released_from {a, b, c}) (L x)"
proof (cases "L x")
  case (Some s)
  then have "\<not> sends_through n s" for n
    using assms by (auto simp: only_vxlan_def sends_through_def split: link_kind.splits)
  moreover have "sends_through n (s\<lparr>lk_master := None, lk_port := None\<rparr>) = sends_through n s" for n
    by (simp add: sends_through_def)
  ultimately show ?thesis using assms(2) Some by (auto simp: drop_link_def released_from_def)
qed (use assms(2) in \<open>simp add: drop_link_def\<close>)

lemma drop_link_local: "L x = L' x \<Longrightarrow> drop_link n L x = drop_link n L' x"
  by (simp add: drop_link_def)

text \<open>
  C10: With a kernel that does what it is told, and on a node whose devices of the backend's names, if
  there are any, are those of an earlier run, the EVPN backend is created, starts and stops without an
  error. While it runs the four devices are up, both bridges are ports of the VRF, the VXLAN device is a
  port of the layer 3 bridge with neighbour suppression and without learning, and every other device is
  as it was. After the stop the VRF, the layer 3 bridge and the VXLAN device are gone, but the layer 2
  bridge, which the plugin connects the pods to, stays behind, up and without a master. Of the other
  devices none has come or gone, and each is exactly as it was before the start, unless it was a port of
  one of the three that are gone: then it has no master now.
\<close>

theorem evpn_lifecycle:
  assumes "ip_links_documented run L" and "ip_links_able run L"
    and "node_described (pf_shell (os_platform Y)) L node dev addr" and "asio_documented (pf_asio (os_platform Y))"
    and "addr = cidr_text u q" and "q \<le> 32" and "shell_word dev" and "link_name l2svi" and "length l2svi \<le> 15"
    and "l2svi \<notin> {BGP_EVPN_VRF, BGP_EVPN_BR, BGP_EVPN_VTEP}" and "dev \<notin> set (evpn_names l2svi)"
    and "evpn_ready (L w) l2svi dev"
  shows "\<exists>b w1 b' w2 w3. getEvpn Y (Some (netlink_ip_cmd run)) l2svi w = (Inr b, w1) \<and>
    evpn_start node b w1 = ((Inr (), b'), w2) \<and> evpn_stop A b' w2 = (Inr (), w3) \<and>
    evpn_topology (L w2) l2svi \<and> (\<forall>x. x \<notin> set (evpn_names l2svi) \<longrightarrow> L w2 x = L w x) \<and>
    (\<forall>x \<in> {BGP_EVPN_VRF, BGP_EVPN_BR, BGP_EVPN_VTEP}. L w3 x = None) \<and>
    L w3 l2svi = Some \<lparr>lk_kind = Link_bridge, lk_up = True, lk_master = None, lk_port = None\<rparr> \<and>
    (\<forall>x. x \<notin> set (evpn_names l2svi) \<longrightarrow>
       L w3 x = map_option (released_from {BGP_EVPN_VRF, BGP_EVPN_BR, BGP_EVPN_VTEP}) (L w x))"
proof -
  let ?N = "netlink_ip_cmd run" and ?a = "dotted u" and ?L1 = "evpn_links l2svi (dotted u) dev (L w)"
  have N: "ip_link_manages ?N L" "ip_link_able ?N L"
    using assms(1,2) by (auto simp: ip_link_manages_def ip_link_able_def)
  have ne: "l2svi \<noteq> BGP_EVPN_VRF" "l2svi \<noteq> BGP_EVPN_BR" "l2svi \<noteq> BGP_EVPN_VTEP" "BGP_EVPN_VRF \<noteq> l2svi"
    "BGP_EVPN_BR \<noteq> l2svi" "BGP_EVPN_VTEP \<noteq> l2svi" using assms(10) by auto
  have dev: "dev \<noteq> BGP_EVPN_VRF" "dev \<noteq> BGP_EVPN_BR" using assms(11) by (auto simp: evpn_names_def)
  from assms(12) have "only_vxlan BGP_EVPN_VTEP (L w)" "L w dev \<noteq> None" by (simp_all add: evpn_ready_def)
  from ip_link_up.getEvpn_up [OF N assms(8,3-7,9,10) this] obtain w1 where
    1: "getEvpn Y (Some ?N) l2svi w = (Inr (evpn_devices ?N l2svi ?a dev), w1)" "L w1 = ?L1" by blast
  from evpn_links_kinds [OF assms(12,10), of ?a] obtain v tb r s t a' where
    m1: "?L1 BGP_EVPN_VRF = Some v" "lk_kind v = Link_vrf tb" "?L1 BGP_EVPN_BR = Some r" "lk_kind r = Link_bridge"
      "?L1 l2svi = Some s" "lk_kind s = Link_bridge" "?L1 BGP_EVPN_VTEP = Some t" "lk_kind t = Link_vxlan a' dev" .
  from ip_link_up.evpn_start_up [OF N assms(8,10) m1 [folded 1(2)], of node ?a dev] obtain w2 where
    2: "evpn_start node (evpn_devices ?N l2svi ?a dev) w1 = ((Inr (), evpn_devices_up ?N l2svi ?a dev), w2)"
    and m2: "L w2 = ?L1(BGP_EVPN_VRF \<mapsto> v\<lparr>lk_up := True\<rparr>,
       BGP_EVPN_BR \<mapsto> r\<lparr>lk_up := True, lk_master := Some BGP_EVPN_VRF, lk_port := kept r\<rparr>,
       l2svi \<mapsto> s\<lparr>lk_up := True, lk_master := Some BGP_EVPN_VRF, lk_port := kept s\<rparr>,
       BGP_EVPN_VTEP \<mapsto> t\<lparr>lk_up := True, lk_master := Some BGP_EVPN_BR, lk_port := Some (True, False)\<rparr>)"
    unfolding 1(2) by blast
  have top: "evpn_topology (L w2) l2svi" unfolding evpn_topology_def using ne by (simp add: m2)
  have out2: "L w2 x = L w x" if "x \<notin> set (evpn_names l2svi)" for x
    using that by (simp add: m2 evpn_links_def evpn_names_def)
  have "L w2 BGP_EVPN_VRF = Some (v\<lparr>lk_up := True\<rparr>)" "lk_kind (v\<lparr>lk_up := True\<rparr>) = Link_vrf tb"
    "L w2 BGP_EVPN_BR = Some (r\<lparr>lk_up := True, lk_master := Some BGP_EVPN_VRF, lk_port := kept r\<rparr>)"
    "lk_kind (r\<lparr>lk_up := True, lk_master := Some BGP_EVPN_VRF, lk_port := kept r\<rparr>) = Link_bridge"
    "L w2 BGP_EVPN_VTEP = Some (t\<lparr>lk_up := True, lk_master := Some BGP_EVPN_BR, lk_port := Some (True, False)\<rparr>)"
    "lk_kind (t\<lparr>lk_up := True, lk_master := Some BGP_EVPN_BR, lk_port := Some (True, False)\<rparr>) = Link_vxlan a' dev"
    using ne m1 by (simp_all add: m2)
  from ip_link_up.evpn_stop_up [OF N this dev, of A l2svi ?a dev] obtain w3 where
    3: "evpn_stop A (evpn_devices_up ?N l2svi ?a dev) w2 = (Inr (), w3)"
      "L w3 = drop_link BGP_EVPN_VTEP (drop_link BGP_EVPN_BR (drop_link BGP_EVPN_VRF (L w2)))" by blast
  have "\<forall>x \<in> {BGP_EVPN_VRF, BGP_EVPN_BR, BGP_EVPN_VTEP}. L w3 x = None" by (simp add: 3(2) drop_link_def)
  moreover have "L w3 l2svi = Some \<lparr>lk_kind = Link_bridge, lk_up = True, lk_master = None, lk_port = None\<rparr>"
    using ne m1(6) by (simp add: 3(2) drop_link_def m2 sends_through_def)
  moreover have "L w3 x = map_option (released_from {BGP_EVPN_VRF, BGP_EVPN_BR, BGP_EVPN_VTEP}) (L w x)"
    if "x \<notin> set (evpn_names l2svi)" for x
  proof -
    have "x \<notin> {BGP_EVPN_VRF, BGP_EVPN_BR, BGP_EVPN_VTEP}" using that by (auto simp: evpn_names_def)
    from drop_links_released [OF \<open>only_vxlan BGP_EVPN_VTEP (L w)\<close> this] show ?thesis
      unfolding 3(2) by (metis out2 [OF that] drop_link_local)
  qed
  ultimately show ?thesis using 1(1) 2 3(1) top out2 by blast
qed

text \<open>A daemon on a node with the device eth0, and a layer 3 bridge left by an earlier run, which has the port eth1.\<close>

definition demo_daemon :: "(links, jvalue) system" where
  "demo_daemon = \<lparr>
     os_platform = \<lparr>pf_shell = demo_describe, pf_asio = demo_asio, pf_json = demo_json,
       pf_hwaddr = (\<lambda>name w. (None, w)), pf_draw = (\<lambda>w. (\<lambda>i. 0, w))\<rparr>,
     os_files = \<lparr>read_contents = (\<lambda>f w. (None, w)), write_contents = (\<lambda>f s w. w), file_exists = (\<lambda>f w. (Inr False, w))\<rparr>,
     os_curl = (\<lambda>req w. (Inl ''unreachable'', w)), os_order = (\<lambda>m. []), os_enum = (\<lambda>m. []),
     os_opens = (\<lambda>f. True), os_is_dir = (\<lambda>f. Inr False), os_dumpable = (\<lambda>s. True), os_version = ''1''\<rparr>"

definition demo_devices :: links where
  "demo_devices = [''eth0'' \<mapsto> fresh_link Link_other, BGP_EVPN_BR \<mapsto> fresh_link Link_bridge,
     ''eth1'' \<mapsto> (fresh_link Link_other)\<lparr>lk_master := Some BGP_EVPN_BR\<rparr>]"

lemma evpn_lifecycle_witness:
  "\<exists>b w1 b' w2 w3. getEvpn demo_daemon (Some (netlink_ip_cmd demo_links)) ''ohnobr0'' demo_devices = (Inr b, w1) \<and>
    evpn_start ''n1'' b w1 = ((Inr (), b'), w2) \<and> evpn_stop demo_asio b' w2 = (Inr (), w3) \<and>
    evpn_topology w2 ''ohnobr0'' \<and> w3 BGP_EVPN_VTEP = None \<and> w3 ''eth0'' = Some (fresh_link Link_other) \<and>
    w3 ''eth1'' = Some (fresh_link Link_other) \<and>
    w3 ''ohnobr0'' = Some \<lparr>lk_kind = Link_bridge, lk_up = True, lk_master = None, lk_port = None\<rparr>"
proof -
  have Y: "pf_shell (os_platform demo_daemon) = demo_describe" "pf_asio (os_platform demo_daemon) = demo_asio"
    by (simp_all add: demo_daemon_def)
  have names: "shell_word ''eth0''" "link_name ''ohnobr0''" "length ''ohnobr0'' \<le> 15"
      "''ohnobr0'' \<notin> {BGP_EVPN_VRF, BGP_EVPN_BR, BGP_EVPN_VTEP}" "''eth0'' \<notin> set (evpn_names ''ohnobr0'')"
    by (simp_all add: shell_word_def word_char_def link_name_def ip_options_def BGP_EVPN_VRF_def BGP_EVPN_BR_def
        BGP_EVPN_VTEP_def evpn_names_def)
  have ready: "evpn_ready demo_devices ''ohnobr0'' ''eth0''"
    by (simp add: evpn_ready_def demo_devices_def only_vxlan_def fresh_link_def BGP_EVPN_VRF_def BGP_EVPN_BR_def BGP_EVPN_VTEP_def)
  have "map_option (released_from {BGP_EVPN_VRF, BGP_EVPN_BR, BGP_EVPN_VTEP}) (demo_devices ''eth0'') = Some (fresh_link Link_other)"
    "map_option (released_from {BGP_EVPN_VRF, BGP_EVPN_BR, BGP_EVPN_VTEP}) (demo_devices ''eth1'') = Some (fresh_link Link_other)"
    by (simp_all add: released_from_def demo_devices_def fresh_link_def BGP_EVPN_VRF_def BGP_EVPN_BR_def BGP_EVPN_VTEP_def)
  moreover have "''eth0'' \<notin> set (evpn_names ''ohnobr0'')" by (rule names(5))
  moreover have "''eth1'' \<notin> set (evpn_names ''ohnobr0'')"
    by (simp add: BGP_EVPN_VRF_def BGP_EVPN_BR_def BGP_EVPN_VTEP_def evpn_names_def)
  moreover have "BGP_EVPN_VTEP \<in> {BGP_EVPN_VRF, BGP_EVPN_BR, BGP_EVPN_VTEP}" by simp
  moreover note evpn_lifecycle [where Y = demo_daemon, unfolded Y, OF demo_links_documented demo_links_able demo_described
    demo_asio_documented refl _ names ready, where A = demo_asio, simplified]
  ultimately show ?thesis by metis
qed

end
