(* ===== verification/Spec2Isabelle.thy ===== *)
theory Spec2Isabelle
  imports Ipam_Facts Backend_Facts Host_Gw_Facts Cni_Facts Cni_Types Cni_Lifecycle Center_Facts Ohno_Facts
    Ohnod_Facts Helper_Facts Log_Facts Vxlan_Facts Vxlan_Return Evpn_Facts Except
begin

text \<open>
  A model of ohno, a network plugin (CNI) for Kubernetes in C++, and what is proved of it. Paths are
  relative to the repository.

  \<^bold>\<open>The program.\<close> The container runtime starts the plugin process \<open>ohno\<close> (\<open>ohno.cc\<close>) once per command, with
  its configuration on standard input and the command in the environment. ADD gives a pod an
  interface, an address and a default route; DEL takes them back. Nothing lives between two calls but
  what is in ETCD: the process rebuilds the picture of its node from there (\<open>src/cni/cni.cc\<close> over
  \<open>src/cni/storage.cc\<close>), asks the address manager (\<open>src/ipam/ipam.cc\<close>) for subnets and addresses,
  changes the kernel's configuration (\<open>src/net\<close>), and records the result. The daemon \<open>ohnod\<close>
  (\<open>src/ohnod/ohnod.cc\<close>) runs on every node and keeps the routes between the nodes with one of
  three backends (\<open>src/backend\<close>), a thread that compares the nodes of the cluster with what it has set up.
  ETCD is reached through \<open>etcdctl\<close>, the kernel through \<open>ip\<close> and \<open>bridge\<close>, both through a shell.

  \<^bold>\<open>Theories and sources.\<close>
  \<^item> \<open>Prelude\<close>: how a call ends (a value, an exception, undefined behaviour), strings, decimal numbers.
  \<^item> \<open>Except\<close>: \<open>src/common/except.cc\<close>, \<open>assert.h\<close>, the text of an exception, what an assertion does.
  \<^item> \<open>Helper\<close>, \<open>Helper_Facts\<close>: \<open>src/helper\<close>, splitting, short hashes, random identifiers, device names.
  \<^item> \<open>Shell\<close>: \<open>src/util\<close>, running a command, the environment.
  \<^item> \<open>Log\<close>, \<open>Log_Facts\<close>: \<open>src/log\<close>, the loggers of a process and the steps on their globals.
  \<^item> \<open>Etcd\<close>, \<open>Etcd_Spec\<close>: \<open>src/etcd\<close>, the client; its contract (locales \<open>etcd_store\<close>, \<open>etcd_reliable\<close>).
  \<^item> \<open>Subnet\<close>, \<open>Subnet_Facts\<close>: \<open>src/net/addr.cc\<close>, \<open>subnet.cc\<close>, \<open>macro.h\<close>.
  \<^item> \<open>Ipam\<close>, \<open>Ipam_Facts\<close>: \<open>src/ipam/ipam.cc\<close>; what it guarantees over any client with that contract.
  \<^item> \<open>Netlink\<close>: \<open>src/net/netlink\<close>, the commands; \<open>Netlink_Spec\<close> the contract of the routes (locales
    \<open>route_table\<close>, \<open>route_table_up\<close>), \<open>Link_Spec\<close> that of the devices (\<open>link_table\<close>, \<open>link_table_up\<close>),
    \<open>Overlay_Spec\<close> that of neighbours and FDB entries (\<open>overlay_table\<close>, \<open>overlay_table_up\<close>).
  \<^item> \<open>Nic\<close>: \<open>src/net/nic.cc\<close>, \<open>bridge.cc\<close>, \<open>veth.cc\<close>, \<open>vxlan.cc\<close>, \<open>vrf.cc\<close>, \<open>route.cc\<close>, \<open>neigh.cc\<close>, \<open>fdb.cc\<close>.
  \<^item> \<open>Cluster\<close>: \<open>src/ipam/cluster.cc\<close>, \<open>node.cc\<close>, \<open>netns.cc\<close>.
  \<^item> \<open>Storage\<close>, \<open>Storage_Facts\<close>: \<open>src/cni/storage.cc\<close>, the records of a node in ETCD.
  \<^item> \<open>Json\<close>, \<open>Json_Facts\<close>: \<open>src/cni/cni_config.cc\<close>, \<open>cni_env.cc\<close>, \<open>cni_result.cc\<close>, \<open>cni_error.cc\<close>,
    \<open>src/kube\<close> and \<open>src/common/enum_name.hpp\<close>.
  \<^item> \<open>Center\<close>, \<open>Center_Facts\<close>: \<open>src/backend/center.cc\<close> and \<open>src/net/http_client\<close>.
  \<^item> \<open>Cni_Monad\<close>, \<open>Cni\<close>: \<open>src/net/mac.cc\<close> and \<open>src/cni/cni.cc\<close>; \<open>Cni_Facts\<close> what its steps leave behind,
    \<open>Cni_Types\<close> that the picture of the cluster stays well formed; \<open>Cni_Load\<close> that the picture is rebuilt
    from the records, \<open>Cni_Add\<close> and \<open>Cni_Setup\<close> the whole commands on a node that is set up and on one that is
    not, \<open>Cni_Lifecycle\<close> what ADD followed by DEL leaves.
  \<^item> \<open>Backend\<close>, \<open>Backend_Facts\<close>: \<open>src/backend/backend.cc\<close>, the worker thread.
  \<^item> \<open>Host_Gw\<close>, \<open>Host_Gw_Facts\<close>, \<open>Vxlan_Backend\<close>, \<open>Vxlan_Facts\<close>, \<open>Vxlan_Converge\<close>,
    \<open>Vxlan_Return\<close>, \<open>Evpn\<close>, \<open>Evpn_Facts\<close>: the three backends.
  \<^item> \<open>Ohno\<close>, \<open>Ohno_Facts\<close>: \<open>ohno.cc\<close>. \<open>Ohnod\<close>, \<open>Ohnod_Facts\<close>: \<open>src/backend/scheduler.cc\<close>,
    \<open>strategy_client.cc\<close> and \<open>src/ohnod/ohnod.cc\<close>.

  \<^bold>\<open>Correspondence.\<close> A definition has the name of its function, with the class in front where two classes
  share a name; a field drops the trailing underscore of the member. An abstract class is a record of
  its operations (\<open>etcd_client_if\<close>, \<open>netlink_if\<close>, \<open>storage_if\<close>, \<open>ipam_if\<close>, \<open>center_if\<close>), and a class that
  implements it an element of that record. The world is a type variable that the operations pass
  along; an object is passed and returned; a null pointer is \<open>None\<close>; an exception is a value, and what
  the standard leaves undefined (a read out of bounds or of an erased entry, a null pointer, a shift by the
  whole width) is the value \<open>Undefined_behaviour\<close>, which no handler catches. The log calls of \<open>main\<close> are
  made, with the state of the loggers passed along (\<open>log_state\<close>); those of the components are left out, on
  the assumption that the log file of their module can be opened, except where one reads what has just been
  erased: \<open>hostgw_del\<close> and \<open>vxlan_del\<close>, whose handlers take the level of the module's logger. The modelled build is the Release build, in
  which an assertion only prints. In \<open>Cni\<close> the functions are actions on the plugin's object and the
  world, composed by \<open>seq\<close>.

  \<^bold>\<open>Outside the repository\<close>, and so parameters of the model: the child processes (\<open>host\<close>), Boost.Asio
  (\<open>asio\<close>), nlohmann/json (\<open>json_lib\<close>), libcurl (\<open>curl\<close>), the file system (\<open>files\<close>), the ioctl for a
  hardware address (\<open>hwaddr\<close>), the random engine, spdlog (which log files can be opened, \<open>os_opens\<close>), what
  \<open>nlohmann::json::dump\<close> refuses (\<open>os_dumpable\<close>), and the iteration order of hash tables
  (\<open>map_order\<close>, \<open>arrangement\<close>). What is relied on is a named hypothesis: \<open>etcdctl_serves\<close> and
  \<open>etcdctl_reliable\<close> (reads and writes one map; no command fails), \<open>asio_documented\<close> (text forms),
  \<open>ip_routes_documented\<close> and \<open>ip_routes_able\<close> (the route commands), \<open>ip_links_documented\<close> and
  \<open>ip_links_able\<close> (the commands on devices), \<open>ip_entries_documented\<close> and \<open>ip_entries_able\<close> (those on
  neighbours and FDB entries), \<open>tunnel_host\<close> (these and ETCD side by side), \<open>json_documented\<close> (what was built is read back), and for whole commands \<open>etcdctl_lists\<close> (a prefix listing gives the pairs of the map),
  \<open>link_obeys\<close> (the commands on links do what they say), \<open>platform_of\<close>, which collects the host's answers,
  \<open>center_knows\<close> (the API server's node) and \<open>mac_known\<close> (the hardware address of a device).
  Each has a concrete instance (\<open>demo_etcdctl\<close>, \<open>demo_asio\<close>, \<open>demo_ip\<close>, \<open>demo_links\<close>, \<open>demo_host\<close>, \<open>demo_json\<close>,
  \<open>demo_link\<close>, \<open>demo_node_platform\<close>), on which the witnesses of the properties are computed.

  \<^bold>\<open>What the lemmas show.\<close>
  \<^item> Addresses: no two pods of a node hold one address over any sequence of allocations and releases, an
    allocation gives the first free host address, allocation and release are inverse; and where this
    breaks: an unreadable list, subnets of prefix 0, 31 and 32, and two processes at once, where the
    second runs between two operations of the first one's client (\<open>meanwhile\<close>).
  \<^item> Records: keys never clash, append and removal of list values, round trips of pods, routes and
    subnets, and the texts that do not read back.
  \<^item> The plugin: the cluster it rebuilds is the picture the records stand for, an ADD followed by the DEL
    of the same pod restores the store, on a node with other pods and on one that the ADD first sets
    up; what configuring and deleting an interface does to ETCD and to the interface, what is left when
    the kernel refuses an address, and that the in-memory tables stay well formed on every path of ADD and DEL (\<open>keeps\<close>, a small logic of invariants of
    actions).
  \<^item> Backends: the host-gw handler keeps its cache routed whatever fails and converges when commands
    do what they can, and so does the VXLAN handler, over the records that the plugins wrote to ETCD. Either
    is undefined once it drops a node and its info lines are formatted, the default of the daemon, because
    the line reads the erased entry; each of the statements says which case it is about. The VXLAN handler
    moreover forgets nodes that lost their record without taking their routes off its list, and never
    reaches a node that comes back with another MAC. The EVPN backend connects its devices and changes no
    other; its stop removes three of the four, leaves the layer 2 bridge, and takes the master of what was
    a port of a removed one. The worker thread is never assigned over, \<open>stop\<close> ends, and an exception
    kills it for good.
  \<^item> Processes: exit codes of the plugin, the failures of its logging included; the options of the daemon against a
    reference reading; the loggers; JSON round trips; what is learnt from the API server.

  \<^bold>\<open>Recursion.\<close> Nothing uses fuel. Loops over data are structural; \<open>split\<close>, \<open>dec\<close>, \<open>hex\<close>, the search of
  \<open>allocate_from\<close> (the distance to the number of addresses) and \<open>parse_loop\<close> have a termination proof. The
  loop of the worker thread, which need not end, is a step relation, and \<open>stop\<close> is shown to end it.

  \<^bold>\<open>Not modelled.\<close> The place that an exception's message starts with, beyond \<open>Except\<close>; mutexes, and threads
  other than the worker; a child process that fills its pipes before it is waited for; IPv6 addresses beyond
  their rejection; the daemon after \<open>pause()\<close>; the text on standard error; tests, benchmarks, build and
  packaging.
\<close>

end
